(* ===== verification/Prelude.thy ===== *)
theory Prelude
  imports Main "HOL-Library.State_Monad" "HOL-Library.Sublist"
begin

text \<open>
  The part of the library every component shares: programs as functions in the state monad, and the
  generic facts on lists the components rely on. The collection \<open>wp\<close> holds the rules that compute
  the precondition of a program from its postcondition; the calculus itself needs the state of a
  reconcile and is set up in \<open>Runtime\<close>.

  A Go function of the controller that can fail returns its error beside its other results, so
  the model does the same: a program of type \<open>('s, 'r \<times> 'e option) state\<close> returns the result and
  \<open>None\<close> where the Go error is nil. The state that a failing call leaves behind is kept, exactly
  as a mutated pointer stays mutated when a Go function returns an error.
\<close>

named_theorems wp \<open>preconditions of programs\<close>

section \<open>Programs over a state\<close>

abbreviation ret :: "'a \<Rightarrow> ('s, 'a) state" where
  "ret \<equiv> State_Monad.return"

definition gets :: "('s \<Rightarrow> 'a) \<Rightarrow> ('s, 'a) state" where
  "gets f = State (\<lambda>s. (f s, s))"

definition modify :: "('s \<Rightarrow> 's) \<Rightarrow> ('s, unit) state" where
  "modify f = State (\<lambda>s. ((), f s))"

lemma run_gets [simp]: "run_state (gets f) s = (f s, s)"
  by (simp add: gets_def)

lemma run_modify [simp]: "run_state (modify f) s = ((), f s)"
  by (simp add: modify_def)

section \<open>Lists\<close>

lemma list_all_filter_iff: "list_all P (filter Q xs) \<longleftrightarrow> (\<forall>x \<in> set xs. Q x \<longrightarrow> P x)"
  by (auto simp: list_all_iff)

lemma length_filter_one_less:
  "x \<in> set xs \<Longrightarrow> \<not> P x \<Longrightarrow> length (filter P xs) < length xs"
  by (induction xs) (auto simp: le_imp_less_Suc)

lemma filter_full_length_iff: "length (filter P xs) = length xs \<longleftrightarrow> (\<forall>x \<in> set xs. P x)"
  by (metis filter_True length_filter_one_less nat_less_le)

section \<open>Ranks in a finite set\<close>

text \<open>How many elements come before one.\<close>

definition rank :: "'a set \<Rightarrow> ('a \<Rightarrow> 'a \<Rightarrow> bool) \<Rightarrow> 'a \<Rightarrow> nat" where
  "rank A before x = card {y \<in> A. before y x}"

lemma rank_less:
  assumes "finite A" and "x \<in> A" and "before x y" and "\<not> before x x"
    and "\<And>z. before z x \<Longrightarrow> before z y"
  shows "rank A before x < rank A before y"
  unfolding rank_def using assms by (intro psubset_card_mono) auto

lemma card_rank_less:
  assumes fin: "finite A" and irrefl: "\<And>x. \<not> before x x"
    and trans: "\<And>x y z. before x y \<Longrightarrow> before y z \<Longrightarrow> before x z"
    and total: "\<And>x y. x \<in> A \<Longrightarrow> y \<in> A \<Longrightarrow> x \<noteq> y \<Longrightarrow> before x y \<or> before y x"
  shows "card {x \<in> A. rank A before x < n} = min n (card A)"
proof -
  have less: "rank A before x < rank A before y" if "x \<in> A" "before x y" for x y
    using that irrefl trans by (intro rank_less [OF fin]) blast+
  have inj: "inj_on (rank A before) A"
  proof (rule inj_onI, rule ccontr)
    fix x y assume "x \<in> A" "y \<in> A" "rank A before x = rank A before y" "x \<noteq> y"
    then show False using total [of x y] less [of x y] less [of y x] by auto
  qed
  have "rank A before ` A \<subseteq> {..<card A}"
  proof
    fix k assume "k \<in> rank A before ` A"
    then obtain x where x: "x \<in> A" "k = card {y \<in> A. before y x}" by (auto simp: rank_def)
    have "{y \<in> A. before y x} \<subset> A" using x irrefl by auto
    from psubset_card_mono [OF fin this] show "k \<in> {..<card A}" using x by simp
  qed
  then have onto: "rank A before ` A = {..<card A}"
    using card_image [OF inj] by (intro card_subset_eq) auto
  have "rank A before ` {x \<in> A. rank A before x < n} = rank A before ` A \<inter> {..<n}" by auto
  also have "\<dots> = {..<min n (card A)}" unfolding onto by auto
  finally have "rank A before ` {x \<in> A. rank A before x < n} = {..<min n (card A)}" .
  then have "card (rank A before ` {x \<in> A. rank A before x < n}) = min n (card A)" by simp
  moreover have "inj_on (rank A before) {x \<in> A. rank A before x < n}"
    using inj by (rule inj_on_subset) auto
  ultimately show ?thesis by (simp add: card_image)
qed

end
