(* ===== verification/GoLib.thy ===== *)
theory GoLib
  imports Prelude "HOL-Library.Word" "HOL-Library.List_Lexorder" "HOL-Library.Char_ord"
begin

unbundle bit_operations_syntax

text \<open>
  What the modelled code uses of the Go language and its standard library. A Go string is a
  sequence of bytes: here a \<open>string\<close>, whose characters are the bytes and whose \<open>length\<close> is Go's
  \<open>len\<close>. \<open>slices.Sort\<close> and \<open>sort.Strings\<close> on strings are the library's \<open>sort\<close> at the
  lexicographic order of bytes (\<open>Char_ord\<close> and \<open>List_Lexorder\<close>). Times and durations are integers in
  nanoseconds, as \<open>time.Duration\<close> is; Go's \<open>int\<close> is an integer, or a \<open>64 word\<close> where the code
  handles its overflow.
\<close>

section \<open>Bytes and UTF-8 (unicode/utf8)\<close>

definition byte :: "char \<Rightarrow> nat" where
  "byte c = of_char c"

definition chr :: "nat \<Rightarrow> char" where
  "chr n = char_of n"

lemma byte_less_256 [simp]: "byte c < 256"
  by (simp add: byte_def)

lemma byte_chr [simp]: "n < 256 \<Longrightarrow> byte (chr n) = n"
  by (simp add: byte_def chr_def)

lemma chr_byte [simp]: "chr (byte c) = c"
  by (simp add: byte_def chr_def)

text \<open>A continuation byte is \<open>10xxxxxx\<close>; every other byte can start a rune.\<close>

definition cont_byte :: "char \<Rightarrow> bool" where
  "cont_byte c \<longleftrightarrow> 128 \<le> byte c \<and> byte c < 192"

definition RuneStart :: "char \<Rightarrow> bool" where
  "RuneStart c \<longleftrightarrow> \<not> cont_byte c"

text \<open>
  The width of the valid encoding a string starts with, 0 where it starts with none
  (the table of \<open>utf8.DecodeRuneInString\<close>: no overlong forms, no surrogates, at most U+10FFFF).
\<close>

fun rune_width :: "string \<Rightarrow> nat" where
  "rune_width [] = 0"
| "rune_width (c # cs) =
     (let b = byte c in
      if b < 128 then 1
      else if b < 194 then 0
      else if b < 224 then (case cs of c1 # _ \<Rightarrow> if cont_byte c1 then 2 else 0 | _ \<Rightarrow> 0)
      else if b < 240 then
        (case cs of c1 # c2 # _ \<Rightarrow>
           if cont_byte c1 \<and> cont_byte c2
              \<and> (b = 224 \<longrightarrow> 160 \<le> byte c1) \<and> (b = 237 \<longrightarrow> byte c1 < 160) then 3 else 0
         | _ \<Rightarrow> 0)
      else if b < 245 then
        (case cs of c1 # c2 # c3 # _ \<Rightarrow>
           if cont_byte c1 \<and> cont_byte c2 \<and> cont_byte c3
              \<and> (b = 240 \<longrightarrow> 144 \<le> byte c1) \<and> (b = 244 \<longrightarrow> byte c1 < 144) then 4 else 0
         | _ \<Rightarrow> 0)
      else 0)"

function ValidString :: "string \<Rightarrow> bool" where
  "ValidString s =
     (if s = [] then True
      else if rune_width s = 0 then False
      else ValidString (drop (rune_width s) s))"
  by pat_completeness auto
termination
  by (relation "measure length") (auto simp: length_greater_0_conv)

declare ValidString.simps [simp del]

text \<open>An invalid byte counts as one rune of width one.\<close>

function RuneCountInString :: "string \<Rightarrow> nat" where
  "RuneCountInString s =
     (if s = [] then 0 else Suc (RuneCountInString (drop (max 1 (rune_width s)) s)))"
  by pat_completeness auto
termination
  by (relation "measure length") (auto simp: length_greater_0_conv)

declare RuneCountInString.simps [simp del]

lemma RuneCountInString_le_length: "RuneCountInString s \<le> length s"
proof (induction s rule: RuneCountInString.induct)
  case (1 s)
  show ?case
  proof (cases "s = []")
    case True
    then show ?thesis by (simp add: RuneCountInString.simps)
  next
    case False
    then have pos: "0 < length s" by simp
    from 1 [OF False] have "RuneCountInString (drop (max 1 (rune_width s)) s)
        \<le> length s - max 1 (rune_width s)" by simp
    also have "\<dots> \<le> length s - 1" by simp
    finally have "Suc (RuneCountInString (drop (max 1 (rune_width s)) s)) \<le> length s"
      using pos by linarith
    then show ?thesis using False by (subst RuneCountInString.simps) simp
  qed
qed

section \<open>Package strings\<close>

text \<open>
  The encodings of the runes \<open>unicode.IsSpace\<close> accepts: tab, newline, vertical tab, form feed,
  carriage return, space, U+0085, U+00A0, U+1680, U+2000 to U+200A, U+2028, U+2029, U+202F,
  U+205F and U+3000. A string that ends with one of these encodings ends with that rune, so the
  same table serves both ends.
\<close>

definition space_runes :: "string list" where
  "space_runes =
     map (map chr)
       ([[9], [10], [11], [12], [13], [32], [194, 133], [194, 160], [225, 154, 128]]
        @ map (\<lambda>i. [226, 128, i]) [128, 129, 130, 131, 132, 133, 134, 135, 136, 137, 138]
        @ [[226, 128, 168], [226, 128, 169], [226, 128, 175], [226, 129, 159], [227, 128, 128]])"

fun strip_prefix :: "string list \<Rightarrow> string \<Rightarrow> string option" where
  "strip_prefix [] s = None"
| "strip_prefix (p # ps) s =
     (if take (length p) s = p then Some (drop (length p) s) else strip_prefix ps s)"

lemma strip_prefix_shorter:
  "strip_prefix ps s = Some t \<Longrightarrow> [] \<notin> set ps \<Longrightarrow> length t < length s"
proof (induction ps)
  case (Cons p ps)
  show ?case
  proof (cases "take (length p) s = p")
    case True
    with Cons.prems have t: "t = drop (length p) s" and "p \<noteq> []" by auto
    with True have "0 < length p" and "0 < length s" by (auto simp: take_Nil)
    with t show ?thesis by simp
  next
    case False
    with Cons show ?thesis by simp
  qed
qed simp

lemma Nil_notin_space_runes: "[] \<notin> set space_runes"
  by (simp add: space_runes_def)

function trim_left :: "string list \<Rightarrow> string \<Rightarrow> string" where
  "trim_left ps s =
     (if [] \<in> set ps then s
      else case strip_prefix ps s of None \<Rightarrow> s | Some t \<Rightarrow> trim_left ps t)"
  by pat_completeness auto
termination
  by (relation "measure (length \<circ> snd)") (auto dest: strip_prefix_shorter)

declare trim_left.simps [simp del]

definition TrimSpace :: "string \<Rightarrow> string" where
  "TrimSpace s = rev (trim_left (map rev space_runes) (rev (trim_left space_runes s)))"

definition HasPrefix :: "string \<Rightarrow> string \<Rightarrow> bool" where
  "HasPrefix s p \<longleftrightarrow> take (length p) s = p"

definition HasSuffix :: "string \<Rightarrow> string \<Rightarrow> bool" where
  "HasSuffix s p \<longleftrightarrow> length p \<le> length s \<and> drop (length s - length p) s = p"

text \<open>\<open>strings.CutPrefix\<close>: the rest of the string and whether the prefix was there.\<close>

definition CutPrefix :: "string \<Rightarrow> string \<Rightarrow> string \<times> bool" where
  "CutPrefix s p = (if HasPrefix s p then (drop (length p) s, True) else (s, False))"

text \<open>\<open>strings.Split\<close> for a separator of one byte, and \<open>strings.Join\<close>.\<close>

fun Split :: "string \<Rightarrow> char \<Rightarrow> string list" where
  "Split [] sep = [[]]"
| "Split (c # cs) sep =
     (if c = sep then [] # Split cs sep
      else (case Split cs sep of [] \<Rightarrow> [[c]] | w # ws \<Rightarrow> (c # w) # ws))"

fun Join :: "string list \<Rightarrow> string \<Rightarrow> string" where
  "Join [] sep = []"
| "Join [w] sep = w"
| "Join (w # ws) sep = w @ sep @ Join ws sep"

lemma Split_not_Nil [simp]: "Split s sep \<noteq> []"
  by (induction s sep rule: Split.induct) (auto split: list.splits)

lemma Split_no_sep: "sep \<notin> set s \<Longrightarrow> Split s sep = [s]"
  by (induction s) auto

lemma Split_append_sep: "sep \<notin> set w \<Longrightarrow> Split (w @ sep # s) sep = w # Split s sep"
  by (induction w) auto

lemma Split_Join:
  "ws \<noteq> [] \<Longrightarrow> \<forall>w \<in> set ws. sep \<notin> set w \<Longrightarrow> Split (Join ws [sep]) sep = ws"
  by (induction ws "[sep]" rule: Join.induct) (auto simp: Split_no_sep Split_append_sep)

lemma Split_words: "\<forall>w \<in> set (Split s c). c \<notin> set w"
  by (induction s c rule: Split.induct) (auto split: list.splits)

lemma Join_Split: "Join (Split s c) [c] = s"
proof (induction s c rule: Split.induct)
  case (2 x xs sep)
  then show ?case
    by (cases "Split xs sep") (auto simp: neq_Nil_conv elim: Join.elims, (case_tac list; simp)+)
qed simp

text \<open>
  \<open>strings.EqualFold\<close> compares under simple case folding. Besides the ASCII letters, two runes
  fold to ASCII: U+017F (to s) and U+212A (to k). Letters that are not ASCII on both sides are
  compared without folding.
\<close>

definition ascii_lower :: "char \<Rightarrow> char" where
  "ascii_lower c = (if 65 \<le> byte c \<and> byte c \<le> 90 then chr (byte c + 32) else c)"

fun fold_case :: "string \<Rightarrow> string" where
  "fold_case [] = []"
| "fold_case [c] = [ascii_lower c]"
| "fold_case (c # d # cs) =
     (if byte c = 197 \<and> byte d = 191 then CHR ''s'' # fold_case cs
      else if byte c = 226 \<and> byte d = 132 \<and> cs \<noteq> [] \<and> byte (hd cs) = 170 then CHR ''k'' # fold_case (tl cs)
      else ascii_lower c # fold_case (d # cs))"

definition EqualFold :: "string \<Rightarrow> string \<Rightarrow> bool" where
  "EqualFold s t \<longleftrightarrow> fold_case s = fold_case t"

section \<open>Package strconv\<close>

definition digit_char :: "nat \<Rightarrow> char" where
  "digit_char d = chr (48 + d)"

definition is_digit :: "char \<Rightarrow> bool" where
  "is_digit c \<longleftrightarrow> 48 \<le> byte c \<and> byte c \<le> 57"

function nat_digits :: "nat \<Rightarrow> string" where
  "nat_digits n = (if n < 10 then [digit_char n] else nat_digits (n div 10) @ [digit_char (n mod 10)])"
  by pat_completeness auto
termination
  by (relation "measure id") auto

declare nat_digits.simps [simp del]

definition Itoa :: "int \<Rightarrow> string" where
  "Itoa n = (if n < 0 then CHR ''-'' # nat_digits (nat (- n)) else nat_digits (nat n))"

definition digits_val :: "string \<Rightarrow> nat" where
  "digits_val = foldl (\<lambda>v c. 10 * v + (byte c - 48)) 0"

text \<open>
  \<open>strconv.Atoi\<close>: an optional sign and at least one decimal digit, with a range error outside
  the 64-bit integers. \<open>None\<close> is any error.
\<close>

definition max_int :: int where "max_int = 2 ^ 63 - 1"

definition min_int :: int where "min_int = - (2 ^ 63)"

definition Atoi :: "string \<Rightarrow> int option" where
  "Atoi s =
     (let neg = (s \<noteq> [] \<and> hd s = CHR ''-'');
          body = (if s \<noteq> [] \<and> (hd s = CHR ''-'' \<or> hd s = CHR ''+'') then tl s else s);
          v = (if neg then - int (digits_val body) else int (digits_val body))
      in if body = [] \<or> \<not> list_all is_digit body then None
         else if v < min_int \<or> max_int < v then None
         else Some v)"

lemma digits_val_append [simp]: "digits_val (s @ [c]) = 10 * digits_val s + (byte c - 48)"
  by (simp add: digits_val_def)

lemma digit_char_props [simp]:
  "d < 10 \<Longrightarrow> is_digit (digit_char d)" "d < 10 \<Longrightarrow> byte (digit_char d) = 48 + d"
  by (simp_all add: digit_char_def is_digit_def)

lemma nat_digits_all: "list_all is_digit (nat_digits n) \<and> nat_digits n \<noteq> []"
proof (induction n rule: nat_digits.induct)
  case (1 n)
  then show ?case by (cases "n < 10") (auto simp: nat_digits.simps [of n])
qed

lemma digits_val_nat_digits: "digits_val (nat_digits n) = n"
proof (induction n rule: nat_digits.induct)
  case (1 n)
  show ?case
  proof (cases "n < 10")
    case True
    then show ?thesis by (simp add: nat_digits.simps [of n] digits_val_def)
  next
    case False
    with 1 show ?thesis by (simp add: nat_digits.simps [of n])
  qed
qed

lemma nat_digits_hd_not_sign:
  "hd (nat_digits n) \<noteq> CHR ''-'' \<and> hd (nat_digits n) \<noteq> CHR ''+''"
proof -
  have "is_digit (hd (nat_digits n))"
    using nat_digits_all [of n] by (cases "nat_digits n") auto
  then show ?thesis by (auto simp: is_digit_def byte_def)
qed

lemma Atoi_Itoa: "min_int \<le> n \<Longrightarrow> n \<le> max_int \<Longrightarrow> Atoi (Itoa n) = Some n"
  using nat_digits_all [of "nat n"] nat_digits_all [of "nat (- n)"] nat_digits_hd_not_sign [of "nat n"]
  by (simp add: Atoi_def Itoa_def Let_def digits_val_nat_digits)

lemma nat_digits_inj: "nat_digits m = nat_digits n \<Longrightarrow> m = n"
  by (metis digits_val_nat_digits)

lemma Itoa_inj: "Itoa m = Itoa n \<Longrightarrow> m = n"
  using nat_digits_hd_not_sign [of "nat m"] nat_digits_hd_not_sign [of "nat n"]
  by (auto simp: Itoa_def split: if_splits dest!: nat_digits_inj) (metis list.sel(1))+

section \<open>Cutting valid UTF-8\<close>

text \<open>A valid string stays valid when it is joined to another, cut in front of a byte that starts a
  rune, or trimmed.\<close>

lemma rune_width_le: "rune_width s \<le> length s"
  by (cases s) (auto simp: Let_def split: list.split)

lemma rune_width_append: "rune_width s \<noteq> 0 \<Longrightarrow> rune_width (s @ t) = rune_width s"
proof (cases s)
  case (Cons c cs)
  moreover assume "rune_width s \<noteq> 0"
  ultimately show ?thesis
    by (cases cs; cases "tl cs"; cases "tl (tl cs)") (simp_all add: Let_def split: if_splits)
qed simp

lemma rune_width_take: "rune_width (take (rune_width s) s) = rune_width s"
  by (cases s) (auto simp: Let_def take_Cons' split: list.splits if_splits)

lemma rune_width_cont: "0 < i \<Longrightarrow> i < rune_width s \<Longrightarrow> cont_byte (s ! i)"
  by (cases s)
    (auto simp: Let_def nth_Cons' split: list.splits if_splits)

lemma ValidString_Nil [simp]: "ValidString []"
  by (simp add: ValidString.simps)

lemma ValidString_rune: "rune_width s \<noteq> 0 \<Longrightarrow> ValidString s \<longleftrightarrow> ValidString (drop (rune_width s) s)"
  by (subst ValidString.simps) auto

lemma ValidString_width: "ValidString s \<Longrightarrow> s \<noteq> [] \<Longrightarrow> rune_width s \<noteq> 0"
  by (subst (asm) ValidString.simps) (auto split: if_splits)

lemma ValidString_first: "rune_width s \<noteq> 0 \<Longrightarrow> ValidString (take (rune_width s) s)"
  by (subst ValidString_rune) (simp_all add: rune_width_take)

lemma ValidString_append: "ValidString s \<Longrightarrow> ValidString t \<Longrightarrow> ValidString (s @ t)"
proof (induction s rule: ValidString.induct)
  case (1 s)
  show ?case
  proof (cases "s = []")
    case False
    with 1 have w: "rune_width s \<noteq> 0" by (simp add: ValidString_width)
    with 1 have "ValidString (drop (rune_width s) s @ t)"
      using False ValidString_rune by blast
    then show ?thesis
      using w by (subst ValidString_rune) (simp_all add: rune_width_append rune_width_le)
  qed (use 1 in simp)
qed

lemma ValidString_take:
  "ValidString s \<Longrightarrow> i = 0 \<or> length s \<le> i \<or> RuneStart (s ! i) \<Longrightarrow> ValidString (take i s)"
proof (induction s arbitrary: i rule: ValidString.induct)
  case (1 s)
  show ?case
  proof (cases "s = [] \<or> i = 0")
    case False
    with 1 have w: "rune_width s \<noteq> 0" by (simp add: ValidString_width)
    have "\<not> i < rune_width s"
      using "1.prems"(2) False rune_width_cont [of i s] rune_width_le [of s] by (auto simp: RuneStart_def)
    then have ge: "rune_width s \<le> i" by simp
    have "ValidString (take (i - rune_width s) (drop (rune_width s) s))"
    proof (rule "1.IH")
      show "ValidString (drop (rune_width s) s)" using "1.prems"(1) ValidString_rune [OF w] by blast
      show "i - rune_width s = 0 \<or> length (drop (rune_width s) s) \<le> i - rune_width s \<or>
          RuneStart (drop (rune_width s) s ! (i - rune_width s))"
        using "1.prems"(2) False ge rune_width_le [of s] by auto
    qed (use False w in auto)
    then have "ValidString (take (rune_width s) s @ take (i - rune_width s) (drop (rune_width s) s))"
      by (rule ValidString_append [OF ValidString_first [OF w]])
    then show ?thesis using ge by (metis le_add_diff_inverse take_add)
  qed auto
qed

lemma ValidString_drop_rune:
  assumes "ValidString (p @ t)" and "p \<noteq> []" and "rune_width p = length p"
  shows "ValidString t"
proof -
  have "rune_width p \<noteq> 0" using assms(2,3) by simp
  then have "rune_width (p @ t) = length p" using assms(3) by (simp add: rune_width_append)
  then show ?thesis using assms(1,2) ValidString_rune [of "p @ t"] by simp
qed

lemma ValidString_drop_last_rune:
  assumes "ValidString (t @ p)" and "p \<noteq> []" and "rune_width p = length p"
  shows "ValidString t"
proof -
  have "RuneStart (hd p)"
    using assms(2,3) by (cases p) (auto simp: RuneStart_def cont_byte_def Let_def split: if_splits)
  then have "RuneStart ((t @ p) ! length t)" using assms(2) by (cases p) auto
  then show ?thesis using ValidString_take [OF assms(1), of "length t"] by simp
qed

lemma strip_prefix_Some:
  "strip_prefix ps s = Some t \<Longrightarrow> \<exists>p \<in> set ps. s = p @ t"
  by (induction ps) (auto split: if_splits, metis append_take_drop_id)

lemma trim_left_ind:
  assumes "P s" and "\<And>p t. p \<in> set ps \<Longrightarrow> P (p @ t) \<Longrightarrow> P t"
  shows "P (trim_left ps s)"
  using assms
proof (induction ps s rule: trim_left.induct)
  case (1 ps s)
  show ?case
  proof (cases "[] \<in> set ps \<or> strip_prefix ps s = None")
    case True
    then show ?thesis using "1.prems"(1) by (auto simp: trim_left.simps [of ps s])
  next
    case False
    then obtain t where t: "strip_prefix ps s = Some t" by auto
    then have "P t" using "1.prems" strip_prefix_Some [OF t] by auto
    then have "P (trim_left ps t)" using "1.IH" [OF _ t] "1.prems"(2) False by simp
    then show ?thesis using False t by (simp add: trim_left.simps [of ps s])
  qed
qed

lemma space_runes_width: "\<forall>p \<in> set space_runes. rune_width p = length p"
  by (simp add: space_runes_def Let_def cont_byte_def)

lemma ValidString_TrimSpace: 
  assumes "ValidString s" shows "ValidString (TrimSpace s)"
proof -
  have ne: "p \<noteq> []" "rune_width p = length p" if "p \<in> set space_runes" for p
    using that space_runes_width Nil_notin_space_runes by auto
  have l: "ValidString (trim_left space_runes s)"
    by (rule trim_left_ind [where P = ValidString, OF assms]) (rule ValidString_drop_rune, assumption, (erule ne)+)
  have "ValidString (rev (trim_left (map rev space_runes) (rev (trim_left space_runes s))))"
  proof (rule trim_left_ind [where P = "\<lambda>x. ValidString (rev x)"])
    fix p t assume "p \<in> set (map rev space_runes)" and v: "ValidString (rev (p @ t))"
    then obtain q where "q \<in> set space_runes" "p = rev q" by auto
    with v show "ValidString (rev t)" using ValidString_drop_last_rune [of "rev t" q] ne by simp
  qed (simp add: l)
  then show ?thesis by (simp add: TrimSpace_def)
qed

lemma strip_prefix_None:
  "s \<noteq> [] \<Longrightarrow> \<forall>p \<in> set ps. p \<noteq> [] \<and> hd p \<noteq> hd s \<Longrightarrow> strip_prefix ps s = None"
  by (induction ps) (auto simp: neq_Nil_conv)

lemma trim_left_None: "strip_prefix ps s = None \<Longrightarrow> trim_left ps s = s"
  by (simp add: trim_left.simps)

lemma space_runes_ends:
  "\<forall>p \<in> set space_runes. p \<noteq> [] \<and> \<not> (33 \<le> byte (hd p) \<and> byte (hd p) < 128) \<and>
     \<not> (33 \<le> byte (last p) \<and> byte (last p) < 128)"
  by (simp add: space_runes_def)

lemma strip_prefix_Nil: "\<forall>p \<in> set ps. p \<noteq> [] \<Longrightarrow> strip_prefix ps [] = None"
  by (induction ps) (auto simp: neq_Nil_conv)

lemma trim_nothing [simp]: "TrimSpace [] = []"
proof -
  have "\<forall>p \<in> set space_runes. p \<noteq> []" using Nil_notin_space_runes by metis
  then show ?thesis by (simp add: TrimSpace_def trim_left_None strip_prefix_Nil)
qed

text \<open>Trimming keeps a string that starts and ends with a printable ASCII character.\<close>

lemma TrimSpace_id:
  assumes "s \<noteq> []" "33 \<le> byte (hd s)" "byte (hd s) < 128" "33 \<le> byte (last s)" "byte (last s) < 128"
  shows "TrimSpace s = s"
proof -
  have l: "trim_left space_runes s = s"
    using assms space_runes_ends by (intro trim_left_None strip_prefix_None) auto
  have "trim_left (map rev space_runes) (rev s) = rev s"
    using assms space_runes_ends by (intro trim_left_None strip_prefix_None) (auto simp: hd_rev)
  with l show ?thesis by (simp add: TrimSpace_def)
qed

section \<open>Conversions through rune slices\<close>

text \<open>\<open>string([]rune(s)[:n])\<close>, or the whole string where it has fewer runes: an invalid byte becomes
  the encoding of U+FFFD.\<close>

function runes_prefix :: "nat \<Rightarrow> string \<Rightarrow> string" where
  "runes_prefix n s =
     (if n = 0 \<or> s = [] then []
      else if rune_width s = 0 then [chr 239, chr 191, chr 189] @ runes_prefix (n - 1) (drop 1 s)
      else take (rune_width s) s @ runes_prefix (n - 1) (drop (rune_width s) s))"
  by pat_completeness auto
termination
  by (relation "measure fst") auto

declare runes_prefix.simps [simp del]

lemma ValidString_runes_prefix: "ValidString (runes_prefix n s)"
proof (induction n s rule: runes_prefix.induct)
  case (1 n s)
  have bad: "ValidString [chr 239, chr 191, chr 189]"
    by (simp add: ValidString.simps Let_def cont_byte_def)
  show ?case
  proof (cases "n = 0 \<or> s = []")
    case False
    then show ?thesis
      using ValidString_append [OF bad 1(1) [OF False]]
        ValidString_append [OF ValidString_first 1(2) [OF False]]
      by (simp add: runes_prefix.simps [of n s])
  qed (auto simp: runes_prefix.simps [of n s])
qed

lemma RuneCount_rune:
  assumes "rune_width s \<noteq> 0"
  shows "RuneCountInString (take (rune_width s) s @ t) = Suc (RuneCountInString t)"
proof -
  let ?r = "take (rune_width s) s"
  have w: "rune_width (?r @ t) = rune_width s"
    using assms by (simp add: rune_width_append rune_width_take)
  have l: "length ?r = rune_width s" using rune_width_le [of s] by simp
  have "?r @ t \<noteq> []" using assms l by (metis Nil_is_append_conv length_0_conv)
  then have "RuneCountInString (?r @ t) = Suc (RuneCountInString (drop (max 1 (rune_width (?r @ t))) (?r @ t)))"
    by (subst RuneCountInString.simps) simp
  also have "max 1 (rune_width (?r @ t)) = length ?r" using w l assms by simp
  finally show ?thesis by simp
qed

lemma RuneCount_runes_prefix: "RuneCountInString (runes_prefix n s) \<le> n"
proof (induction n s rule: runes_prefix.induct)
  case (1 n s)
  have bad: "RuneCountInString ([chr 239, chr 191, chr 189] @ t) = Suc (RuneCountInString t)" for t
    using RuneCount_rune [of "[chr 239, chr 191, chr 189]" t] by (simp add: Let_def cont_byte_def)
  show ?case
  proof (cases "n = 0 \<or> s = []")
    case True
    then show ?thesis by (auto simp: runes_prefix.simps [of n s] RuneCountInString.simps)
  next
    case False
    have "RuneCountInString (runes_prefix n s) = Suc (RuneCountInString
        (runes_prefix (n - 1) (drop (max 1 (rune_width s)) s)))"
      using False bad RuneCount_rune [of s] by (auto simp: runes_prefix.simps [of n s] max_def)
    also have "\<dots> \<le> Suc (n - 1)"
      using 1(1) [OF False] 1(2) [OF False] by (cases "rune_width s = 0") (auto simp: max_def)
    also have "\<dots> = n" using False by simp
    finally show ?thesis .
  qed
qed

end
