(* ===== verification/Api.thy ===== *)
theory Api
  imports GoLib
begin

text \<open>
  The data of the API types (\<open>api/v1alpha1/coderun_types.go\<close>, \<open>laneprofile_types.go\<close>). A Go
  pointer is an \<open>option\<close>, a slice a list, an enumerated string a \<open>datatype\<close> with the constants of
  the source; a string type whose other values the code handles keeps a constructor for them. Record
  fields carry the Go names behind a short prefix for the struct they belong to, because a field
  name of an Isabelle record is a global constant.

  The status conditions are handled by \<open>k8s.io/apimachinery\<close>, which is not part of the
  repository: its three operations are the fields of a record \<open>condops\<close> that the definitions take
  as an argument, and \<open>conditions_ok\<close> is the part of their documented behaviour the proofs use.
\<close>

section \<open>Time\<close>

text \<open>A time is its distance in nanoseconds to the Unix epoch, a \<open>time.Duration\<close> a signed number
  of nanoseconds.\<close>

type_synonym time = int
type_synonym duration = int

abbreviation Second :: duration where "Second \<equiv> 1000000000"
abbreviation Minute :: duration where "Minute \<equiv> 60000000000"
abbreviation Hour :: duration where "Hour \<equiv> 3600000000000"

text \<open>Go's zero \<open>time.Time\<close>, the first of January of the year 1.\<close>

definition zero_time :: time where "zero_time = - 62135596800 * Second"

section \<open>Enumerations\<close>

datatype Mode = ModeResolveIssue | ModeFixPR | ModeContribute | ModeRebase

datatype Phase = PhaseUnset | PhasePending | PhaseClaimed | PhaseRunning | PhaseVerifying
  | PhaseAwaitingReview | PhaseHandedOff | PhaseNeedsHuman | PhaseDone | PhaseAlreadyDone
  | PhaseFailed | PhaseBlockedExternal

datatype ControlRequestKind = ControlRequestSoftStop | ControlRequestOther string

datatype RetryRequestState = RetryRequestStateRequested | RetryRequestStateRequeued
  | RetryRequestStateMoot | RetryRequestStateRefused

datatype CIParkOutcome = CIParkOutcomeUnset | CIParkOutcomeRepushed | CIParkOutcomeExhausted
  | CIParkOutcomeUnsupported

datatype NativeResultKind = NativeResultPublished | NativeResultNoChange | NativeResultNeedsHuman
  | NativeResultBlockedExternal | NativeResultCapacityExhausted | NativeResultWorkloadFailed
  | NativeResultInfrastructureFailed | NativeResultOther string

datatype TerminalDiagnosticCategory = CategoryExecutorCrash | CategoryModelTransportError
  | CategoryContinuationExhaustion | CategoryVerifierRejection | CategoryKubernetesFailure
  | CategoryNeedsDecision | CategoryBlockedExternal | CategoryCapacityExhaustion
  | CategoryProviderUnavailable | CategoryForgeUnavailable | CategoryWorkloadFailure
  | CategoryInfrastructureFailure | CategoryUnknown

datatype ConditionStatus = ConditionTrue | ConditionFalse | ConditionUnknown

section \<open>Constants\<close>

abbreviation "SoftStopAnnotation \<equiv> ''courier.misospace.dev/soft-stop''"
abbreviation "RetryAnnotation \<equiv> ''courier.misospace.dev/retry''"

abbreviation "ConditionLifecycleReported \<equiv> ''LifecycleReported''"
abbreviation "ConditionSoftStopObserved \<equiv> ''SoftStopObserved''"
abbreviation "ConditionReasonUnacknowledged \<equiv> ''Unacknowledged''"
abbreviation "ConditionCapacityRecovery \<equiv> ''CapacityRecovery''"
abbreviation "ConditionPullRequestClosedUnmerged \<equiv> ''PullRequestClosedUnmerged''"
abbreviation "ConditionReasonClosedUnmerged \<equiv> ''ClosedUnmerged''"
abbreviation "ConditionCIRepairInapplicable \<equiv> ''CIRepairInapplicable''"
abbreviation "ConditionReasonHeadUnattributable \<equiv> ''HeadUnattributable''"
abbreviation "ConditionRetryRequest \<equiv> ''RetryRequest''"

abbreviation "RetryRefusalNotRetryablePhase \<equiv> ''not-retryable-phase''"
abbreviation "RetryRefusalAutomaticRecoveryChannel \<equiv> ''automatic-recovery-channel''"
abbreviation "RetryRefusalActiveOwnerExists \<equiv> ''active-owner-exists''"
abbreviation "RetryRefusalAlreadyRequeued \<equiv> ''already-requeued''"
abbreviation "RetryRefusalUpstreamClosed \<equiv> ''upstream-closed''"
abbreviation "RetryRefusalUnsupportedSource \<equiv> ''unsupported-source''"
abbreviation "RetryRefusalStaleGeneration \<equiv> ''stale-generation''"
abbreviation "RetryRefusalSourceRefused \<equiv> ''source-refused''"
abbreviation "RetryRefusalHeldForHuman \<equiv> ''held-for-human''"

definition RetryRequestMaxAttemptIDLength :: nat where
  "RetryRequestMaxAttemptIDLength = 256"

section \<open>Status conditions\<close>

record Condition =
  c_Type :: string
  c_Status :: ConditionStatus
  c_Reason :: string
  c_Message :: string
  c_ObservedGeneration :: int
  c_LastTransitionTime :: time

text \<open>\<open>meta.SetStatusCondition\<close>, \<open>meta.RemoveStatusCondition\<close> and \<open>meta.FindStatusCondition\<close>.\<close>

record condops =
  setCond :: "Condition list \<Rightarrow> Condition \<Rightarrow> Condition list"
  removeCond :: "Condition list \<Rightarrow> string \<Rightarrow> Condition list"
  findCond :: "Condition list \<Rightarrow> string \<Rightarrow> Condition option"

text \<open>
  What the code relies on: a set condition is found under its type with its status, reason,
  message and observed generation, a removed one is not found, and neither operation disturbs the
  conditions of another type. (The transition time is only refreshed when the status changes, so
  nothing is promised about it.)
\<close>

locale status_conditions =
  fixes K :: condops
  assumes find_set_same: "\<exists>d. findCond K (setCond K cs c) (c_Type c) = Some d \<and>
      c_Type d = c_Type c \<and> c_Status d = c_Status c \<and> c_Reason d = c_Reason c \<and>
      c_Message d = c_Message c \<and> c_ObservedGeneration d = c_ObservedGeneration c"
    and find_set_other: "t \<noteq> c_Type c \<Longrightarrow> findCond K (setCond K cs c) t = findCond K cs t"
    and find_remove_same: "findCond K (removeCond K cs t) t = None"
    and find_remove_other: "t' \<noteq> t \<Longrightarrow> findCond K (removeCond K cs t) t' = findCond K cs t'"
begin

lemma set_found: "findCond K (setCond K cs c) (c_Type c) \<noteq> None"
  using find_set_same [of cs c] by auto

lemma find_set_reason:
  "map_option c_Reason (findCond K (setCond K cs c) (c_Type c)) = Some (c_Reason c)"
  using find_set_same [of cs c] by auto

lemma find_set_status:
  "map_option c_Status (findCond K (setCond K cs c) (c_Type c)) = Some (c_Status c)"
  using find_set_same [of cs c] by auto

end

text \<open>An implementation with the documented behaviour, for evaluating the model: an existing
  condition is updated in place and its transition time moves only with its status.\<close>

fun set_condition :: "Condition list \<Rightarrow> Condition \<Rightarrow> Condition list" where
  "set_condition [] c = [c]"
| "set_condition (d # cs) c =
    (if c_Type d = c_Type c
     then (if c_Status d = c_Status c then c\<lparr>c_LastTransitionTime := c_LastTransitionTime d\<rparr> else c) # cs
     else d # set_condition cs c)"

definition kube_conditions :: condops where
  "kube_conditions = \<lparr>setCond = set_condition,
     removeCond = (\<lambda>cs t. filter (\<lambda>c. c_Type c \<noteq> t) cs),
     findCond = (\<lambda>cs t. find (\<lambda>c. c_Type c = t) cs)\<rparr>"

lemma find_set_condition_same:
  "\<exists>d. find (\<lambda>d. c_Type d = c_Type c) (set_condition cs c) = Some d \<and>
      c_Type d = c_Type c \<and> c_Status d = c_Status c \<and> c_Reason d = c_Reason c \<and>
      c_Message d = c_Message c \<and> c_ObservedGeneration d = c_ObservedGeneration c"
  by (induction cs) auto

lemma find_set_condition_other:
  "t \<noteq> c_Type c \<Longrightarrow> find (\<lambda>d. c_Type d = t) (set_condition cs c) = find (\<lambda>d. c_Type d = t) cs"
  by (induction cs) auto

lemma find_filter_other:
  "t' \<noteq> t \<Longrightarrow> find (\<lambda>c. c_Type c = t') (filter (\<lambda>c. c_Type c \<noteq> t) cs) = find (\<lambda>c. c_Type c = t') cs"
  by (induction cs) auto

interpretation kc: status_conditions kube_conditions
  by unfold_locales
    (simp_all add: kube_conditions_def find_set_condition_same find_set_condition_other
       find_filter_other find_None_iff)

section \<open>Records of the status\<close>

record ControlRequest =
  cr_ID :: string
  cr_Kind :: ControlRequestKind
  cr_TargetPodUID :: string
  cr_RequestedAt :: time

record ControlRequestAck =
  ca_ID :: string
  ca_At :: time

record RetryRequest =
  rr_ID :: string
  rr_RequestedAt :: time
  rr_State :: RetryRequestState
  rr_Reason :: string
  rr_AttemptID :: string
  rr_SettledAt :: "time option"

record Brief =
  bf_ID :: string
  bf_Summary :: string
  bf_Commit :: string

record Checkpoint =
  ck_Plan :: string
  ck_CompletedBriefs :: "Brief list"

record Heartbeat =
  hb_At :: time
  hb_Kind :: string
  hb_CoordinatorPodUID :: string

record CIParkState =
  pk_Head :: string
  pk_ParkedAt :: time
  pk_Attempts :: int
  pk_LastOutcome :: CIParkOutcome

record CIRepairContext =
  rp_Head :: string
  rp_Attempt :: int
  rp_FailedChecks :: "string list"
  rp_Logs :: string
  rp_FenceToken :: string
  rp_MaxAttempts :: int

record CISettlement =
  se_FenceToken :: string
  se_IdempotencyKey :: string
  se_Result :: CIParkOutcome
  se_Head :: string

record CIParkDeferral =
  df_Head :: string
  df_IdempotencyKey :: string

record CIParkRelease =
  rl_Head :: string
  rl_IdempotencyKey :: string

record WorkspaceSafetyEvidence =
  ws_State :: string
  ws_Branch :: string
  ws_Head :: string
  ws_RemoteHead :: string

record TerminalContainerDiagnostic =
  tc_PodName :: string
  tc_PodUID :: string
  tc_Namespace :: string
  tc_ContainerName :: string
  tc_ContainerID :: string
  tc_Image :: string
  tc_NodeName :: string
  tc_RestartCount :: int
  tc_TerminationReason :: string

record TerminalDiagnostic =
  td_Category :: TerminalDiagnosticCategory
  td_ExitCode :: "int option"
  td_Reason :: string
  td_Outcome :: string
  td_Container :: "TerminalContainerDiagnostic option"
  td_ObservedAt :: "time option"

record NativeResult =
  nr_Kind :: NativeResultKind
  nr_Reason :: string
  nr_CoordinatorPodUID :: string
  nr_At :: time

record NoChangeCloseCriterion =
  nc_Criterion :: string
  nc_Path :: string
  nc_Excerpt :: string

record NoChangeClose =
  ncc_Criteria :: "NoChangeCloseCriterion list"
  ncc_Evidence :: string
  ncc_CoordinatorPodUID :: string
  ncc_At :: time

record ActiveOperation =
  ao_BriefID :: string
  ao_CoordinatorPodUID :: string
  ao_WorkerPodUID :: string
  ao_DispatchedAt :: time

record SourceIssueRef =
  si_Owner :: string
  si_Name :: string
  si_Number :: int

record Criterion =
  cn_ID :: string
  cn_Text :: string
  cn_Digest :: string

record SkillPin =
  sp_Name :: string
  sp_Digest :: string

record PublicationPolicy =
  pp_RunUID :: string
  pp_ProviderConfigRef :: string
  pp_ProviderEndpoint :: string
  pp_CredentialRefDigest :: string
  pp_BaseRepo :: string
  pp_BaseRef :: string
  pp_BaseOID :: string
  pp_WorkRepo :: string
  pp_WorkRef :: string
  pp_WorkInitiallyAbsent :: bool
  pp_WorkOID :: string
  pp_PRNumber :: int
  pp_HeadAnchorOID :: string
  pp_SourceIssue :: "SourceIssueRef option"
  pp_AcceptanceCriteria :: "Criterion list"
  pp_AcceptanceCriteriaDigest :: string

record ModelSurfaceProvenance =
  ms_SchemaVersion :: int
  ms_Digest :: string
  ms_CoordinatorPodUID :: string
  ms_At :: time

record TokenUsage =
  tu_Input :: int
  tu_Output :: int
  tu_Reasoning :: int
  tu_CacheRead :: int
  tu_CacheWrite :: int
  tu_Total :: int

record SubagentTally =
  sa_Agent :: string
  sa_Model :: string
  sa_Calls :: int
  sa_Errors :: int
  sa_RuntimeMillis :: int

record RunTelemetry =
  rt_ModelCalls :: int
  rt_ToolCalls :: int
  rt_Sessions :: int
  rt_MaxContext :: int
  rt_Tokens :: "TokenUsage option"
  rt_Subagents :: "SubagentTally list"
  rt_DurationMillis :: int
  rt_Continuations :: int

section \<open>The run\<close>

record CoderRunSpec =
  p_Mode :: Mode
  p_Source :: string
  p_SourceAgent :: string
  p_SourceContext :: string
  p_WorkItemID :: string
  p_AssignmentKind :: string
  p_AssignmentReasons :: "string list"
  p_Repo :: string
  p_WorkRepo :: string
  p_Ref :: int
  p_Lane :: string
  p_Debug :: bool

record CoderRunStatus =
  s_SourceReceipt :: string
  s_Phase :: Phase
  s_PublicationPolicy :: "PublicationPolicy option"
  s_SkillPins :: "SkillPin list option"
  s_Branch :: string
  s_HeadRepo :: string
  s_HeadSHA :: string
  s_PR :: string
  s_AdmittedAt :: "time option"
  s_StartedAt :: "time option"
  s_FinishedAt :: "time option"
  s_PhaseEnteredAt :: "time option"
  s_WaitDuration :: string
  s_RunDuration :: string
  s_LastCommit :: string
  s_CheckFingerprint :: string
  s_FailedCheckFingerprint :: string
  s_DeclaredNoChange :: bool
  s_NoChange :: "NoChangeClose option"
  s_LifecycleReportRetryToken :: string
  s_LifecycleReportActiveRetryToken :: string
  s_Checkpoint :: "Checkpoint option"
  s_Heartbeat :: "Heartbeat option"
  s_ActiveOperations :: "(string \<times> ActiveOperation) list"
  s_ControlRequest :: "ControlRequest option"
  s_ControlRequestAck :: "ControlRequestAck option"
  s_Restarts :: int
  s_Telemetry :: "RunTelemetry option"
  s_WorkspaceSafety :: "WorkspaceSafetyEvidence option"
  s_TerminalDiagnostic :: "TerminalDiagnostic option"
  s_NativeResult :: "NativeResult option"
  s_ModelSurface :: "ModelSurfaceProvenance option"
  s_CIPark :: "CIParkState option"
  s_CIRepair :: "CIRepairContext option"
  s_CISettlement :: "CISettlement option"
  s_CIParkDeferral :: "CIParkDeferral option"
  s_CIParkRelease :: "CIParkRelease option"
  s_RetryRequest :: "RetryRequest option"
  s_Conditions :: "Condition list"

text \<open>The part of \<open>metav1.ObjectMeta\<close> the controller reads.\<close>

record ObjectMeta =
  m_Name :: string
  m_Namespace :: string
  m_UID :: string
  m_Generation :: int
  m_Annotations :: "(string \<times> string) list"
  m_CreationTimestamp :: time
  m_DeletionTimestamp :: "time option"

record CoderRun =
  r_meta :: ObjectMeta
  r_spec :: CoderRunSpec
  r_status :: CoderRunStatus

text \<open>A status write in place, \<open>run.Status.X = v\<close>.\<close>

definition upd_status :: "(CoderRunStatus \<Rightarrow> CoderRunStatus) \<Rightarrow> CoderRun \<Rightarrow> CoderRun" where
  "upd_status f run = run\<lparr>r_status := f (r_status run)\<rparr>"

lemma upd_status_sel [simp]:
  "r_status (upd_status f run) = f (r_status run)"
  "r_spec (upd_status f run) = r_spec run"
  "r_meta (upd_status f run) = r_meta run"
  by (simp_all add: upd_status_def)

text \<open>Reading a key of the annotations map; a missing key reads as the empty string.\<close>

definition lookup_annotation :: "(string \<times> string) list \<Rightarrow> string \<Rightarrow> string" where
  "lookup_annotation as k = (case map_of as k of None \<Rightarrow> '''' | Some v \<Rightarrow> v)"

section \<open>Lane profiles\<close>

record ContextBudget =
  cb_MaxInputTokens :: int
  cb_CompactAtPercent :: int
  cb_OutputReservation :: int

record ContextPolicy =
  cx_CompactAtPercent :: int
  cx_OutputReservation :: int
  cx_Roles :: "(string \<times> ContextBudget) list"

record CIRepairPolicy =
  cp_MechanicalChecks :: "string list"
  cp_MaxAttempts :: int
  cp_ObservationWindowSeconds :: int

record CapacityCooldown =
  cc_CapacityID :: string
  cc_Reason :: string
  cc_ExhaustionCount :: int
  cc_LastExhaustedRun :: string
  cc_NextEligibleAt :: time

record LaneProfileSpec =
  ls_RuntimeImage :: string
  ls_Concurrency :: int
  ls_Roles :: "(string \<times> string) list"
  ls_Transport :: string
  ls_Framing :: string
  ls_CapacityGroup :: string
  ls_Context :: "ContextPolicy option"
  ls_CIRepair :: "CIRepairPolicy option"
  ls_Skills :: "string list"

record LaneProfile =
  l_Name :: string
  l_Annotations :: "(string \<times> string) list"
  l_Spec :: LaneProfileSpec
  l_CapacityCooldown :: "CapacityCooldown option"

section \<open>A run to evaluate\<close>

text \<open>The zero value of the status, as a run is created with, and a run with a given status.\<close>

definition zero_status :: CoderRunStatus where
  "zero_status = \<lparr>s_SourceReceipt = [], s_Phase = PhaseUnset, s_PublicationPolicy = None, s_SkillPins = None,
     s_Branch = [], s_HeadRepo = [], s_HeadSHA = [], s_PR = [], s_AdmittedAt = None, s_StartedAt = None,
     s_FinishedAt = None, s_PhaseEnteredAt = None, s_WaitDuration = [], s_RunDuration = [], s_LastCommit = [],
     s_CheckFingerprint = [], s_FailedCheckFingerprint = [], s_DeclaredNoChange = False, s_NoChange = None,
     s_LifecycleReportRetryToken = [], s_LifecycleReportActiveRetryToken = [], s_Checkpoint = None,
     s_Heartbeat = None, s_ActiveOperations = [], s_ControlRequest = None, s_ControlRequestAck = None,
     s_Restarts = 0, s_Telemetry = None, s_WorkspaceSafety = None, s_TerminalDiagnostic = None,
     s_NativeResult = None, s_ModelSurface = None, s_CIPark = None, s_CIRepair = None, s_CISettlement = None,
     s_CIParkDeferral = None, s_CIParkRelease = None, s_RetryRequest = None, s_Conditions = []\<rparr>"

definition sample_run :: "CoderRunStatus \<Rightarrow> CoderRun" where
  "sample_run s = \<lparr>r_meta = \<lparr>m_Name = ''run'', m_Namespace = ''ns'', m_UID = ''uid'', m_Generation = 1,
       m_Annotations = [], m_CreationTimestamp = 0, m_DeletionTimestamp = None\<rparr>,
     r_spec = \<lparr>p_Mode = ModeFixPR, p_Source = ''src'', p_SourceAgent = [], p_SourceContext = [],
       p_WorkItemID = ''item'', p_AssignmentKind = [], p_AssignmentReasons = [], p_Repo = ''o/r'',
       p_WorkRepo = [], p_Ref = 7, p_Lane = ''lane'', p_Debug = False\<rparr>,
     r_status = s\<rparr>"

lemma sample_run_sel [simp]:
  "r_status (sample_run s) = s" "p_Source (r_spec (sample_run s)) = ''src''"
  "p_SourceAgent (r_spec (sample_run s)) = []" "p_WorkItemID (r_spec (sample_run s)) = ''item''"
  "m_Annotations (r_meta (sample_run s)) = []" "m_DeletionTimestamp (r_meta (sample_run s)) = None"
  "p_Mode (r_spec (sample_run s)) = ModeFixPR" "m_UID (r_meta (sample_run s)) = ''uid''"
  by (simp_all add: sample_run_def)

end
