(* ===== verification/StatusPatch.thy ===== *)
theory StatusPatch
  imports Api
begin

text \<open>
  Status writes. \<open>operator_patch\<close> is the difference that \<open>patchStatus\<close>
  (\<open>internal/controller/coderun_controller.go\<close>) computes between the run before and after a step,
  as the document type \<open>OperatorPatch\<close> of \<open>internal/status/status.go\<close>; \<open>apply_patch\<close> is what
  the API server does with the document it marshals to: a JSON merge patch (RFC 7396) of the
  status. A field that is absent stays as it is, an explicit null clears, a nested object is
  merged key by key, and an array is replaced. A sub-key that Go marshals with \<open>omitempty\<close> is
  absent when it is empty, so merging keeps the value the server had.
\<close>

section \<open>The document\<close>

text \<open>
  \<open>None\<close> is an absent key. For the records that can be cleared, \<open>Some None\<close> is an explicit null
  (the \<open>clear...\<close> flags and the raw \<open>null\<close> messages of the Go type).
\<close>

record OperatorPatch =
  o_Phase :: "Phase option"
  o_Branch :: "string option"
  o_HeadRepo :: "string option"
  o_HeadSHA :: "string option"
  o_PR :: "string option"
  o_WorkspaceSafety :: "WorkspaceSafetyEvidence option"
  o_SourceReceipt :: "string option"
  o_AdmittedAt :: "time option"
  o_StartedAt :: "time option"
  o_FinishedAt :: "time option"
  o_PhaseEnteredAt :: "time option"
  o_WaitDuration :: "string option"
  o_RunDuration :: "string option"
  o_CheckFingerprint :: "string option"
  o_FailedCheckFingerprint :: "string option"
  o_DeclaredNoChange :: "bool option"
  o_LifecycleReportRetryToken :: "string option"
  o_LifecycleReportActiveRetryToken :: "string option"
  o_Restarts :: "int option"
  o_PublicationPolicy :: "PublicationPolicy option"
  o_SkillPins :: "SkillPin list option"
  o_Telemetry :: "RunTelemetry option"
  o_TerminalDiagnostic :: "TerminalDiagnostic option"
  o_ControlRequest :: "ControlRequest option option"
  o_ControlRequestAck :: "ControlRequestAck option option"
  o_Conditions :: "Condition list option"
  o_CIPark :: "CIParkState option option"
  o_CIRepair :: "CIRepairContext option option"
  o_CISettlement :: "CISettlement option option"
  o_CIParkDeferral :: "CIParkDeferral option option"
  o_CIParkRelease :: "CIParkRelease option option"
  o_RetryRequest :: "RetryRequest option"

definition empty_patch :: OperatorPatch where
  "empty_patch = \<lparr>o_Phase = None, o_Branch = None, o_HeadRepo = None, o_HeadSHA = None, o_PR = None,
     o_WorkspaceSafety = None, o_SourceReceipt = None, o_AdmittedAt = None, o_StartedAt = None,
     o_FinishedAt = None, o_PhaseEnteredAt = None, o_WaitDuration = None, o_RunDuration = None,
     o_CheckFingerprint = None, o_FailedCheckFingerprint = None, o_DeclaredNoChange = None,
     o_LifecycleReportRetryToken = None, o_LifecycleReportActiveRetryToken = None, o_Restarts = None,
     o_PublicationPolicy = None, o_SkillPins = None, o_Telemetry = None, o_TerminalDiagnostic = None,
     o_ControlRequest = None, o_ControlRequestAck = None, o_Conditions = None, o_CIPark = None,
     o_CIRepair = None, o_CISettlement = None, o_CIParkDeferral = None, o_CIParkRelease = None,
     o_RetryRequest = None\<rparr>"

section \<open>The difference\<close>

text \<open>A key with \<open>omitempty\<close> is absent for its empty value; \<open>changed\<close> guards a field by a difference.\<close>

definition changed :: "'a \<Rightarrow> 'a \<Rightarrow> 'a option" where
  "changed before after = (if before \<noteq> after then Some after else None)"

definition set_once :: "'a option \<Rightarrow> 'a option \<Rightarrow> 'a option" where
  "set_once before after = (if before = None then after else None)"

definition set_once_string :: "string \<Rightarrow> string \<Rightarrow> string option" where
  "set_once_string before after = (if before = [] \<and> after \<noteq> [] then Some after else None)"

definition omit_empty :: "string \<Rightarrow> string option" where
  "omit_empty s = (if s = [] then None else Some s)"

text \<open>
  The fields of the patch in the order \<open>patchStatus\<close> sets them. \<open>before\<close> is a deep copy of the run,
  so the two \<open>PhaseEnteredAt\<close> pointers it compares are equal only when both are nil: the marker
  is sent whenever it is set, changed or not.
\<close>

definition operator_patch :: "CoderRunStatus \<Rightarrow> CoderRunStatus \<Rightarrow> OperatorPatch" where
  "operator_patch b a = \<lparr>
     o_Phase = (if s_Phase b \<noteq> s_Phase a \<and> s_Phase a \<noteq> PhaseUnset then Some (s_Phase a) else None),
     o_Branch = changed (s_Branch b) (s_Branch a),
     o_HeadRepo = changed (s_HeadRepo b) (s_HeadRepo a),
     o_HeadSHA = changed (s_HeadSHA b) (s_HeadSHA a),
     o_PR = (if s_PR b \<noteq> s_PR a then omit_empty (s_PR a) else None),
     o_WorkspaceSafety =
       (if s_WorkspaceSafety b \<noteq> s_WorkspaceSafety a then s_WorkspaceSafety a else None),
     o_SourceReceipt =
       (if s_SourceReceipt b \<noteq> s_SourceReceipt a \<and> s_SourceReceipt a \<noteq> []
        then Some (s_SourceReceipt a) else None),
     o_AdmittedAt = set_once (s_AdmittedAt b) (s_AdmittedAt a),
     o_StartedAt = set_once (s_StartedAt b) (s_StartedAt a),
     o_FinishedAt = set_once (s_FinishedAt b) (s_FinishedAt a),
     o_PhaseEnteredAt = s_PhaseEnteredAt a,
     o_WaitDuration = set_once_string (s_WaitDuration b) (s_WaitDuration a),
     o_RunDuration = set_once_string (s_RunDuration b) (s_RunDuration a),
     o_CheckFingerprint = changed (s_CheckFingerprint b) (s_CheckFingerprint a),
     o_FailedCheckFingerprint = changed (s_FailedCheckFingerprint b) (s_FailedCheckFingerprint a),
     o_DeclaredNoChange = changed (s_DeclaredNoChange b) (s_DeclaredNoChange a),
     o_LifecycleReportRetryToken =
       changed (s_LifecycleReportRetryToken b) (s_LifecycleReportRetryToken a),
     o_LifecycleReportActiveRetryToken =
       changed (s_LifecycleReportActiveRetryToken b) (s_LifecycleReportActiveRetryToken a),
     o_Restarts = changed (s_Restarts b) (s_Restarts a),
     o_PublicationPolicy = set_once (s_PublicationPolicy b) (s_PublicationPolicy a),
     o_SkillPins = set_once (s_SkillPins b) (s_SkillPins a),
     o_Telemetry = (if s_Telemetry b \<noteq> s_Telemetry a then s_Telemetry a else None),
     o_TerminalDiagnostic = set_once (s_TerminalDiagnostic b) (s_TerminalDiagnostic a),
     o_ControlRequest = changed (s_ControlRequest b) (s_ControlRequest a),
     o_ControlRequestAck = changed (s_ControlRequestAck b) (s_ControlRequestAck a),
     o_Conditions = changed (s_Conditions b) (s_Conditions a),
     o_CIPark = changed (s_CIPark b) (s_CIPark a),
     o_CIRepair = changed (s_CIRepair b) (s_CIRepair a),
     o_CISettlement = changed (s_CISettlement b) (s_CISettlement a),
     o_CIParkDeferral = changed (s_CIParkDeferral b) (s_CIParkDeferral a),
     o_CIParkRelease = changed (s_CIParkRelease b) (s_CIParkRelease a),
     o_RetryRequest = (if s_RetryRequest b \<noteq> s_RetryRequest a then s_RetryRequest a else None)\<rparr>"

section \<open>Merging on the server\<close>

definition keep_empty :: "'a \<Rightarrow> 'a \<Rightarrow> 'a \<Rightarrow> 'a" where
  "keep_empty z old new = (if new = z then old else new)"

definition merge_object :: "('a \<Rightarrow> 'a \<Rightarrow> 'a) \<Rightarrow> 'a option \<Rightarrow> 'a \<Rightarrow> 'a" where
  "merge_object f old new = (case old of None \<Rightarrow> new | Some o' \<Rightarrow> f o' new)"

definition merge_safety :: "WorkspaceSafetyEvidence \<Rightarrow> WorkspaceSafetyEvidence \<Rightarrow> WorkspaceSafetyEvidence" where
  "merge_safety old new = \<lparr>ws_State = keep_empty [] (ws_State old) (ws_State new),
     ws_Branch = keep_empty [] (ws_Branch old) (ws_Branch new),
     ws_Head = keep_empty [] (ws_Head old) (ws_Head new),
     ws_RemoteHead = keep_empty [] (ws_RemoteHead old) (ws_RemoteHead new)\<rparr>"

definition merge_policy :: "PublicationPolicy \<Rightarrow> PublicationPolicy \<Rightarrow> PublicationPolicy" where
  "merge_policy old new = new\<lparr>
     pp_ProviderEndpoint := keep_empty [] (pp_ProviderEndpoint old) (pp_ProviderEndpoint new),
     pp_CredentialRefDigest := keep_empty [] (pp_CredentialRefDigest old) (pp_CredentialRefDigest new),
     pp_WorkOID := keep_empty [] (pp_WorkOID old) (pp_WorkOID new),
     pp_PRNumber := keep_empty 0 (pp_PRNumber old) (pp_PRNumber new),
     pp_HeadAnchorOID := keep_empty [] (pp_HeadAnchorOID old) (pp_HeadAnchorOID new),
     pp_SourceIssue := keep_empty None (pp_SourceIssue old) (pp_SourceIssue new),
     pp_AcceptanceCriteria := keep_empty [] (pp_AcceptanceCriteria old) (pp_AcceptanceCriteria new),
     pp_AcceptanceCriteriaDigest :=
       keep_empty [] (pp_AcceptanceCriteriaDigest old) (pp_AcceptanceCriteriaDigest new)\<rparr>"

definition merge_tokens :: "TokenUsage \<Rightarrow> TokenUsage \<Rightarrow> TokenUsage" where
  "merge_tokens old new = \<lparr>tu_Input = keep_empty 0 (tu_Input old) (tu_Input new),
     tu_Output = keep_empty 0 (tu_Output old) (tu_Output new),
     tu_Reasoning = keep_empty 0 (tu_Reasoning old) (tu_Reasoning new),
     tu_CacheRead = keep_empty 0 (tu_CacheRead old) (tu_CacheRead new),
     tu_CacheWrite = keep_empty 0 (tu_CacheWrite old) (tu_CacheWrite new),
     tu_Total = keep_empty 0 (tu_Total old) (tu_Total new)\<rparr>"

definition merge_telemetry :: "RunTelemetry \<Rightarrow> RunTelemetry \<Rightarrow> RunTelemetry" where
  "merge_telemetry old new = \<lparr>rt_ModelCalls = keep_empty 0 (rt_ModelCalls old) (rt_ModelCalls new),
     rt_ToolCalls = keep_empty 0 (rt_ToolCalls old) (rt_ToolCalls new),
     rt_Sessions = keep_empty 0 (rt_Sessions old) (rt_Sessions new),
     rt_MaxContext = keep_empty 0 (rt_MaxContext old) (rt_MaxContext new),
     rt_Tokens = (case rt_Tokens new of None \<Rightarrow> rt_Tokens old
        | Some t \<Rightarrow> Some (merge_object merge_tokens (rt_Tokens old) t)),
     rt_Subagents = keep_empty [] (rt_Subagents old) (rt_Subagents new),
     rt_DurationMillis = keep_empty 0 (rt_DurationMillis old) (rt_DurationMillis new),
     rt_Continuations = keep_empty 0 (rt_Continuations old) (rt_Continuations new)\<rparr>"

definition merge_container ::
  "TerminalContainerDiagnostic \<Rightarrow> TerminalContainerDiagnostic \<Rightarrow> TerminalContainerDiagnostic" where
  "merge_container old new = \<lparr>tc_PodName = keep_empty [] (tc_PodName old) (tc_PodName new),
     tc_PodUID = keep_empty [] (tc_PodUID old) (tc_PodUID new),
     tc_Namespace = keep_empty [] (tc_Namespace old) (tc_Namespace new),
     tc_ContainerName = keep_empty [] (tc_ContainerName old) (tc_ContainerName new),
     tc_ContainerID = keep_empty [] (tc_ContainerID old) (tc_ContainerID new),
     tc_Image = keep_empty [] (tc_Image old) (tc_Image new),
     tc_NodeName = keep_empty [] (tc_NodeName old) (tc_NodeName new),
     tc_RestartCount = keep_empty 0 (tc_RestartCount old) (tc_RestartCount new),
     tc_TerminationReason = keep_empty [] (tc_TerminationReason old) (tc_TerminationReason new)\<rparr>"

definition merge_diagnostic :: "TerminalDiagnostic \<Rightarrow> TerminalDiagnostic \<Rightarrow> TerminalDiagnostic" where
  "merge_diagnostic old new = new\<lparr>
     td_ExitCode := keep_empty None (td_ExitCode old) (td_ExitCode new),
     td_Reason := keep_empty [] (td_Reason old) (td_Reason new),
     td_Outcome := keep_empty [] (td_Outcome old) (td_Outcome new),
     td_Container := (case td_Container new of None \<Rightarrow> td_Container old
        | Some c \<Rightarrow> Some (merge_object merge_container (td_Container old) c)),
     td_ObservedAt := keep_empty None (td_ObservedAt old) (td_ObservedAt new)\<rparr>"

definition merge_park :: "CIParkState \<Rightarrow> CIParkState \<Rightarrow> CIParkState" where
  "merge_park old new = new\<lparr>
     pk_LastOutcome := keep_empty CIParkOutcomeUnset (pk_LastOutcome old) (pk_LastOutcome new)\<rparr>"

definition merge_repair :: "CIRepairContext \<Rightarrow> CIRepairContext \<Rightarrow> CIRepairContext" where
  "merge_repair old new = new\<lparr>
     rp_FailedChecks := keep_empty [] (rp_FailedChecks old) (rp_FailedChecks new),
     rp_Logs := keep_empty [] (rp_Logs old) (rp_Logs new),
     rp_FenceToken := keep_empty [] (rp_FenceToken old) (rp_FenceToken new),
     rp_MaxAttempts := keep_empty 0 (rp_MaxAttempts old) (rp_MaxAttempts new)\<rparr>"

definition merge_settlement :: "CISettlement \<Rightarrow> CISettlement \<Rightarrow> CISettlement" where
  "merge_settlement old new = new\<lparr>
     se_IdempotencyKey := keep_empty [] (se_IdempotencyKey old) (se_IdempotencyKey new),
     se_Head := keep_empty [] (se_Head old) (se_Head new)\<rparr>"

definition merge_retry :: "RetryRequest \<Rightarrow> RetryRequest \<Rightarrow> RetryRequest" where
  "merge_retry old new = new\<lparr>rr_AttemptID := keep_empty [] (rr_AttemptID old) (rr_AttemptID new)\<rparr>"

definition put :: "'a option \<Rightarrow> 'a \<Rightarrow> 'a" where
  "put patch old = (case patch of None \<Rightarrow> old | Some v \<Rightarrow> v)"

definition put_some :: "'a option \<Rightarrow> 'a option \<Rightarrow> 'a option" where
  "put_some patch old = (case patch of None \<Rightarrow> old | Some v \<Rightarrow> Some v)"

definition put_object :: "('a \<Rightarrow> 'a \<Rightarrow> 'a) \<Rightarrow> 'a option \<Rightarrow> 'a option \<Rightarrow> 'a option" where
  "put_object f patch old = (case patch of None \<Rightarrow> old | Some v \<Rightarrow> Some (merge_object f old v))"

definition put_clearable :: "('a \<Rightarrow> 'a \<Rightarrow> 'a) \<Rightarrow> 'a option option \<Rightarrow> 'a option \<Rightarrow> 'a option" where
  "put_clearable f patch old =
     (case patch of None \<Rightarrow> old | Some None \<Rightarrow> None | Some (Some v) \<Rightarrow> Some (merge_object f old v))"

definition replace :: "'a \<Rightarrow> 'a \<Rightarrow> 'a" where
  "replace old new = new"

definition apply_patch :: "OperatorPatch \<Rightarrow> CoderRunStatus \<Rightarrow> CoderRunStatus" where
  "apply_patch p s = s\<lparr>
     s_SourceReceipt := put (o_SourceReceipt p) (s_SourceReceipt s),
     s_Phase := put (o_Phase p) (s_Phase s),
     s_PublicationPolicy := put_object merge_policy (o_PublicationPolicy p) (s_PublicationPolicy s),
     s_SkillPins := put_some (o_SkillPins p) (s_SkillPins s),
     s_Branch := put (o_Branch p) (s_Branch s),
     s_HeadRepo := put (o_HeadRepo p) (s_HeadRepo s),
     s_HeadSHA := put (o_HeadSHA p) (s_HeadSHA s),
     s_PR := put (o_PR p) (s_PR s),
     s_AdmittedAt := put_some (o_AdmittedAt p) (s_AdmittedAt s),
     s_StartedAt := put_some (o_StartedAt p) (s_StartedAt s),
     s_FinishedAt := put_some (o_FinishedAt p) (s_FinishedAt s),
     s_PhaseEnteredAt := put_some (o_PhaseEnteredAt p) (s_PhaseEnteredAt s),
     s_WaitDuration := put (o_WaitDuration p) (s_WaitDuration s),
     s_RunDuration := put (o_RunDuration p) (s_RunDuration s),
     s_CheckFingerprint := put (o_CheckFingerprint p) (s_CheckFingerprint s),
     s_FailedCheckFingerprint := put (o_FailedCheckFingerprint p) (s_FailedCheckFingerprint s),
     s_DeclaredNoChange := put (o_DeclaredNoChange p) (s_DeclaredNoChange s),
     s_LifecycleReportRetryToken := put (o_LifecycleReportRetryToken p) (s_LifecycleReportRetryToken s),
     s_LifecycleReportActiveRetryToken :=
       put (o_LifecycleReportActiveRetryToken p) (s_LifecycleReportActiveRetryToken s),
     s_ControlRequest := put_clearable replace (o_ControlRequest p) (s_ControlRequest s),
     s_ControlRequestAck := put_clearable replace (o_ControlRequestAck p) (s_ControlRequestAck s),
     s_Restarts := put (o_Restarts p) (s_Restarts s),
     s_Telemetry := put_object merge_telemetry (o_Telemetry p) (s_Telemetry s),
     s_WorkspaceSafety := put_object merge_safety (o_WorkspaceSafety p) (s_WorkspaceSafety s),
     s_TerminalDiagnostic := put_object merge_diagnostic (o_TerminalDiagnostic p) (s_TerminalDiagnostic s),
     s_CIPark := put_clearable merge_park (o_CIPark p) (s_CIPark s),
     s_CIRepair := put_clearable merge_repair (o_CIRepair p) (s_CIRepair s),
     s_CISettlement := put_clearable merge_settlement (o_CISettlement p) (s_CISettlement s),
     s_CIParkDeferral := put_clearable replace (o_CIParkDeferral p) (s_CIParkDeferral s),
     s_CIParkRelease := put_clearable replace (o_CIParkRelease p) (s_CIParkRelease s),
     s_RetryRequest := put_object merge_retry (o_RetryRequest p) (s_RetryRequest s),
     s_Conditions := put (o_Conditions p) (s_Conditions s)\<rparr>"

section \<open>What a write achieves\<close>

text \<open>
  The differences a merge patch can express, for the fields \<open>patchStatus\<close> writes: a set-once field
  is not changed once it is set, a field without a clearing form is not emptied, and a record that
  replaces one still on the server does not empty one of its \<open>omitempty\<close> keys.
\<close>

definition stays_set :: "'a option \<Rightarrow> 'a option \<Rightarrow> bool" where
  "stays_set b a \<longleftrightarrow> b = None \<or> a = b"

definition merges :: "('a \<Rightarrow> 'a \<Rightarrow> 'a) \<Rightarrow> 'a option \<Rightarrow> 'a option \<Rightarrow> bool" where
  "merges f b a \<longleftrightarrow> (case a of None \<Rightarrow> b = None | Some y \<Rightarrow> (b = a \<or> merge_object f b y = y))"

definition merges_clearable :: "('a \<Rightarrow> 'a \<Rightarrow> 'a) \<Rightarrow> 'a option \<Rightarrow> 'a option \<Rightarrow> bool" where
  "merges_clearable f b a \<longleftrightarrow> (case a of None \<Rightarrow> True | Some y \<Rightarrow> (b = a \<or> merge_object f b y = y))"

definition expressible :: "CoderRunStatus \<Rightarrow> CoderRunStatus \<Rightarrow> bool" where
  "expressible b a \<longleftrightarrow>
     (s_Phase a = PhaseUnset \<longrightarrow> s_Phase b = PhaseUnset) \<and>
     (s_PR a = [] \<longrightarrow> s_PR b = []) \<and>
     (s_SourceReceipt a = [] \<longrightarrow> s_SourceReceipt b = []) \<and>
     (s_PhaseEnteredAt a = None \<longrightarrow> s_PhaseEnteredAt b = None) \<and>
     stays_set (s_AdmittedAt b) (s_AdmittedAt a) \<and>
     stays_set (s_StartedAt b) (s_StartedAt a) \<and>
     stays_set (s_FinishedAt b) (s_FinishedAt a) \<and>
     stays_set (s_PublicationPolicy b) (s_PublicationPolicy a) \<and>
     stays_set (s_SkillPins b) (s_SkillPins a) \<and>
     stays_set (s_TerminalDiagnostic b) (s_TerminalDiagnostic a) \<and>
     (s_WaitDuration b = [] \<or> s_WaitDuration a = s_WaitDuration b) \<and>
     (s_RunDuration b = [] \<or> s_RunDuration a = s_RunDuration b) \<and>
     merges merge_safety (s_WorkspaceSafety b) (s_WorkspaceSafety a) \<and>
     merges merge_telemetry (s_Telemetry b) (s_Telemetry a) \<and>
     merges merge_retry (s_RetryRequest b) (s_RetryRequest a) \<and>
     merges_clearable merge_park (s_CIPark b) (s_CIPark a) \<and>
     merges_clearable merge_repair (s_CIRepair b) (s_CIRepair a) \<and>
     merges_clearable merge_settlement (s_CISettlement b) (s_CISettlement a)"

text \<open>The fields the harness owns.\<close>

definition with_harness_of :: "CoderRunStatus \<Rightarrow> CoderRunStatus \<Rightarrow> CoderRunStatus" where
  "with_harness_of live s = s\<lparr>s_LastCommit := s_LastCommit live, s_NoChange := s_NoChange live,
     s_Checkpoint := s_Checkpoint live, s_Heartbeat := s_Heartbeat live,
     s_ActiveOperations := s_ActiveOperations live, s_NativeResult := s_NativeResult live,
     s_ModelSurface := s_ModelSurface live\<rparr>"

lemma put_changed: "put (changed b a) b = a"
  by (simp add: put_def changed_def)

lemma put_clearable_changed:
  "merges_clearable f b a \<Longrightarrow> put_clearable f (changed b a) b = a"
  by (auto simp: put_clearable_def changed_def merges_clearable_def split: option.splits)

lemma put_clearable_replace: "put_clearable replace (changed b a) b = a"
  by (auto simp: put_clearable_def changed_def replace_def merge_object_def split: option.splits)

lemma put_some_set_once: "stays_set b a \<Longrightarrow> put_some (set_once b a) b = a"
  by (auto simp: put_some_def set_once_def stays_set_def split: option.splits)

lemma put_object_set_once: "stays_set b a \<Longrightarrow> put_object f (set_once b a) b = a"
  by (auto simp: put_object_def set_once_def stays_set_def merge_object_def split: option.splits)

lemma put_set_once_string: "b = [] \<or> a = b \<Longrightarrow> put (set_once_string b a) b = a"
  by (auto simp: put_def set_once_string_def)

lemma put_object_merges: "merges f b a \<Longrightarrow> put_object f (if b \<noteq> a then a else None) b = a"
  by (auto simp: put_object_def merges_def split: option.splits)

lemma put_some_marker: "(a = None \<longrightarrow> b = None) \<Longrightarrow> put_some a b = a"
  by (auto simp: put_some_def split: option.splits)

lemma put_omit_empty: "(a = [] \<longrightarrow> b = []) \<Longrightarrow> put (if b \<noteq> a then omit_empty a else None) b = a"
  by (auto simp: put_def omit_empty_def)

lemma put_nonempty: "(a = z \<longrightarrow> b = z) \<Longrightarrow> put (if b \<noteq> a \<and> a \<noteq> z then Some a else None) b = a"
  by (auto simp: put_def)

lemmas put_simps = put_changed put_clearable_changed put_clearable_replace put_some_set_once
  put_object_set_once put_set_once_string put_object_merges put_some_marker put_omit_empty put_nonempty

text \<open>Two statuses are equal when their operator-owned and their harness-owned fields are.\<close>

lemma apply_patch_harness:
  "with_harness_of live (apply_patch p s) = apply_patch p (with_harness_of live s)"
  by (simp add: with_harness_of_def apply_patch_def)

lemma apply_operator_patch:
  assumes "expressible b a"
  shows "apply_patch (operator_patch b a) b = with_harness_of b a"
  using assms unfolding expressible_def
  by (intro CoderRunStatus.equality) (simp_all add: apply_patch_def operator_patch_def with_harness_of_def put_simps)

lemma with_harness_of_twice: "with_harness_of l (with_harness_of m s) = with_harness_of l s"
  by (simp add: with_harness_of_def)

section \<open>The properties of a write\<close>



end
