(* ===== verification/GoTime.thy ===== *)
theory GoTime
  imports GoLib "HOL-Library.Monad_Syntax"
begin

text \<open>
  The part of package \<open>time\<close> the durable markers rely on: \<open>t.UTC().Format(time.RFC3339)\<close> and
  \<open>time.Parse(time.RFC3339, s)\<close>. A time is a number of nanoseconds since the Unix epoch. The
  formatter drops the fraction of a second; the parser accepts what Go's does: a fraction after a
  point or a comma, an hour of one digit, \<open>Z\<close> or a numeric offset.
\<close>

section \<open>The calendar\<close>

definition leap_year :: "int \<Rightarrow> bool" where
  "leap_year y \<longleftrightarrow> y mod 4 = 0 \<and> (y mod 100 \<noteq> 0 \<or> y mod 400 = 0)"

text \<open>Days from 0001-01-01 to the first day of a year.\<close>

definition days_before :: "int \<Rightarrow> int" where
  "days_before y = 365 * (y - 1) + (y - 1) div 4 - (y - 1) div 100 + (y - 1) div 400"

definition month_lengths :: "int \<Rightarrow> int list" where
  "month_lengths y = [31, if leap_year y then 29 else 28, 31, 30, 31, 30, 31, 31, 30, 31, 30, 31]"

definition unix_epoch_day :: int where
  "unix_epoch_day = 719162"

lemma div_pred_int:
  fixes n :: int
  assumes "0 < n"
  shows "(y - 1) div n = (if y mod n = 0 then y div n - 1 else y div n)"
proof (cases "y mod n = 0")
  case True
  then have "y - 1 = n * (y div n - 1) + (n - 1)"
    using mult_div_mod_eq [of n y] by (simp add: algebra_simps)
  then show ?thesis using True assms int_div_pos_eq [of "y - 1" n "y div n - 1" "n - 1"] by simp
next
  case False
  then have "y - 1 = n * (y div n) + (y mod n - 1)"
    using mult_div_mod_eq [of n y] by (simp add: algebra_simps)
  moreover have "0 \<le> y mod n - 1" "y mod n - 1 < n"
    using False pos_mod_sign [OF assms, of y] pos_mod_bound [OF assms, of y] by linarith+
  ultimately show ?thesis using False int_div_pos_eq [of "y - 1" n "y div n" "y mod n - 1"] by simp
qed

lemma mod_dvd_zero: "(y :: int) mod 400 = 0 \<Longrightarrow> y mod 100 = 0" "(y :: int) mod 100 = 0 \<Longrightarrow> y mod 4 = 0"
  using dvd_trans [of 100 400 y] dvd_trans [of 4 100 y] by (auto simp: dvd_eq_mod_eq_0)

lemma days_before_Suc: "days_before (y + 1) = days_before y + sum_list (month_lengths y)"
  using mod_dvd_zero [of y]
  by (auto simp: days_before_def month_lengths_def leap_year_def div_pred_int)

lemma sum_month_lengths: "365 \<le> sum_list (month_lengths y)" "sum_list (month_lengths y) \<le> 366"
  by (auto simp: month_lengths_def)

lemma days_before_step: "days_before y + 365 \<le> days_before (y + 1)"
  by (simp add: days_before_Suc sum_month_lengths)

lemma days_before_ge: "1 \<le> y \<Longrightarrow> 365 * (y - 1) \<le> days_before y"
proof -
  assume "1 \<le> y"
  then have "(y - 1) div 100 \<le> (y - 1) div 4" by (intro zdiv_mono2) auto
  then show ?thesis using \<open>1 \<le> y\<close> by (simp add: days_before_def pos_imp_zdiv_nonneg_iff)
qed

text \<open>The year of a day and the days left in it: the search starts at a year that is not too late.\<close>

function year_search :: "int \<Rightarrow> int \<Rightarrow> int" where
  "year_search y d = (if days_before (y + 1) \<le> d then year_search (y + 1) d else y)"
  by pat_completeness auto
termination
proof (relation "measure (\<lambda>(y, d). nat (d - days_before y))", goal_cases)
  case (2 y d)
  then show ?case using days_before_step [of y] by simp
qed simp

declare year_search.simps [simp del]

definition year_of_day :: "int \<Rightarrow> int" where
  "year_of_day d = year_search (d div 366 + 1) d"

fun month_day :: "int list \<Rightarrow> int \<Rightarrow> int \<Rightarrow> int \<times> int" where
  "month_day [] m d = (m, d + 1)"
| "month_day (l # ls) m d = (if d < l then (m, d + 1) else month_day ls (m + 1) (d - l))"

definition day_of_date :: "int \<Rightarrow> int \<Rightarrow> int \<Rightarrow> int" where
  "day_of_date y m d = days_before y + sum_list (take (nat (m - 1)) (month_lengths y)) + (d - 1)"

section \<open>Formatting\<close>

definition pad2 :: "int \<Rightarrow> string" where
  "pad2 n = [digit_char (nat (n div 10)), digit_char (nat (n mod 10))]"

definition FormatRFC3339 :: "int \<Rightarrow> string" where
  "FormatRFC3339 t =
     (let sec = t div 1000000000; day = sec div 86400 + unix_epoch_day; clock = sec mod 86400;
          y = year_of_day day
      in case month_day (month_lengths y) 1 (day - days_before y) of (m, d) \<Rightarrow>
        pad2 (y div 100) @ pad2 (y mod 100) @ ''-'' @ pad2 m @ ''-'' @ pad2 d @ ''T'' @
        pad2 (clock div 3600) @ '':'' @ pad2 (clock mod 3600 div 60) @ '':'' @ pad2 (clock mod 60) @ ''Z'')"

section \<open>Parsing\<close>

text \<open>Each step consumes a prefix of the text.\<close>

fun eat :: "char \<Rightarrow> string \<Rightarrow> string option" where
  "eat c [] = None"
| "eat c (d # s) = (if d = c then Some s else None)"

fun num2 :: "string \<Rightarrow> (int \<times> string) option" where
  "num2 (a # b # s) =
     (if is_digit a \<and> is_digit b then Some (10 * int (byte a - 48) + int (byte b - 48), s) else None)"
| "num2 _ = None"

text \<open>An hour may have a single digit.\<close>

fun num12 :: "string \<Rightarrow> (int \<times> string) option" where
  "num12 [] = None"
| "num12 (a # s) =
     (if \<not> is_digit a then None
      else (case num2 (a # s) of Some r \<Rightarrow> Some r | None \<Rightarrow> Some (int (byte a - 48), s)))"

text \<open>The fraction of a second, cut to nine digits.\<close>

definition fraction :: "string \<Rightarrow> int \<times> string" where
  "fraction s =
     (case s of
        a # b # r \<Rightarrow>
          if (a = CHR ''.'' \<or> a = CHR '','') \<and> is_digit b then
            (let ds = takeWhile is_digit (b # r); kept = take 9 ds
             in (int (digits_val kept * 10 ^ (9 - length kept)), drop (length ds) (b # r)))
          else (0, s)
      | _ \<Rightarrow> (0, s))"

text \<open>The offset in seconds; nothing may follow it.\<close>

definition zone :: "string \<Rightarrow> int option" where
  "zone s =
     (if s = ''Z'' then Some 0
      else (case s of
          [] \<Rightarrow> None
        | c # r \<Rightarrow>
            do {
              sign \<leftarrow> (if c = CHR ''+'' then Some 1 else if c = CHR ''-'' then Some (-1) else None);
              (h, r) \<leftarrow> num2 r;
              r \<leftarrow> eat CHR '':'' r;
              (m, r) \<leftarrow> num2 r;
              if r \<noteq> [] \<or> 24 < h \<or> 60 < m then None else Some (sign * (h * 3600 + m * 60))
            }))"

definition ParseRFC3339 :: "string \<Rightarrow> int option" where
  "ParseRFC3339 s =
     do {
       (yh, s) \<leftarrow> num2 s;
       (yl, s) \<leftarrow> num2 s;
       let y = 100 * yh + yl;
       s \<leftarrow> eat CHR ''-'' s;
       (mo, s) \<leftarrow> num2 s;
       s \<leftarrow> eat CHR ''-'' s;
       (d, s) \<leftarrow> num2 s;
       s \<leftarrow> eat CHR ''T'' s;
       (h, s) \<leftarrow> num12 s;
       s \<leftarrow> eat CHR '':'' s;
       (mi, s) \<leftarrow> num2 s;
       s \<leftarrow> eat CHR '':'' s;
       (se, s) \<leftarrow> num2 s;
       let (ns, s) = fraction s;
       off \<leftarrow> zone s;
       if mo < 1 \<or> 12 < mo \<or> d < 1 \<or> month_lengths y ! nat (mo - 1) < d
          \<or> 24 \<le> h \<or> 60 \<le> mi \<or> 60 \<le> se then None
       else Some (((day_of_date y mo d - unix_epoch_day) * 86400 + h * 3600 + mi * 60 + se - off)
                  * 1000000000 + ns)
     }"

section \<open>Round trip\<close>

lemma days_before_le: "1 \<le> y \<Longrightarrow> days_before y \<le> 366 * (y - 1)"
proof -
  assume y: "1 \<le> y"
  then have "(y - 1) div 400 \<le> (y - 1) div 100" by (intro zdiv_mono2) auto
  moreover have "(y - 1) div 4 \<le> y - 1" using y by presburger
  ultimately show ?thesis by (simp add: days_before_def)
qed

lemma year_search_spec:
  "days_before y \<le> d \<Longrightarrow> y \<le> year_search y d \<and>
     days_before (year_search y d) \<le> d \<and> d < days_before (year_search y d + 1)"
proof (induction y d rule: year_search.induct)
  case (1 y d)
  then show ?case by (cases "days_before (y + 1) \<le> d") (auto simp: year_search.simps [of y d])
qed

lemma year_of_day_spec:
  assumes "0 \<le> d"
  shows "1 \<le> year_of_day d" "days_before (year_of_day d) \<le> d" "d < days_before (year_of_day d + 1)"
proof -
  have p: "0 \<le> d div 366" using assms by (simp add: pos_imp_zdiv_nonneg_iff)
  have "days_before (d div 366 + 1) \<le> 366 * (d div 366)" using days_before_le [of "d div 366 + 1"] p by simp
  also have "\<dots> \<le> d" by (simp add: minus_mod_eq_mult_div [symmetric])
  finally have "days_before (d div 366 + 1) \<le> d" .
  from year_search_spec [OF this] p
  show "1 \<le> year_of_day d" "days_before (year_of_day d) \<le> d" "d < days_before (year_of_day d + 1)"
    by (auto simp: year_of_day_def)
qed

lemma days_before_mono: "y \<le> z \<Longrightarrow> days_before y \<le> days_before z"
proof (induction "nat (z - y)" arbitrary: z)
  case (Suc k)
  then have "days_before y \<le> days_before (z - 1)" by simp
  also have "\<dots> \<le> days_before z" using days_before_step [of "z - 1"] by simp
  finally show ?case .
qed simp

lemma month_day_spec:
  "month_day ls m d = (m', d') \<Longrightarrow> 0 \<le> d \<Longrightarrow> d < sum_list ls \<Longrightarrow>
     m \<le> m' \<and> m' < m + int (length ls) \<and> d = sum_list (take (nat (m' - m)) ls) + (d' - 1) \<and>
     1 \<le> d' \<and> d' \<le> ls ! nat (m' - m)"
proof (induction ls m d rule: month_day.induct)
  case (2 l ls m d)
  show ?case
  proof (cases "d < l")
    case True
    with 2 show ?thesis by auto
  next
    case False
    with 2 have "m + 1 \<le> m' \<and> m' < m + 1 + int (length ls) \<and>
        d - l = sum_list (take (nat (m' - (m + 1))) ls) + (d' - 1) \<and>
        1 \<le> d' \<and> d' \<le> ls ! nat (m' - (m + 1))" by simp
    moreover from this have "nat (m' - m) = Suc (nat (m' - (m + 1)))" by linarith
    ultimately show ?thesis by simp
  qed
qed simp

lemma num2_pad2 [simp]: "0 \<le> n \<Longrightarrow> n < 100 \<Longrightarrow> num2 (pad2 n @ s) = Some (n, s)"
proof -
  assume n: "0 \<le> n" "n < 100"
  then have "nat (n div 10) < 10" "nat (n mod 10) < 10" "0 \<le> n div 10" by auto
  then show ?thesis using n by (simp add: pad2_def)
qed

lemma num12_pad2 [simp]: "0 \<le> n \<Longrightarrow> n < 100 \<Longrightarrow> num12 (pad2 n @ s) = Some (n, s)"
proof -
  assume n: "0 \<le> n" "n < 100"
  define a r where "a = digit_char (nat (n div 10))" and "r = digit_char (nat (n mod 10)) # s"
  have e: "pad2 n @ s = a # r" by (simp add: pad2_def a_def r_def)
  have "is_digit a" using n unfolding a_def by (intro digit_char_props) linarith
  then show ?thesis using num2_pad2 [OF n, of s] unfolding e by (simp del: num2.simps)
qed

lemma fraction_Z [simp]: "fraction ''Z'' = (0, ''Z'')"
  by (simp add: fraction_def)

lemma zone_Z [simp]: "zone ''Z'' = Some 0"
  by (simp add: zone_def)

text \<open>The times whose year has four digits, as the years 1 to 9999.\<close>

definition four_digit_year :: "int \<Rightarrow> bool" where
  "four_digit_year t \<longleftrightarrow> - 62135596800 * 1000000000 \<le> t \<and> t < 253402300800 * 1000000000"

lemma Parse_fields:
  assumes "0 \<le> yh" "yh < 100" "0 \<le> yl" "yl < 100" "1 \<le> m" "m \<le> 12"
    and "1 \<le> d" "d < 100" "d \<le> month_lengths (100 * yh + yl) ! nat (m - 1)"
    and "0 \<le> h" "h < 24" "0 \<le> mi" "mi < 60" "0 \<le> se" "se < 60"
  shows "ParseRFC3339 (pad2 yh @ pad2 yl @ ''-'' @ pad2 m @ ''-'' @ pad2 d @ ''T'' @
        pad2 h @ '':'' @ pad2 mi @ '':'' @ pad2 se @ ''Z'') =
      Some (((day_of_date (100 * yh + yl) m d - unix_epoch_day) * 86400 + h * 3600 + mi * 60 + se)
            * 1000000000)"
  using assms by (simp add: ParseRFC3339_def Let_def not_less)

lemma Parse_Format:
  assumes "four_digit_year t"
  shows "ParseRFC3339 (FormatRFC3339 t) = Some (t div 1000000000 * 1000000000)"
proof -
  define sec where "sec = t div 1000000000"
  define day where "day = sec div 86400 + unix_epoch_day"
  define clock where "clock = sec mod 86400"
  define y where "y = year_of_day day"
  obtain m d where md: "month_day (month_lengths y) 1 (day - days_before y) = (m, d)" by fastforce
  have sec: "-62135596800 \<le> sec" "sec < 253402300800"
    using assms unfolding sec_def four_digit_year_def by linarith+
  then have day: "0 \<le> day" "day < days_before 10000"
    unfolding day_def unix_epoch_day_def days_before_def by auto
  note ys = year_of_day_spec [OF day(1), folded y_def]
  have "y < 10000"
  proof (rule ccontr)
    assume "\<not> y < 10000"
    then have "days_before 10000 \<le> days_before y" by (intro days_before_mono) simp
    with ys(2) day(2) show False by simp
  qed
  have ms: "1 \<le> m" "m < 13" "day - days_before y = sum_list (take (nat (m - 1)) (month_lengths y)) + (d - 1)"
      "1 \<le> d" "d \<le> month_lengths y ! nat (m - 1)"
    using month_day_spec [OF md] ys(2,3) by (auto simp: days_before_Suc month_lengths_def)
  have d31: "d < 100"
  proof -
    have "nat (m - 1) < length (month_lengths y)" using ms by (simp add: month_lengths_def)
    then have "month_lengths y ! nat (m - 1) \<in> set (month_lengths y)" by (rule nth_mem)
    then have "month_lengths y ! nat (m - 1) \<le> 31" by (auto simp: month_lengths_def)
    with ms show ?thesis by simp
  qed
  have clock: "0 \<le> clock" "clock < 86400" by (simp_all add: clock_def)
  have hms: "clock div 3600 * 3600 + clock mod 3600 div 60 * 60 + clock mod 60 = clock"
  proof -
    have "clock mod 3600 mod 60 = clock mod 60" by (rule mod_mod_cancel) simp
    then have "clock mod 3600 div 60 * 60 + clock mod 60 = clock mod 3600"
      using div_mult_mod_eq [of "clock mod 3600" 60] by simp
    then show ?thesis using div_mult_mod_eq [of clock 3600] by linarith
  qed
  define yh yl h mi se where "yh = y div 100" and "yl = y mod 100" and "h = clock div 3600"
    and "mi = clock mod 3600 div 60" and "se = clock mod 60"
  have q: "0 \<le> yh" "yh < 100" "0 \<le> yl" "yl < 100" "0 \<le> h" "h < 24" "0 \<le> mi" "mi < 60" "0 \<le> se" "se < 60"
    using ys(1) \<open>y < 10000\<close> clock unfolding yh_def yl_def h_def mi_def se_def by auto
  have y: "y = 100 * yh + yl" by (simp add: yh_def yl_def)
  have "FormatRFC3339 t = pad2 yh @ pad2 yl @ ''-'' @ pad2 m @ ''-'' @ pad2 d @ ''T'' @
        pad2 h @ '':'' @ pad2 mi @ '':'' @ pad2 se @ ''Z''"
    by (simp add: FormatRFC3339_def Let_def sec_def [symmetric] day_def [symmetric]
        clock_def [symmetric] y_def [symmetric] md yh_def yl_def h_def mi_def se_def)
  moreover have "ParseRFC3339 (pad2 yh @ pad2 yl @ ''-'' @ pad2 m @ ''-'' @ pad2 d @ ''T'' @
        pad2 h @ '':'' @ pad2 mi @ '':'' @ pad2 se @ ''Z'') =
      Some (((day_of_date y m d - unix_epoch_day) * 86400 + h * 3600 + mi * 60 + se) * 1000000000)"
    unfolding y by (rule Parse_fields) (use q ms(1,2,4,5) d31 y in simp_all)
  moreover have "day_of_date y m d = day"
    using ms(3) by (simp add: day_of_date_def)
  moreover have "(day - unix_epoch_day) * 86400 + h * 3600 + mi * 60 + se = t div 1000000000"
  proof -
    have "h * 3600 + mi * 60 + se = clock" using hms by (simp only: h_def mi_def se_def)
    moreover have "(day - unix_epoch_day) * 86400 + clock = sec" by (simp add: day_def clock_def)
    ultimately show ?thesis unfolding sec_def by linarith
  qed
  ultimately show ?thesis by (simp only:)
qed

end
