(* ===== verification/Admission.thy ===== *)
theory Admission
  imports Api GoTime
begin

text \<open>
  Who may run: lane profiles (\<open>api/v1alpha1/laneprofile_types.go\<close>: suspension and capacity
  cooldowns), lane capacity (\<open>internal/controller/admission.go\<close>) and the backoff between failed
  secure preflights (\<open>preflight_backoff.go\<close>).
\<close>

section \<open>Annotations\<close>

text \<open>The annotations map of an object; the order of the entries never matters.\<close>

definition set_annotation :: "string \<Rightarrow> string \<Rightarrow> (string \<times> string) list \<Rightarrow> (string \<times> string) list" where
  "set_annotation k v as = (k, v) # filter (\<lambda>(k', _). k' \<noteq> k) as"

definition delete_annotation :: "string \<Rightarrow> (string \<times> string) list \<Rightarrow> (string \<times> string) list" where
  "delete_annotation k as = filter (\<lambda>(k', _). k' \<noteq> k) as"

lemma map_of_delete_annotation:
  "map_of (delete_annotation k as) k' = (if k' = k then None else map_of as k')"
  by (induction as) (auto simp: delete_annotation_def)

lemma map_of_set_annotation:
  "map_of (set_annotation k v as) k' = (if k' = k then Some v else map_of as k')"
  using map_of_delete_annotation [of k as k'] by (simp add: set_annotation_def delete_annotation_def)

definition upd_annotations ::
  "((string \<times> string) list \<Rightarrow> (string \<times> string) list) \<Rightarrow> CoderRun \<Rightarrow> CoderRun" where
  "upd_annotations f run = run\<lparr>r_meta := (r_meta run)\<lparr>m_Annotations := f (m_Annotations (r_meta run))\<rparr>\<rparr>"

lemma upd_annotations_sel [simp]:
  "r_status (upd_annotations f run) = r_status run"
  "r_spec (upd_annotations f run) = r_spec run"
  "m_Annotations (r_meta (upd_annotations f run)) = f (m_Annotations (r_meta run))"
  by (simp_all add: upd_annotations_def)

section \<open>Lane profiles\<close>

abbreviation "SuspendAnnotation \<equiv> ''courier.misospace.dev/suspend''"

definition Suspended :: "LaneProfile \<Rightarrow> bool" where
  "Suspended l \<longleftrightarrow> EqualFold (TrimSpace (lookup_annotation (l_Annotations l) SuspendAnnotation)) ''true''"

definition CapacityIdentity :: "LaneProfile \<Rightarrow> string" where
  "CapacityIdentity l =
     (let group = TrimSpace (ls_CapacityGroup (l_Spec l)) in if group \<noteq> [] then group else l_Name l)"

definition ActiveFor :: "CapacityCooldown option \<Rightarrow> string \<Rightarrow> time \<Rightarrow> bool" where
  "ActiveFor c capacityID now =
     (case c of None \<Rightarrow> False
      | Some c \<Rightarrow> cc_CapacityID c \<noteq> [] \<and> cc_CapacityID c = capacityID \<and> now < cc_NextEligibleAt c)"

definition CooldownActive :: "LaneProfile \<Rightarrow> time \<Rightarrow> bool" where
  "CooldownActive l now = ActiveFor (l_CapacityCooldown l) (CapacityIdentity l) now"

text \<open>The first active cooldown of the target's capacity, in the order of the list.\<close>

definition CapacityCooldownActive :: "LaneProfile \<Rightarrow> LaneProfile list \<Rightarrow> time \<Rightarrow> CapacityCooldown option" where
  "CapacityCooldownActive target lanes now =
     (case find (\<lambda>l. ActiveFor (l_CapacityCooldown l) (CapacityIdentity target) now) lanes of
        None \<Rightarrow> None
      | Some l \<Rightarrow> l_CapacityCooldown l)"

lemma CapacityCooldownActive_iff:
  "CapacityCooldownActive target lanes now \<noteq> None \<longleftrightarrow>
     (\<exists>l \<in> set lanes. ActiveFor (l_CapacityCooldown l) (CapacityIdentity target) now)"
  by (auto simp: CapacityCooldownActive_def ActiveFor_def find_None_iff find_Some_iff
      split: option.splits)

section \<open>Lane capacity\<close>

definition phaseConsumesCapacity :: "Phase \<Rightarrow> bool" where
  "phaseConsumesCapacity ph \<longleftrightarrow> ph = PhaseClaimed \<or> ph = PhaseRunning"

fun admittedCount :: "CoderRun list \<Rightarrow> string \<Rightarrow> int" where
  "admittedCount [] lane = 0"
| "admittedCount (run # runs) lane =
     (if p_Lane (r_spec run) = lane \<and> phaseConsumesCapacity (s_Phase (r_status run)) then 1 else 0)
     + admittedCount runs lane"

definition laneHasCapacity :: "CoderRun list \<Rightarrow> string \<Rightarrow> int \<Rightarrow> bool" where
  "laneHasCapacity runs lane concurrency \<longleftrightarrow>
     admittedCount runs lane < (if concurrency \<le> 0 then 1 else concurrency)"

section \<open>The backoff between failed preflights\<close>

definition preflightBackoffBaseDelay :: duration where "preflightBackoffBaseDelay = 15 * Second"
definition preflightBackoffMaxDelay :: duration where "preflightBackoffMaxDelay = 5 * Minute"

abbreviation "preflightFailedAtAnnotation \<equiv> ''courier.misospace.dev/preflight-failed-at''"
abbreviation "preflightFailuresAnnotation \<equiv> ''courier.misospace.dev/preflight-failures''"

text \<open>The loop \<open>for n := 1; n < failures; n++\<close> and the bound after it.\<close>

function backoff_loop :: "int \<Rightarrow> int \<Rightarrow> duration \<Rightarrow> duration" where
  "backoff_loop n failures delay =
     (if n < failures then
        (if preflightBackoffMaxDelay \<le> delay then preflightBackoffMaxDelay
         else backoff_loop (n + 1) failures (delay * 2))
      else if preflightBackoffMaxDelay < delay then preflightBackoffMaxDelay else delay)"
  by pat_completeness auto
termination
  by (relation "measure (\<lambda>(n, failures, delay). nat (failures - n))") auto

declare backoff_loop.simps [simp del]

definition preflightBackoffDelay :: "int \<Rightarrow> duration" where
  "preflightBackoffDelay failures =
     backoff_loop 1 (if failures < 1 then 1 else failures) preflightBackoffBaseDelay"

definition recordedPreflightFailures :: "CoderRun \<Rightarrow> int option" where
  "recordedPreflightFailures run =
     (case map_of (m_Annotations (r_meta run)) preflightFailuresAnnotation of
        None \<Rightarrow> None
      | Some raw \<Rightarrow> (case Atoi (TrimSpace raw) of
            None \<Rightarrow> None
          | Some count \<Rightarrow> if count < 1 then None else Some count))"

text \<open>\<open>None\<close>: the run is due.\<close>

definition preflightBackoffRemaining :: "time \<Rightarrow> CoderRun \<Rightarrow> duration option" where
  "preflightBackoffRemaining now run =
     (case map_of (m_Annotations (r_meta run)) preflightFailedAtAnnotation of
        None \<Rightarrow> None
      | Some raw \<Rightarrow> (case ParseRFC3339 raw of
            None \<Rightarrow> None
          | Some stampedAt \<Rightarrow> (case recordedPreflightFailures run of
                None \<Rightarrow> None
              | Some failures \<Rightarrow>
                  let delay = preflightBackoffDelay failures; elapsed = now - stampedAt
                  in if elapsed < 0 \<or> delay \<le> elapsed then None else Some (delay - elapsed))))"

text \<open>Addition of Go's \<open>int\<close>, which wraps.\<close>

definition wrap_int :: "int \<Rightarrow> int" where
  "wrap_int n = (n + 2 ^ 63) mod 2 ^ 64 - 2 ^ 63"

text \<open>
  \<open>armPreflightBackoff\<close> for the run as the API server has it, \<open>live\<close> (\<open>None\<close> where that read
  fails, and the caller's copy serves), and the operator's clock: the annotations the merge patch
  sends.
\<close>

definition armPreflightBackoff :: "CoderRun option \<Rightarrow> time \<Rightarrow> CoderRun \<Rightarrow> CoderRun" where
  "armPreflightBackoff live now run =
     (let failures =
        (case recordedPreflightFailures (case live of None \<Rightarrow> run | Some l \<Rightarrow> l) of
           None \<Rightarrow> 1
         | Some previous \<Rightarrow>
             let next = wrap_int (previous + 1) in if next \<le> previous then previous else next)
      in upd_annotations
           (\<lambda>as. set_annotation preflightFailedAtAnnotation (FormatRFC3339 now)
              (set_annotation preflightFailuresAnnotation (Itoa failures) as)) run)"

text \<open>The run after \<open>clearPreflightBackoff\<close> and whether it writes at all.\<close>

definition clearPreflightBackoff :: "CoderRun \<Rightarrow> CoderRun \<times> bool" where
  "clearPreflightBackoff run =
     (let as = m_Annotations (r_meta run) in
      if map_of as preflightFailedAtAnnotation = None \<and> map_of as preflightFailuresAnnotation = None
      then (run, False)
      else (upd_annotations
              (\<lambda>as. delete_annotation preflightFailuresAnnotation
                 (delete_annotation preflightFailedAtAnnotation as)) run, True))"

section \<open>Facts about the backoff\<close>

lemma backoff_loop_closed:
  assumes "0 \<le> delay" and "n \<le> failures"
  shows "backoff_loop n failures delay = min (delay * 2 ^ nat (failures - n)) preflightBackoffMaxDelay"
  using assms
proof (induction n failures delay rule: backoff_loop.induct)
  case (1 n failures delay)
  show ?case
  proof (cases "n < failures")
    case True
    then have e: "nat (failures - n) = Suc (nat (failures - (n + 1)))" by simp
    show ?thesis
    proof (cases "preflightBackoffMaxDelay \<le> delay")
      case capped: True
      have "delay * 1 \<le> delay * 2 ^ nat (failures - n)" using 1(2) by (intro mult_left_mono) simp_all
      with capped True show ?thesis by (simp add: backoff_loop.simps)
    next
      case False
      with True 1 have "backoff_loop n failures delay = min (delay * 2 * 2 ^ nat (failures - (n + 1))) preflightBackoffMaxDelay"
        by (subst backoff_loop.simps) simp
      with e show ?thesis by (simp add: mult.assoc)
    qed
  next
    case False
    with 1(3) show ?thesis by (simp add: backoff_loop.simps)
  qed
qed

text \<open>The backoff after a failed preflight is exponential and bounded: fifteen seconds doubled with
  every further consecutive failure, and never more than five minutes.\<close>

lemma preflight_backoff_is_bounded_exponential:
  "preflightBackoffDelay failures = min (15 * Second * 2 ^ nat (failures - 1)) (5 * Minute)"
proof -
  have "preflightBackoffDelay failures
      = min (preflightBackoffBaseDelay * 2 ^ nat ((if failures < 1 then 1 else failures) - 1)) preflightBackoffMaxDelay"
    unfolding preflightBackoffDelay_def by (rule backoff_loop_closed) (simp_all add: preflightBackoffBaseDelay_def)
  then show ?thesis by (simp add: preflightBackoffBaseDelay_def preflightBackoffMaxDelay_def)
qed

lemma trim_digits:
  assumes "1 \<le> n"
  shows "TrimSpace (Itoa n) = Itoa n"
proof -
  have d: "list_all is_digit (Itoa n)" "Itoa n \<noteq> []" using assms nat_digits_all by (auto simp: Itoa_def)
  then have "is_digit (hd (Itoa n))" "is_digit (last (Itoa n))" by (auto simp: list_all_iff)
  with d(2) show ?thesis by (intro TrimSpace_id) (auto simp: is_digit_def)
qed

lemma armed_failures:
  assumes "recordedPreflightFailures run = Some previous" and "previous < max_int"
  shows "recordedPreflightFailures (armPreflightBackoff None now run) = Some (previous + 1)"
proof -
  have p: "1 \<le> previous" using assms(1)
    by (auto simp: recordedPreflightFailures_def not_less split: option.splits if_splits)
  have w: "wrap_int (previous + 1) = previous + 1" using p assms(2) by (simp add: wrap_int_def max_int_def)
  have "Atoi (TrimSpace (Itoa (previous + 1))) = Some (previous + 1)"
    using p assms(2) by (simp add: trim_digits Atoi_Itoa min_int_def max_int_def)
  moreover have "map_of (m_Annotations (r_meta (armPreflightBackoff None now run))) preflightFailuresAnnotation
      = Some (Itoa (previous + 1))"
    using p by (simp add: armPreflightBackoff_def assms(1) w Let_def map_of_set_annotation)
  ultimately show ?thesis using p by (simp add: recordedPreflightFailures_def)
qed

text \<open>The backoff survives a restart. The annotations that arming writes, read back at a later time,
  hold the run for exactly what remains of the delay of the recorded failure count (the marker keeps whole
  seconds), and then let it go.\<close>

lemma armed_backoff_is_read_back:
  assumes "four_digit_year now" and "recordedPreflightFailures run = Some previous" and "previous < max_int"
    and "now \<le> later"
  shows "preflightBackoffRemaining later (armPreflightBackoff None now run) =
    (let elapsed = later - now div Second * Second; delay = preflightBackoffDelay (previous + 1)
     in if delay \<le> elapsed then None else Some (delay - elapsed))"
proof -
  have at: "map_of (m_Annotations (r_meta (armPreflightBackoff None now run))) preflightFailedAtAnnotation
      = Some (FormatRFC3339 now)"
    by (simp add: armPreflightBackoff_def Let_def map_of_set_annotation)
  have "now div Second * Second = now - now mod Second" by (rule minus_mod_eq_div_mult [symmetric])
  moreover have "0 \<le> now mod Second" by simp
  ultimately have "0 \<le> later - now div Second * Second" using assms(4) by linarith
  then show ?thesis
    by (simp add: preflightBackoffRemaining_def at Parse_Format [OF assms(1)] armed_failures [OF assms(2,3)] Let_def)
qed

lemma armed_backoff_is_read_back_witness:
  "preflightBackoffRemaining Second
     (armPreflightBackoff None 0 (upd_annotations (set_annotation preflightFailuresAnnotation (Itoa 2))
        (sample_run zero_status))) = Some (59 * Second)"
proof -
  let ?run = "upd_annotations (set_annotation preflightFailuresAnnotation (Itoa 2)) (sample_run zero_status)"
  have "recordedPreflightFailures ?run = Some 2"
    by (simp add: recordedPreflightFailures_def map_of_set_annotation trim_digits Atoi_Itoa min_int_def max_int_def)
  from armed_backoff_is_read_back [OF _ this, of 0 Second] show ?thesis
    by (simp add: four_digit_year_def max_int_def preflightBackoffDelay_def backoff_loop_closed
        preflightBackoffBaseDelay_def preflightBackoffMaxDelay_def)
qed

end
