(* ===== verification/Sha256.thy ===== *)
theory Sha256
  imports GoLib
begin

text \<open>
  \<open>crypto/sha256\<close> and \<open>encoding/hex\<close>, the two packages every derived identifier of the code goes
  through: fence tokens, idempotency keys, check-set fingerprints, announcement tokens, branch
  suffixes. The digest is the function of FIPS 180-4. The theorems of the development use that the
  hexadecimal digest is 64 lower-case hexadecimal digits; where one needs two digests to differ it
  says so as a hypothesis on those two inputs.
\<close>

type_synonym u32 = "32 word"

text \<open>
  The constants of the standard, from their definition: the first 32 bits of the fractional parts
  of the cube roots of the first 64 primes, and of the square roots of the first 8. The root of
  \<open>p\<close> scaled by a power of two is found bit by bit; converting it to a word drops its integer part.
\<close>

fun root_bits :: "nat \<Rightarrow> nat \<Rightarrow> nat \<Rightarrow> nat \<Rightarrow> nat" where
  "root_bits k n 0 r = r"
| "root_bits k n (Suc b) r = root_bits k n b (if (r + 2 ^ b) ^ k \<le> n then r + 2 ^ b else r)"

definition sha_primes :: "nat list" where
  "sha_primes = filter (\<lambda>p. list_all (\<lambda>d. p mod d \<noteq> 0) [2..<p]) [2..<312]"

definition sha_K :: "u32 list" where
  "sha_K = map (\<lambda>p. of_nat (root_bits 3 (p * 2 ^ 96) 36 0)) sha_primes"

definition sha_H0 :: "u32 list" where
  "sha_H0 = map (\<lambda>p. of_nat (root_bits 2 (p * 2 ^ 64) 36 0)) [2, 3, 5, 7, 11, 13, 17, 19]"

definition sha_Ch :: "u32 \<Rightarrow> u32 \<Rightarrow> u32 \<Rightarrow> u32" where
  "sha_Ch x y z = (x AND y) XOR (NOT x AND z)"

definition sha_Maj :: "u32 \<Rightarrow> u32 \<Rightarrow> u32 \<Rightarrow> u32" where
  "sha_Maj x y z = (x AND y) XOR (x AND z) XOR (y AND z)"

definition sha_S0 :: "u32 \<Rightarrow> u32" where
  "sha_S0 x = word_rotr 2 x XOR word_rotr 13 x XOR word_rotr 22 x"

definition sha_S1 :: "u32 \<Rightarrow> u32" where
  "sha_S1 x = word_rotr 6 x XOR word_rotr 11 x XOR word_rotr 25 x"

definition sha_s0 :: "u32 \<Rightarrow> u32" where
  "sha_s0 x = word_rotr 7 x XOR word_rotr 18 x XOR drop_bit 3 x"

definition sha_s1 :: "u32 \<Rightarrow> u32" where
  "sha_s1 x = word_rotr 17 x XOR word_rotr 19 x XOR drop_bit 10 x"

text \<open>The message schedule, newest word first.\<close>

fun sha_schedule :: "nat \<Rightarrow> u32 list \<Rightarrow> u32 list" where
  "sha_schedule 0 ws = ws"
| "sha_schedule (Suc n) ws =
     sha_schedule n ((sha_s1 (ws ! 1) + ws ! 6 + sha_s0 (ws ! 14) + ws ! 15) # ws)"

definition sha_round :: "u32 \<times> u32 \<Rightarrow> u32 list \<Rightarrow> u32 list" where
  "sha_round kw h =
     (let t1 = h ! 7 + sha_S1 (h ! 4) + sha_Ch (h ! 4) (h ! 5) (h ! 6) + fst kw + snd kw;
          t2 = sha_S0 (h ! 0) + sha_Maj (h ! 0) (h ! 1) (h ! 2)
      in [t1 + t2, h ! 0, h ! 1, h ! 2, h ! 3 + t1, h ! 4, h ! 5, h ! 6])"

definition sha_rounds :: "(u32 \<times> u32) list \<Rightarrow> u32 list \<Rightarrow> u32 list" where
  "sha_rounds kws h = fold sha_round kws h"

definition word_of_bytes :: "string \<Rightarrow> u32" where
  "word_of_bytes bs = foldl (\<lambda>w c. push_bit 8 w OR of_nat (byte c)) 0 bs"

fun words_of_bytes :: "nat \<Rightarrow> string \<Rightarrow> u32 list" where
  "words_of_bytes 0 bs = []"
| "words_of_bytes (Suc n) bs = word_of_bytes (take 4 bs) # words_of_bytes n (drop 4 bs)"

definition sha_block :: "u32 list \<Rightarrow> string \<Rightarrow> u32 list" where
  "sha_block h block =
     map2 (+) h (sha_rounds (zip sha_K (rev (sha_schedule 48 (rev (words_of_bytes 16 block))))) h)"

definition sha_pad :: "string \<Rightarrow> string" where
  "sha_pad m =
     m @ [chr 128] @ replicate ((119 - length m mod 64) mod 64) (chr 0)
       @ map (\<lambda>i. chr ((8 * length m) div 256 ^ i mod 256)) [7, 6, 5, 4, 3, 2, 1, 0]"

fun sha_blocks :: "nat \<Rightarrow> u32 list \<Rightarrow> string \<Rightarrow> u32 list" where
  "sha_blocks 0 h bs = h"
| "sha_blocks (Suc n) h bs = sha_blocks n (sha_block h (take 64 bs)) (drop 64 bs)"

definition word_bytes :: "u32 \<Rightarrow> string" where
  "word_bytes w = map (\<lambda>i. chr (unat w div 256 ^ i mod 256)) [3, 2, 1, 0]"

text \<open>\<open>sha256.Sum256\<close>: the digest of the 64-byte blocks of the padded message.\<close>

definition Sum256 :: "string \<Rightarrow> string" where
  "Sum256 m = concat (map word_bytes (sha_blocks (length (sha_pad m) div 64) sha_H0 (sha_pad m)))"

text \<open>\<open>hex.EncodeToString\<close>.\<close>

definition hex_digit :: "nat \<Rightarrow> char" where
  "hex_digit n = (if n < 10 then chr (48 + n) else chr (87 + n))"

definition EncodeToString :: "string \<Rightarrow> string" where
  "EncodeToString bs = concat (map (\<lambda>c. [hex_digit (byte c div 16), hex_digit (byte c mod 16)]) bs)"

definition sha256_hex :: "string \<Rightarrow> string" where
  "sha256_hex m = EncodeToString (Sum256 m)"

text \<open>The digits the encoder writes, as the code's \<open>isHex\<close> tests them.\<close>

definition hex_char :: "char \<Rightarrow> bool" where
  "hex_char c \<longleftrightarrow> (48 \<le> byte c \<and> byte c \<le> 57) \<or> (97 \<le> byte c \<and> byte c \<le> 102)"

section \<open>The shape of a digest\<close>

lemma length_sha_rounds [simp]: "length h = 8 \<Longrightarrow> length (sha_rounds kws h) = 8"
  by (induction kws arbitrary: h) (simp_all add: sha_rounds_def sha_round_def Let_def)

lemma length_sha_block [simp]: "length h = 8 \<Longrightarrow> length (sha_block h b) = 8"
  by (simp add: sha_block_def)

lemma length_sha_blocks [simp]: "length h = 8 \<Longrightarrow> length (sha_blocks n h bs) = 8"
  by (induction n arbitrary: h bs) auto

lemma length_Sum256: "length (Sum256 m) = 32"
proof -
  have four: "length (concat (map word_bytes ws)) = 4 * length ws" for ws
    by (induction ws) (auto simp: word_bytes_def)
  have "length (sha_blocks (length (sha_pad m) div 64) sha_H0 (sha_pad m)) = 8"
    by (rule length_sha_blocks) (simp add: sha_H0_def)
  then show ?thesis by (simp add: Sum256_def four)
qed

lemma length_EncodeToString [simp]: "length (EncodeToString bs) = 2 * length bs"
  by (induction bs) (auto simp: EncodeToString_def)

lemma hex_char_hex_digit: "n < 16 \<Longrightarrow> hex_char (hex_digit n)"
  by (simp add: hex_char_def hex_digit_def)

lemma EncodeToString_hex: "list_all hex_char (EncodeToString bs)"
proof -
  have "byte c div 16 < 16" for c
    by (rule less_mult_imp_div_less) simp
  then show ?thesis
    by (induction bs) (auto simp: EncodeToString_def hex_char_hex_digit)
qed

lemma length_sha256_hex [simp]: "length (sha256_hex m) = 64"
  by (simp add: sha256_hex_def length_Sum256)

lemma sha256_hex_not_Nil [simp]: "sha256_hex m \<noteq> []"
  by (metis length_sha256_hex list.size(3) zero_neq_numeral)

lemma sha256_hex_chars: "list_all hex_char (sha256_hex m)"
  by (simp add: sha256_hex_def EncodeToString_hex)

end
