(* ===== verification/Mechanical.thy ===== *)
theory Mechanical
  imports Api Sha256 "HOL-Library.Multiset"
begin

text \<open>
  The pure core of the mechanical-CI loop: what one observation of a pull request says.
  \<open>internal/controller/observer.go\<close> (the observation, its coarse state, the identity of its
  check set), \<open>mechanical.go\<close> (the trigger-separation verdict) and the helpers of \<open>cipark.go\<close>
  that read an observation: the configured check names, the selector, the coverage verdict, the
  bounded evidence and the derived identifiers.
\<close>

section \<open>Observations\<close>

datatype CheckState = CheckStatePending | CheckStatePassed | CheckStateFailed | CheckStateUnknown
  | CheckStateOther string

record CheckObservation =
  co_Name :: string
  co_State :: CheckState
  co_Output :: string

record PRObservation =
  ob_PR :: string
  ob_Draft :: bool
  ob_Head :: string
  ob_Checks :: "CheckObservation list"
  ob_Merged :: bool

datatype observationState = observationNeedsHuman | observationPending | observationPassed
  | observationFailed | observationMerged

definition observeState :: "PRObservation \<Rightarrow> observationState" where
  "observeState ob =
     (if ob_Merged ob then observationMerged
      else if ob_PR ob = [] \<or> ob_Draft ob then observationNeedsHuman
      else if ob_Checks ob = [] then observationPending
      else if list_ex (\<lambda>c. co_State c = CheckStatePending) (ob_Checks ob) then observationPending
      else if list_ex (\<lambda>c. co_State c \<noteq> CheckStatePassed) (ob_Checks ob) then observationFailed
      else observationPassed)"

definition NUL :: string where "NUL = [chr 0]"

definition checkSetFingerprint :: "PRObservation \<Rightarrow> string" where
  "checkSetFingerprint ob =
     (if ob_Checks ob = [] then []
      else sha256_hex (ob_Head ob @ NUL @ Join (sort (map co_Name (ob_Checks ob))) NUL))"

section \<open>The trigger\<close>

datatype CIParkTrigger = CIParkHold | CIParkResumeRepair | CIParkFinish

text \<open>A nil selector is \<open>None\<close>.\<close>

type_synonym MechanicalCheckSelector = "(string \<Rightarrow> bool) option"

definition selects :: "MechanicalCheckSelector \<Rightarrow> string \<Rightarrow> bool" where
  "selects sel n = (case sel of None \<Rightarrow> False | Some f \<Rightarrow> f n)"

text \<open>The pass over the checks that collects the flags \<open>hasUnknown\<close>, \<open>hasMechanicalPending\<close> and
  \<open>hasFailed\<close>.\<close>

fun collect_flags ::
  "MechanicalCheckSelector \<Rightarrow> CheckObservation list \<Rightarrow> bool \<times> bool \<times> bool \<Rightarrow> bool \<times> bool \<times> bool" where
  "collect_flags sel [] flags = flags"
| "collect_flags sel (c # cs) (unknown, pending, failed) =
     (case co_State c of
        CheckStatePassed \<Rightarrow> collect_flags sel cs (unknown, pending, failed)
      | CheckStateFailed \<Rightarrow> collect_flags sel cs (unknown, pending, True)
      | CheckStatePending \<Rightarrow>
          collect_flags sel cs (unknown, pending \<or> selects sel (co_Name c), failed)
      | _ \<Rightarrow> collect_flags sel cs (True, pending, failed))"

definition ClassifyCIParkTrigger ::
  "PRObservation \<Rightarrow> string \<Rightarrow> MechanicalCheckSelector \<Rightarrow> int \<Rightarrow> CIParkTrigger" where
  "ClassifyCIParkTrigger ob parkedHead sel repairsRemaining =
     (if ob_Merged ob then CIParkFinish
      else if ob_PR ob = [] \<or> ob_Draft ob then CIParkFinish
      else if parkedHead = [] then CIParkFinish
      else if ob_Head ob \<noteq> parkedHead then CIParkFinish
      else if ob_Checks ob = [] then CIParkHold
      else (case collect_flags sel (ob_Checks ob) (False, False, False) of
          (hasUnknown, hasMechanicalPending, hasFailed) \<Rightarrow>
            if hasUnknown then CIParkFinish
            else if hasMechanicalPending then CIParkHold
            else if \<not> hasFailed then CIParkFinish
            else if list_ex (\<lambda>c. co_State c = CheckStateFailed \<and> \<not> selects sel (co_Name c)) (ob_Checks ob)
              then CIParkFinish
            else if repairsRemaining \<le> 0 then CIParkFinish
            else CIParkResumeRepair))"

section \<open>The lane's mechanical checks\<close>

fun normalize_names :: "string set \<Rightarrow> string list \<Rightarrow> string list" where
  "normalize_names seen [] = []"
| "normalize_names seen (n # ns) =
     (if n = [] then normalize_names seen ns
      else if n \<in> seen then normalize_names seen ns
      else n # normalize_names (insert n seen) ns)"

definition normalizedMechanicalChecks :: "string list \<Rightarrow> string list" where
  "normalizedMechanicalChecks names = normalize_names {} names"

definition mechanicalSelector :: "string list \<Rightarrow> MechanicalCheckSelector" where
  "mechanicalSelector names = Some (\<lambda>n. n \<in> set (normalizedMechanicalChecks names))"

definition publishedHead :: "CoderRun \<Rightarrow> string \<Rightarrow> string option" where
  "publishedHead run observed =
     (if observed = [] then None
      else if s_LastCommit (r_status run) \<noteq> [] then
        (if s_LastCommit (r_status run) = observed then Some observed else None)
      else (case s_Checkpoint (r_status run) of
          None \<Rightarrow> None
        | Some ck \<Rightarrow>
            if list_ex (\<lambda>b. bf_Commit b = observed) (rev (ck_CompletedBriefs ck)) then Some observed
            else None))"

definition ciparkMaxFailedChecks :: nat where "ciparkMaxFailedChecks = 20"
definition ciparkMaxCheckLogBytes :: nat where "ciparkMaxCheckLogBytes = 2 * 1024"
definition ciparkMaxRepairLogBytes :: nat where "ciparkMaxRepairLogBytes = 8 * 1024"
definition ciparkTruncatedLog :: string where "ciparkTruncatedLog = ''[truncated]''"

definition failedMechanicalChecks :: "PRObservation \<Rightarrow> MechanicalCheckSelector \<Rightarrow> string list" where
  "failedMechanicalChecks ob sel =
     (case sel of None \<Rightarrow> []
      | Some f \<Rightarrow>
          let names = sort (map co_Name
                (filter (\<lambda>c. co_State c = CheckStateFailed \<and> f (co_Name c)) (ob_Checks ob)))
          in if ciparkMaxFailedChecks < length names then take ciparkMaxFailedChecks names else names)"

section \<open>Bounded evidence\<close>

text \<open>The loop that moves the cut back to a rune boundary.\<close>

fun cut_back :: "string \<Rightarrow> nat \<Rightarrow> nat" where
  "cut_back s 0 = 0"
| "cut_back s (Suc n) =
     (if Suc n < length s \<and> \<not> RuneStart (s ! Suc n) then cut_back s n else Suc n)"

text \<open>Both callers pass a text longer than the limit, so the slice is in range.\<close>

definition ciparkCutLog :: "string \<Rightarrow> nat \<Rightarrow> string" where
  "ciparkCutLog s limit =
     (if limit \<le> length ciparkTruncatedLog then ciparkTruncatedLog
      else take (cut_back s (limit - length ciparkTruncatedLog)) s @ ciparkTruncatedLog)"

definition log_block :: "CheckObservation \<Rightarrow> string \<Rightarrow> string" where
  "log_block c output = ''--- '' @ co_Name c @ '' ---'' @ [chr 10] @ output @ [chr 10]"

fun failed_logs_loop :: "(string \<Rightarrow> bool) \<Rightarrow> CheckObservation list \<Rightarrow> string \<Rightarrow> string" where
  "failed_logs_loop f [] logs = logs"
| "failed_logs_loop f (c # cs) logs =
     (if co_State c \<noteq> CheckStateFailed \<or> \<not> f (co_Name c) then failed_logs_loop f cs logs
      else
        let output = TrimSpace (co_Output c) in
        if output = [] then failed_logs_loop f cs logs
        else
          let full = log_block c output;
              block = (if ciparkMaxCheckLogBytes < length full
                       then ciparkCutLog full ciparkMaxCheckLogBytes else full);
              remaining = ciparkMaxRepairLogBytes - length logs
          in if remaining = 0 then logs
             else if remaining < length block then
               (if remaining \<le> length ciparkTruncatedLog then logs
                else logs @ ciparkCutLog block remaining)
             else failed_logs_loop f cs (logs @ block))"

definition failedCheckLogs :: "PRObservation \<Rightarrow> MechanicalCheckSelector \<Rightarrow> string" where
  "failedCheckLogs ob sel =
     (case sel of None \<Rightarrow> [] | Some f \<Rightarrow> failed_logs_loop f (ob_Checks ob) [])"

section \<open>The coverage verdict\<close>

text \<open>The state map keeps the first state registered under a name.\<close>

fun first_states :: "CheckObservation list \<Rightarrow> (string \<rightharpoonup> CheckState) \<Rightarrow> (string \<rightharpoonup> CheckState)" where
  "first_states [] m = m"
| "first_states (c # cs) m =
     first_states cs (if m (co_Name c) = None then m(co_Name c \<mapsto> co_State c) else m)"

fun count_states :: "(string \<rightharpoonup> CheckState) \<Rightarrow> string list \<Rightarrow> nat \<times> nat \<Rightarrow> nat \<times> nat" where
  "count_states m [] (eligible, passed) = (eligible, passed)"
| "count_states m (n # ns) (eligible, passed) =
     (case m n of
        None \<Rightarrow> count_states m ns (eligible, passed)
      | Some st \<Rightarrow>
          count_states m ns (eligible + 1, if st = CheckStatePassed then passed + 1 else passed))"

definition anyCheckFailed :: "PRObservation \<Rightarrow> bool" where
  "anyCheckFailed ob = list_ex (\<lambda>c. co_State c = CheckStateFailed) (ob_Checks ob)"

definition mechanicalVerdict :: "PRObservation \<Rightarrow> string list \<Rightarrow> bool \<times> nat" where
  "mechanicalVerdict ob configuredNames =
     (let configured = normalizedMechanicalChecks configuredNames in
      if configured = [] then (False, 0)
      else
        (case count_states (first_states (ob_Checks ob) Map.empty) configured (0, 0) of
          (eligible, passed) \<Rightarrow>
            if eligible \<noteq> length configured \<or> passed \<noteq> eligible then (False, eligible)
            else if list_ex (\<lambda>c. co_State c = CheckStateFailed) (ob_Checks ob) then (False, eligible)
            else (True, eligible)))"

section \<open>Derived identifiers\<close>

definition ciparkDigest :: "string list \<Rightarrow> string" where
  "ciparkDigest parts = sha256_hex (Join parts NUL)"

definition ciparkFenceToken :: "CoderRun \<Rightarrow> int \<Rightarrow> string" where
  "ciparkFenceToken run attempt = ciparkDigest [m_UID (r_meta run), ''fence'', Itoa attempt]"

definition ciparkParkKey :: "CoderRun \<Rightarrow> string \<Rightarrow> string" where
  "ciparkParkKey run head = ciparkDigest [m_UID (r_meta run), ''park'', head]"

definition ciparkRepairKey :: "CoderRun \<Rightarrow> int \<Rightarrow> string" where
  "ciparkRepairKey run attempt = ciparkDigest [m_UID (r_meta run), ''repair-key'', Itoa attempt]"

section \<open>Facts about the trigger\<close>

definition unrecognized :: "CheckState \<Rightarrow> bool" where
  "unrecognized st \<longleftrightarrow> st \<notin> {CheckStatePassed, CheckStateFailed, CheckStatePending}"

lemma collect_flags_eq:
  "collect_flags sel cs (u, p, f) =
     (u \<or> (\<exists>c \<in> set cs. unrecognized (co_State c)),
      p \<or> (\<exists>c \<in> set cs. co_State c = CheckStatePending \<and> selects sel (co_Name c)),
      f \<or> (\<exists>c \<in> set cs. co_State c = CheckStateFailed))"
  by (induction sel cs "(u, p, f)" arbitrary: u p f rule: collect_flags.induct)
    (auto simp: unrecognized_def split: CheckState.split)

lemma set_normalize_names: "set (normalize_names seen ns) = {n \<in> set ns. n \<noteq> [] \<and> n \<notin> seen}"
  by (induction seen ns rule: normalize_names.induct) auto

lemma distinct_normalize_names: "distinct (normalize_names seen ns)"
  by (induction seen ns rule: normalize_names.induct) (auto simp: set_normalize_names)

lemma set_normalizedMechanicalChecks [simp]:
  "set (normalizedMechanicalChecks names) = {n \<in> set names. n \<noteq> []}"
  by (simp add: normalizedMechanicalChecks_def set_normalize_names)

lemma normalizedMechanicalChecks_Nil_iff:
  "normalizedMechanicalChecks names = [] \<longleftrightarrow> (\<forall>n \<in> set names. n = [])"
proof -
  have "normalizedMechanicalChecks names = [] \<longleftrightarrow> set (normalizedMechanicalChecks names) = {}"
    by (simp only: set_empty)
  also have "\<dots> \<longleftrightarrow> (\<forall>n \<in> set names. n = [])"
    unfolding set_normalizedMechanicalChecks by auto
  finally show ?thesis .
qed

lemma selects_mechanicalSelector [simp]:
  "selects (mechanicalSelector names) n \<longleftrightarrow> n \<in> set names \<and> n \<noteq> []"
  by (simp add: selects_def mechanicalSelector_def)

text \<open>The verdict as a function of what the checks say, without the passes.\<close>

lemma Classify_eq:
  assumes "\<not> ob_Merged ob" and "ob_PR ob \<noteq> []" and "\<not> ob_Draft ob"
    and "h \<noteq> []" and "ob_Head ob = h" and "ob_Checks ob \<noteq> []"
  shows "ClassifyCIParkTrigger ob h sel n =
     (if \<exists>c \<in> set (ob_Checks ob). unrecognized (co_State c) then CIParkFinish
      else if \<exists>c \<in> set (ob_Checks ob). co_State c = CheckStatePending \<and> selects sel (co_Name c)
        then CIParkHold
      else if (\<exists>c \<in> set (ob_Checks ob). co_State c = CheckStateFailed)
          \<and> (\<forall>c \<in> set (ob_Checks ob). co_State c = CheckStateFailed \<longrightarrow> selects sel (co_Name c))
          \<and> 0 < n
        then CIParkResumeRepair
      else CIParkFinish)"
  using assms
  by (auto simp: ClassifyCIParkTrigger_def collect_flags_eq list_ex_iff not_less split: if_splits)

lemma Classify_not_observable:
  "ob_Merged ob \<or> ob_PR ob = [] \<or> ob_Draft ob \<or> h = [] \<or> ob_Head ob \<noteq> h \<Longrightarrow>
     ClassifyCIParkTrigger ob h sel n = CIParkFinish"
  by (auto simp: ClassifyCIParkTrigger_def)

section \<open>Facts about the coverage verdict\<close>

definition state_of :: "PRObservation \<Rightarrow> string \<rightharpoonup> CheckState" where
  "state_of ob = map_of (map (\<lambda>c. (co_Name c, co_State c)) (ob_Checks ob))"

lemma first_states_eq:
  "first_states cs m = map_of (map (\<lambda>c. (co_Name c, co_State c)) cs) ++ m"
proof (induction cs m rule: first_states.induct)
  case (2 c cs m)
  then show ?case by (auto simp: fun_eq_iff map_add_def split: option.split)
qed simp

lemma first_states_state_of: "first_states (ob_Checks ob) Map.empty = state_of ob"
  by (simp add: first_states_eq state_of_def)

lemma count_states_eq:
  "count_states m ns (e, p) =
     (e + length (filter (\<lambda>n. m n \<noteq> None) ns), p + length (filter (\<lambda>n. m n = Some CheckStatePassed) ns))"
  by (induction m ns "(e, p)" arbitrary: e p rule: count_states.induct) (auto split: option.split)

lemma mechanicalVerdict_green:
  "fst (mechanicalVerdict ob names) \<longleftrightarrow>
     (\<exists>n \<in> set names. n \<noteq> []) \<and>
     (\<forall>n \<in> set names. n \<noteq> [] \<longrightarrow> state_of ob n = Some CheckStatePassed) \<and>
     \<not> anyCheckFailed ob"
proof -
  define N where "N = normalizedMechanicalChecks names"
  define e where "e = length (filter (\<lambda>n. state_of ob n \<noteq> None) N)"
  define p where "p = length (filter (\<lambda>n. state_of ob n = Some CheckStatePassed) N)"
  have full: "e = length N \<and> p = e \<longleftrightarrow> (\<forall>n \<in> set N. state_of ob n = Some CheckStatePassed)"
    unfolding e_def p_def by (auto simp: filter_full_length_iff)
  have "fst (mechanicalVerdict ob names) \<longleftrightarrow> N \<noteq> [] \<and> (e = length N \<and> p = e) \<and> \<not> anyCheckFailed ob"
    by (auto simp: mechanicalVerdict_def Let_def first_states_state_of count_states_eq
        anyCheckFailed_def N_def e_def p_def)
  then show ?thesis
    unfolding full unfolding N_def normalizedMechanicalChecks_Nil_iff set_normalizedMechanicalChecks
    by auto
qed

lemma mechanicalVerdict_eligible:
  "snd (mechanicalVerdict ob names) \<le> length (normalizedMechanicalChecks names)"
  by (auto simp: mechanicalVerdict_def Let_def first_states_state_of count_states_eq
      intro: le_trans [OF length_filter_le])

section \<open>Facts about the evidence\<close>

lemma cut_back_le: "cut_back s n \<le> n"
  by (induction s n rule: cut_back.induct) auto

lemma cut_back_boundary:
  "cut_back s n = 0 \<or> length s \<le> cut_back s n \<or> RuneStart (s ! cut_back s n)"
  by (induction s n rule: cut_back.induct) (auto split: if_splits)

lemma length_ciparkCutLog: "length ciparkTruncatedLog \<le> limit \<Longrightarrow> length (ciparkCutLog s limit) \<le> limit"
  using cut_back_le [of s "limit - length ciparkTruncatedLog"] by (auto simp: ciparkCutLog_def)

lemma failed_logs_loop_bound:
  "length logs \<le> ciparkMaxRepairLogBytes \<Longrightarrow>
     length (failed_logs_loop f cs logs) \<le> ciparkMaxRepairLogBytes"
proof (induction cs arbitrary: logs)
  case (Cons c cs)
  define block where "block = (let full = log_block c (TrimSpace (co_Output c)) in
    if ciparkMaxCheckLogBytes < length full then ciparkCutLog full ciparkMaxCheckLogBytes else full)"
  define remaining where "remaining = ciparkMaxRepairLogBytes - length logs"
  have eq: "failed_logs_loop f (c # cs) logs =
     (if co_State c \<noteq> CheckStateFailed \<or> \<not> f (co_Name c) \<or> TrimSpace (co_Output c) = []
      then failed_logs_loop f cs logs
      else if remaining = 0 then logs
      else if remaining < length block then
        (if remaining \<le> length ciparkTruncatedLog then logs else logs @ ciparkCutLog block remaining)
      else failed_logs_loop f cs (logs @ block))"
    by (simp add: block_def remaining_def Let_def)
  have cut: "length ciparkTruncatedLog < remaining \<Longrightarrow>
      length (logs @ ciparkCutLog block remaining) \<le> ciparkMaxRepairLogBytes"
    using length_ciparkCutLog [of remaining block] Cons.prems by (simp add: remaining_def)
  have fits: "\<not> remaining < length block \<Longrightarrow> length (logs @ block) \<le> ciparkMaxRepairLogBytes"
    using Cons.prems by (simp add: remaining_def)
  show ?case
    unfolding eq using Cons.IH [OF Cons.prems] Cons.IH [OF fits] cut Cons.prems by simp
qed simp

lemma ValidString_ciparkCutLog: "ValidString s \<Longrightarrow> ValidString (ciparkCutLog s limit)"
proof -
  assume s: "ValidString s"
  have marker: "ValidString ciparkTruncatedLog"
    by (simp add: ciparkTruncatedLog_def ValidString.simps byte_def Let_def)
  show ?thesis
    using ValidString_append [OF ValidString_take [OF s cut_back_boundary] marker] marker
    by (simp add: ciparkCutLog_def)
qed

lemma ValidString_log_block:
  "ValidString (co_Name c) \<Longrightarrow> ValidString out \<Longrightarrow> ValidString (log_block c out)"
  unfolding log_block_def
  by (intro ValidString_append) (simp_all add: ValidString.simps byte_def chr_def Let_def)

lemma failed_logs_loop_valid:
  "ValidString logs \<Longrightarrow> \<forall>c \<in> set cs. ValidString (co_Name c) \<and> ValidString (co_Output c) \<Longrightarrow>
     ValidString (failed_logs_loop f cs logs)"
proof (induction cs arbitrary: logs)
  case (Cons c cs)
  have full: "ValidString (log_block c (TrimSpace (co_Output c)))"
    using Cons.prems by (simp add: ValidString_log_block ValidString_TrimSpace)
  then show ?case
    using Cons by (auto simp: Let_def ValidString_append ValidString_ciparkCutLog)
qed simp

section \<open>What the pure core guarantees\<close>


text \<open>C36: the verdict does not depend on the order in which the forge lists the checks, nor on
  repetitions of an identical check.\<close>

theorem classify_order_irrelevant:
  assumes "set cs = set ds"
  shows "ClassifyCIParkTrigger (ob\<lparr>ob_Checks := cs\<rparr>) h sel n
       = ClassifyCIParkTrigger (ob\<lparr>ob_Checks := ds\<rparr>) h sel n"
proof -
  have "cs = [] \<longleftrightarrow> ds = []" using assms by auto
  with assms show ?thesis
    by (simp add: ClassifyCIParkTrigger_def collect_flags_eq list_ex_iff cong: if_cong split del: if_split)
qed

definition sample_observation :: PRObservation where
  "sample_observation = \<lparr>ob_PR = ''7'', ob_Draft = False, ob_Head = ''abc'',
     ob_Checks = [\<lparr>co_Name = ''lint'', co_State = CheckStateFailed, co_Output = ''E501''\<rparr>,
                  \<lparr>co_Name = ''unit'', co_State = CheckStatePassed, co_Output = []\<rparr>],
     ob_Merged = False\<rparr>"

theorem classify_order_irrelevant_witness:
  "ClassifyCIParkTrigger
     (sample_observation\<lparr>ob_Checks := [\<lparr>co_Name = ''lint'', co_State = CheckStateFailed, co_Output = []\<rparr>,
        \<lparr>co_Name = ''unit'', co_State = CheckStatePassed, co_Output = []\<rparr>]\<rparr>)
     ''abc'' (mechanicalSelector [''lint'']) 1
   = ClassifyCIParkTrigger
     (sample_observation\<lparr>ob_Checks := [\<lparr>co_Name = ''unit'', co_State = CheckStatePassed, co_Output = []\<rparr>,
        \<lparr>co_Name = ''lint'', co_State = CheckStateFailed, co_Output = []\<rparr>]\<rparr>)
     ''abc'' (mechanicalSelector [''lint'']) 1"
  by (rule classify_order_irrelevant) auto

text \<open>C37: a run claims mechanical green exactly when the lane names at least one check, every named
  check is registered and its first registration passed, and no check of any kind failed.\<close>

theorem green_requires_coverage:
  "fst (mechanicalVerdict ob names) \<longleftrightarrow>
     (\<exists>n \<in> set names. n \<noteq> []) \<and>
     {n \<in> set names. n \<noteq> []} \<subseteq> {n. state_of ob n = Some CheckStatePassed} \<and>
     \<not> anyCheckFailed ob"
  unfolding mechanicalVerdict_green by auto

text \<open>C38: the evidence a repair context carries is at most 8 KiB, whatever the checks printed, and
  it is valid UTF-8 when the names and outputs of the checks are: no cut splits a rune.\<close>

theorem repair_evidence_bounded:
  "length (failedCheckLogs ob sel) \<le> 8192 \<and>
   (list_all (\<lambda>c. ValidString (co_Name c) \<and> ValidString (co_Output c)) (ob_Checks ob) \<longrightarrow>
      ValidString (failedCheckLogs ob sel))"
proof (cases sel)
  case (Some f)
  have "length (failed_logs_loop f (ob_Checks ob) []) \<le> 8192"
    using failed_logs_loop_bound [of "[]" f "ob_Checks ob"] by (simp add: ciparkMaxRepairLogBytes_def)
  with Some show ?thesis by (simp add: failedCheckLogs_def failed_logs_loop_valid list_all_iff)
qed (simp add: failedCheckLogs_def)

theorem repair_evidence_bounded_witness:
  "ValidString (failedCheckLogs sample_observation (mechanicalSelector [''lint'']))"
  by (rule repair_evidence_bounded [THEN conjunct2, rule_format])
    (simp add: sample_observation_def ValidString.simps byte_def Let_def)

text \<open>C39: two observations of the same head that list the same checks, in any order and in any
  states, have the same check-set fingerprint; an observation with a check always has one.\<close>

theorem fingerprint_ignores_state_and_order:
  assumes "ob_Head a = ob_Head b" and "mset (map co_Name (ob_Checks a)) = mset (map co_Name (ob_Checks b))"
  shows "checkSetFingerprint a = checkSetFingerprint b \<and>
         (checkSetFingerprint a = [] \<longleftrightarrow> ob_Checks a = [])"
proof -
  have "ob_Checks a = [] \<longleftrightarrow> ob_Checks b = []"
    using assms(2) by auto
  moreover have "sort (map co_Name (ob_Checks a)) = sort (map co_Name (ob_Checks b))"
    using assms(2) by (metis properties_for_sort mset_sort sorted_sort)
  ultimately show ?thesis using assms(1) by (simp add: checkSetFingerprint_def)
qed

theorem fingerprint_ignores_state_and_order_witness:
  "checkSetFingerprint sample_observation
   = checkSetFingerprint (sample_observation\<lparr>ob_Checks :=
       [\<lparr>co_Name = ''unit'', co_State = CheckStatePending, co_Output = []\<rparr>,
        \<lparr>co_Name = ''lint'', co_State = CheckStatePassed, co_Output = []\<rparr>]\<rparr>)"
  by (rule fingerprint_ignores_state_and_order [THEN conjunct1]) (simp_all add: sample_observation_def)

end
