(* ===== verification/Pods.thy ===== *)
theory Pods
  imports Api Sha256
begin

text \<open>
  The coordinator's pod as the operator reads it. The run label
  (\<open>internal/executor/pod.go\<close>, \<open>internal/topology/names.go\<close>), which pods belong to a run, the
  coordinator's termination (\<open>coderun_controller.go\<close>: the validated handoff, the phase an exit or
  a trusted native result leads to) and the durable diagnostic (\<open>diagnostics.go\<close>).

  Two functions are arguments: \<open>dec\<close> decodes the JSON payload of a termination message into its
  fields (\<open>None\<close> where \<open>json.Unmarshal\<close> fails; \<open>Handoff\<close> defines the operator's decoder), and \<open>red\<close> is the pattern redactor of
  \<open>internal/log\<close>, which is not modelled; no theorem assumes anything about either.
\<close>

section \<open>Labels\<close>

text \<open>\<open>strings.Trim\<close> and \<open>TrimRight\<close> with the cut set \<open>-_.\<close>.\<close>

definition label_cut :: "char \<Rightarrow> bool" where
  "label_cut c \<longleftrightarrow> c \<in> {CHR ''-'', CHR ''_'', CHR ''.''}"

definition trim_right_cut :: "string \<Rightarrow> string" where
  "trim_right_cut s = rev (dropWhile label_cut (rev s))"

definition trim_cut :: "string \<Rightarrow> string" where
  "trim_cut s = trim_right_cut (dropWhile label_cut s)"

definition label_char :: "char \<Rightarrow> bool" where
  "label_char c \<longleftrightarrow> (97 \<le> byte c \<and> byte c \<le> 122) \<or> is_digit c \<or> label_cut c"

text \<open>
  The loop over the runes of the lower-cased name: a rune outside the label alphabet, of whatever
  width, becomes one hyphen. Of the runes beyond ASCII only U+0130 and U+212A lower to ASCII letters.
\<close>

function sanitize_runes :: "string \<Rightarrow> string" where
  "sanitize_runes s =
     (if s = [] then []
      else
        let w = max 1 (rune_width s); r = take w s;
            c = (if w = 1 then ascii_lower (hd s)
                 else if r = [chr 196, chr 176] then CHR ''i''
                 else if r = [chr 226, chr 132, chr 170] then CHR ''k''
                 else CHR ''-'')
        in (if label_char c then c else CHR ''-'') # sanitize_runes (drop w s))"
  by pat_completeness auto
termination
  by (relation "measure length") (auto simp: length_greater_0_conv)

declare sanitize_runes.simps [simp del]

definition sanitizeLabelValue :: "string \<Rightarrow> string" where
  "sanitizeLabelValue value =
     (let v = trim_cut (sanitize_runes (TrimSpace value)) in if v = [] then ''unknown'' else v)"

definition RunLabelValue :: "string \<Rightarrow> string" where
  "RunLabelValue name =
     (let sanitized = sanitizeLabelValue name in
      if length sanitized \<le> 63 then sanitized
      else
        let hash = take 8 (sha256_hex name); cut = 63 - length hash - 1
        in trim_right_cut (take cut sanitized) @ ''-'' @ hash)"

text \<open>The copy of the scheme in \<open>internal/topology\<close>.\<close>

definition topology_RunLabelValue :: "string \<Rightarrow> string" where
  "topology_RunLabelValue runName =
     (let sanitized = sanitizeLabelValue runName in
      if length sanitized \<le> 63 then sanitized
      else
        let hash = take 8 (sha256_hex runName); cut = 63 - length hash - 1
        in trim_right_cut (take cut sanitized) @ ''-'' @ hash)"

definition LegacyRunLabelValue :: "string \<Rightarrow> string" where
  "LegacyRunLabelValue name =
     (let sanitized = sanitizeLabelValue name in
      if 63 < length sanitized then trim_right_cut (take 63 sanitized) else sanitized)"

section \<open>Pods\<close>

datatype PodPhase = PodPending | PodRunning | PodSucceeded | PodFailed | PodUnknown

record Terminated =
  tm_ExitCode :: int
  tm_Reason :: string
  tm_Message :: string
  tm_StartedAt :: time
  tm_FinishedAt :: time

record ContainerStatus =
  cs_Name :: string
  cs_Running :: "time option"
  cs_Terminated :: "Terminated option"
  cs_ContainerID :: string
  cs_Image :: string
  cs_RestartCount :: int

record OwnerReference =
  ow_APIVersion :: string
  ow_Kind :: string
  ow_Name :: string
  ow_UID :: string
  ow_Controller :: "bool option"

text \<open>The part of a pod's specification the workspace observation inspects.\<close>

record SecurityContext =
  sc_RunAsUser :: "int option"
  sc_AllowPrivilegeEscalation :: "bool option"
  sc_Privileged :: "bool option"

record VolumeMount =
  vm_Name :: string
  vm_ReadOnly :: bool

record Container =
  ct_Name :: string
  ct_Image :: string
  ct_Command :: "string list"
  ct_Args :: "string list"
  ct_TerminationMessagePath :: string
  ct_TerminationMessagePolicy :: string
  ct_SecurityContext :: "SecurityContext option"
  ct_VolumeMounts :: "VolumeMount list"
  ct_EnvFrom :: "string list"

record PodSpec =
  ps_RestartPolicy :: string
  ps_HostPID :: bool
  ps_ShareProcessNamespace :: "bool option"
  ps_Containers :: "Container list"
  ps_InitContainers :: "Container list"
  ps_AutomountServiceAccountToken :: "bool option"
  ps_NodeName :: string

record Pod =
  po_Name :: string
  po_Namespace :: string
  po_UID :: string
  po_RunLabel :: string
  po_Owners :: "OwnerReference list"
  po_Annotations :: "(string \<times> string) list"
  po_Spec :: PodSpec
  po_Phase :: PodPhase
  po_Reason :: string
  po_CreationTimestamp :: time
  po_DeletionTimestamp :: "time option"
  po_ContainerStatuses :: "ContainerStatus list"
  po_InitContainerStatuses :: "ContainerStatus list"

abbreviation "coordinatorContainerName \<equiv> ''coordinator''"
abbreviation "WorkerContainerName \<equiv> ''worker''"

definition hasCoordinatorContainer :: "Pod \<Rightarrow> bool" where
  "hasCoordinatorContainer pod = list_ex (\<lambda>c. ct_Name c = coordinatorContainerName) (ps_Containers (po_Spec pod))"

definition podBelongsToRun :: "Pod \<Rightarrow> CoderRun \<Rightarrow> bool" where
  "podBelongsToRun pod run =
     (let name = m_Name (r_meta run) in
      if po_Namespace pod \<noteq> m_Namespace (r_meta run) then False
      else if list_ex (\<lambda>o'. ow_Controller o' = Some True \<and> ow_Name o' = name \<and> ow_Kind o' = ''CoderRun'')
                (po_Owners pod) then True
      else po_RunLabel pod = RunLabelValue name \<or> po_RunLabel pod = topology_RunLabelValue name
        \<or> po_RunLabel pod = LegacyRunLabelValue name)"

definition coordinatorPodOf :: "Pod list \<Rightarrow> CoderRun \<Rightarrow> Pod option" where
  "coordinatorPodOf pods run =
     find (\<lambda>pod. podBelongsToRun pod run \<and> hasCoordinatorContainer pod \<and> po_DeletionTimestamp pod = None) pods"

section \<open>The termination of the coordinator\<close>

record terminationMessage =
  te_Phase :: string
  te_Result :: string
  te_ExitCode :: int
  te_Reason :: string
  te_Outcome :: string
  te_ResultKind :: string
  te_Category :: string
  te_Summary :: "RunTelemetry option"
  te_WorkspaceSafety :: "WorkspaceSafetyEvidence option"

type_synonym decoder = "string \<Rightarrow> terminationMessage option"

definition boundedWorkspaceSafety :: "WorkspaceSafetyEvidence option \<Rightarrow> WorkspaceSafetyEvidence option" where
  "boundedWorkspaceSafety ev =
     (case ev of None \<Rightarrow> None
      | Some e \<Rightarrow>
          if ws_State e \<notin> {''clean'', ''dirty'', ''empty'', ''unknown'', ''pushed''} then None
          else
            let bound = (\<lambda>value m. if m < length value then [] else value)
            in Some \<lparr>ws_State = ws_State e, ws_Branch = bound (ws_Branch e) 256,
                 ws_Head = bound (ws_Head e) 128, ws_RemoteHead = bound (ws_RemoteHead e) 128\<rparr>)"

definition exitDeclaredNoChange :: int where "exitDeclaredNoChange = 3"
definition exitNeedsHuman :: int where "exitNeedsHuman = 2"

definition validTerminationPhaseResult :: "int \<Rightarrow> string \<Rightarrow> string \<Rightarrow> bool" where
  "validTerminationPhaseResult exitCode phase result =
     (if exitCode = 0 then phase = ''Verifying'' \<and> result = ''success''
      else if exitCode = 2 then phase = ''NeedsHuman'' \<and> result = ''needs-human''
      else if exitCode = exitDeclaredNoChange then phase = ''NoChangeNeeded'' \<and> result = ''success''
      else phase = ''Failed'' \<and> result = ''failure'')"

abbreviation "handoffPrefix \<equiv> ''COURIER_TERMINATION ''"

text \<open>The first terminated status of the coordinator container decides.\<close>

definition coordinatorTerminated :: "Pod \<Rightarrow> Terminated option" where
  "coordinatorTerminated pod =
     (case find (\<lambda>cs. cs_Name cs = coordinatorContainerName \<and> cs_Terminated cs \<noteq> None)
             (po_ContainerStatuses pod) of
        None \<Rightarrow> None
      | Some cs \<Rightarrow> cs_Terminated cs)"

definition parseCoordinatorTermination :: "decoder \<Rightarrow> Pod option \<Rightarrow> terminationMessage option" where
  "parseCoordinatorTermination dec pod =
     (case pod of None \<Rightarrow> None
      | Some pod \<Rightarrow> (case coordinatorTerminated pod of None \<Rightarrow> None
          | Some t \<Rightarrow>
              (case CutPrefix (TrimSpace (tm_Message t)) handoffPrefix of (payload, ok) \<Rightarrow>
                 if \<not> ok then None
                 else (case dec payload of None \<Rightarrow> None
                     | Some m \<Rightarrow>
                         if te_ExitCode m \<noteq> tm_ExitCode t
                            \<or> \<not> validTerminationPhaseResult (tm_ExitCode t) (te_Phase m) (te_Result m)
                         then None else Some m))))"

definition coordinatorHandoffCategory :: "decoder \<Rightarrow> Pod option \<Rightarrow> string" where
  "coordinatorHandoffCategory dec pod =
     (case parseCoordinatorTermination dec pod of None \<Rightarrow> [] | Some m \<Rightarrow> TrimSpace (te_Category m))"

definition coordinatorHandoffValid :: "decoder \<Rightarrow> Pod option \<Rightarrow> bool" where
  "coordinatorHandoffValid dec pod \<longleftrightarrow> parseCoordinatorTermination dec pod \<noteq> None"

text \<open>\<open>coordinatorTermination\<close>: \<open>None\<close> where the last result is false.\<close>

definition coordinatorTermination ::
  "decoder \<Rightarrow> Pod option \<Rightarrow> (int \<times> string \<times> string \<times> RunTelemetry option) option" where
  "coordinatorTermination dec pod =
     (case pod of None \<Rightarrow> None
      | Some p \<Rightarrow> (case coordinatorTerminated p of None \<Rightarrow> None
          | Some t \<Rightarrow>
              (case parseCoordinatorTermination dec (Some p) of
                 None \<Rightarrow> Some (tm_ExitCode t, [], [], None)
               | Some m \<Rightarrow>
                   Some (tm_ExitCode t, TrimSpace (te_Reason m), TrimSpace (te_Outcome m), te_Summary m))))"

definition coordinatorPodUnrecoverable :: "decoder \<Rightarrow> Pod \<Rightarrow> bool" where
  "coordinatorPodUnrecoverable dec pod =
     (if po_Phase pod \<noteq> PodFailed \<and> po_Phase pod \<noteq> PodSucceeded then False
      else coordinatorTermination dec (Some pod) = None)"

text \<open>The zero time where the pod records no start.\<close>

fun coordinator_start :: "ContainerStatus list \<Rightarrow> time option" where
  "coordinator_start [] = None"
| "coordinator_start (cs # css) =
     (if cs_Name cs \<noteq> coordinatorContainerName then coordinator_start css
      else (case cs_Running cs of
          Some t \<Rightarrow> Some t
        | None \<Rightarrow> (case cs_Terminated cs of
              Some tm \<Rightarrow> Some (tm_StartedAt tm)
            | None \<Rightarrow> coordinator_start css)))"

definition coordinatorContainerStart :: "Pod \<Rightarrow> time option" where
  "coordinatorContainerStart pod = coordinator_start (po_ContainerStatuses pod)"

section \<open>From an exit to a phase\<close>

abbreviation "outcomeBlockedExternal \<equiv> ''blocked_external''"
abbreviation "outcomeCapacityExhausted \<equiv> ''capacity_exhausted''"

definition phaseForExit :: "Mode \<Rightarrow> int \<Rightarrow> string \<Rightarrow> Phase" where
  "phaseForExit mode exitCode outcome =
     (if exitCode = 0 then PhaseVerifying
      else if exitCode = 2 then
        (if outcome = outcomeBlockedExternal \<or> outcome = outcomeCapacityExhausted
         then PhaseBlockedExternal else PhaseNeedsHuman)
      else if exitCode = exitDeclaredNoChange then
        (case mode of
           ModeFixPR \<Rightarrow> PhaseVerifying
         | ModeRebase \<Rightarrow> PhaseVerifying
         | ModeResolveIssue \<Rightarrow> PhaseNeedsHuman
         | _ \<Rightarrow> PhaseAwaitingReview)
      else PhaseFailed)"

definition phaseForNativeResult :: "Mode \<Rightarrow> NativeResultKind \<Rightarrow> Phase" where
  "phaseForNativeResult mode kind =
     (case kind of
        NativeResultPublished \<Rightarrow> PhaseVerifying
      | NativeResultNoChange \<Rightarrow>
          if mode = ModeFixPR then PhaseVerifying
          else if mode = ModeResolveIssue then PhaseNeedsHuman
          else PhaseAwaitingReview
      | NativeResultNeedsHuman \<Rightarrow> PhaseNeedsHuman
      | NativeResultBlockedExternal \<Rightarrow> PhaseBlockedExternal
      | NativeResultCapacityExhausted \<Rightarrow> PhaseBlockedExternal
      | _ \<Rightarrow> PhaseFailed)"

text \<open>The kind a wire string names; \<open>None\<close> for an unrecognised one.\<close>

definition native_kind :: "string \<Rightarrow> NativeResultKind option" where
  "native_kind s =
     (if s = ''published'' then Some NativeResultPublished
      else if s = ''no_change'' then Some NativeResultNoChange
      else if s = ''needs_human'' then Some NativeResultNeedsHuman
      else if s = ''blocked_external'' then Some NativeResultBlockedExternal
      else if s = ''capacity_exhausted'' then Some NativeResultCapacityExhausted
      else if s = ''workload_failed'' then Some NativeResultWorkloadFailed
      else if s = ''infrastructure_failed'' then Some NativeResultInfrastructureFailed
      else None)"

definition nativeResultKindOf :: "terminationMessage \<Rightarrow> NativeResultKind option" where
  "nativeResultKindOf m = native_kind (TrimSpace (te_ResultKind m))"

text \<open>A persisted kind is recognised unless it is \<open>NativeResultOther\<close>, which may still trim to a
  recognised one.\<close>

definition recognised_kind :: "NativeResultKind \<Rightarrow> bool" where
  "recognised_kind kind =
     (case kind of NativeResultOther s \<Rightarrow> native_kind (TrimSpace s) \<noteq> None | _ \<Rightarrow> True)"

definition trustedNativeResult :: "decoder \<Rightarrow> CoderRun \<Rightarrow> Pod option \<Rightarrow> (NativeResultKind \<times> string) option" where
  "trustedNativeResult dec run pod =
     (case pod of None \<Rightarrow> None
      | Some p \<Rightarrow>
          let handoff =
            (case parseCoordinatorTermination dec pod of None \<Rightarrow> None
             | Some m \<Rightarrow> (case nativeResultKindOf m of None \<Rightarrow> None
                 | Some kind \<Rightarrow> Some (kind, TrimSpace (te_Reason m))))
          in (case s_NativeResult (r_status run) of
                None \<Rightarrow> handoff
              | Some result \<Rightarrow>
                  if nr_CoordinatorPodUID result = po_UID p \<and> recognised_kind (nr_Kind result)
                  then Some (nr_Kind result, nr_Reason result) else handoff))"

definition resolveIssueNoChangePhase :: "CoderRun \<Rightarrow> string \<Rightarrow> Phase \<times> bool" where
  "resolveIssueNoChangePhase run podUID =
     (case s_NoChange (r_status run) of
        None \<Rightarrow> (PhaseNeedsHuman, False)
      | Some nc \<Rightarrow> if ncc_CoordinatorPodUID nc = podUID then (PhaseAlreadyDone, True) else (PhaseNeedsHuman, False))"

section \<open>The terminal diagnostic\<close>

definition MaxTerminationLineBytes :: nat where "MaxTerminationLineBytes = 4096"
definition terminalDiagnosticReasonBytes :: nat where "terminalDiagnosticReasonBytes = 1024"
definition terminalContainerReasonBytes :: nat where "terminalContainerReasonBytes = 128"
abbreviation "terminalDiagnosticReasonSuffix \<equiv> ''... [truncated]''"
abbreviation "wedgedReapDiagnosticReason \<equiv> ''coordinator was reaped as wedged after no successful activity''"

definition allowlistedContainerReasons :: "string list" where
  "allowlistedContainerReasons = [''Completed'', ''Error'', ''OOMKilled'', ''ContainerStatusUnknown'',
     ''Evicted'', ''DeadlineExceeded'', ''Preempt'']"

definition allowlistedPodReasons :: "string list" where
  "allowlistedPodReasons = [''Evicted'', ''NodeAffinity'', ''NodeLost'', ''Shutdown'', ''Unschedulable'',
     ''UnexpectedAdmissionError'', ''Error'', ''ContainerStatusUnknown'']"

definition isAllowlistedContainerReason :: "string \<Rightarrow> bool" where
  "isAllowlistedContainerReason reason \<longleftrightarrow> reason \<noteq> [] \<and> reason \<in> set allowlistedContainerReasons"

definition isAllowlistedPodReason :: "string \<Rightarrow> bool" where
  "isAllowlistedPodReason reason \<longleftrightarrow> reason \<noteq> [] \<and> reason \<in> set allowlistedPodReasons"

definition isInfraContainerReason :: "string \<Rightarrow> bool" where
  "isInfraContainerReason reason \<longleftrightarrow>
     reason \<in> {''OOMKilled'', ''ContainerStatusUnknown'', ''Evicted'', ''DeadlineExceeded'', ''Preempt''}"

definition isInfraPodReason :: "string \<Rightarrow> bool" where
  "isInfraPodReason reason \<longleftrightarrow>
     reason \<in> {''Evicted'', ''NodeAffinity'', ''NodeLost'', ''Unschedulable'', ''UnexpectedAdmissionError'',
        ''ContainerStatusUnknown''}"

definition boundedContainerTerminationReason :: "string \<Rightarrow> string" where
  "boundedContainerTerminationReason reason =
     (let r = TrimSpace reason in
      if \<not> isAllowlistedContainerReason r then []
      else if terminalContainerReasonBytes < length r then take terminalContainerReasonBytes r
      else r)"

text \<open>The category a wire string names.\<close>

definition category_of :: "string \<Rightarrow> TerminalDiagnosticCategory option" where
  "category_of s =
     (if s = ''executor-crash'' then Some CategoryExecutorCrash
      else if s = ''model-transport-error'' then Some CategoryModelTransportError
      else if s = ''continuation-exhaustion'' then Some CategoryContinuationExhaustion
      else if s = ''verifier-rejection'' then Some CategoryVerifierRejection
      else if s = ''kubernetes-failure'' then Some CategoryKubernetesFailure
      else if s = ''needs-decision'' then Some CategoryNeedsDecision
      else if s = ''blocked-external'' then Some CategoryBlockedExternal
      else if s = ''capacity-exhaustion'' then Some CategoryCapacityExhaustion
      else if s = ''provider-unavailable'' then Some CategoryProviderUnavailable
      else if s = ''forge-unavailable'' then Some CategoryForgeUnavailable
      else if s = ''workload-failure'' then Some CategoryWorkloadFailure
      else if s = ''infrastructure-failure'' then Some CategoryInfrastructureFailure
      else if s = ''unknown'' then Some CategoryUnknown
      else None)"

definition categoryForNativeResultKind :: "NativeResultKind option \<Rightarrow> TerminalDiagnosticCategory option" where
  "categoryForNativeResultKind kind =
     (case kind of
        Some NativeResultNeedsHuman \<Rightarrow> Some CategoryNeedsDecision
      | Some NativeResultBlockedExternal \<Rightarrow> Some CategoryBlockedExternal
      | Some NativeResultCapacityExhausted \<Rightarrow> Some CategoryCapacityExhaustion
      | Some NativeResultWorkloadFailed \<Rightarrow> Some CategoryWorkloadFailure
      | Some NativeResultInfrastructureFailed \<Rightarrow> Some CategoryInfrastructureFailure
      | _ \<Rightarrow> None)"

definition classifyTerminalDiagnostic ::
  "string \<Rightarrow> int option \<Rightarrow> string \<Rightarrow> bool \<Rightarrow> NativeResultKind option \<Rightarrow> TerminalDiagnosticCategory" where
  "classifyTerminalDiagnostic handoffCategory exitCode outcome kubernetesFailure trustedKind =
     (let fallback =
        (case categoryForNativeResultKind trustedKind of
           Some c \<Rightarrow> c
         | None \<Rightarrow>
             if kubernetesFailure then CategoryKubernetesFailure
             else if TrimSpace outcome = ''needs_decision'' then CategoryNeedsDecision
             else if TrimSpace outcome = ''blocked_external'' then CategoryBlockedExternal
             else if TrimSpace outcome = outcomeCapacityExhausted then CategoryCapacityExhaustion
             else (case exitCode of
                 Some c \<Rightarrow>
                   if c \<noteq> 0 \<and> c \<noteq> exitDeclaredNoChange \<and> c \<noteq> exitNeedsHuman
                   then CategoryExecutorCrash else CategoryUnknown
               | None \<Rightarrow> CategoryUnknown))
      in case category_of (TrimSpace handoffCategory) of
           Some c \<Rightarrow> if c \<noteq> CategoryUnknown then c else fallback
         | None \<Rightarrow> fallback)"

text \<open>The loop that shortens the cut until the prefix is valid UTF-8.\<close>

fun valid_cut :: "string \<Rightarrow> nat \<Rightarrow> nat" where
  "valid_cut s 0 = 0"
| "valid_cut s (Suc n) = (if \<not> ValidString (take (Suc n) s) then valid_cut s n else Suc n)"

definition boundedDiagnosticReason :: "(string \<Rightarrow> string) \<Rightarrow> string \<Rightarrow> string" where
  "boundedDiagnosticReason red reason =
     (let r = red (TrimSpace reason) in
      if length r \<le> terminalDiagnosticReasonBytes then r
      else take (valid_cut r (terminalDiagnosticReasonBytes - length terminalDiagnosticReasonSuffix)) r
           @ terminalDiagnosticReasonSuffix)"

definition boundedDiagnosticOutcome :: "string \<Rightarrow> string" where
  "boundedDiagnosticOutcome outcome = runes_prefix 64 (TrimSpace outcome)"

definition categoryDiagnosticReason :: "TerminalDiagnosticCategory \<Rightarrow> string" where
  "categoryDiagnosticReason category =
     (case category of
        CategoryNeedsDecision \<Rightarrow> ''coordinator declared it needed a decision''
      | CategoryBlockedExternal \<Rightarrow> ''coordinator declared it was blocked on an external prerequisite''
      | CategoryVerifierRejection \<Rightarrow> ''coordinator exit was rejected by the verified world''
      | CategoryModelTransportError \<Rightarrow> ''coordinator model transport exited with a non-zero status''
      | CategoryContinuationExhaustion \<Rightarrow> ''coordinator exhausted its continuation budget''
      | CategoryKubernetesFailure \<Rightarrow> ''coordinator pod failed at the Kubernetes or container layer''
      | CategoryCapacityExhaustion \<Rightarrow> ''execution capacity was confirmed exhausted''
      | CategoryProviderUnavailable \<Rightarrow>
          ''the model provider did not serve this attempt; work released for another capacity''
      | CategoryForgeUnavailable \<Rightarrow>
          ''a forge read could not complete on a transient availability condition; ''
          @ ''the world was never observed; work released for another capacity''
      | CategoryWorkloadFailure \<Rightarrow>
          ''the coordinator reported a workload failure: a verdict on the work, not the infrastructure''
      | CategoryInfrastructureFailure \<Rightarrow>
          ''the coordinator reported an infrastructure failure; recovery is a bounded relaunch and resume''
      | CategoryExecutorCrash \<Rightarrow> ''coordinator exited without a valid handoff''
      | CategoryUnknown \<Rightarrow> ''coordinator ended with no captured cause'')"

definition kubeletContainerReason :: "Pod option \<Rightarrow> string" where
  "kubeletContainerReason pod =
     (case pod of None \<Rightarrow> []
      | Some p \<Rightarrow> (case coordinatorTerminated p of None \<Rightarrow> []
          | Some t \<Rightarrow>
              let reason = TrimSpace (tm_Reason t)
              in if isAllowlistedContainerReason reason then reason else []))"

definition operatorDiagnosticReason :: "TerminalDiagnosticCategory \<Rightarrow> string \<Rightarrow> Pod option \<Rightarrow> string" where
  "operatorDiagnosticReason category override pod =
     (let container = kubeletContainerReason pod;
          podReason = (case pod of None \<Rightarrow> [] | Some p \<Rightarrow>
             if isAllowlistedPodReason (TrimSpace (po_Reason p)) then TrimSpace (po_Reason p) else [])
      in Join ([categoryDiagnosticReason category]
               @ (if container \<noteq> [] then [''container: '' @ container] else [])
               @ (if podReason \<noteq> [] then [''pod: '' @ podReason] else [])
               @ (if override \<noteq> [] then [override] else [])) ''; '')"

definition coordinatorContainerDiagnostic :: "Pod \<Rightarrow> TerminalContainerDiagnostic" where
  "coordinatorContainerDiagnostic pod =
     (let base = \<lparr>tc_PodName = po_Name pod, tc_PodUID = po_UID pod, tc_Namespace = po_Namespace pod,
            tc_ContainerName = [], tc_ContainerID = [], tc_Image = [], tc_NodeName = ps_NodeName (po_Spec pod),
            tc_RestartCount = 0, tc_TerminationReason = []\<rparr>
      in case find (\<lambda>cs. cs_Name cs = coordinatorContainerName) (po_ContainerStatuses pod) of
           None \<Rightarrow> base
         | Some cs \<Rightarrow> base\<lparr>tc_ContainerName := cs_Name cs, tc_ContainerID := cs_ContainerID cs,
             tc_Image := cs_Image cs, tc_RestartCount := cs_RestartCount cs,
             tc_TerminationReason := (case cs_Terminated cs of None \<Rightarrow> []
                | Some t \<Rightarrow> boundedContainerTerminationReason (tm_Reason t))\<rparr>)"

definition buildTerminalDiagnostic ::
  "(string \<Rightarrow> string) \<Rightarrow> time \<Rightarrow> int option \<Rightarrow> string \<Rightarrow> string \<Rightarrow> string \<Rightarrow> bool \<Rightarrow> Pod option
     \<Rightarrow> NativeResultKind option \<Rightarrow> TerminalDiagnostic" where
  "buildTerminalDiagnostic red now exitCode reasonOverride outcome handoffCategory kubernetesFailure pod
       trustedKind =
     (let category = classifyTerminalDiagnostic handoffCategory exitCode outcome kubernetesFailure trustedKind
      in \<lparr>td_Category = category, td_ExitCode = exitCode,
          td_Reason = boundedDiagnosticReason red (operatorDiagnosticReason category reasonOverride pod),
          td_Outcome = boundedDiagnosticOutcome outcome,
          td_Container = map_option coordinatorContainerDiagnostic pod,
          td_ObservedAt = Some now\<rparr>)"

definition kubernetesFailureEvidence :: "Pod option \<Rightarrow> bool \<Rightarrow> bool" where
  "kubernetesFailureEvidence pod handoffValid =
     (case pod of None \<Rightarrow> True
      | Some p \<Rightarrow>
          if \<not> handoffValid \<and> isInfraContainerReason (kubeletContainerReason pod) then True
          else if \<not> handoffValid \<and> isInfraPodReason (TrimSpace (po_Reason p)) then True
          else po_Phase p = PodFailed \<and> coordinatorTerminated p = None \<and> \<not> handoffValid)"

definition trustedForgeUnavailableHandoff :: "decoder \<Rightarrow> Pod option \<Rightarrow> string \<Rightarrow> bool" where
  "trustedForgeUnavailableHandoff dec pod terminationOutcome \<longleftrightarrow>
     terminationOutcome = ''blocked_external'' \<and>
     coordinatorHandoffCategory dec pod = ''forge-unavailable''"

section \<open>Run labels are valid label values\<close>

definition label_alnum :: "char \<Rightarrow> bool" where
  "label_alnum c \<longleftrightarrow> label_char c \<and> \<not> label_cut c"

definition valid_label_value :: "string \<Rightarrow> bool" where
  "valid_label_value s \<longleftrightarrow> s \<noteq> [] \<and> length s \<le> 63 \<and> list_all label_char s
     \<and> label_alnum (hd s) \<and> label_alnum (last s)"

lemma trim_right_cut_props:
  "set (trim_right_cut s) \<subseteq> set s" "length (trim_right_cut s) \<le> length s"
  "trim_right_cut s \<noteq> [] \<Longrightarrow> \<not> label_cut (last (trim_right_cut s))"
  using hd_dropWhile [of label_cut "rev s"] length_dropWhile_le [of label_cut "rev s"]
  by (auto simp: trim_right_cut_def last_rev dest: set_dropWhileD)

lemma trim_right_cut_Nil: "trim_right_cut [] = []"
  by (simp add: trim_right_cut_def)

lemma trim_right_cut_Cons:
  "\<not> label_cut c \<Longrightarrow> \<exists>t. trim_right_cut (c # s) = c # t"
proof -
  assume c: "\<not> label_cut c"
  have "dropWhile label_cut (rev s @ [c]) = dropWhile label_cut (rev s) @ [c]"
    using c by (cases "list_all label_cut (rev s)") (auto simp: list_all_iff dropWhile_append)
  then show ?thesis by (simp add: trim_right_cut_def)
qed

lemma sanitize_runes_chars: "list_all label_char (sanitize_runes s)"
proof (induction s rule: sanitize_runes.induct)
  case (1 s)
  then show ?case
    by (subst sanitize_runes.simps) (auto simp: Let_def label_char_def [of "CHR ''-''"] label_cut_def)
qed

lemma sanitizeLabelValue_valid:
  "sanitizeLabelValue v \<noteq> []" "list_all label_char (sanitizeLabelValue v)"
  "\<not> label_cut (hd (sanitizeLabelValue v))" "\<not> label_cut (last (sanitizeLabelValue v))"
proof -
  let ?d = "dropWhile label_cut (sanitize_runes (TrimSpace v))"
  have chars: "list_all label_char ?d"
    using sanitize_runes_chars [of "TrimSpace v"] by (auto simp: list_all_iff dest: set_dropWhileD)
  have first: "?d \<noteq> [] \<Longrightarrow> \<not> label_cut (hd ?d)" by (rule hd_dropWhile)
  have trimmed: "list_all label_char (trim_cut (sanitize_runes (TrimSpace v)))"
    using chars trim_right_cut_props(1) [of ?d] by (auto simp: list_all_iff trim_cut_def)
  have ends: "trim_cut (sanitize_runes (TrimSpace v)) \<noteq> [] \<Longrightarrow>
      \<not> label_cut (hd (trim_cut (sanitize_runes (TrimSpace v)))) \<and>
      \<not> label_cut (last (trim_cut (sanitize_runes (TrimSpace v))))"
    using first trim_right_cut_Cons [of "hd ?d" "tl ?d"] trim_right_cut_props(3) [of ?d]
    by (cases ?d) (auto simp: trim_cut_def trim_right_cut_Nil)
  show "sanitizeLabelValue v \<noteq> []" "list_all label_char (sanitizeLabelValue v)"
    "\<not> label_cut (hd (sanitizeLabelValue v))" "\<not> label_cut (last (sanitizeLabelValue v))"
    using trimmed ends
    by (auto simp: sanitizeLabelValue_def Let_def label_cut_def label_char_def byte_def)
qed

lemma hex_char_label: "hex_char c \<Longrightarrow> label_alnum c"
  by (auto simp: hex_char_def label_alnum_def label_char_def label_cut_def byte_def is_digit_def)

lemma sanitized_cut:
  assumes "0 < n"
  shows "trim_right_cut (take n (sanitizeLabelValue v)) \<noteq> []
    \<and> list_all label_char (trim_right_cut (take n (sanitizeLabelValue v)))
    \<and> label_alnum (hd (trim_right_cut (take n (sanitizeLabelValue v))))
    \<and> label_alnum (last (trim_right_cut (take n (sanitizeLabelValue v))))"
proof -
  obtain c s where cs: "sanitizeLabelValue v = c # s" using sanitizeLabelValue_valid(1) [of v]
    by (cases "sanitizeLabelValue v") auto
  obtain t where t: "trim_right_cut (take n (sanitizeLabelValue v)) = c # t"
    using assms cs trim_right_cut_Cons [of c "take (n - 1) s"] sanitizeLabelValue_valid(3) [of v]
    by (cases n) auto
  have "set (c # t) \<subseteq> set (sanitizeLabelValue v)"
    using trim_right_cut_props(1) [of "take n (sanitizeLabelValue v)"] t set_take_subset by fastforce
  then have all: "\<forall>x\<in>set (c # t). label_char x" using sanitizeLabelValue_valid(2) [of v] by (auto simp: list_all_iff)
  have "\<not> label_cut c" "\<not> label_cut (last (c # t))"
    using cs sanitizeLabelValue_valid(3) [of v] trim_right_cut_props(3) [of "take n (sanitizeLabelValue v)"] t
    by auto
  then show ?thesis using all t last_in_set [of "c # t"] by (auto simp: list_all_iff label_alnum_def)
qed

text \<open>C34: Every run gets a label value the cluster accepts: at most 63 bytes of lower-case letters,
  digits, hyphens, underscores and dots that begin and end with a letter or a digit, whatever the
  name. The label of earlier releases is valid too, and the executor and the topology renderer,
  which keep a copy of the scheme each, derive the same one.\<close>

theorem run_label_is_valid:
  "valid_label_value (RunLabelValue name) \<and> valid_label_value (LegacyRunLabelValue name)
   \<and> topology_RunLabelValue name = RunLabelValue name"
proof -
  let ?h = "take 8 (sha256_hex name)"
  have digits: "\<forall>c\<in>set ?h. label_alnum c"
    using sha256_hex_chars [of name] by (auto simp: list_all_iff intro: hex_char_label dest: in_set_takeD)
  have eight: "length ?h = 8" by simp
  then have some: "?h \<noteq> []" by (metis length_0_conv zero_neq_numeral)
  have hex: "list_all label_char ?h" "label_alnum (last ?h)"
    using digits last_in_set [OF some] by (auto simp: list_all_iff label_alnum_def)
  have short: "length (sanitizeLabelValue name) \<le> 63 \<Longrightarrow> valid_label_value (sanitizeLabelValue name)"
    using sanitizeLabelValue_valid [of name]
    by (auto simp: valid_label_value_def label_alnum_def list_all_iff hd_in_set last_in_set)
  have len: "length (trim_right_cut (take n s)) \<le> n" for n and s :: string
    using trim_right_cut_props(2) [of "take n s"] by (rule order_trans) simp
  have "valid_label_value (RunLabelValue name)"
    using short hex some eight len [of 54 "sanitizeLabelValue name"] sanitized_cut [of 54 name]
    by (auto simp: RunLabelValue_def Let_def valid_label_value_def label_char_def [of "CHR ''-''"] label_cut_def)
  moreover have "valid_label_value (LegacyRunLabelValue name)"
    using short len [of 63 "sanitizeLabelValue name"] sanitized_cut [of 63 name]
    by (auto simp: LegacyRunLabelValue_def Let_def valid_label_value_def)
  moreover have "topology_RunLabelValue name = RunLabelValue name"
    by (simp add: topology_RunLabelValue_def RunLabelValue_def)
  ultimately show ?thesis by blast
qed

section \<open>The diagnostic is bounded\<close>

lemma valid_cut_le: "valid_cut s n \<le> n"
  by (induction n) auto

lemma boundedDiagnosticReason_length: "length (boundedDiagnosticReason red r) \<le> 1024"
  using valid_cut_le [of "red (TrimSpace r)" 1009]
  by (simp add: boundedDiagnosticReason_def Let_def terminalDiagnosticReasonBytes_def)

lemma boundedContainerTerminationReason_listed:
  "boundedContainerTerminationReason r \<in> insert [] (set allowlistedContainerReasons)"
  by (auto simp: boundedContainerTerminationReason_def Let_def isAllowlistedContainerReason_def
      allowlistedContainerReasons_def terminalContainerReasonBytes_def)

lemma coordinatorContainerDiagnostic_listed:
  "tc_TerminationReason (coordinatorContainerDiagnostic p) \<in> insert [] (set allowlistedContainerReasons)"
  using boundedContainerTerminationReason_listed
  by (simp add: coordinatorContainerDiagnostic_def Let_def split: option.split)

text \<open>The durable diagnostic is bounded whatever ended the coordinator and whatever it wrote:
  the reason has at most 1024 bytes, the outcome at most 64 runes, and the termination reason
  of the container is empty or one of the listed ones. Nothing is assumed of the redactor.\<close>

lemma diagnostic_is_bounded:
  "length (td_Reason (buildTerminalDiagnostic red now exitCode override outcome category failure pod kind)) \<le> 1024
   \<and> RuneCountInString
       (td_Outcome (buildTerminalDiagnostic red now exitCode override outcome category failure pod kind)) \<le> 64
   \<and> (case td_Container (buildTerminalDiagnostic red now exitCode override outcome category failure pod kind) of
        None \<Rightarrow> pod = None
      | Some c \<Rightarrow> tc_TerminationReason c \<in> insert [] (set allowlistedContainerReasons))"
proof (cases pod)
  case None
  then show ?thesis
    using boundedDiagnosticReason_length RuneCount_runes_prefix [of 64 "TrimSpace outcome"]
    by (simp only: buildTerminalDiagnostic_def Let_def boundedDiagnosticOutcome_def TerminalDiagnostic.simps
        option.case option.map simp_thms)
next
  case (Some p)
  then show ?thesis
    using boundedDiagnosticReason_length RuneCount_runes_prefix [of 64 "TrimSpace outcome"]
      coordinatorContainerDiagnostic_listed [of p]
    by (simp only: buildTerminalDiagnostic_def Let_def boundedDiagnosticOutcome_def TerminalDiagnostic.simps
        option.case option.map simp_thms)
qed

end
