(* ===== verification/Workspace.thy ===== *)
theory Workspace
  imports Pods
begin

text \<open>
  The proof that a legacy coordinator left no unpushed work behind
  (\<open>internal/controller/legacy_workspace_observation.go\<close>): only the kubelet's record of an isolated
  observer container counts, and only when the pod, its specification and the observer's report all
  name this run, this pod and this writer. Git object identifiers are validated as in
  \<open>internal/git/broker.go\<close>. Decoding the observer's JSON report is a parameter.
\<close>

definition oid_digit :: "char \<Rightarrow> bool" where
  "oid_digit c \<longleftrightarrow> (CHR ''0'' \<le> c \<and> c \<le> CHR ''9'') \<or> (CHR ''a'' \<le> c \<and> c \<le> CHR ''f'')
     \<or> (CHR ''A'' \<le> c \<and> c \<le> CHR ''F'')"

definition canonicalOID :: "string \<Rightarrow> string option" where
  "canonicalOID oid =
     (if (length oid \<noteq> 40 \<and> length oid \<noteq> 64) \<or> TrimSpace oid \<noteq> oid then None
      else if list_all oid_digit oid then Some (map ascii_lower oid) else None)"

definition ValidOID :: "string \<Rightarrow> bool" where
  "ValidOID oid \<longleftrightarrow> canonicalOID oid \<noteq> None"

abbreviation "ObserverContainerName \<equiv> ''workspace-observer''"
abbreviation "ObserverUID \<equiv> (65533 :: int)"
abbreviation "ObserverStatePath \<equiv> ''/courier-observer''"
abbreviation "ObserverContractAnnotation \<equiv> ''courier.misospace.dev/observer-contract''"
abbreviation "ObserverContractVersion \<equiv> ''1''"

record ObserverEvidence =
  oe_Version :: int
  oe_RunUID :: string
  oe_PodUID :: string
  oe_Branch :: string
  oe_Baseline :: string
  oe_WriterContainerID :: string
  oe_Safety :: "WorkspaceSafetyEvidence option"

definition ownedLegacyPod :: "Pod \<Rightarrow> CoderRun \<Rightarrow> bool" where
  "ownedLegacyPod pod run =
     (if po_Namespace pod \<noteq> m_Namespace (r_meta run) \<or> m_UID (r_meta run) = [] then False
      else list_ex (\<lambda>owner. ow_Controller owner = Some True \<and> ow_UID owner = m_UID (r_meta run)
             \<and> ow_Name owner = m_Name (r_meta run) \<and> ow_Kind owner = ''CoderRun''
             \<and> ow_APIVersion owner = ''courier.misospace.dev/v1alpha1'') (po_Owners pod))"

text \<open>The last container of a name, as the loop over the containers leaves it.\<close>

definition container_named :: "string \<Rightarrow> Container list \<Rightarrow> Container option" where
  "container_named name cs = find (\<lambda>c. ct_Name c = name) (rev cs)"

definition observer_security_ok :: "SecurityContext option \<Rightarrow> bool" where
  "observer_security_ok sc =
     (case sc of
        None \<Rightarrow> False
      | Some s \<Rightarrow> sc_RunAsUser s = Some ObserverUID \<and> sc_AllowPrivilegeEscalation s = Some False
          \<and> sc_Privileged s \<noteq> Some True)"

definition seed_ok :: "Container \<Rightarrow> Container \<Rightarrow> bool" where
  "seed_ok observer seed \<longleftrightarrow>
     ct_Name seed = ''workspace-observer-seed'' \<and> ct_Image seed = ct_Image observer
     \<and> ct_Command seed = ct_Command observer \<and> ct_Args seed = [''observe-seed'']
     \<and> ct_TerminationMessagePath seed = ObserverStatePath @ ''/seed-termination''"

text \<open>The mounts of the observer that the writer shares, and what they may be.\<close>

definition shared_mounts :: "Container \<Rightarrow> Container \<Rightarrow> VolumeMount list" where
  "shared_mounts observer writer =
     filter (\<lambda>m. list_ex (\<lambda>w. vm_Name w = vm_Name m) (ct_VolumeMounts writer)) (ct_VolumeMounts observer)"

definition isolatedObserverSpec :: "Pod \<Rightarrow> bool" where
  "isolatedObserverSpec pod =
     (let spec = po_Spec pod in
      if lookup_annotation (po_Annotations pod) ObserverContractAnnotation \<noteq> ObserverContractVersion then False
      else if ps_RestartPolicy spec \<noteq> ''Never'' \<or> ps_HostPID spec \<or> ps_ShareProcessNamespace spec = Some True
        \<or> length (ps_Containers spec) \<noteq> 2 then False
      else (case (container_named coordinatorContainerName (ps_Containers spec),
                  container_named ObserverContainerName (ps_Containers spec)) of
          (Some writer, Some observer) \<Rightarrow>
            ct_TerminationMessagePath observer = ObserverStatePath @ ''/termination''
            \<and> ct_TerminationMessagePolicy observer = ''File'' \<and> ct_Image observer = ct_Image writer
            \<and> ct_Command observer = [''/usr/local/bin/courier-executor'']
            \<and> ct_Args observer = [''observe-workspace'']
            \<and> observer_security_ok (ct_SecurityContext observer)
            \<and> (case ct_SecurityContext writer of None \<Rightarrow> True | Some s \<Rightarrow> sc_RunAsUser s \<noteq> Some ObserverUID)
            \<and> list_ex (seed_ok observer) (ps_InitContainers spec)
            \<and> list_all (\<lambda>m. vm_Name m = ''workspace'' \<and> vm_ReadOnly m) (shared_mounts observer writer)
            \<and> shared_mounts observer writer \<noteq> []
            \<and> ct_EnvFrom observer = [] \<and> ps_AutomountServiceAccountToken spec = Some False
        | _ \<Rightarrow> False))"

text \<open>The terminated state the loop over the container statuses leaves for a name: of the last status.\<close>

definition last_status :: "string \<Rightarrow> ContainerStatus list \<Rightarrow> ContainerStatus option" where
  "last_status name css = find (\<lambda>s. cs_Name s = name) (rev css)"

definition seed_terminated :: "Pod \<Rightarrow> string \<Rightarrow> bool" where
  "seed_terminated pod baseline =
     list_ex (\<lambda>s. cs_Name s = ''workspace-observer-seed'' \<and>
        (case cs_Terminated s of None \<Rightarrow> False
         | Some t \<Rightarrow> tm_ExitCode t = 0 \<and> TrimSpace (tm_Message t) = baseline)) (po_InitContainerStatuses pod)"

text \<open>What the observer's report proves.\<close>

definition proven_safety ::
  "Pod \<Rightarrow> CoderRun \<Rightarrow> string \<Rightarrow> ObserverEvidence \<Rightarrow> WorkspaceSafetyEvidence option" where
  "proven_safety pod run writerID ev =
     (if oe_Version ev \<noteq> 1 \<or> oe_PodUID ev \<noteq> po_UID pod \<or> oe_RunUID ev \<noteq> m_UID (r_meta run)
         \<or> oe_WriterContainerID ev \<noteq> writerID \<or> oe_Branch ev \<noteq> s_Branch (r_status run)
         \<or> \<not> ValidOID (oe_Baseline ev) \<or> \<not> seed_terminated pod (oe_Baseline ev) then None
      else (case oe_Safety ev of
          None \<Rightarrow> None
        | Some safety \<Rightarrow>
            if ws_Branch safety \<noteq> s_Branch (r_status run) \<or> \<not> ValidOID (ws_Head safety) then None
            else if ws_State safety = ''empty'' then
              (if ws_Head safety \<noteq> oe_Baseline ev \<or> ws_RemoteHead safety \<noteq> [] then None else Some safety)
            else if ws_State safety = ''pushed'' then
              (if ws_RemoteHead safety \<noteq> ws_Head safety then None else Some safety)
            else if ws_State safety = ''dirty'' \<or> ws_State safety = ''unknown'' then Some safety
            else None))"

text \<open>\<open>legacyWorkspaceObservation\<close> on the pod just read: the evidence, and whether to wait for it.\<close>

definition legacyWorkspaceObservation ::
  "(string \<Rightarrow> ObserverEvidence option) \<Rightarrow> CoderRun \<Rightarrow> Pod \<Rightarrow> Pod \<Rightarrow> WorkspaceSafetyEvidence option \<times> bool" where
  "legacyWorkspaceObservation decode run cached pod =
     (if po_UID pod = [] \<or> po_UID pod \<noteq> po_UID cached \<or> po_DeletionTimestamp pod \<noteq> None
         \<or> \<not> ownedLegacyPod pod run then (None, False)
      else if \<not> isolatedObserverSpec pod then (None, False)
      else if list_ex (\<lambda>s. cs_RestartCount s \<noteq> 0) (po_ContainerStatuses pod) then (None, False)
      else (case last_status coordinatorContainerName (po_ContainerStatuses pod) of
          None \<Rightarrow> (None, True)
        | Some writer \<Rightarrow>
            (case (cs_Terminated writer,
                   Option.bind (last_status ObserverContainerName (po_ContainerStatuses pod)) cs_Terminated) of
               (Some writerT, Some observerT) \<Rightarrow>
                 if cs_ContainerID writer = [] then (None, True)
                 else if tm_ExitCode observerT \<noteq> 0 \<or> tm_FinishedAt observerT < tm_FinishedAt writerT
                   \<or> MaxTerminationLineBytes < length (tm_Message observerT) then (None, False)
                 else (case decode (tm_Message observerT) of
                     None \<Rightarrow> (None, False)
                   | Some ev \<Rightarrow> (proven_safety pod run (cs_ContainerID writer) ev, False))
             | _ \<Rightarrow> (None, True))))"

definition legacyObservationCondition :: "CoderRun \<Rightarrow> time \<Rightarrow> Condition" where
  "legacyObservationCondition run now = \<lparr>c_Type = ''LegacyWorkspaceObserved'', c_Status = ConditionTrue,
     c_Reason = ''IsolatedObserver'',
     c_Message = ''workspace observed after writer termination by the isolated run-owned container'',
     c_ObservedGeneration = m_Generation (r_meta run), c_LastTransitionTime = now\<rparr>"

end
