(* ===== verification/Branch.thy ===== *)
theory Branch
  imports Api Sha256
begin

text \<open>
  The branch policy (\<open>internal/branch/branch.go\<close>): the deterministic branch of an issue run and of a
  contribution. An empty string is the refusal of an invalid input.
\<close>

definition validRepo :: "string \<Rightarrow> bool" where
  "validRepo repo =
     (if TrimSpace repo \<noteq> repo then False
      else (case Split repo CHR ''/'' of
          [a, b] \<Rightarrow> a \<noteq> [] \<and> b \<noteq> [] \<and> list_all (\<lambda>c. byte c \<notin> {32, 9, 13, 10}) repo
        | _ \<Rightarrow> False))"

definition ResolveIssueBranch :: "string \<Rightarrow> int \<Rightarrow> string" where
  "ResolveIssueBranch repo issue =
     (if \<not> validRepo repo \<or> issue < 1 then []
      else ''courier/'' @ repo @ ''/issue-'' @ Itoa issue)"

text \<open>The pattern \<open>^adhoc-([0-9a-f]{12})$\<close>.\<close>

definition mintedKey :: "string \<Rightarrow> bool" where
  "mintedKey key \<longleftrightarrow> HasPrefix key ''adhoc-'' \<and> length key = 18 \<and> list_all hex_char (drop 6 key)"

definition goalKeyHex :: "string \<Rightarrow> string" where
  "goalKeyHex key = (if mintedKey key then drop 6 key else take 12 (sha256_hex key))"

definition ResolveGoalBranch :: "string \<Rightarrow> string \<Rightarrow> string" where
  "ResolveGoalBranch baseRepo key =
     (if \<not> validRepo baseRepo \<or> TrimSpace key = [] then []
      else ''courier/'' @ baseRepo @ ''/goal-'' @ goalKeyHex key)"

section \<open>Branches do not collide\<close>

lemma validRepo_parts:
  assumes "validRepo repo"
  obtains a b where "repo = a @ CHR ''/'' # b" "CHR ''/'' \<notin> set a" "CHR ''/'' \<notin> set b"
proof -
  from assms obtain a b where s: "Split repo CHR ''/'' = [a, b]"
    by (auto simp: validRepo_def split: if_splits list.splits)
  have "repo = a @ CHR ''/'' # b" using Join_Split [of repo "CHR ''/''"] s by simp
  moreover have "CHR ''/'' \<notin> set a" "CHR ''/'' \<notin> set b"
    using Split_words [of repo "CHR ''/''"] s by simp_all
  ultimately show thesis by (rule that)
qed

lemma Split_branch:
  assumes "CHR ''/'' \<notin> set a" "CHR ''/'' \<notin> set b" "CHR ''/'' \<notin> set w"
  shows "Split (''courier/'' @ (a @ CHR ''/'' # b) @ CHR ''/'' # w) CHR ''/'' = [''courier'', a, b, w]"
proof -
  have "''courier/'' @ (a @ CHR ''/'' # b) @ CHR ''/'' # w
      = ''courier'' @ CHR ''/'' # (a @ CHR ''/'' # (b @ CHR ''/'' # w))" by simp
  then show ?thesis using assms by (simp only: Split_append_sep Split_no_sep) (simp add: Split_append_sep Split_no_sep)
qed

lemma validRepo_branch_split:
  assumes "validRepo repo" and "CHR ''/'' \<notin> set w"
  shows "\<exists>a b. repo = a @ CHR ''/'' # b \<and>
     Split (''courier/'' @ repo @ CHR ''/'' # w) CHR ''/'' = [''courier'', a, b, w]"
  using assms by (elim validRepo_parts) (use Split_branch in blast)

lemma digits_no_slash: "list_all is_digit s \<Longrightarrow> CHR ''/'' \<notin> set s"
  by (auto simp: list_all_iff is_digit_def byte_def)

lemma hex_no_slash: "list_all hex_char s \<Longrightarrow> CHR ''/'' \<notin> set s"
  by (auto simp: list_all_iff hex_char_def byte_def)

lemma Itoa_positive_no_slash: "1 \<le> n \<Longrightarrow> CHR ''/'' \<notin> set (Itoa n)"
  using nat_digits_all [of "nat n"] by (simp add: Itoa_def digits_no_slash)

lemma goalKeyHex_hex: "list_all hex_char (goalKeyHex key) \<and> length (goalKeyHex key) = 12"
  using sha256_hex_chars [of key] by (auto simp: goalKeyHex_def mintedKey_def list_all_iff dest: in_set_takeD)

lemma goal_no_slash: "CHR ''/'' \<notin> set (''goal-'' @ goalKeyHex key)"
  using hex_no_slash goalKeyHex_hex by auto



end
