(* ===== verification/Runtime.thy ===== *)
theory Runtime
  imports StatusPatch Admission Mechanical Workspace Branch
begin

text \<open>
  What a reconcile runs on: errors (Go's wrapped error values), the boundary to the work source
  (\<open>internal/source/source.go\<close>, \<open>park.go\<close>), the world the operator reads, and the state a handler
  passes along.

  A handler is a program over the state \<open>st\<close>: the run in memory (the pointer the Go functions
  share and mutate), the run as the API server stores it, a counter of interactions with the
  world, and the log of what the handler did to the world, newest first. Everything a handler reads
  from the world comes from the record \<open>env\<close>, whose answers depend on that counter: quantifying over
  the environment covers every order of successes, failures and clock readings. The status writer is
  the only way a handler changes the stored run.
\<close>

section \<open>Errors\<close>

text \<open>The sentinels the code tests with \<open>errors.Is\<close>, and the typed errors it tests with \<open>errors.As\<close>.\<close>

datatype sentinel = ErrStaleWork | ErrSuperseded | ErrStaleCapacitySettlement
  | ErrUnsupportedCapacityRecovery | ErrUnsupportedOutcome | ErrPermanentRefusal
  | ErrUnsupportedCIPark | ErrUnsupportedRetry | ErrSourceRegistryRequired | ErrUnknownSource
  | ErrMissingWorkItemID | ErrPRHeadResolverRequired | ErrEmptyResolvedBranch
  | ErrHeadRepositoryGone | ErrContributionContextUnsupported | ErrProvisioningInFlight
  | NotFound | Conflict | AlreadyExists
  | RetryRefusal string bool
  | SecureNeedsHuman string string
  | ProvisioningCollision string string time

record err =
  er_is :: "sentinel list"
  er_msg :: string

definition errorsIs :: "err \<Rightarrow> sentinel \<Rightarrow> bool" where
  "errorsIs e s \<longleftrightarrow> s \<in> set (er_is e)"

definition newError :: "string \<Rightarrow> err" where
  "newError m = \<lparr>er_is = [], er_msg = m\<rparr>"

definition sentinelError :: "sentinel \<Rightarrow> string \<Rightarrow> err" where
  "sentinelError s m = \<lparr>er_is = [s], er_msg = m\<rparr>"

text \<open>\<open>fmt.Errorf("prefix: %w", err)\<close>.\<close>

definition wrapError :: "string \<Rightarrow> err \<Rightarrow> err" where
  "wrapError m e = e\<lparr>er_msg := m @ er_msg e\<rparr>"

text \<open>\<open>errors.Join\<close>: nil when every argument is, otherwise an error that is each of them.\<close>

definition errorsJoin :: "err option list \<Rightarrow> err option" where
  "errorsJoin es =
     (let real = List.map_filter id es in
      if real = [] then None
      else Some \<lparr>er_is = concat (map er_is real), er_msg = Join (map er_msg real) [chr 10]\<rparr>)"

section \<open>The source boundary\<close>

record WorkItem =
  wi_Context :: string
  wi_ID :: string
  wi_Mode :: Mode
  wi_Repo :: string
  wi_Ref :: int
  wi_Lane :: string
  wi_Debug :: bool

datatype State = StateNone | StateInProgress | StateInReview | StateNeedsHuman

datatype Result = ResultNone | ResultStarted | ResultReady | ResultBlocked | ResultCapacityExhausted
  | ResultBlockedExternal | ResultFailed | ResultHandedOff | ResultNoChange | ResultAlreadyDone

record CloseProposal =
  cl_Criteria :: "NoChangeCloseCriterion list"
  cl_Evidence :: string

record Lifecycle =
  lc_State :: State
  lc_Result :: Result
  lc_PR :: string
  lc_Error :: string
  lc_BlockedReportParksPRFix :: bool
  lc_IdempotencyKey :: string
  lc_Telemetry :: "RunTelemetry option"
  lc_StartedAt :: "time option"
  lc_Close :: "CloseProposal option"

record CloseResolution =
  cz_Action :: string
  cz_Reason :: string
  cz_Reasons :: "string list"
  cz_HeadSHA :: string
  cz_EvidenceDigest :: string

record CapacityRecoveryProof =
  cq_FenceToken :: string
  cq_WorkIdentity :: string
  cq_SafetyProof :: string
  cq_Branch :: string
  cq_PR :: string

record CapacityHandoff =
  ch_FenceToken :: string
  ch_IdempotencyKey :: string
  ch_WorkIdentity :: string
  ch_Branch :: string
  ch_PR :: string
  ch_CapacityIdentity :: string

record AttemptRequeueRequest =
  aq_FenceToken :: string
  aq_IdempotencyKey :: string
  aq_Reason :: string

record AttemptRequeueResult =
  ar_AttemptID :: string
  ar_ControllerMaterializesSuccessor :: bool

record CIParkNotice =
  pn_PR :: string
  pn_Head :: string
  pn_IdempotencyKey :: string

record CIRepairReservation =
  cv_FenceToken :: string
  cv_IdempotencyKey :: string
  cv_PR :: string
  cv_Head :: string

record CIRepairOutcome =
  oc_FenceToken :: string
  oc_IdempotencyKey :: string
  oc_PR :: string
  oc_Head :: string
  oc_Result :: CIParkOutcome

record CIParkReleaseCall =
  pc_PR :: string
  pc_Head :: string
  pc_IdempotencyKey :: string

record HeadRef =
  hr_Repo :: string
  hr_Branch :: string
  hr_SHA :: string
  hr_BaseRef :: string

text \<open>
  An adapter is known to the controller by the optional interfaces it implements; what it answers
  comes from the environment.
\<close>

record adapter =
  ad_CIParkLifecycle :: bool
  ad_CIParkLifecycleUnsupported :: "bool option"
  ad_AttemptRequeuer :: bool
  ad_Reporter :: bool
  ad_CloseReporter :: bool
  ad_ClaimerWithReceipt :: bool
  ad_PreLauncher :: bool
  ad_CapacityRecoveryPreparer :: bool
  ad_CapacityRecovery :: bool

text \<open>The calls that act on the world: on the source, on pods, on runs and lanes.\<close>

datatype call =
    ReportCIParked WorkItem CIParkNotice
  | ReserveCIRepair WorkItem CIRepairReservation
  | ReleaseCIPark WorkItem CIParkReleaseCall
  | ReportCIRepair WorkItem CIRepairOutcome
  | RequeueAttempt WorkItem AttemptRequeueRequest
  | Report WorkItem Lifecycle
  | ReportClose WorkItem Lifecycle
  | PrepareCapacityRecovery WorkItem string string
  | SettleCapacityExhaustion WorkItem CapacityHandoff
  | Claim WorkItem
  | ClaimWithReceipt WorkItem
  | Release WorkItem
  | Transition WorkItem State
  | Resolve WorkItem
  | PreLaunch WorkItem
  | Launch
  | CommentWorkItem string
  | CreateSuccessor string CoderRunSpec
  | DeleteRun
  | DeletePod string "string option"
  | PatchLane "CapacityCooldown option"
  | PatchAnnotations "(string \<times> string) list"

section \<open>The environment\<close>

text \<open>What the forge reports of a pull request.\<close>

record PullRequest =
  pu_Number :: int
  pu_BaseRepo :: string
  pu_HeadRepo :: string
  pu_HeadRef :: string
  pu_State :: string
  pu_Merged :: bool

text \<open>
  The answers of the world, by the number of the interaction, and the reconciler's configuration.
  A read answers \<open>Inl e\<close> when it fails. A nil registry is \<open>None\<close>; the flags say whether an
  optional collaborator of the reconciler is wired (\<open>Observer\<close>, \<open>Launch\<close>, \<open>PRHeadResolver\<close>,
  \<open>WorkItemComments\<close>, \<open>PullRequests\<close> with its read capability). The reconciler modelled here runs
  coordinators through \<open>Launch\<close>; the secure topology (\<open>Secure\<close>) and the evidence intake
  (\<open>Evidence\<close>) are nil.
\<close>

record env =
  e_now :: "nat \<Rightarrow> time"
  e_patch :: "nat \<Rightarrow> err option"
  e_call :: "nat \<Rightarrow> call \<Rightarrow> err option"
  e_grant :: "nat \<Rightarrow> string"
  e_requeue :: "nat \<Rightarrow> AttemptRequeueResult"
  e_close :: "nat \<Rightarrow> CloseResolution"
  e_receipt :: "nat \<Rightarrow> string"
  e_proof :: "nat \<Rightarrow> CapacityRecoveryProof"
  e_head :: "nat \<Rightarrow> err + HeadRef"
  e_lane :: "nat \<Rightarrow> err + LaneProfile"
  e_lanes :: "nat \<Rightarrow> err + LaneProfile list"
  e_runs :: "nat \<Rightarrow> err + CoderRun list"
  e_run :: "nat \<Rightarrow> err + CoderRun"
  e_pods :: "nat \<Rightarrow> err + Pod list"
  e_pod :: "nat \<Rightarrow> err + Pod"
  e_observe :: "nat \<Rightarrow> err + PRObservation"
  e_pull :: "nat \<Rightarrow> err + PullRequest"
  e_sources :: "(string \<times> adapter) list option"
  e_conds :: condops
  e_decode :: decoder
  e_decodeObserver :: "string \<Rightarrow> ObserverEvidence option"
  e_redact :: "string \<Rightarrow> string"
  e_observer :: bool
  e_launch :: bool
  e_resolver :: bool
  e_comments :: bool
  e_links :: "((string \<Rightarrow> string \<Rightarrow> string) \<times> (string \<Rightarrow> string \<Rightarrow> string \<Rightarrow> string)) option"
  e_pulls :: bool
  e_LivenessWindow :: duration
  e_MaxRestarts :: int
  e_ProvisioningCollisionGrace :: duration
  e_CapacityCooldownWindow :: duration
  e_DoneRetention :: duration
  e_FailedRetention :: duration
  e_NeedsHumanRetention :: duration
  e_TerminalAuditKeep :: int
  e_OwnedNamespaces :: "string list"
  e_conflict_retries :: nat

section \<open>The state of a reconcile\<close>

text \<open>The log: a status write with the run before and after it, and a call with the run in memory at
  the time.\<close>

datatype event = EPatch CoderRun CoderRun "err option" | ECall CoderRun call "err option"

record st =
  mem :: CoderRun
  api :: CoderRun
  tick :: nat
  trace :: "event list"

type_synonym 'a prog = "(st, 'a) state"

text \<open>What a program did to the world, oldest first.\<close>

definition acts :: "'a prog \<Rightarrow> st \<Rightarrow> event list" where
  "acts m s = rev (trace (snd (run_state m (s\<lparr>trace := []\<rparr>))))"

text \<open>One more interaction with the world.\<close>

definition next_tick :: "nat prog" where
  "next_tick = do { n \<leftarrow> gets tick; modify (\<lambda>s. s\<lparr>tick := Suc n\<rparr>); ret n }"

definition ask :: "(nat \<Rightarrow> 'a) \<Rightarrow> 'a prog" where
  "ask f = do { n \<leftarrow> next_tick; ret (f n) }"

definition clock :: "env \<Rightarrow> time prog" where
  "clock E = ask (e_now E)"

definition act :: "env \<Rightarrow> call \<Rightarrow> err option prog" where
  "act E c =
     do {
       run \<leftarrow> gets mem;
       r \<leftarrow> ask (\<lambda>n. e_call E n c);
       modify (\<lambda>s. s\<lparr>trace := ECall run c r # trace s\<rparr>);
       ret r
     }"

text \<open>The run in memory: \<open>run.Status.X = v\<close> is \<open>set_run\<close> of an update.\<close>

definition set_run :: "(CoderRunStatus \<Rightarrow> CoderRunStatus) \<Rightarrow> unit prog" where
  "set_run f = modify (\<lambda>s. s\<lparr>mem := upd_status f (mem s)\<rparr>)"

text \<open>\<open>patchStatus(ctx, before, run)\<close>.\<close>

definition patchStatus :: "env \<Rightarrow> CoderRun \<Rightarrow> err option prog" where
  "patchStatus E before =
     do {
       now \<leftarrow> clock E;
       run \<leftarrow> gets mem;
       (if s_Phase (r_status before) \<noteq> s_Phase (r_status run)
        then set_run (s_PhaseEnteredAt_update (\<lambda>_. Some now)) else ret ());
       after \<leftarrow> gets mem;
       let fields = operator_patch (r_status before) (r_status after);
       if fields = empty_patch then ret None
       else do {
         r \<leftarrow> ask (e_patch E);
         modify (\<lambda>s. s\<lparr>trace := EPatch before after r # trace s\<rparr>);
         (if r = None then modify (\<lambda>s. s\<lparr>api := upd_status (apply_patch fields) (api s)\<rparr>) else ret ());
         ret r
       }
     }"

text \<open>A metadata patch of the run's own annotations, \<open>r.Patch(ctx, run, client.MergeFrom(before))\<close>.\<close>

definition patchAnnotations ::
  "env \<Rightarrow> ((string \<times> string) list \<Rightarrow> (string \<times> string) list) \<Rightarrow> err option prog" where
  "patchAnnotations E f =
     do {
       modify (\<lambda>s. s\<lparr>mem := upd_annotations f (mem s)\<rparr>);
       run \<leftarrow> gets mem;
       r \<leftarrow> act E (PatchAnnotations (m_Annotations (r_meta run)));
       (if r = None then modify (\<lambda>s. s\<lparr>api := upd_annotations f (api s)\<rparr>) else ret ());
       ret r
     }"

section \<open>Source lookup (phase_machine.go)\<close>

definition quoted :: "string \<Rightarrow> string" where
  "quoted s = [chr 34] @ s @ [chr 34]"

definition lookup :: "env \<Rightarrow> string \<Rightarrow> err + adapter" where
  "lookup E name =
     (case e_sources E of
        None \<Rightarrow> Inl (sentinelError ErrSourceRegistryRequired ''coderun controller: source registry is required'')
      | Some adapters \<Rightarrow> (case map_of adapters name of
            None \<Rightarrow> Inl (sentinelError ErrUnknownSource (''coderun controller: unknown source: '' @ quoted name))
          | Some a \<Rightarrow> Inr a))"

definition lookupRun :: "env \<Rightarrow> CoderRun \<Rightarrow> err + adapter" where
  "lookupRun E run =
     (if p_SourceAgent (r_spec run) \<noteq> []
      then lookup E (p_Source (r_spec run) @ '':'' @ p_SourceAgent (r_spec run))
      else lookup E (p_Source (r_spec run)))"

definition sourceWorkItem :: "CoderRun \<Rightarrow> err + WorkItem" where
  "sourceWorkItem run =
     (if TrimSpace (p_WorkItemID (r_spec run)) = []
      then Inl (sentinelError ErrMissingWorkItemID ''coderun controller: work item ID is required'')
      else Inr \<lparr>wi_Context = (if s_SourceReceipt (r_status run) \<noteq> [] then s_SourceReceipt (r_status run)
                             else p_SourceContext (r_spec run)),
                wi_ID = p_WorkItemID (r_spec run), wi_Mode = p_Mode (r_spec run),
                wi_Repo = p_Repo (r_spec run), wi_Ref = p_Ref (r_spec run),
                wi_Lane = p_Lane (r_spec run), wi_Debug = p_Debug (r_spec run)\<rparr>)"

definition adapterAndWorkItem :: "env \<Rightarrow> CoderRun \<Rightarrow> err + adapter \<times> WorkItem" where
  "adapterAndWorkItem E run =
     (case lookupRun E run of
        Inl e \<Rightarrow> Inl e
      | Inr a \<Rightarrow> (case sourceWorkItem run of Inl e \<Rightarrow> Inl e | Inr item \<Rightarrow> Inr (a, item)))"

definition controllerHeadRef :: "CoderRun \<Rightarrow> HeadRef" where
  "controllerHeadRef run = \<lparr>hr_Repo = s_HeadRepo (r_status run), hr_Branch = s_Branch (r_status run),
     hr_SHA = s_HeadSHA (r_status run), hr_BaseRef = []\<rparr>"

text \<open>The result of a handler: the requested requeue delay in \<open>ctrl.Result\<close>, and whether
  \<open>Requeue\<close> is set.\<close>

record result =
  re_RequeueAfter :: duration
  re_Requeue :: bool

definition done_result :: result where
  "done_result = \<lparr>re_RequeueAfter = 0, re_Requeue = False\<rparr>"

definition requeueAfter :: "duration \<Rightarrow> result" where
  "requeueAfter d = \<lparr>re_RequeueAfter = d, re_Requeue = False\<rparr>"

type_synonym handler = "(result \<times> err option) prog"

definition errorResult :: "err \<Rightarrow> result \<times> err option" where
  "errorResult e = (done_result, Some e)"

abbreviation "emptyBranchMessage \<equiv> ''coderun controller: branch resolver returned an empty branch''"

fun mode_name :: "Mode \<Rightarrow> string" where
  "mode_name ModeResolveIssue = ''resolve-issue''"
| "mode_name ModeFixPR = ''fix-pr''"
| "mode_name ModeContribute = ''contribute''"
| "mode_name ModeRebase = ''rebase''"

text \<open>\<open>resolveRunBranch\<close>; only the modes of an existing pull request ask the forge.\<close>

definition resolveRunBranch :: "env \<Rightarrow> CoderRun \<Rightarrow> (err + HeadRef) prog" where
  "resolveRunBranch E run =
     (case p_Mode (r_spec run) of
        ModeResolveIssue \<Rightarrow>
          let resolved = ResolveIssueBranch (p_Repo (r_spec run)) (p_Ref (r_spec run)) in
          ret (if resolved = [] then Inl (sentinelError ErrEmptyResolvedBranch (emptyBranchMessage @ '': resolve-issue''))
               else Inr \<lparr>hr_Repo = p_Repo (r_spec run), hr_Branch = resolved, hr_SHA = [], hr_BaseRef = []\<rparr>)
      | ModeContribute \<Rightarrow>
          if TrimSpace (p_WorkRepo (r_spec run)) = []
          then ret (Inl (sentinelError ErrEmptyResolvedBranch (emptyBranchMessage @ '': contribute requires spec.workRepo'')))
          else
            let resolved = ResolveGoalBranch (p_Repo (r_spec run)) (p_WorkItemID (r_spec run)) in
            ret (if resolved = [] then Inl (sentinelError ErrEmptyResolvedBranch (emptyBranchMessage @ '': contribute''))
                 else Inr \<lparr>hr_Repo = p_WorkRepo (r_spec run), hr_Branch = resolved, hr_SHA = [], hr_BaseRef = []\<rparr>)
      | _ \<Rightarrow>
          if \<not> e_resolver E
          then ret (Inl (sentinelError ErrPRHeadResolverRequired ''coderun controller: fix-pr head resolver is required''))
          else do {
            r \<leftarrow> ask (e_head E);
            ret (case r of
                Inl e \<Rightarrow> Inl e
              | Inr head \<Rightarrow>
                  if TrimSpace (hr_Branch head) = []
                  then Inl (sentinelError ErrEmptyResolvedBranch emptyBranchMessage)
                  else if TrimSpace (hr_Repo head) = []
                  then Inl (sentinelError ErrHeadRepositoryGone (''coderun controller: pull request head repository is missing: ''
                                 @ mode_name (p_Mode (r_spec run)) @ '' head repository is empty''))
                  else Inr head)
          })"

text \<open>The pattern \<open>before := run.DeepCopy(); run.Status...; patchStatus(ctx, before, run)\<close>.\<close>

definition update_run :: "env \<Rightarrow> (CoderRunStatus \<Rightarrow> CoderRunStatus) \<Rightarrow> err option prog" where
  "update_run E f = do { before \<leftarrow> gets mem; set_run f; patchStatus E before }"

section \<open>What a handler may do\<close>

text \<open>
  \<open>does W C P m Q\<close>: started with a run in memory that satisfies \<open>P\<close>, the program \<open>m\<close> ends with a
  result and a run in memory that satisfy \<open>Q\<close>; every status write it attempts takes the run from
  \<open>before\<close> to \<open>after\<close> with \<open>W before after\<close>, and every call it makes satisfies \<open>C\<close> for the run in
  memory at that moment. The writes and calls are read off the log.
\<close>

fun event_ok :: "(CoderRun \<Rightarrow> CoderRun \<Rightarrow> bool) \<Rightarrow> (CoderRun \<Rightarrow> call \<Rightarrow> bool) \<Rightarrow> event \<Rightarrow> bool" where
  "event_ok W C (EPatch before after r) = W before after"
| "event_ok W C (ECall run c r) = C run c"

definition logs ::
  "(CoderRun \<Rightarrow> CoderRun \<Rightarrow> bool) \<Rightarrow> (CoderRun \<Rightarrow> call \<Rightarrow> bool) \<Rightarrow> event list \<Rightarrow> event list \<Rightarrow> bool" where
  "logs W C old new \<longleftrightarrow> (\<exists>es. new = es @ old \<and> list_all (event_ok W C) es)"

definition does ::
  "(CoderRun \<Rightarrow> CoderRun \<Rightarrow> bool) \<Rightarrow> (CoderRun \<Rightarrow> call \<Rightarrow> bool) \<Rightarrow> (CoderRun \<Rightarrow> bool) \<Rightarrow> 'a prog \<Rightarrow>
     ('a \<Rightarrow> CoderRun \<Rightarrow> bool) \<Rightarrow> bool" where
  "does W C P m Q \<longleftrightarrow>
     (\<forall>s a t. P (mem s) \<longrightarrow> run_state m s = (a, t) \<longrightarrow> Q a (mem t) \<and> logs W C (trace s) (trace t))"

lemma logs_refl [simp]: "logs W C tr tr"
  by (simp add: logs_def)

lemma logs_trans: "logs W C tr tr' \<Longrightarrow> logs W C tr' tr'' \<Longrightarrow> logs W C tr tr''"
  by (fastforce simp: logs_def)

lemma logs_Cons [simp]: "logs W C tr (e # tr) \<longleftrightarrow> event_ok W C e"
  by (auto simp: logs_def Cons_eq_append_conv)

lemma doesI:
  assumes "\<And>s a t. P (mem s) \<Longrightarrow> run_state m s = (a, t) \<Longrightarrow> Q a (mem t) \<and> logs W C (trace s) (trace t)"
  shows "does W C P m Q"
  using assms by (auto simp: does_def)

lemma doesD:
  assumes "does W C P m Q" and "P (mem s)" and "run_state m s = (a, t)"
  shows "Q a (mem t)" and "logs W C (trace s) (trace t)"
  using assms by (auto simp: does_def)

lemma does_weaken:
  assumes "does W C P' m Q'" and "\<And>run. P run \<Longrightarrow> P' run" and "\<And>a run. Q' a run \<Longrightarrow> Q a run"
  shows "does W C P m Q"
proof (rule doesI)
  fix s a t assume "P (mem s)" and r: "run_state m s = (a, t)"
  from doesD [OF assms(1) assms(2) [OF this(1)] r] assms(3)
  show "Q a (mem t) \<and> logs W C (trace s) (trace t)" by blast
qed

lemma does_pre: "does W C P' m Q \<Longrightarrow> (\<And>run. P run \<Longrightarrow> P' run) \<Longrightarrow> does W C P m Q"
  by (auto simp: does_def)

lemma does_post: "does W C P m Q' \<Longrightarrow> does W C (\<lambda>run. P run \<and> (\<forall>a run'. Q' a run' \<longrightarrow> Q a run')) m Q"
  by (auto simp: does_def)

lemma does_silent:
  assumes "\<And>s a t. run_state m s = (a, t) \<Longrightarrow> mem t = mem s \<and> trace t = trace s"
  shows "does W C (\<lambda>run. \<forall>a. Q a run) m Q"
  by (rule doesI) (auto dest: assms)

lemma does_ret [wp]: "does W C (Q a) (ret a) Q"
  by (simp add: does_def)

lemma does_gets_mem [wp]: "does W C (\<lambda>run. Q run run) (gets mem) Q"
  by (simp add: does_def)

lemma does_bind [wp]:
  assumes "\<And>a. does W C (R a) (f a) Q" and "does W C P m R"
  shows "does W C P (State_Monad.bind m f) Q"
proof (rule doesI)
  fix s b u assume P: "P (mem s)" and r: "run_state (State_Monad.bind m f) s = (b, u)"
  obtain a t where t: "run_state m s = (a, t)" by fastforce
  with r have u: "run_state (f a) t = (b, u)" by simp
  from doesD [OF assms(2) P t] have R: "R a (mem t)" and l: "logs W C (trace s) (trace t)" .
  from doesD [OF assms(1) R u] l show "Q b (mem u) \<and> logs W C (trace s) (trace u)"
    by (blast intro: logs_trans)
qed

lemma does_if [wp]:
  assumes "b \<Longrightarrow> does W C P m Q" and "\<not> b \<Longrightarrow> does W C P' n Q"
  shows "does W C (\<lambda>run. (b \<longrightarrow> P run) \<and> (\<not> b \<longrightarrow> P' run)) (if b then m else n) Q"
  using assms by (auto simp: does_def)

lemma does_option [wp]:
  assumes "x = None \<Longrightarrow> does W C P m Q" and "\<And>a. x = Some a \<Longrightarrow> does W C (P' a) (f a) Q"
  shows "does W C (\<lambda>run. (x = None \<longrightarrow> P run) \<and> (\<forall>a. x = Some a \<longrightarrow> P' a run))
           (case x of None \<Rightarrow> m | Some a \<Rightarrow> f a) Q"
  using assms by (cases x) (auto simp: does_def)

lemma does_sum [wp]:
  assumes "\<And>e. x = Inl e \<Longrightarrow> does W C (P e) (f e) Q" and "\<And>a. x = Inr a \<Longrightarrow> does W C (P' a) (g a) Q"
  shows "does W C (\<lambda>run. (\<forall>e. x = Inl e \<longrightarrow> P e run) \<and> (\<forall>a. x = Inr a \<longrightarrow> P' a run))
           (case x of Inl e \<Rightarrow> f e | Inr a \<Rightarrow> g a) Q"
  using assms by (cases x) (auto simp: does_def)

lemma does_prod [wp]:
  assumes "\<And>a b. x = (a, b) \<Longrightarrow> does W C (P a b) (f a b) Q"
  shows "does W C (\<lambda>run. \<forall>a b. x = (a, b) \<longrightarrow> P a b run) (case x of (a, b) \<Rightarrow> f a b) Q"
  using assms by (cases x) (auto simp: does_def)

lemma does_Let [wp]: "(\<And>v. v = x \<Longrightarrow> does W C (P v) (f v) Q) \<Longrightarrow> does W C (P x) (Let x f) Q"
  by (simp add: Let_def)

lemma does_ask [wp]: "does W C (\<lambda>run. \<forall>n. Q (f n) run) (ask f) Q"
  by (rule doesI) (auto simp: ask_def next_tick_def)

lemma does_clock [wp]: "does W C (\<lambda>run. \<forall>now. Q now run) (clock E) Q"
  unfolding clock_def by (rule does_pre [OF does_ask]) auto

lemma does_act [wp]: "does W C (\<lambda>run. C run c \<and> (\<forall>r. Q r run)) (act E c) Q"
  by (rule doesI) (auto simp: act_def ask_def next_tick_def)

lemma does_set_run [wp]: "does W C (\<lambda>run. Q () (upd_status f run)) (set_run f) Q"
  by (rule doesI) (auto simp: set_run_def)

lemma does_set_mem [wp]: "does W C (\<lambda>run. Q () (g run)) (modify (\<lambda>s. s\<lparr>mem := g (mem s)\<rparr>)) Q"
  by (rule doesI) auto

lemma does_put_mem [wp]: "does W C (\<lambda>run. Q () run') (modify (\<lambda>s. s\<lparr>mem := run'\<rparr>)) Q"
  by (rule doesI) auto

text \<open>A status write restamps the phase marker of the run in memory.\<close>

definition stamped :: "CoderRun \<Rightarrow> CoderRun \<Rightarrow> time \<Rightarrow> CoderRun" where
  "stamped before run now =
     (if s_Phase (r_status before) \<noteq> s_Phase (r_status run)
      then upd_status (s_PhaseEnteredAt_update (\<lambda>_. Some now)) run else run)"

lemma stamped_sel [simp]:
  "r_spec (stamped before run now) = r_spec run"
  "r_meta (stamped before run now) = r_meta run"
  "s_Phase (r_status (stamped before run now)) = s_Phase (r_status run)"
  "s_CIPark (r_status (stamped before run now)) = s_CIPark (r_status run)"
  "s_CIRepair (r_status (stamped before run now)) = s_CIRepair (r_status run)"
  "s_CISettlement (r_status (stamped before run now)) = s_CISettlement (r_status run)"
  "s_CIParkRelease (r_status (stamped before run now)) = s_CIParkRelease (r_status run)"
  "s_CIParkDeferral (r_status (stamped before run now)) = s_CIParkDeferral (r_status run)"
  "s_FinishedAt (r_status (stamped before run now)) = s_FinishedAt (r_status run)"
  "s_ControlRequest (r_status (stamped before run now)) = s_ControlRequest (r_status run)"
  "s_Restarts (r_status (stamped before run now)) = s_Restarts (r_status run)"
  "s_RetryRequest (r_status (stamped before run now)) = s_RetryRequest (r_status run)"
  "s_NoChange (r_status (stamped before run now)) = s_NoChange (r_status run)"
  "s_Conditions (r_status (stamped before run now)) = s_Conditions (r_status run)"
  "s_PR (r_status (stamped before run now)) = s_PR (r_status run)"
  "s_WorkspaceSafety (r_status (stamped before run now)) = s_WorkspaceSafety (r_status run)"
  by (simp_all add: stamped_def)

lemma run_patchStatus:
  "run_state (patchStatus E before) s =
     (let after = stamped before (mem s) (e_now E (tick s));
          fields = operator_patch (r_status before) (r_status after);
          r = e_patch E (Suc (tick s))
      in if fields = empty_patch then (None, s\<lparr>mem := after, tick := Suc (tick s)\<rparr>)
         else (r, s\<lparr>mem := after, tick := Suc (Suc (tick s)), trace := EPatch before after r # trace s,
                  api := (if r = None then upd_status (apply_patch fields) (api s) else api s)\<rparr>))"
  by (cases "s_Phase (r_status before) \<noteq> s_Phase (r_status (mem s))")
    (simp_all add: patchStatus_def clock_def ask_def next_tick_def set_run_def stamped_def Let_def)

lemma does_patchStatus [wp]:
  "does W C (\<lambda>run. \<forall>now. W before (stamped before run now) \<and> (\<forall>r. Q r (stamped before run now)))
     (patchStatus E before) Q"
  by (rule doesI) (auto simp: run_patchStatus Let_def split: if_splits)

lemma does_update_run [wp]:
  "does W C (\<lambda>run. \<forall>now. W run (stamped run (upd_status f run) now)
       \<and> (\<forall>r. Q r (stamped run (upd_status f run) now))) (update_run E f) Q"
  unfolding update_run_def by (rule does_pre, (rule wp)+) simp

lemma does_patchAnnotations [wp]:
  "does W C (\<lambda>run. C (upd_annotations f run) (PatchAnnotations (m_Annotations (r_meta (upd_annotations f run))))
       \<and> (\<forall>r. Q r (upd_annotations f run))) (patchAnnotations E f) Q"
  by (rule doesI)
    (auto simp: patchAnnotations_def act_def ask_def next_tick_def split: if_splits)

lemma does_resolveRunBranch [wp]: "does W C (\<lambda>r. \<forall>a. Q a r) (resolveRunBranch E run) Q"
  by (rule does_silent)
    (auto simp: resolveRunBranch_def ask_def next_tick_def Let_def split: Mode.splits if_splits)

end
