(* ===== verification/Capacity.thy ===== *)
theory Capacity
  imports Runtime
begin

text \<open>
  Recovery from exhausted capacity (\<open>internal/controller/capacity_recovery.go\<close>): the cooldown a
  confirmed exhaustion puts on its capacity identity, and the fenced settlement that hands the
  attempt back to its source.
\<close>

section \<open>Shared constants and conditions\<close>

abbreviation "capacityRequeueDelay \<equiv> 15 * Second"
abbreviation "observationRequeueDelay \<equiv> 5 * Second"
abbreviation "lifecycleReportRequeueDelay \<equiv> 30 * Second"
abbreviation "provisioningInFlightRequeueDelay \<equiv> 5 * Second"

definition find_condition :: "env \<Rightarrow> CoderRun \<Rightarrow> string \<Rightarrow> Condition option" where
  "find_condition E run t = findCond (e_conds E) (s_Conditions (r_status run)) t"

definition put_condition :: "env \<Rightarrow> Condition \<Rightarrow> CoderRunStatus \<Rightarrow> CoderRunStatus" where
  "put_condition E c s = s\<lparr>s_Conditions := setCond (e_conds E) (s_Conditions s) c\<rparr>"

text \<open>\<open>apimeta.SetStatusCondition\<close> with the clock's now as the transition time.\<close>

definition set_condition_now ::
  "env \<Rightarrow> string \<Rightarrow> ConditionStatus \<Rightarrow> string \<Rightarrow> string \<Rightarrow> int \<Rightarrow> unit prog" where
  "set_condition_now E t st reason message gen =
     do {
       now \<leftarrow> clock E;
       set_run (put_condition E \<lparr>c_Type = t, c_Status = st, c_Reason = reason, c_Message = message,
          c_ObservedGeneration = gen, c_LastTransitionTime = now\<rparr>)
     }"

section \<open>The cooldown\<close>

abbreviation "defaultCapacityCooldownWindow \<equiv> 15 * Minute"
abbreviation "capacityRecoverySettled \<equiv> ''Settled''"
abbreviation "capacityRecoveryUnsupported \<equiv> ''Unsupported''"
abbreviation "capacityRecoveryStale \<equiv> ''Stale''"
abbreviation "capacityRecoveryUnsafeWork \<equiv> ''UnsafeWork''"
abbreviation "capacityRecoveryPendingWriters \<equiv> ''PendingWriters''"
abbreviation "capacityRecoveryRetryable \<equiv> ''Retryable''"
abbreviation "conditionCapacityCooldownRecorded \<equiv> ''CapacityCooldownRecorded''"

definition capacityCooldownRecorded :: "env \<Rightarrow> CoderRun \<Rightarrow> bool" where
  "capacityCooldownRecorded E run =
     (case find_condition E run conditionCapacityCooldownRecorded of
        None \<Rightarrow> False | Some c \<Rightarrow> c_Status c = ConditionTrue)"

definition capacityCooldownWindow :: "env \<Rightarrow> duration" where
  "capacityCooldownWindow E =
     (if 0 < e_CapacityCooldownWindow E then e_CapacityCooldownWindow E else defaultCapacityCooldownWindow)"

definition isCapacityExhaustionRun :: "CoderRun \<Rightarrow> bool" where
  "isCapacityExhaustionRun run =
     (if s_Phase (r_status run) \<noteq> PhaseBlockedExternal then False
      else (case s_TerminalDiagnostic (r_status run) of
          None \<Rightarrow> False
        | Some d \<Rightarrow> td_Category d \<in> {CategoryCapacityExhaustion, CategoryProviderUnavailable,
            CategoryForgeUnavailable, CategoryModelTransportError}))"

definition capacityRecoveryPending :: "env \<Rightarrow> CoderRun \<Rightarrow> bool" where
  "capacityRecoveryPending E run =
     (if \<not> isCapacityExhaustionRun run then False
      else (case find_condition E run ConditionCapacityRecovery of
          None \<Rightarrow> True
        | Some c \<Rightarrow>
            if c_Status c = ConditionTrue \<and> c_Reason c = capacityRecoverySettled then False
            else c_Reason c \<notin> {capacityRecoveryUnsupported, capacityRecoveryStale, capacityRecoveryUnsafeWork}))"

text \<open>The run itself replaces its possibly stale copy in the list, or joins the list.\<close>

fun overlay_run :: "CoderRun \<Rightarrow> CoderRun list \<Rightarrow> CoderRun list" where
  "overlay_run run [] = [run]"
| "overlay_run run (r # rs) =
     (if m_UID (r_meta r) = m_UID (r_meta run) \<and> m_Name (r_meta r) = m_Name (r_meta run)
      then run # rs else r # overlay_run run rs)"

text \<open>The marker of an exhaustion that counts for the identity in the window, if the run carries one.\<close>

definition cooldown_event ::
  "env \<Rightarrow> LaneProfile list \<Rightarrow> string \<Rightarrow> time \<Rightarrow> CoderRun \<Rightarrow> time option" where
  "cooldown_event E lanes identity windowStart event =
     (if \<not> isCapacityExhaustionRun event \<or> p_Lane (r_spec event) = [] then None
      else (case map_of (rev (map (\<lambda>l. (l_Name l, l)) lanes)) (p_Lane (r_spec event)) of
          None \<Rightarrow> None
        | Some eventLane \<Rightarrow>
            if CapacityIdentity eventLane \<noteq> identity then None
            else (case find_condition E event conditionCapacityCooldownRecorded of
                None \<Rightarrow> None
              | Some marker \<Rightarrow>
                  if c_Status marker \<noteq> ConditionTrue \<or> c_LastTransitionTime marker < windowStart then None
                  else Some (c_LastTransitionTime marker))))"

fun cooldown_scan ::
  "env \<Rightarrow> LaneProfile list \<Rightarrow> string \<Rightarrow> time \<Rightarrow> CoderRun list \<Rightarrow> int \<times> time \<times> string \<Rightarrow> int \<times> time \<times> string" where
  "cooldown_scan E lanes identity windowStart [] acc = acc"
| "cooldown_scan E lanes identity windowStart (event # events) (n, latest, latestRun) =
     (case cooldown_event E lanes identity windowStart event of
        None \<Rightarrow> cooldown_scan E lanes identity windowStart events (n, latest, latestRun)
      | Some at \<Rightarrow>
          cooldown_scan E lanes identity windowStart events
            (if latest < at \<or> (at = latest \<and> latestRun < m_Name (r_meta event))
             then (n + 1, at, m_Name (r_meta event)) else (n + 1, latest, latestRun)))"

definition next_cooldown ::
  "env \<Rightarrow> LaneProfile \<Rightarrow> LaneProfile list \<Rightarrow> CoderRun list \<Rightarrow> CoderRun \<Rightarrow> time \<Rightarrow> CapacityCooldown option" where
  "next_cooldown E lane lanes runs run now =
     (let identity = CapacityIdentity lane in
      case cooldown_scan E lanes identity (now - capacityCooldownWindow E) (overlay_run run runs) (0, zero_time, [])
      of (n, latest, latestRun) \<Rightarrow>
        if n = 0 then
          (case l_CapacityCooldown lane of
             None \<Rightarrow> None
           | Some c \<Rightarrow> if cc_CapacityID c = identity then None else Some c)
        else Some \<lparr>cc_CapacityID = identity,
               cc_Reason = ''run '' @ latestRun @ '' reported a recoverable capacity handoff'',
               cc_ExhaustionCount = n, cc_LastExhaustedRun = latestRun,
               cc_NextEligibleAt = latest + capacityCooldownWindow E\<rparr>)"

definition recordCapacityCooldownLane :: "env \<Rightarrow> err option prog" where
  "recordCapacityCooldownLane E =
     do {
       run \<leftarrow> gets mem;
       laneR \<leftarrow> ask (e_lane E);
       case laneR of
         Inl e \<Rightarrow> ret (if errorsIs e NotFound then None
              else Some (wrapError (''get LaneProfile '' @ m_Namespace (r_meta run) @ ''/'' @ p_Lane (r_spec run) @ '': '') e))
       | Inr lane \<Rightarrow> do {
           runsR \<leftarrow> ask (e_runs E);
           case runsR of
             Inl e \<Rightarrow> ret (Some (wrapError ''list capacity exhaustion evidence: '' e))
           | Inr runs \<Rightarrow> do {
               lanesR \<leftarrow> ask (e_lanes E);
               case lanesR of
                 Inl e \<Rightarrow> ret (Some (wrapError ''list capacity evidence lanes: '' e))
               | Inr lanes \<Rightarrow> do {
                   now \<leftarrow> clock E;
                   let cooldown = next_cooldown E lane lanes runs run now;
                   if cooldown = l_CapacityCooldown lane then ret None
                   else do {
                     r \<leftarrow> act E (PatchLane cooldown);
                     ret (map_option (wrapError (''record capacity cooldown on lane '' @ l_Name lane @ '': '')) r)
                   }
                 }
             }
         }
     }"

text \<open>\<open>retry.RetryOnConflict\<close>: the operation again while it fails with a conflict, a bounded number
  of times.\<close>

fun retry_on_conflict :: "nat \<Rightarrow> err option prog \<Rightarrow> err option prog" where
  "retry_on_conflict 0 m = m"
| "retry_on_conflict (Suc n) m =
     do {
       r \<leftarrow> m;
       case r of
         None \<Rightarrow> ret None
       | Some e \<Rightarrow> if errorsIs e Conflict then retry_on_conflict n m else ret r
     }"

definition recordCapacityCooldown :: "env \<Rightarrow> err option prog" where
  "recordCapacityCooldown E =
     do {
       run \<leftarrow> gets mem;
       r \<leftarrow> (if capacityCooldownRecorded E run then ret None
            else do {
              now \<leftarrow> clock E;
              update_run E (put_condition E \<lparr>c_Type = conditionCapacityCooldownRecorded,
                c_Status = ConditionTrue, c_Reason = ''Recorded'',
                c_Message = ''confirmed capacity exhaustion registered'', c_ObservedGeneration = 0,
                c_LastTransitionTime = now\<rparr>)
            });
       case r of
         Some e \<Rightarrow> ret (Some e)
       | None \<Rightarrow> retry_on_conflict (e_conflict_retries E) (recordCapacityCooldownLane E)
     }"

section \<open>The settlement\<close>

definition capacitySettlementKey :: "CoderRun \<Rightarrow> string" where
  "capacitySettlementKey run =
     ''capacity/'' @ m_Namespace (r_meta run) @ ''/'' @ m_Name (r_meta run) @ ''/'' @ m_UID (r_meta run)"

definition safeCapacityWorkspace :: "WorkspaceSafetyEvidence option \<Rightarrow> string \<Rightarrow> string \<Rightarrow> bool" where
  "safeCapacityWorkspace evidence branch head =
     (case evidence of
        None \<Rightarrow> False
      | Some ev \<Rightarrow>
          if ws_State ev = ''empty'' then True
          else if ws_State ev = ''pushed'' then
            ws_RemoteHead ev \<noteq> [] \<and> ws_Head ev \<noteq> [] \<and> ws_RemoteHead ev = ws_Head ev
            \<and> ws_Branch ev \<noteq> [] \<and> ws_Branch ev = branch \<and> branch \<noteq> []
          else False)"

definition setCapacityRecovery :: "env \<Rightarrow> ConditionStatus \<Rightarrow> string \<Rightarrow> string \<Rightarrow> err option prog" where
  "setCapacityRecovery E st reason message =
     do {
       now \<leftarrow> clock E;
       update_run E (put_condition E \<lparr>c_Type = ConditionCapacityRecovery, c_Status = st, c_Reason = reason,
         c_Message = message, c_ObservedGeneration = 0, c_LastTransitionTime = now\<rparr>)
     }"

text \<open>The pods that still hold the settlement back: of the run, and not yet terminated.\<close>

definition live_writer :: "CoderRun \<Rightarrow> Pod \<Rightarrow> bool" where
  "live_writer run pod \<longleftrightarrow>
     podBelongsToRun pod run \<and>
     (po_DeletionTimestamp pod \<noteq> None \<or> (po_Phase pod \<noteq> PodSucceeded \<and> po_Phase pod \<noteq> PodFailed))"

text \<open>What a refusal of the source makes of the settlement.\<close>

definition capacity_refusal :: "env \<Rightarrow> err \<Rightarrow> handler" where
  "capacity_refusal E e =
     (if errorsIs e ErrStaleCapacitySettlement \<or> errorsIs e ErrSuperseded
      then do { r \<leftarrow> setCapacityRecovery E ConditionFalse capacityRecoveryStale (er_msg e); ret (done_result, r) }
      else if errorsIs e ErrUnsupportedCapacityRecovery
      then do { r \<leftarrow> setCapacityRecovery E ConditionFalse capacityRecoveryUnsupported (er_msg e); ret (done_result, r) }
      else do { r \<leftarrow> setCapacityRecovery E ConditionFalse capacityRecoveryRetryable (er_msg e);
                ret (requeueAfter lifecycleReportRequeueDelay, r) })"

text \<open>\<open>recoverCapacityExhaustion\<close>.\<close>

definition settle_capacity :: "env \<Rightarrow> adapter \<Rightarrow> WorkItem \<Rightarrow> handler" where
  "settle_capacity E adapter item =
     do {
       run \<leftarrow> gets mem;
       let key = capacitySettlementKey run;
       prepared \<leftarrow> act E (PrepareCapacityRecovery item (m_UID (r_meta run)) key);
       case prepared of
         Some e \<Rightarrow> capacity_refusal E e
       | None \<Rightarrow> do {
           proof \<leftarrow> ask (e_proof E);
           if cq_FenceToken proof = [] \<or> cq_WorkIdentity proof = [] \<or> cq_SafetyProof proof = []
           then do {
             r \<leftarrow> setCapacityRecovery E ConditionFalse capacityRecoveryUnsafeWork
               ''source returned incomplete authoritative safety proof; ownership remains held'';
             ret (done_result, r)
           }
           else do {
             laneR \<leftarrow> ask (e_lane E);
             case laneR of
               Inl e \<Rightarrow> do {
                 r \<leftarrow> setCapacityRecovery E ConditionFalse capacityRecoveryRetryable
                   (''read capacity identity for source settlement: '' @ er_msg e);
                 ret (done_result, r)
               }
             | Inr lane \<Rightarrow>
                 if \<not> ad_CapacityRecovery adapter then do {
                   r \<leftarrow> setCapacityRecovery E ConditionFalse capacityRecoveryUnsupported
                     ''source cannot atomically settle capacity recovery; ownership remains held'';
                   ret (done_result, r)
                 }
                 else do {
                   settled \<leftarrow> act E (SettleCapacityExhaustion item
                     \<lparr>ch_FenceToken = cq_FenceToken proof, ch_IdempotencyKey = key,
                      ch_WorkIdentity = cq_WorkIdentity proof, ch_Branch = cq_Branch proof,
                      ch_PR = cq_PR proof, ch_CapacityIdentity = CapacityIdentity lane\<rparr>);
                   case settled of
                     Some e \<Rightarrow> capacity_refusal E e
                   | None \<Rightarrow> do {
                       r \<leftarrow> setCapacityRecovery E ConditionTrue capacityRecoverySettled
                         ''source accepted authoritative safe handoff and settled this attempt'';
                       ret (done_result, r)
                     }
                 }
           }
         }
     }"

definition recoverCapacityExhaustion :: "env \<Rightarrow> adapter \<Rightarrow> WorkItem \<Rightarrow> handler" where
  "recoverCapacityExhaustion E adapter item =
     do {
       recorded \<leftarrow> recordCapacityCooldown E;
       case recorded of
         Some e \<Rightarrow> ret (errorResult e)
       | None \<Rightarrow> do {
           run \<leftarrow> gets mem;
           case find_condition E run ConditionLifecycleReported of
             None \<Rightarrow> ret (done_result, None)
           | Some report \<Rightarrow>
               if c_Status report \<noteq> ConditionTrue then ret (done_result, None)
               else if c_Reason report = ''Superseded'' then do {
                 r \<leftarrow> setCapacityRecovery E ConditionFalse capacityRecoveryStale
                   ''the lifecycle report was superseded; a newer source attempt owns the work'';
                 ret (done_result, r)
               }
               else do {
                 podsR \<leftarrow> ask (e_pods E);
                 case podsR of
                   Inl e \<Rightarrow> ret (errorResult e)
                 | Inr pods \<Rightarrow>
                     if list_ex (live_writer run) pods then do {
                       r \<leftarrow> setCapacityRecovery E ConditionFalse capacityRecoveryPendingWriters
                         ''run topology still has live pods; settlement waits for every writer to terminate'';
                       ret (requeueAfter observationRequeueDelay, r)
                     }
                     else if \<not> safeCapacityWorkspace (s_WorkspaceSafety (r_status run))
                         (s_Branch (r_status run)) (s_HeadSHA (r_status run)) then do {
                       r \<leftarrow> setCapacityRecovery E ConditionFalse capacityRecoveryUnsafeWork
                         ''trusted workspace evidence does not prove partial work is safely held remotely; ownership remains held'';
                       ret (done_result, r)
                     }
                     else if \<not> ad_CapacityRecoveryPreparer adapter then do {
                       r \<leftarrow> setCapacityRecovery E ConditionFalse capacityRecoveryUnsupported
                         ''source does not provide authoritative capacity-recovery proof; ownership remains held'';
                       ret (done_result, r)
                     }
                     else settle_capacity E adapter item
               }
         }
     }"

end
