(* ===== verification/Lifecycle.thy ===== *)
theory Lifecycle
  imports Capacity
begin

text \<open>
  How a run ends (\<open>internal/controller/coderun_controller.go\<close> and \<open>alreadydone.go\<close>): the terminal
  transition, the lifecycle report to the source with its pending, settled and refused outcomes, the
  evidence-gated close of an already-done run with its announcement, and the roll-backs of a claim.
\<close>

section \<open>The lifecycle report\<close>

abbreviation "lifecycleReportedCondition \<equiv> ConditionLifecycleReported"
abbreviation "provisioningCollisionCondition \<equiv> ''ProvisioningCollision''"
abbreviation "provisioningCollisionStuckTerminatingReason \<equiv> ''StuckTerminatingPod''"
abbreviation "lifecycleReportSupportedCondition \<equiv> ''LifecycleReportSupported''"
abbreviation "lifecycleReportPendingReason \<equiv> ''Pending''"
abbreviation "lifecycleReportPendingBlockedReportParksPRFixReason \<equiv> ''PendingBlockedReportParksPRFix''"
abbreviation "lifecycleReportPendingWithErrorReason \<equiv> ''PendingWithError''"
abbreviation "lifecycleReportPendingExternalVerificationFailureReason \<equiv> ''PendingExternalVerificationFailure''"
abbreviation "lifecycleReportUnsupportedOutcomeReason \<equiv> ''UnsupportedOutcome''"
abbreviation "lifecycleReportPublishedReason \<equiv> ''Published''"
abbreviation "lifecycleReportSupersededReason \<equiv> ''Superseded''"
abbreviation "lifecycleReportPermanentRefusalReason \<equiv> ''PermanentRefusal''"
abbreviation "lifecycleReportRetryableReason \<equiv> ''Retryable''"
abbreviation "lifecycleReportAcceptedSupportReason \<equiv> ''Accepted''"
abbreviation "retryLifecycleReportAnnotation \<equiv> ''courier.misospace.dev/retry-lifecycle-report''"
abbreviation "externalVerificationFailureReason \<equiv> ''external verification failed''"
abbreviation "rebaseAttemptFailedReason \<equiv>
  ''rebase attempt failed; the episode returns to the source under its attempt cap''"

record terminalLifecycleIntent =
  ti_skipPRFixQueueMark :: bool
  ti_ciFailure :: bool
  ti_error :: string
  ti_diagnostic :: "TerminalDiagnostic option"
  ti_conditions :: "Condition list"

definition no_intent :: terminalLifecycleIntent where
  "no_intent = \<lparr>ti_skipPRFixQueueMark = False, ti_ciFailure = False, ti_error = [],
     ti_diagnostic = None, ti_conditions = []\<rparr>"

definition error_intent :: "string \<Rightarrow> terminalLifecycleIntent" where
  "error_intent m = no_intent\<lparr>ti_error := m\<rparr>"

definition pendingLifecycleReason :: "terminalLifecycleIntent \<Rightarrow> string" where
  "pendingLifecycleReason intent =
     (if ti_ciFailure intent then lifecycleReportPendingExternalVerificationFailureReason
      else if ti_skipPRFixQueueMark intent then lifecycleReportPendingBlockedReportParksPRFixReason
      else if ti_error intent \<noteq> [] then lifecycleReportPendingWithErrorReason
      else lifecycleReportPendingReason)"

definition pendingLifecycleIntent :: "env \<Rightarrow> CoderRun \<Rightarrow> terminalLifecycleIntent" where
  "pendingLifecycleIntent E run =
     (case find_condition E run lifecycleReportedCondition of
        None \<Rightarrow> no_intent
      | Some cond \<Rightarrow>
          if c_Status cond \<noteq> ConditionFalse then no_intent
          else no_intent\<lparr>
            ti_skipPRFixQueueMark := (c_Reason cond = lifecycleReportPendingBlockedReportParksPRFixReason),
            ti_ciFailure := (c_Reason cond = lifecycleReportPendingExternalVerificationFailureReason),
            ti_error := c_Message cond\<rparr>)"

definition stateForTerminalPhase :: "Phase \<Rightarrow> Mode \<Rightarrow> terminalLifecycleIntent \<Rightarrow> State" where
  "stateForTerminalPhase phase runMode intent =
     (case phase of
        PhaseAwaitingReview \<Rightarrow> StateInReview
      | PhaseBlockedExternal \<Rightarrow> StateInProgress
      | PhaseNeedsHuman \<Rightarrow> StateNeedsHuman
      | PhaseFailed \<Rightarrow>
          if (runMode = ModeFixPR \<and> ti_ciFailure intent) \<or> runMode = ModeRebase then StateInProgress
          else StateNeedsHuman
      | _ \<Rightarrow> StateNone)"

fun phase_name :: "Phase \<Rightarrow> string" where
  "phase_name PhaseUnset = []"
| "phase_name PhasePending = ''Pending''"
| "phase_name PhaseClaimed = ''Claimed''"
| "phase_name PhaseRunning = ''Running''"
| "phase_name PhaseVerifying = ''Verifying''"
| "phase_name PhaseAwaitingReview = ''AwaitingReview''"
| "phase_name PhaseHandedOff = ''HandedOff''"
| "phase_name PhaseNeedsHuman = ''NeedsHuman''"
| "phase_name PhaseDone = ''Done''"
| "phase_name PhaseAlreadyDone = ''AlreadyDone''"
| "phase_name PhaseFailed = ''Failed''"
| "phase_name PhaseBlockedExternal = ''BlockedExternal''"

definition lifecycleIdempotencyKey :: "CoderRun \<Rightarrow> Phase \<Rightarrow> string" where
  "lifecycleIdempotencyKey run phase =
     (let key = ''coderun/'' @ m_Namespace (r_meta run) @ ''/'' @ m_Name (r_meta run) @ ''/'' @ phase_name phase
      in if m_UID (r_meta run) \<noteq> [] then key @ ''/'' @ m_UID (r_meta run) else key)"

definition empty_lifecycle :: Lifecycle where
  "empty_lifecycle = \<lparr>lc_State = StateNone, lc_Result = ResultNone, lc_PR = [], lc_Error = [],
     lc_BlockedReportParksPRFix = False, lc_IdempotencyKey = [], lc_Telemetry = None,
     lc_StartedAt = None, lc_Close = None\<rparr>"

definition lifecycleForPhase ::
  "Phase \<Rightarrow> Mode \<Rightarrow> State \<Rightarrow> string \<Rightarrow> time option \<Rightarrow> terminalLifecycleIntent \<Rightarrow> Lifecycle" where
  "lifecycleForPhase phase runMode st pr startedAt intent =
     (let lifecycle = empty_lifecycle\<lparr>lc_State := st, lc_PR := pr, lc_StartedAt := startedAt\<rparr> in
      case phase of
        PhaseAwaitingReview \<Rightarrow> (if pr \<noteq> [] then lifecycle\<lparr>lc_Result := ResultReady\<rparr> else lifecycle)
      | PhaseFailed \<Rightarrow>
          if ti_ciFailure intent
          then lifecycle\<lparr>lc_Result := ResultFailed, lc_Error := externalVerificationFailureReason\<rparr>
          else if runMode = ModeRebase
          then lifecycle\<lparr>lc_Result := ResultFailed, lc_Error := rebaseAttemptFailedReason\<rparr>
          else lifecycle\<lparr>lc_Result := ResultBlocked, lc_Error := ''coordinator failed''\<rparr>
      | PhaseHandedOff \<Rightarrow> lifecycle\<lparr>lc_Result := ResultHandedOff, lc_Error := externalVerificationFailureReason\<rparr>
      | PhaseNeedsHuman \<Rightarrow>
          lifecycle\<lparr>lc_Result := ResultBlocked,
            lc_Error := (if ti_error intent = [] then ''run requires human intervention'' else ti_error intent),
            lc_BlockedReportParksPRFix := ti_skipPRFixQueueMark intent\<rparr>
      | PhaseBlockedExternal \<Rightarrow>
          lifecycle\<lparr>lc_Result := ResultBlockedExternal,
            lc_Error := (if ti_error intent = [] then ''run is blocked on an external prerequisite''
                         else ti_error intent)\<rparr>
      | PhaseAlreadyDone \<Rightarrow> lifecycle\<lparr>lc_Result := ResultAlreadyDone, lc_Error := ti_error intent\<rparr>
      | _ \<Rightarrow> lifecycle)"

definition reportLifecycle :: "env \<Rightarrow> adapter \<Rightarrow> WorkItem \<Rightarrow> Lifecycle \<Rightarrow> err option prog" where
  "reportLifecycle E adapter item lifecycle =
     (if ad_Reporter adapter then act E (Report item lifecycle) else ret None)"

definition setLifecycleReport :: "env \<Rightarrow> bool \<Rightarrow> string \<Rightarrow> string \<Rightarrow> unit prog" where
  "setLifecycleReport E published reason message =
     set_condition_now E lifecycleReportedCondition (if published then ConditionTrue else ConditionFalse)
       reason message 0"

definition setLifecycleReportCapability :: "env \<Rightarrow> ConditionStatus \<Rightarrow> string \<Rightarrow> string \<Rightarrow> unit prog" where
  "setLifecycleReportCapability E st reason message =
     set_condition_now E lifecycleReportSupportedCondition st reason message 0"

definition lifecycleReportUnsupported :: "env \<Rightarrow> CoderRun \<Rightarrow> bool" where
  "lifecycleReportUnsupported E run =
     (case find_condition E run lifecycleReportSupportedCondition of
        None \<Rightarrow> False
      | Some cond \<Rightarrow> c_Status cond = ConditionFalse \<and> c_Reason cond = lifecycleReportUnsupportedOutcomeReason)"

definition validLifecycleReportRetryToken :: "string \<Rightarrow> bool" where
  "validLifecycleReportRetryToken token \<longleftrightarrow>
     token \<noteq> [] \<and> ValidString token \<and> RuneCountInString token \<le> 128"

definition lifecycleReportRetryRequested :: "CoderRun \<Rightarrow> bool" where
  "lifecycleReportRetryRequested run =
     (case map_of (m_Annotations (r_meta run)) retryLifecycleReportAnnotation of
        None \<Rightarrow> False
      | Some token \<Rightarrow> validLifecycleReportRetryToken token \<and> token \<noteq> s_LifecycleReportRetryToken (r_status run))"

definition lifecycleReportRetryTokenInvalid :: "CoderRun \<Rightarrow> bool" where
  "lifecycleReportRetryTokenInvalid run =
     (case map_of (m_Annotations (r_meta run)) retryLifecycleReportAnnotation of
        None \<Rightarrow> False | Some token \<Rightarrow> \<not> validLifecycleReportRetryToken token)"

definition lifecycleReportPending :: "env \<Rightarrow> CoderRun \<Rightarrow> bool" where
  "lifecycleReportPending E run =
     (if s_Phase (r_status run) \<notin> {PhaseAwaitingReview, PhaseHandedOff, PhaseNeedsHuman, PhaseFailed,
           PhaseBlockedExternal, PhaseAlreadyDone} then False
      else (case find_condition E run lifecycleReportedCondition of
          None \<Rightarrow> False | Some cond \<Rightarrow> c_Status cond = ConditionFalse))"

definition lifecycleReportSettled :: "env \<Rightarrow> CoderRun \<Rightarrow> bool" where
  "lifecycleReportSettled E run =
     (case find_condition E run lifecycleReportedCondition of
        None \<Rightarrow> False
      | Some cond \<Rightarrow>
          c_Status cond = ConditionTrue \<and>
          c_Reason cond \<in> {lifecycleReportPublishedReason, lifecycleReportSupersededReason,
            lifecycleReportPermanentRefusalReason})"

text \<open>\<open>markLifecycleReportOutcome\<close>; the outcome metric is not part of the state.\<close>

definition record_support :: "env \<Rightarrow> string \<Rightarrow> unit prog" where
  "record_support E supportReason =
     (if supportReason = lifecycleReportUnsupportedOutcomeReason then
        setLifecycleReportCapability E ConditionFalse lifecycleReportUnsupportedOutcomeReason
          ''source rejected this lifecycle outcome as unsupported''
      else if supportReason = lifecycleReportAcceptedSupportReason then
        setLifecycleReportCapability E ConditionTrue lifecycleReportAcceptedSupportReason
          ''source accepted this lifecycle outcome''
      else if supportReason = lifecycleReportSupersededReason then
        setLifecycleReportCapability E ConditionUnknown lifecycleReportSupersededReason
          ''source lifecycle report was superseded before acceptance could be determined''
      else if supportReason = lifecycleReportPermanentRefusalReason then
        setLifecycleReportCapability E ConditionUnknown lifecycleReportPermanentRefusalReason
          ''source permanently refused this lifecycle report; retrying the same report cannot succeed''
      else if supportReason = lifecycleReportRetryableReason then
        setLifecycleReportCapability E ConditionUnknown lifecycleReportRetryableReason
          ''source report failed transiently; automatic retry remains enabled''
      else ret ())"

definition settle_token :: "string \<Rightarrow> string \<Rightarrow> CoderRunStatus \<Rightarrow> CoderRunStatus" where
  "settle_token retryToken supportReason s =
     (if supportReason = lifecycleReportRetryableReason
      then (if retryToken \<noteq> [] then s\<lparr>s_LifecycleReportActiveRetryToken := retryToken\<rparr> else s)
      else (if retryToken \<noteq> [] then s\<lparr>s_LifecycleReportRetryToken := retryToken\<rparr> else s)
        \<lparr>s_LifecycleReportActiveRetryToken := []\<rparr>)"

definition markLifecycleReportOutcome ::
  "env \<Rightarrow> bool \<Rightarrow> string \<Rightarrow> string \<Rightarrow> string \<Rightarrow> string \<Rightarrow> err option prog" where
  "markLifecycleReportOutcome E published reason message retryToken supportReason =
     do {
       before \<leftarrow> gets mem;
       (if reason \<noteq> lifecycleReportUnsupportedOutcomeReason
        then setLifecycleReport E published reason message else ret ());
       record_support E supportReason;
       set_run (settle_token retryToken supportReason);
       patchStatus E before
     }"

definition publishSourceLifecycle ::
  "env \<Rightarrow> adapter \<Rightarrow> WorkItem \<Rightarrow> Phase \<Rightarrow> terminalLifecycleIntent \<Rightarrow> err option prog" where
  "publishSourceLifecycle E adapter item phase intent =
     do {
       run \<leftarrow> gets mem;
       let legacyNoChange = (phase = PhaseAwaitingReview \<and> s_DeclaredNoChange (r_status run)
             \<and> p_Mode (r_spec run) = ModeFixPR);
       let st = (if legacyNoChange then StateInProgress
                 else stateForTerminalPhase phase (p_Mode (r_spec run)) intent);
       let lifecycle = lifecycleForPhase phase (p_Mode (r_spec run)) st (s_PR (r_status run))
             (s_StartedAt (r_status run)) intent;
       if isCapacityExhaustionRun run
       then reportLifecycle E adapter item (lifecycle\<lparr>lc_Result := ResultCapacityExhausted,
              lc_IdempotencyKey := lifecycleIdempotencyKey run phase\<rparr>)
       else do {
         moved \<leftarrow> (if st \<noteq> StateNone then act E (Transition item st) else ret None);
         case moved of
           Some e \<Rightarrow> ret (Some e)
         | None \<Rightarrow>
             reportLifecycle E adapter item
               ((if legacyNoChange
                 then lifecycle\<lparr>lc_Result := ResultBlockedExternal,
                   lc_Error := ''no changes pushed; queued feedback resolution is not verified''\<rparr>
                 else lifecycle)
                \<lparr>lc_IdempotencyKey := lifecycleIdempotencyKey run phase, lc_Telemetry := s_Telemetry (r_status run)\<rparr>)
       }
     }"

text \<open>The explicit retry token a report attempt answers.\<close>

definition retry_token :: "env \<Rightarrow> CoderRun \<Rightarrow> string" where
  "retry_token E run =
     (let retryToken = s_LifecycleReportActiveRetryToken (r_status run) in
      if retryToken = [] \<and> lifecycleReportUnsupported E run \<and> lifecycleReportRetryRequested run
      then lookup_annotation (m_Annotations (r_meta run)) retryLifecycleReportAnnotation else retryToken)"

text \<open>\<open>publishTerminalLifecycle\<close> for every phase but \<open>AlreadyDone\<close>, which has its own settlement below.\<close>

definition publish_ordinary ::
  "env \<Rightarrow> adapter \<Rightarrow> WorkItem \<Rightarrow> Phase \<Rightarrow> terminalLifecycleIntent \<Rightarrow> handler" where
  "publish_ordinary E adapter item phase intent =
     do {
       published \<leftarrow> publishSourceLifecycle E adapter item phase intent;
       run \<leftarrow> gets mem;
       let retryToken = retry_token E run;
       case published of
         None \<Rightarrow> do {
           marked \<leftarrow> markLifecycleReportOutcome E True lifecycleReportPublishedReason [] retryToken
             lifecycleReportAcceptedSupportReason;
           case marked of
             Some e \<Rightarrow> ret (errorResult e)
           | None \<Rightarrow> do {
               run \<leftarrow> gets mem;
               if isCapacityExhaustionRun run then recoverCapacityExhaustion E adapter item
               else ret (done_result, None)
             }
         }
       | Some e \<Rightarrow>
           if errorsIs e ErrSuperseded then do {
             r \<leftarrow> markLifecycleReportOutcome E True lifecycleReportSupersededReason (er_msg e) []
               lifecycleReportSupersededReason;
             ret (done_result, r)
           }
           else if errorsIs e ErrUnsupportedOutcome then do {
             r \<leftarrow> markLifecycleReportOutcome E False (pendingLifecycleReason intent) (ti_error intent) retryToken
               lifecycleReportUnsupportedOutcomeReason;
             ret (done_result, r)
           }
           else if errorsIs e ErrPermanentRefusal then do {
             r \<leftarrow> markLifecycleReportOutcome E True lifecycleReportPermanentRefusalReason (er_msg e) []
               lifecycleReportPermanentRefusalReason;
             ret (done_result, r)
           }
           else do {
             r \<leftarrow> markLifecycleReportOutcome E False (pendingLifecycleReason intent) (ti_error intent) retryToken
               lifecycleReportRetryableReason;
             ret (requeueAfter lifecycleReportRequeueDelay, r)
           }
     }"

section \<open>The terminal transition\<close>

text \<open>\<open>Duration.Round(time.Second)\<close> of a non-negative duration, and \<open>Duration.String\<close>: hours,
  minutes and seconds with their fraction, or a smaller unit below one second.\<close>

definition round_second :: "duration \<Rightarrow> duration" where
  "round_second d = (let r = d mod Second in if r + r < Second then d - r else d + (Second - r))"

definition fraction_string :: "nat \<Rightarrow> nat \<Rightarrow> string" where
  "fraction_string v p =
     (let ds = nat_digits (v mod 10 ^ p);
          padded = replicate (p - length ds) CHR ''0'' @ ds;
          digits = rev (dropWhile (\<lambda>c. c = CHR ''0'') (rev padded))
      in if digits = [] then [] else CHR ''.'' # digits)"

definition scaled_string :: "nat \<Rightarrow> nat \<Rightarrow> string" where
  "scaled_string v p = nat_digits (v div 10 ^ p) @ fraction_string v p"

definition Duration_String :: "duration \<Rightarrow> string" where
  "Duration_String d =
     (let u = nat \<bar>d\<bar>; s = u div 10 ^ 9; m = s div 60; h = m div 60;
          body = (if u = 0 then ''0s''
            else if u < 1000 then nat_digits u @ ''ns''
            else if u < 1000000 then scaled_string u 3 @ [chr 194, chr 181] @ ''s''
            else if u < 1000000000 then scaled_string u 6 @ ''ms''
            else (if 0 < h then nat_digits h @ ''h'' else []) @
                 (if 0 < m then nat_digits (m mod 60) @ ''m'' else []) @
                 nat_digits (s mod 60) @ fraction_string u 9 @ ''s'')
      in if d < 0 then CHR ''-'' # body else body)"

definition durationString :: "duration \<Rightarrow> string" where
  "durationString d = Duration_String (round_second (if d < 0 then 0 else d))"

definition enrichTerminalPR :: "env \<Rightarrow> string prog" where
  "enrichTerminalPR E =
     do {
       run \<leftarrow> gets mem;
       let pr = s_PR (r_status run);
       if \<not> e_observer E \<or> s_Branch (r_status run) = [] then ret pr
       else do {
         observed \<leftarrow> ask (e_observe E);
         ret (case observed of
             Inl e \<Rightarrow> pr
           | Inr observation \<Rightarrow> if ob_PR observation = [] then pr else ob_PR observation)
       }
     }"

definition abandonCIRepairAttempt :: "CoderRun \<Rightarrow> CoderRunStatus \<Rightarrow> CoderRunStatus" where
  "abandonCIRepairAttempt run s =
     (case s_CIRepair s of
        None \<Rightarrow> s
      | Some attempt \<Rightarrow>
          (if rp_FenceToken attempt \<noteq> []
           then s\<lparr>s_CISettlement := Some \<lparr>se_FenceToken = rp_FenceToken attempt,
                  se_IdempotencyKey = ciparkRepairKey run (rp_Attempt attempt),
                  se_Result = CIParkOutcomeUnsupported, se_Head = []\<rparr>\<rparr>
           else s)\<lparr>s_CIRepair := None\<rparr>)"

text \<open>The in-memory part every terminal transition performs.\<close>

definition enter_terminal ::
  "CoderRun \<Rightarrow> Phase \<Rightarrow> string \<Rightarrow> RunTelemetry option \<Rightarrow> CoderRunStatus \<Rightarrow> CoderRunStatus" where
  "enter_terminal run phase pr telemetry s =
     (let s = s\<lparr>s_ControlRequest := None, s_ControlRequestAck := None\<rparr>;
          s = (abandonCIRepairAttempt run s)\<lparr>s_Phase := phase\<rparr>;
          s = (if pr \<noteq> [] then s\<lparr>s_PR := pr\<rparr> else s)
      in if telemetry \<noteq> None then s\<lparr>s_Telemetry := telemetry\<rparr> else s)"

definition finish_at :: "time \<Rightarrow> CoderRunStatus \<Rightarrow> CoderRunStatus" where
  "finish_at now s =
     (let s' = s\<lparr>s_FinishedAt := Some now\<rparr> in
      case s_StartedAt s of
        None \<Rightarrow> s'
      | Some started \<Rightarrow>
          if s_RunDuration s = [] then s'\<lparr>s_RunDuration := durationString (now - started)\<rparr> else s')"

text \<open>The part of a transition into a new phase: end time, diagnostic, the caller's conditions and
  the pending report.\<close>

definition stamp_terminal :: "env \<Rightarrow> terminalLifecycleIntent \<Rightarrow> unit prog" where
  "stamp_terminal E intent =
     do {
       run \<leftarrow> gets mem;
       (if s_FinishedAt (r_status run) = None
        then do { now \<leftarrow> clock E; set_run (finish_at now) } else ret ());
       (if ti_diagnostic intent \<noteq> None \<and> s_TerminalDiagnostic (r_status run) = None
        then set_run (s_TerminalDiagnostic_update (\<lambda>_. ti_diagnostic intent)) else ret ());
       set_run (fold (put_condition E) (ti_conditions intent));
       setLifecycleReport E False (pendingLifecycleReason intent) (ti_error intent)
     }"

definition terminal_write_due :: "CoderRunStatus \<Rightarrow> CoderRunStatus \<Rightarrow> bool" where
  "terminal_write_due b a \<longleftrightarrow>
     s_Phase a \<noteq> s_Phase b \<or> s_PR a \<noteq> s_PR b \<or> s_Telemetry a \<noteq> s_Telemetry b
     \<or> s_TerminalDiagnostic a \<noteq> s_TerminalDiagnostic b \<or> s_ControlRequest a \<noteq> s_ControlRequest b
     \<or> s_ControlRequestAck a \<noteq> s_ControlRequestAck b \<or> s_WorkspaceSafety a \<noteq> s_WorkspaceSafety b
     \<or> s_Conditions a \<noteq> s_Conditions b \<or> s_CIRepair a \<noteq> s_CIRepair b \<or> s_CISettlement a \<noteq> s_CISettlement b"

text \<open>
  \<open>transitionTerminal\<close>, over the report it publishes at the end. The report of an already-done run
  may transition the run once more, to \<open>NeedsHuman\<close>, whose report is an ordinary one: the code's
  mutual recursion unrolls to two instances of this definition.
\<close>

definition transitionTerminal_with ::
  "(adapter \<Rightarrow> WorkItem \<Rightarrow> Phase \<Rightarrow> terminalLifecycleIntent \<Rightarrow> handler) \<Rightarrow>
   env \<Rightarrow> Phase \<Rightarrow> string \<Rightarrow> terminalLifecycleIntent \<Rightarrow> RunTelemetry option \<Rightarrow> handler" where
  "transitionTerminal_with publish E phase pr intent telemetry =
     do {
       pr \<leftarrow> (if phase \<in> {PhaseNeedsHuman, PhaseFailed, PhaseBlockedExternal} \<and> pr = []
             then enrichTerminalPR E else ret pr);
       before \<leftarrow> gets mem;
       case adapterAndWorkItem E before of
         Inl e \<Rightarrow> ret (errorResult e)
       | Inr (adapter, item) \<Rightarrow> do {
           let phaseChanged = (s_Phase (r_status before) \<noteq> phase);
           set_run (enter_terminal before phase pr telemetry);
           (if phaseChanged then stamp_terminal E intent else ret ());
           after \<leftarrow> gets mem;
           written \<leftarrow> (if terminal_write_due (r_status before) (r_status after)
                      then patchStatus E before else ret None);
           case written of
             Some e \<Rightarrow> ret (errorResult e)
           | None \<Rightarrow>
               if \<not> phaseChanged then ret (done_result, None)
               else publish adapter item phase intent
         }
     }"

section \<open>The already-done close (alreadydone.go)\<close>

abbreviation "sourceCloseCondition \<equiv> ''SourceClose''"
abbreviation "sourceCloseClosedReason \<equiv> ''Closed''"
abbreviation "sourceCloseRefusedReason \<equiv> ''Refused''"
abbreviation "sourceCloseFailedReason \<equiv> ''Failed''"
abbreviation "sourceCloseSkippedReason \<equiv> ''Skipped''"
abbreviation "sourceCloseUnsupportedReason \<equiv> ''Unsupported''"
abbreviation "sourceCloseRefusedPermanentlyReason \<equiv> ''RefusedPermanently''"
abbreviation "sourceCloseCommentedCondition \<equiv> ''SourceCloseCommented''"
abbreviation "sourceCloseCommentNotConfiguredReason \<equiv> ''CommentIdentityNotConfigured''"
abbreviation "sourceCloseCommentDeliveryReason \<equiv> ''DeliveryFailed''"

abbreviation "CloseActionClosed \<equiv> ''closed''"
abbreviation "CloseActionRefused \<equiv> ''refused''"
abbreviation "CloseActionFailed \<equiv> ''failed''"
abbreviation "CloseActionSkipped \<equiv> ''skipped''"

definition alreadyDoneCommentBound :: nat where "alreadyDoneCommentBound = 2400"

text \<open>\<open>boundAlreadyDoneComment\<close> and \<open>boundedAlreadyDoneText\<close> have the same body.\<close>

definition boundedAlreadyDoneText :: "string \<Rightarrow> string" where
  "boundedAlreadyDoneText s =
     (let s = TrimSpace s in
      if RuneCountInString s \<le> alreadyDoneCommentBound then s else runes_prefix alreadyDoneCommentBound s)"

definition sourceCloseReasonForAction :: "string \<Rightarrow> string" where
  "sourceCloseReasonForAction action =
     (if action = CloseActionRefused then sourceCloseRefusedReason
      else if action = CloseActionFailed then sourceCloseFailedReason
      else if action = CloseActionSkipped then sourceCloseSkippedReason
      else sourceCloseFailedReason)"

definition closeResolutionDetail :: "CloseResolution \<Rightarrow> string" where
  "closeResolutionDetail resolution =
     (if cz_Reasons resolution \<noteq> [] then Join (cz_Reasons resolution) ''; ''
      else if TrimSpace (cz_Reason resolution) \<noteq> [] then cz_Reason resolution
      else cz_Action resolution)"

definition no_resolution :: CloseResolution where
  "no_resolution = \<lparr>cz_Action = [], cz_Reason = [], cz_Reasons = [], cz_HeadSHA = [], cz_EvidenceDigest = []\<rparr>"

definition closeResolutionFromDetail :: "string \<Rightarrow> CloseResolution" where
  "closeResolutionFromDetail detail = no_resolution\<lparr>cz_Reason := detail\<rparr>"

definition closeResolutionIsZero :: "CloseResolution \<Rightarrow> bool" where
  "closeResolutionIsZero resolution \<longleftrightarrow> resolution = no_resolution"

definition alreadyDoneCloseParkMessage :: "string \<Rightarrow> string \<Rightarrow> string" where
  "alreadyDoneCloseParkMessage reason detail =
     (let detail = TrimSpace detail in
      if detail = [] then ''evidence-gated close was not applied ('' @ reason @ ''); human review required''
      else ''evidence-gated close was not applied ('' @ reason @ ''): '' @ detail)"

definition isRevisionText :: "string \<Rightarrow> bool" where
  "isRevisionText s \<longleftrightarrow> s \<noteq> [] \<and>
     list_all (\<lambda>c. (CHR ''0'' \<le> c \<and> c \<le> CHR ''9'') \<or> (CHR ''a'' \<le> c \<and> c \<le> CHR ''f'')
       \<or> (CHR ''A'' \<le> c \<and> c \<le> CHR ''F'')) s"

definition comment_link :: "string \<Rightarrow> string \<Rightarrow> string" where
  "comment_link t link = (if link \<noteq> [] then ''['' @ t @ '']('' @ link @ '')'' else t)"

text \<open>One grounded criterion; only a path the redactor leaves unchanged is linked.\<close>

definition criterion_text :: "env \<Rightarrow> string \<Rightarrow> string \<Rightarrow> NoChangeCloseCriterion \<Rightarrow> string" where
  "criterion_text E repo sha c =
     (let path = e_redact E (nc_Path c);
          path = (case e_links E of
              Some (_, FileLink) \<Rightarrow>
                if sha \<noteq> [] \<and> path = nc_Path c then comment_link path (FileLink repo path sha) else path
            | None \<Rightarrow> path)
      in e_redact E (nc_Criterion c) @ '' (in '' @ path @ '')'')"

definition verified_text :: "env \<Rightarrow> string \<Rightarrow> string \<Rightarrow> CloseResolution \<Rightarrow> string" where
  "verified_text E repo sha resolution =
     (if sha = [] then []
      else
        let revision = (if repo \<noteq> [] then repo @ ''@'' @ sha else sha);
            revision = (case e_links E of
                Some (CommitLink, _) \<Rightarrow> comment_link revision (CommitLink repo sha) | None \<Rightarrow> revision);
            digest = TrimSpace (cz_EvidenceDigest resolution)
        in '' Verified at '' @ revision @ ''.'' @
           (if digest \<noteq> [] then '' Evidence catalog: '' @ e_redact E digest @ ''.'' else []))"

definition alreadyDoneCommentBody :: "env \<Rightarrow> CoderRun \<Rightarrow> bool \<Rightarrow> string \<Rightarrow> CloseResolution \<Rightarrow> string" where
  "alreadyDoneCommentBody E run closed reason resolution =
     (let detail = e_redact E (closeResolutionDetail resolution);
          opening = (if closed
            then ''Courier closed this work item: its request is already satisfied by existing work.''
            else ''Courier could not close this work item automatically ('' @ map ascii_lower reason @ '')'' @
                 (if detail \<noteq> [] then '': '' @ detail else []) @ ''; a human has been asked to review.'');
          sha = TrimSpace (cz_HeadSHA resolution);
          sha = (if isRevisionText sha then sha else []);
          repo = p_Repo (r_spec run)
      in boundedAlreadyDoneText
          (opening @ verified_text E repo sha resolution @
           (case s_NoChange (r_status run) of
              None \<Rightarrow> []
            | Some nc \<Rightarrow>
                (if ncc_Criteria nc \<noteq> []
                 then '' Grounded criteria: '' @ Join (map (criterion_text E repo sha) (ncc_Criteria nc)) '', ''
                 else []) @
                (if ncc_Evidence nc \<noteq> []
                 then '' Coordinator assessment: '' @ e_redact E (ncc_Evidence nc) @ ''.'' else []))))"

definition alreadyDoneLifecycle :: "CoderRun \<Rightarrow> terminalLifecycleIntent \<Rightarrow> Lifecycle" where
  "alreadyDoneLifecycle run intent = empty_lifecycle\<lparr>lc_Result := ResultAlreadyDone,
     lc_Error := ti_error intent, lc_IdempotencyKey := lifecycleIdempotencyKey run PhaseAlreadyDone,
     lc_StartedAt := s_StartedAt (r_status run),
     lc_Close := map_option (\<lambda>nc. \<lparr>cl_Criteria = ncc_Criteria nc, cl_Evidence = ncc_Evidence nc\<rparr>)
       (s_NoChange (r_status run))\<rparr>"

definition alreadyDoneCommented :: "env \<Rightarrow> CoderRun \<Rightarrow> bool" where
  "alreadyDoneCommented E run =
     (case find_condition E run sourceCloseCommentedCondition of
        None \<Rightarrow> False | Some cond \<Rightarrow> c_Status cond = ConditionTrue)"

definition recordAnnouncementNotDelivered :: "env \<Rightarrow> string \<Rightarrow> string \<Rightarrow> unit prog" where
  "recordAnnouncementNotDelivered E reason detail =
     set_condition_now E sourceCloseCommentedCondition ConditionFalse reason
       (boundedAlreadyDoneText (e_redact E detail)) 0"

definition markAlreadyDoneCommented :: "env \<Rightarrow> unit prog" where
  "markAlreadyDoneCommented E =
     set_condition_now E sourceCloseCommentedCondition ConditionTrue ''Posted''
       ''the run's outcome was announced on the source work item'' 0"

definition setSourceClose :: "env \<Rightarrow> bool \<Rightarrow> string \<Rightarrow> CloseResolution \<Rightarrow> unit prog" where
  "setSourceClose E closed reason resolution =
     (let detail = closeResolutionDetail resolution;
          message = (if detail = [] then (if closed then ''work item closed'' else reason) else detail)
      in set_condition_now E sourceCloseCondition (if closed then ConditionTrue else ConditionFalse)
           reason (boundedAlreadyDoneText message) 0)"

definition commentAlreadyDone :: "env \<Rightarrow> bool \<Rightarrow> string \<Rightarrow> CloseResolution \<Rightarrow> unit prog" where
  "commentAlreadyDone E closed reason resolution =
     do {
       run \<leftarrow> gets mem;
       if alreadyDoneCommented E run then ret ()
       else if \<not> e_comments E then
         recordAnnouncementNotDelivered E sourceCloseCommentNotConfiguredReason
           ''the deployment configures no forge comment identity, so this outcome was not announced on the work item''
       else
         let body = alreadyDoneCommentBody E run closed reason resolution in
         if body = [] then ret ()
         else do {
           posted \<leftarrow> act E (CommentWorkItem body);
           case posted of
             Some e \<Rightarrow> recordAnnouncementNotDelivered E sourceCloseCommentDeliveryReason
               (''announcement delivery failed: '' @ er_msg e)
           | None \<Rightarrow> do {
               before \<leftarrow> gets mem;
               markAlreadyDoneCommented E;
               _ \<leftarrow> patchStatus E before;
               ret ()
             }
         }
     }"

definition commentAlreadyDoneHold :: "env \<Rightarrow> unit prog" where
  "commentAlreadyDoneHold E =
     do {
       run \<leftarrow> gets mem;
       if alreadyDoneCommented E run then ret ()
       else if \<not> e_comments E then do {
         recordAnnouncementNotDelivered E sourceCloseCommentNotConfiguredReason
           ''the deployment configures no forge comment identity, so this hold was not announced on the work item'';
         _ \<leftarrow> patchStatus E run;
         ret ()
       }
       else do {
         let deficiency = (if s_NoChange (r_status run) \<noteq> None
           then ''its recorded close proposal belongs to a superseded execution and cannot authorize this ending''
           else ''recorded no grounded close evidence'');
         posted \<leftarrow> act E (CommentWorkItem
           (''Courier will not open a pull request for this issue and did not attempt to close it: the run concluded the request was already satisfied but ''
            @ deficiency @ '', so the conclusion is held for a human. No publication is claimed.''));
         (case posted of
            Some e \<Rightarrow> recordAnnouncementNotDelivered E sourceCloseCommentDeliveryReason
              (''announcement delivery failed: '' @ er_msg e)
          | None \<Rightarrow> markAlreadyDoneCommented E);
         _ \<leftarrow> patchStatus E run;
         ret ()
       }
     }"

text \<open>A refused close transitions to \<open>NeedsHuman\<close>, whose report is an ordinary one.\<close>

definition parkAlreadyDoneClose :: "env \<Rightarrow> string \<Rightarrow> string \<Rightarrow> CloseResolution \<Rightarrow> handler" where
  "parkAlreadyDoneClose E reason detail resolution =
     do {
       let resolution = (if closeResolutionIsZero resolution then closeResolutionFromDetail detail else resolution);
       setSourceClose E False reason resolution;
       commentAlreadyDone E False reason resolution;
       transitionTerminal_with (publish_ordinary E) E PhaseNeedsHuman []
         (error_intent (alreadyDoneCloseParkMessage reason detail)) None
     }"

definition markAlreadyDoneClosePending :: "env \<Rightarrow> terminalLifecycleIntent \<Rightarrow> err option prog" where
  "markAlreadyDoneClosePending E intent =
     do {
       run \<leftarrow> gets mem;
       markLifecycleReportOutcome E False (pendingLifecycleReason intent) (ti_error intent)
         (retry_token E run) lifecycleReportRetryableReason
     }"

definition settleAlreadyDoneClose :: "env \<Rightarrow> adapter \<Rightarrow> WorkItem \<Rightarrow> terminalLifecycleIntent \<Rightarrow> handler" where
  "settleAlreadyDoneClose E adapter item intent =
     do {
       run \<leftarrow> gets mem;
       if s_NoChange (r_status run) = None then
         parkAlreadyDoneClose E sourceCloseUnsupportedReason
           ''no grounded close proposal is recorded on the run'' no_resolution
       else if \<not> ad_CloseReporter adapter then
         parkAlreadyDoneClose E sourceCloseUnsupportedReason
           ''source does not offer an evidence-gated close path'' no_resolution
       else do {
         reported \<leftarrow> act E (ReportClose item (alreadyDoneLifecycle run intent));
         case reported of
           None \<Rightarrow> do {
             resolution \<leftarrow> ask (e_close E);
             if cz_Action resolution = CloseActionClosed then do {
               setSourceClose E True sourceCloseClosedReason resolution;
               commentAlreadyDone E True sourceCloseClosedReason resolution;
               r \<leftarrow> markLifecycleReportOutcome E True lifecycleReportPublishedReason [] []
                 lifecycleReportAcceptedSupportReason;
               ret (done_result, r)
             }
             else parkAlreadyDoneClose E (sourceCloseReasonForAction (cz_Action resolution))
                    (closeResolutionDetail resolution) resolution
           }
         | Some e \<Rightarrow>
             if errorsIs e ErrSuperseded then do {
               r \<leftarrow> markLifecycleReportOutcome E True lifecycleReportSupersededReason (er_msg e) []
                 lifecycleReportSupersededReason;
               ret (done_result, r)
             }
             else if errorsIs e ErrUnsupportedOutcome then
               parkAlreadyDoneClose E sourceCloseUnsupportedReason (er_msg e) no_resolution
             else if errorsIs e ErrPermanentRefusal then
               parkAlreadyDoneClose E sourceCloseRefusedPermanentlyReason (er_msg e) no_resolution
             else do {
               r \<leftarrow> markAlreadyDoneClosePending E intent;
               ret (requeueAfter lifecycleReportRequeueDelay, r)
             }
       }
     }"

text \<open>\<open>refreshFencedNoChange\<close>.\<close>

definition refreshFencedNoChange :: "env \<Rightarrow> string \<Rightarrow> bool prog" where
  "refreshFencedNoChange E podUID =
     do {
       live \<leftarrow> ask (e_run E);
       case live of
         Inl e \<Rightarrow> ret False
       | Inr fresh \<Rightarrow>
           (case s_NoChange (r_status fresh) of
              None \<Rightarrow> ret False
            | Some nc \<Rightarrow>
                if ncc_CoordinatorPodUID nc = podUID
                then do { set_run (s_NoChange_update (\<lambda>_. Some nc)); ret True }
                else ret False)
     }"

section \<open>Publication and transition\<close>

definition publishTerminalLifecycle ::
  "env \<Rightarrow> adapter \<Rightarrow> WorkItem \<Rightarrow> Phase \<Rightarrow> terminalLifecycleIntent \<Rightarrow> handler" where
  "publishTerminalLifecycle E adapter item phase intent =
     (if phase = PhaseAlreadyDone then settleAlreadyDoneClose E adapter item intent
      else publish_ordinary E adapter item phase intent)"

definition transitionTerminal ::
  "env \<Rightarrow> Phase \<Rightarrow> string \<Rightarrow> terminalLifecycleIntent \<Rightarrow> RunTelemetry option \<Rightarrow> handler" where
  "transitionTerminal E = transitionTerminal_with (publishTerminalLifecycle E) E"

definition retryTerminalLifecycle :: "env \<Rightarrow> handler" where
  "retryTerminalLifecycle E =
     do {
       run \<leftarrow> gets mem;
       case adapterAndWorkItem E run of
         Inl e \<Rightarrow> ret (errorResult e)
       | Inr (adapter, item) \<Rightarrow>
           publishTerminalLifecycle E adapter item (s_Phase (r_status run)) (pendingLifecycleIntent E run)
     }"

section \<open>Rolling a claim back\<close>

definition unclaim :: "CoderRunStatus \<Rightarrow> CoderRunStatus" where
  "unclaim s = s\<lparr>s_Phase := PhasePending, s_Branch := [], s_HeadRepo := [], s_HeadSHA := []\<rparr>"

definition rejectClaim :: "env \<Rightarrow> WorkItem \<Rightarrow> err \<Rightarrow> err option prog" where
  "rejectClaim E item cause =
     do {
       releaseErr \<leftarrow> act E (Release item);
       if errorsIs cause ErrStaleWork then do {
         deleteErr \<leftarrow> act E DeleteRun;
         ret (errorsJoin [Some cause, releaseErr, deleteErr])
       }
       else do {
         statusErr \<leftarrow> update_run E unclaim;
         ret (errorsJoin [Some cause, releaseErr, statusErr])
       }
     }"

definition releaseClaim :: "env \<Rightarrow> WorkItem \<Rightarrow> err \<Rightarrow> err option prog" where
  "releaseClaim E item cause =
     do {
       releaseErr \<leftarrow> act E (Release item);
       statusErr \<leftarrow> update_run E unclaim;
       ret (errorsJoin [Some cause, releaseErr, statusErr])
     }"

definition terminateNeedsHuman :: "env \<Rightarrow> WorkItem \<Rightarrow> string \<Rightarrow> handler" where
  "terminateNeedsHuman E item detail =
     do {
       releaseErr \<leftarrow> act E (Release item);
       (terminalResult, terminalErr) \<leftarrow> transitionTerminal E PhaseNeedsHuman [] (error_intent detail) None;
       ret (terminalResult, errorsJoin [releaseErr, terminalErr])
     }"

definition terminateMissingHead :: "env \<Rightarrow> err \<Rightarrow> handler" where
  "terminateMissingHead E cause =
     do {
       run \<leftarrow> gets mem;
       case adapterAndWorkItem E run of
         Inl e \<Rightarrow> ret (errorResult e)
       | Inr (adapter, item) \<Rightarrow> do {
           set_run (\<lambda>s. s\<lparr>s_Branch := [], s_HeadRepo := [], s_HeadSHA := []\<rparr>);
           terminateNeedsHuman E item (er_msg cause)
         }
     }"

definition defaultProvisioningCollisionGrace :: duration where
  "defaultProvisioningCollisionGrace = 6 * Hour"

definition provisioningCollisionGrace :: "env \<Rightarrow> duration" where
  "provisioningCollisionGrace E =
     (if 0 < e_ProvisioningCollisionGrace E then e_ProvisioningCollisionGrace E
      else defaultProvisioningCollisionGrace)"

definition terminateStuckTerminatingCollision ::
  "env \<Rightarrow> WorkItem \<Rightarrow> string \<Rightarrow> string \<Rightarrow> time \<Rightarrow> handler" where
  "terminateStuckTerminatingCollision E item podName podUID since =
     do {
       now \<leftarrow> clock E;
       let grace = provisioningCollisionGrace E;
       if now - since < grace then ret (requeueAfter provisioningInFlightRequeueDelay, None)
       else do {
         releaseErr \<leftarrow> act E (Release item);
         now \<leftarrow> clock E;
         let pod = ''coordinator pod '' @ podName @ '' (uid '' @ podUID @ '')'';
         let intent = (error_intent (pod @ '' has been Terminating since '' @ FormatRFC3339 since @ '', beyond the '' @
               Duration_String grace @
               '' provisioning-collision grace; the slot is blocked and a human must clear it''))
             \<lparr>ti_conditions := [\<lparr>c_Type = provisioningCollisionCondition, c_Status = ConditionTrue,
               c_Reason = provisioningCollisionStuckTerminatingReason,
               c_Message = pod @ '' stuck Terminating beyond '' @ Duration_String grace @ '' provisioning-collision grace'',
               c_ObservedGeneration = 0, c_LastTransitionTime = now\<rparr>]\<rparr>;
         (terminalResult, terminalErr) \<leftarrow> transitionTerminal E PhaseNeedsHuman [] intent None;
         ret (terminalResult, errorsJoin [releaseErr, terminalErr])
       }
     }"

end
