(* ===== verification/CIPark.thy ===== *)
theory CIPark
  imports Lifecycle
begin

text \<open>
  The mechanical-CI park-and-resume loop (\<open>internal/controller/cipark.go\<close>): a run that published its
  pull request parks on the published head while CI runs, and is woken for a bounded number of
  repairs. Each repair holds a reservation at the source, identified by a fence token; whatever ends
  the repair has to hand the fence back. What the run still owes the source is recorded in its status
  before it is sent: the settlement of a fence, the notice of a park, the release of a deferral.

  That the loop honours the contract of a repair, so that no write drops a fence without recording
  its settlement, is proved in \<open>Refine_Park\<close>.
\<close>

section \<open>Policy and capacity\<close>

abbreviation "ciparkPollDelay \<equiv> 30 * Second"
abbreviation "ciparkSettlementRetryDelay \<equiv> 30 * Second"

definition ciRepairPolicy :: "env \<Rightarrow> (err + CIRepairPolicy option) prog" where
  "ciRepairPolicy E =
     do {
       laneR \<leftarrow> ask (e_lane E);
       ret (case laneR of
           Inl e \<Rightarrow> if errorsIs e NotFound then Inr None else Inl e
         | Inr lane \<Rightarrow>
             (case ls_CIRepair (l_Spec lane) of
                None \<Rightarrow> Inr None
              | Some policy \<Rightarrow>
                  if normalizedMechanicalChecks (cp_MechanicalChecks policy) = [] \<or> cp_MaxAttempts policy \<le> 0
                  then Inr None else Inr (Some policy)))
     }"

definition ciparkCapacityAvailable :: "env \<Rightarrow> (err + bool) prog" where
  "ciparkCapacityAvailable E =
     do {
       run \<leftarrow> gets mem;
       laneR \<leftarrow> ask (e_lane E);
       case laneR of
         Inl e \<Rightarrow> ret (Inl e)
       | Inr lane \<Rightarrow>
           if Suspended lane then ret (Inr False)
           else do {
             lanesR \<leftarrow> ask (e_lanes E);
             case lanesR of
               Inl e \<Rightarrow> ret (Inl e)
             | Inr lanes \<Rightarrow> do {
                 now \<leftarrow> clock E;
                 if CapacityCooldownActive lane lanes now \<noteq> None then ret (Inr False)
                 else do {
                   runsR \<leftarrow> ask (e_runs E);
                   case runsR of
                     Inl e \<Rightarrow> ret (Inl e)
                   | Inr runs \<Rightarrow>
                       ret (Inr (laneHasCapacity runs (p_Lane (r_spec run)) (ls_Concurrency (l_Spec lane))))
                 }
               }
           }
     }"

section \<open>The inapplicability condition\<close>

definition inapplicable_message :: "string \<Rightarrow> string" where
  "inapplicable_message head =
     ''the lane's ci-repair policy cannot apply: observed head '' @ quoted head @
     '' is not attributable to this run's publication evidence; the ordinary verification path decides the run''"

definition markCIParkInapplicable :: "env \<Rightarrow> PRObservation \<Rightarrow> err option prog" where
  "markCIParkInapplicable E observation =
     (if ob_Head observation = [] then ret None
      else do {
        run \<leftarrow> gets mem;
        let message = inapplicable_message (ob_Head observation);
        let recorded = (case find_condition E run ConditionCIRepairInapplicable of
              None \<Rightarrow> False
            | Some cond \<Rightarrow> c_Status cond = ConditionTrue \<and> c_Reason cond = ConditionReasonHeadUnattributable
                \<and> c_ObservedGeneration cond = m_Generation (r_meta run) \<and> c_Message cond = message);
        if recorded then ret None
        else do {
          set_condition_now E ConditionCIRepairInapplicable ConditionTrue ConditionReasonHeadUnattributable
            message (m_Generation (r_meta run));
          patchStatus E run
        }
      })"

definition drop_condition :: "env \<Rightarrow> string \<Rightarrow> CoderRunStatus \<Rightarrow> CoderRunStatus" where
  "drop_condition E t s = s\<lparr>s_Conditions := removeCond (e_conds E) (s_Conditions s) t\<rparr>"

definition clearCIParkInapplicable :: "env \<Rightarrow> bool prog" where
  "clearCIParkInapplicable E =
     do {
       run \<leftarrow> gets mem;
       if find_condition E run ConditionCIRepairInapplicable = None then ret False
       else do { set_run (drop_condition E ConditionCIRepairInapplicable); ret True }
     }"

section \<open>What the run owes the source\<close>

text \<open>The error of a source without the capability.\<close>

definition no_cipark :: "CoderRun \<Rightarrow> err" where
  "no_cipark run = newError (''coderun controller: source '' @ quoted (p_Source (r_spec run)) @
     '' does not implement the CI park lifecycle'')"

text \<open>A delivery answers the pair of the code: whether the record is settled, and the error.\<close>

definition settle_record ::
  "env \<Rightarrow> (CoderRunStatus \<Rightarrow> CoderRunStatus) \<Rightarrow> (bool \<times> err option) prog" where
  "settle_record E clear =
     do {
       r \<leftarrow> update_run E clear;
       ret (r = None, r)
     }"

definition deliverCIParkNotice :: "env \<Rightarrow> (bool \<times> err option) prog" where
  "deliverCIParkNotice E =
     do {
       run \<leftarrow> gets mem;
       case s_CIParkDeferral (r_status run) of
         None \<Rightarrow> ret (True, None)
       | Some record \<Rightarrow>
           (case adapterAndWorkItem E run of
              Inl e \<Rightarrow> ret (False, Some e)
            | Inr (adapter, item) \<Rightarrow>
                if \<not> ad_CIParkLifecycle adapter then ret (False, Some (no_cipark run))
                else do {
                  r \<leftarrow> act E (ReportCIParked item \<lparr>pn_PR = s_PR (r_status run), pn_Head = df_Head record,
                    pn_IdempotencyKey = df_IdempotencyKey record\<rparr>);
                  if (case r of None \<Rightarrow> True | Some e \<Rightarrow> errorsIs e ErrUnsupportedCIPark)
                  then settle_record E (s_CIParkDeferral_update (\<lambda>_. None))
                  else ret (False, r)
                })
     }"

definition reportCIRepair ::
  "env \<Rightarrow> string \<Rightarrow> string \<Rightarrow> CIParkOutcome \<Rightarrow> string \<Rightarrow> string \<Rightarrow> err option prog" where
  "reportCIRepair E pr head result fenceToken idempotencyKey =
     do {
       run \<leftarrow> gets mem;
       let attempts = (case s_CIPark (r_status run) of None \<Rightarrow> 0 | Some park \<Rightarrow> pk_Attempts park);
       let key = (if idempotencyKey = [] then ciparkRepairKey run attempts else idempotencyKey);
       if fenceToken = [] \<or> (idempotencyKey = [] \<and> attempts = 0) then ret None
       else (case adapterAndWorkItem E run of
           Inl e \<Rightarrow> ret (Some e)
         | Inr (adapter, item) \<Rightarrow>
             if \<not> ad_CIParkLifecycle adapter then ret (Some (no_cipark run))
             else act E (ReportCIRepair item \<lparr>oc_FenceToken = fenceToken, oc_IdempotencyKey = key,
                    oc_PR = pr, oc_Head = head, oc_Result = result\<rparr>))
     }"

text \<open>Refusals that prove the record can never be delivered: it is dropped.\<close>

definition settlement_moot :: "err \<Rightarrow> bool" where
  "settlement_moot e \<longleftrightarrow>
     errorsIs e ErrUnsupportedCIPark \<or> errorsIs e ErrStaleWork \<or> errorsIs e ErrSuperseded"

definition release_moot :: "err \<Rightarrow> bool" where
  "release_moot e \<longleftrightarrow> errorsIs e ErrUnsupportedCIPark \<or> errorsIs e ErrPermanentRefusal
     \<or> errorsIs e ErrStaleWork \<or> errorsIs e ErrSuperseded"

definition deliverCISettlement :: "env \<Rightarrow> (bool \<times> err option) prog" where
  "deliverCISettlement E =
     do {
       run \<leftarrow> gets mem;
       case s_CISettlement (r_status run) of
         None \<Rightarrow> ret (True, None)
       | Some record \<Rightarrow> do {
           r \<leftarrow> reportCIRepair E (s_PR (r_status run)) (se_Head record) (se_Result record)
             (se_FenceToken record) (se_IdempotencyKey record);
           if (case r of None \<Rightarrow> True | Some e \<Rightarrow> settlement_moot e)
           then settle_record E (s_CISettlement_update (\<lambda>_. None))
           else ret (False, r)
         }
     }"

definition deliverCIParkRelease :: "env \<Rightarrow> (bool \<times> err option) prog" where
  "deliverCIParkRelease E =
     do {
       run \<leftarrow> gets mem;
       case s_CIParkRelease (r_status run) of
         None \<Rightarrow> ret (True, None)
       | Some record \<Rightarrow>
           (case adapterAndWorkItem E run of
              Inl e \<Rightarrow> ret (False, Some e)
            | Inr (adapter, item) \<Rightarrow>
                if \<not> ad_CIParkLifecycle adapter then settle_record E (s_CIParkRelease_update (\<lambda>_. None))
                else do {
                  r \<leftarrow> act E (ReleaseCIPark item \<lparr>pc_PR = s_PR (r_status run), pc_Head = rl_Head record,
                    pc_IdempotencyKey = rl_IdempotencyKey record\<rparr>);
                  if (case r of None \<Rightarrow> True | Some e \<Rightarrow> release_moot e)
                  then settle_record E (s_CIParkRelease_update (\<lambda>_. None))
                  else ret (False, r)
                })
     }"

text \<open>\<open>recordCIParkRelease\<close>, called with the park the run carries.\<close>

definition recordCIParkRelease :: "env \<Rightarrow> CIParkState \<Rightarrow> (err + bool) prog" where
  "recordCIParkRelease E park =
     do {
       run \<leftarrow> gets mem;
       case adapterAndWorkItem E run of
         Inl e \<Rightarrow> ret (Inl e)
       | Inr (adapter, item) \<Rightarrow>
           if \<not> ad_CIParkLifecycle adapter then ret (Inr False)
           else do {
             set_run (s_CIParkRelease_update (\<lambda>_. Some \<lparr>rl_Head = pk_Head park,
               rl_IdempotencyKey = ciparkParkKey run (pk_Head park)\<rparr>));
             ret (Inr True)
           }
     }"

definition reserveCIRepair :: "env \<Rightarrow> string \<Rightarrow> string \<Rightarrow> int \<Rightarrow> (err + string) prog" where
  "reserveCIRepair E pr head attempt =
     do {
       run \<leftarrow> gets mem;
       case adapterAndWorkItem E run of
         Inl e \<Rightarrow> ret (Inl e)
       | Inr (adapter, item) \<Rightarrow>
           if \<not> ad_CIParkLifecycle adapter then ret (Inr [])
           else do {
             r \<leftarrow> act E (ReserveCIRepair item \<lparr>cv_FenceToken = ciparkFenceToken run attempt,
               cv_IdempotencyKey = ciparkRepairKey run attempt, cv_PR = pr, cv_Head = head\<rparr>);
             case r of
               Some e \<Rightarrow> ret (Inl e)
             | None \<Rightarrow> do {
                 grant \<leftarrow> ask (e_grant E);
                 ret (Inr (if grant \<noteq> [] then grant else ciparkFenceToken run attempt))
               }
           }
     }"

section \<open>Ending a park\<close>

definition settlement :: "string \<Rightarrow> string \<Rightarrow> CIParkOutcome \<Rightarrow> string \<Rightarrow> CISettlement" where
  "settlement fence key outcome head =
     \<lparr>se_FenceToken = fence, se_IdempotencyKey = key, se_Result = outcome, se_Head = head\<rparr>"

definition deliver_owed :: "env \<Rightarrow> unit prog" where
  "deliver_owed E =
     do {
       run \<leftarrow> gets mem;
       (if s_CISettlement (r_status run) \<noteq> None then do { _ \<leftarrow> deliverCISettlement E; ret () } else ret ());
       run \<leftarrow> gets mem;
       (if s_CIParkRelease (r_status run) \<noteq> None then do { _ \<leftarrow> deliverCIParkRelease E; ret () } else ret ())
     }"

text \<open>The in-memory part of \<open>finishCIPark\<close>: the outcome, the cleared notice, the ended attempt, and
  the settlement of its fence.\<close>

definition end_park :: "CoderRun \<Rightarrow> CIParkOutcome \<Rightarrow> string \<Rightarrow> CoderRunStatus \<Rightarrow> CoderRunStatus" where
  "end_park run outcome fenceToken s =
     (let s' = s\<lparr>s_CIPark := map_option (\<lambda>park. park\<lparr>pk_LastOutcome := outcome\<rparr>) (s_CIPark s),
             s_CIParkDeferral := None, s_CIRepair := None\<rparr>
      in case s_CIPark s of
           None \<Rightarrow> s'
         | Some park \<Rightarrow>
             if fenceToken \<noteq> []
             then s'\<lparr>s_CISettlement := Some (settlement fenceToken (ciparkRepairKey run (pk_Attempts park)) outcome [])\<rparr>
             else s')"

definition finish_transition :: "env \<Rightarrow> PRObservation \<Rightarrow> handler" where
  "finish_transition E observation =
     do {
       run \<leftarrow> gets mem;
       if p_Mode (r_spec run) = ModeFixPR
       then transitionTerminal E PhaseFailed (ob_PR observation) (no_intent\<lparr>ti_ciFailure := True\<rparr>) None
       else transitionTerminal E PhaseHandedOff (ob_PR observation) no_intent None
     }"

definition finishCIPark :: "env \<Rightarrow> PRObservation \<Rightarrow> CIParkOutcome \<Rightarrow> string \<Rightarrow> handler" where
  "finishCIPark E observation outcome fenceToken =
     do {
       before \<leftarrow> gets mem;
       let b = r_status before;
       let changed = (s_CIPark b \<noteq> None \<or> s_CIParkDeferral b \<noteq> None \<or> s_CIRepair b \<noteq> None);
       set_run (end_park before outcome fenceToken);
       recorded \<leftarrow> (case s_CIPark b of
           None \<Rightarrow> ret (Inr False)
         | Some park \<Rightarrow> if fenceToken = [] then recordCIParkRelease E park else ret (Inr False));
       case recorded of
         Inl e \<Rightarrow> ret (errorResult e)
       | Inr _ \<Rightarrow> do {
           written \<leftarrow> (if changed then patchStatus E before else ret None);
           case written of
             Some e \<Rightarrow> ret (errorResult e)
           | None \<Rightarrow> do { deliver_owed E; finish_transition E observation }
         }
     }"

text \<open>\<open>abandonFencedCIPark\<close>: what the loop's own endings would have recorded for the attempt.\<close>

definition fenced_outcome :: "CoderRun \<Rightarrow> CIRepairContext \<Rightarrow> PRObservation \<Rightarrow> CISettlement" where
  "fenced_outcome run attempt observation =
     (let key = ciparkRepairKey run (rp_Attempt attempt) in
      case publishedHead run (ob_Head observation) of
        None \<Rightarrow> settlement (rp_FenceToken attempt) key CIParkOutcomeUnsupported []
      | Some head \<Rightarrow>
          if head \<noteq> rp_Head attempt then settlement (rp_FenceToken attempt) key CIParkOutcomeRepushed head
          else settlement (rp_FenceToken attempt) key CIParkOutcomeExhausted [])"

definition abandonFencedCIPark :: "env \<Rightarrow> CIRepairContext \<Rightarrow> PRObservation \<Rightarrow> handler" where
  "abandonFencedCIPark E attempt observation =
     do {
       run \<leftarrow> gets mem;
       written \<leftarrow> update_run E (\<lambda>s. s\<lparr>s_CISettlement := Some (fenced_outcome run attempt observation),
         s_CIParkDeferral := None, s_CIRepair := None, s_CIPark := None\<rparr>);
       case written of
         Some e \<Rightarrow> ret (errorResult e)
       | None \<Rightarrow> do {
           run \<leftarrow> gets mem;
           (if s_CISettlement (r_status run) \<noteq> None then do { _ \<leftarrow> deliverCISettlement E; ret () } else ret ());
           ret (done_result, None)
         }
     }"

text \<open>A settlement record of an older controller adopts the key its delivery would derive from the
  park account, while that account still exists.\<close>

definition adopt_key :: "CoderRun \<Rightarrow> CIParkState \<Rightarrow> CISettlement option \<Rightarrow> CISettlement option" where
  "adopt_key run park = map_option (\<lambda>record.
     if se_IdempotencyKey record = [] \<and> 0 < pk_Attempts park
     then record\<lparr>se_IdempotencyKey := ciparkRepairKey run (pk_Attempts park)\<rparr> else record)"

definition abandon_unfenced :: "env \<Rightarrow> handler" where
  "abandon_unfenced E =
     do {
       before \<leftarrow> gets mem;
       case s_CIPark (r_status before) of
         None \<Rightarrow> ret (done_result, None)
       | Some park \<Rightarrow> do {
           recorded \<leftarrow> recordCIParkRelease E park;
           case recorded of
             Inl e \<Rightarrow> ret (errorResult e)
           | Inr _ \<Rightarrow> do {
               set_run (\<lambda>s. s\<lparr>s_CISettlement := adopt_key before park (s_CISettlement s),
                 s_CIParkDeferral := None, s_CIRepair := None, s_CIPark := None\<rparr>);
               written \<leftarrow> patchStatus E before;
               case written of
                 Some e \<Rightarrow> ret (errorResult e)
               | None \<Rightarrow> do {
                   run \<leftarrow> gets mem;
                   (if s_CIParkRelease (r_status run) \<noteq> None
                    then do { _ \<leftarrow> deliverCIParkRelease E; ret () } else ret ());
                   ret (done_result, None)
                 }
             }
         }
     }"

definition abandonCIPark :: "env \<Rightarrow> PRObservation \<Rightarrow> handler" where
  "abandonCIPark E observation =
     do {
       before \<leftarrow> gets mem;
       case s_CIRepair (r_status before) of
         Some attempt \<Rightarrow>
           if rp_FenceToken attempt \<noteq> [] then abandonFencedCIPark E attempt observation
           else abandon_unfenced E
       | None \<Rightarrow> abandon_unfenced E
     }"

section \<open>The loop\<close>

definition ciparkFingerprints :: "PRObservation \<Rightarrow> string list \<Rightarrow> string \<times> string" where
  "ciparkFingerprints observation configuredNames =
     (if anyCheckFailed observation then (checkSetFingerprint observation, [])
      else if fst (mechanicalVerdict observation configuredNames) then ([], checkSetFingerprint observation)
      else ([], []))"

text \<open>\<open>nextCIPark\<close>; a nil park is the no-progress answer. The three flags are \<open>established\<close>,
  \<open>republished\<close> and \<open>noProgress\<close>.\<close>

definition nextCIPark ::
  "CIParkState option \<Rightarrow> string \<Rightarrow> CIRepairContext option \<Rightarrow> time \<Rightarrow> CIParkState option \<times> bool \<times> bool \<times> bool" where
  "nextCIPark current head attempt now =
     (case current of
        None \<Rightarrow> (Some \<lparr>pk_Head = head, pk_ParkedAt = now, pk_Attempts = 0, pk_LastOutcome = CIParkOutcomeUnset\<rparr>,
                True, False, False)
      | Some park \<Rightarrow>
          if pk_Head park \<noteq> head then
            (Some \<lparr>pk_Head = head, pk_ParkedAt = now, pk_Attempts = pk_Attempts park,
               pk_LastOutcome = CIParkOutcomeRepushed\<rparr>, True, 0 < pk_Attempts park, False)
          else if (case attempt of None \<Rightarrow> False
              | Some a \<Rightarrow> 0 < pk_Attempts park \<and> pk_Head park = rp_Head a)
          then (None, False, False, True)
          else (Some park, False, False, False))"

definition ciparkWindowExpired :: "env \<Rightarrow> CIParkState \<Rightarrow> CIRepairPolicy \<Rightarrow> bool prog" where
  "ciparkWindowExpired E park policy =
     (if cp_ObservationWindowSeconds policy \<le> 0 then ret False
      else do {
        now \<leftarrow> clock E;
        ret (wrap_int (cp_ObservationWindowSeconds policy * Second) < now - pk_ParkedAt park)
      })"

definition holdCIPark :: "env \<Rightarrow> CIParkState \<Rightarrow> CIRepairPolicy \<Rightarrow> PRObservation \<Rightarrow> handler" where
  "holdCIPark E park policy observation =
     do {
       expired \<leftarrow> ciparkWindowExpired E park policy;
       if expired then finishCIPark E observation CIParkOutcomeUnsupported []
       else ret (requeueAfter ciparkPollDelay, None)
     }"

definition noChangeMessage :: string where
  "noChangeMessage = ''no changes pushed; queued feedback resolution is not verified''"

text \<open>The end of a green run, shared with the ordinary grading: a no-change attempt on an open pull
  request waits for an authoritative resolution.\<close>

definition green_transition :: "env \<Rightarrow> string \<Rightarrow> handler" where
  "green_transition E pr =
     do {
       run \<leftarrow> gets mem;
       if s_DeclaredNoChange (r_status run) \<and> p_Mode (r_spec run) = ModeFixPR then do {
         now \<leftarrow> clock E;
         transitionTerminal E PhaseBlockedExternal pr
           ((error_intent noChangeMessage)\<lparr>ti_diagnostic :=
              Some (buildTerminalDiagnostic (e_redact E) now None [] [] [] False None None)\<rparr>) None
       }
       else transitionTerminal E PhaseAwaitingReview pr no_intent None
     }"

definition settleCIParkGreen :: "env \<Rightarrow> PRObservation \<Rightarrow> bool \<Rightarrow> handler" where
  "settleCIParkGreen E observation greenSettled =
     (if \<not> greenSettled then ret (requeueAfter ciparkPollDelay, None)
      else do {
        before \<leftarrow> gets mem;
        set_run (s_CIParkDeferral_update (\<lambda>_. None));
        recorded \<leftarrow> (case s_CIPark (r_status before) of
            None \<Rightarrow> ret (Inr False) | Some park \<Rightarrow> recordCIParkRelease E park);
        case recorded of
          Inl e \<Rightarrow> ret (errorResult e)
        | Inr released \<Rightarrow> do {
            written \<leftarrow> (if s_CIParkDeferral (r_status before) \<noteq> None \<or> released
                       then patchStatus E before else ret None);
            case written of
              Some e \<Rightarrow> ret (errorResult e)
            | None \<Rightarrow> do {
                run \<leftarrow> gets mem;
                (if s_CIParkRelease (r_status run) \<noteq> None
                 then do { _ \<leftarrow> deliverCIParkRelease E; ret () } else ret ());
                green_transition E (ob_PR observation)
              }
          }
      })"

definition settleCIPark ::
  "env \<Rightarrow> PRObservation \<Rightarrow> string list \<Rightarrow> int \<Rightarrow> bool \<Rightarrow> bool \<Rightarrow> handler" where
  "settleCIPark E observation configuredNames remaining failureSettled greenSettled =
     (if fst (mechanicalVerdict observation configuredNames)
      then settleCIParkGreen E observation greenSettled
      else do {
        run \<leftarrow> gets mem;
        if anyCheckFailed observation \<and> p_Mode (r_spec run) \<noteq> ModeFixPR \<and> \<not> failureSettled
        then ret (requeueAfter ciparkPollDelay, None)
        else finishCIPark E observation
               (if remaining \<le> 0 then CIParkOutcomeExhausted else CIParkOutcomeUnsupported) []
      })"

text \<open>The write that spends one attempt: the account, the repair context with its fence, and the
  phase that reacquires the lane slot.\<close>

definition arm_repair ::
  "CIParkState \<Rightarrow> CIRepairPolicy \<Rightarrow> PRObservation \<Rightarrow> MechanicalCheckSelector \<Rightarrow> string \<Rightarrow>
     CoderRunStatus \<Rightarrow> CoderRunStatus" where
  "arm_repair park policy observation selector fenceToken s =
     s\<lparr>s_CIPark := map_option (\<lambda>p. p\<lparr>pk_Attempts := pk_Attempts park + 1\<rparr>) (s_CIPark s),
       s_CIRepair := Some \<lparr>rp_Head = pk_Head park, rp_Attempt = pk_Attempts park + 1,
         rp_FailedChecks = failedMechanicalChecks observation selector,
         rp_Logs = failedCheckLogs observation selector,
         rp_FenceToken = fenceToken, rp_MaxAttempts = cp_MaxAttempts policy\<rparr>,
       s_Phase := PhaseClaimed\<rparr>"

definition resumeCIPark ::
  "env \<Rightarrow> CIParkState \<Rightarrow> CIRepairPolicy \<Rightarrow> PRObservation \<Rightarrow> MechanicalCheckSelector \<Rightarrow> bool \<Rightarrow> handler" where
  "resumeCIPark E park policy observation selector failureSettled =
     (if \<not> failureSettled then ret (requeueAfter ciparkPollDelay, None)
      else do {
        expired \<leftarrow> ciparkWindowExpired E park policy;
        if expired then finishCIPark E observation CIParkOutcomeUnsupported []
        else do {
          available \<leftarrow> ciparkCapacityAvailable E;
          case available of
            Inl e \<Rightarrow> ret (errorResult e)
          | Inr has_room \<Rightarrow>
              if \<not> has_room then ret (requeueAfter capacityRequeueDelay, None)
              else do {
                reserved \<leftarrow> reserveCIRepair E (ob_PR observation) (pk_Head park) (pk_Attempts park + 1);
                case reserved of
                  Inl e \<Rightarrow>
                    if errorsIs e ErrSuperseded \<or> errorsIs e ErrStaleWork \<or> errorsIs e ErrUnsupportedCIPark
                    then finishCIPark E observation CIParkOutcomeUnsupported []
                    else ret (errorResult e)
                | Inr fenceToken \<Rightarrow> do {
                    written \<leftarrow> update_run E (arm_repair park policy observation selector fenceToken);
                    ret (done_result, written)
                  }
              }
        }
      })"

text \<open>\<open>observeCIPark\<close> in three parts: the exits ahead of the park, the write that advances it, and
  what the trigger makes of it. The answer is \<open>(handled, result, err)\<close>.\<close>

type_synonym park_answer = "bool \<times> result \<times> err option"

definition fall_through :: "handler \<Rightarrow> park_answer prog" where
  "fall_through m = do { (result, e) \<leftarrow> m; ret (case e of Some _ \<Rightarrow> (False, done_result, e) | None \<Rightarrow> (False, result, None)) }"

definition handled :: "handler \<Rightarrow> park_answer prog" where
  "handled m = do { (result, e) \<leftarrow> m; ret (True, result, e) }"

text \<open>The status write of one observation: the park, the end of the attempt in flight, the
  settlement of its fence, the notice of a new park, and the settle candidates.\<close>

definition advance_park ::
  "env \<Rightarrow> CoderRun \<Rightarrow> CIParkState \<Rightarrow> bool \<Rightarrow> bool \<Rightarrow> CIRepairContext option \<Rightarrow> string \<times> string \<Rightarrow>
     CoderRunStatus \<Rightarrow> CoderRunStatus" where
  "advance_park E run park established republished attempt candidates s =
     (let s = s\<lparr>s_CIPark := Some park, s_CIRepair := None\<rparr>;
          s = (case attempt of
              None \<Rightarrow> s
            | Some a \<Rightarrow>
                if republished \<and> rp_FenceToken a \<noteq> []
                then s\<lparr>s_CISettlement := Some (settlement (rp_FenceToken a) (ciparkRepairKey run (rp_Attempt a))
                    CIParkOutcomeRepushed (pk_Head park))\<rparr>
                else s);
          s = (if established \<and> (case adapterAndWorkItem E run of
                    Inl e \<Rightarrow> False | Inr (adapter, item) \<Rightarrow> ad_CIParkLifecycle adapter)
               then s\<lparr>s_CIParkDeferral := Some \<lparr>df_Head = pk_Head park,
                   df_IdempotencyKey = ciparkParkKey run (pk_Head park)\<rparr>\<rparr>
               else s)
      in s\<lparr>s_FailedCheckFingerprint := fst candidates, s_CheckFingerprint := snd candidates\<rparr>)"

text \<open>The flag \<open>changed\<close> of the code.\<close>

definition park_changed :: "bool \<Rightarrow> CoderRunStatus \<Rightarrow> CoderRunStatus \<Rightarrow> bool \<Rightarrow> bool" where
  "park_changed cleared b a fenced_republish \<longleftrightarrow>
     cleared \<or> s_PR a \<noteq> s_PR b \<or> s_CIPark a \<noteq> s_CIPark b \<or> s_CIRepair b \<noteq> None \<or> fenced_republish
     \<or> s_FailedCheckFingerprint a \<noteq> s_FailedCheckFingerprint b \<or> s_CheckFingerprint a \<noteq> s_CheckFingerprint b"

definition act_on_trigger ::
  "env \<Rightarrow> CIParkState \<Rightarrow> CIRepairPolicy \<Rightarrow> PRObservation \<Rightarrow> bool \<Rightarrow> bool \<Rightarrow> handler" where
  "act_on_trigger E park policy observation failureSettled greenSettled =
     (let selector = mechanicalSelector (cp_MechanicalChecks policy);
          remaining = cp_MaxAttempts policy - pk_Attempts park
      in case ClassifyCIParkTrigger observation (pk_Head park) selector remaining of
           CIParkHold \<Rightarrow> holdCIPark E park policy observation
         | CIParkResumeRepair \<Rightarrow> resumeCIPark E park policy observation selector failureSettled
         | CIParkFinish \<Rightarrow>
             settleCIPark E observation (cp_MechanicalChecks policy) remaining failureSettled greenSettled)"

definition advance_and_act ::
  "env \<Rightarrow> CIRepairPolicy \<Rightarrow> PRObservation \<Rightarrow> string \<Rightarrow> handler" where
  "advance_and_act E policy observation head =
     do {
       before \<leftarrow> gets mem;
       cleared \<leftarrow> clearCIParkInapplicable E;
       set_run (s_PR_update (\<lambda>_. ob_PR observation));
       now \<leftarrow> clock E;
       let attempt = s_CIRepair (r_status before);
       let fenceToken = (case attempt of None \<Rightarrow> [] | Some a \<Rightarrow> rp_FenceToken a);
       case nextCIPark (s_CIPark (r_status before)) head attempt now of (next, established, republished, noProgress) \<Rightarrow>
         (case next of
            None \<Rightarrow> finishCIPark E observation CIParkOutcomeExhausted fenceToken
          | Some park \<Rightarrow> do {
              let candidates = ciparkFingerprints observation (cp_MechanicalChecks policy);
              let failureSettled = (\<not> established \<and> fst candidates \<noteq> []
                    \<and> s_FailedCheckFingerprint (r_status before) = fst candidates);
              let greenSettled = (\<not> established \<and> snd candidates \<noteq> []
                    \<and> s_CheckFingerprint (r_status before) = snd candidates);
              set_run (advance_park E before park established republished attempt candidates);
              after \<leftarrow> gets mem;
              written \<leftarrow> (if park_changed cleared (r_status before) (r_status after) (republished \<and> fenceToken \<noteq> [])
                         then patchStatus E before else ret None);
              case written of
                Some e \<Rightarrow> ret (errorResult e)
              | None \<Rightarrow> do {
                  (if established then do { _ \<leftarrow> deliverCIParkNotice E; ret () } else ret ());
                  (if republished \<and> fenceToken \<noteq> [] then do { _ \<leftarrow> deliverCISettlement E; ret () } else ret ());
                  act_on_trigger E park policy observation failureSettled greenSettled
                }
            })
     }"

text \<open>A deployment of the source that is known not to have the park routes.\<close>

definition park_unsupported :: "env \<Rightarrow> CoderRun \<Rightarrow> bool" where
  "park_unsupported E run =
     (case adapterAndWorkItem E run of
        Inl e \<Rightarrow> False
      | Inr (adapter, item) \<Rightarrow> ad_CIParkLifecycleUnsupported adapter = Some True)"

definition clear_inapplicable_write :: "env \<Rightarrow> err option prog" where
  "clear_inapplicable_write E =
     do {
       before \<leftarrow> gets mem;
       cleared \<leftarrow> clearCIParkInapplicable E;
       if cleared then patchStatus E before else ret None
     }"

definition observeCIPark :: "env \<Rightarrow> PRObservation \<Rightarrow> park_answer prog" where
  "observeCIPark E observation =
     do {
       policyR \<leftarrow> ciRepairPolicy E;
       case policyR of
         Inl e \<Rightarrow> ret (False, done_result, Some e)
       | Inr None \<Rightarrow> do {
           written \<leftarrow> clear_inapplicable_write E;
           case written of
             Some e \<Rightarrow> ret (False, done_result, Some e)
           | None \<Rightarrow> fall_through (abandonCIPark E observation)
         }
       | Inr (Some policy) \<Rightarrow>
           if ob_PR observation = [] \<or> ob_Draft observation then fall_through (abandonCIPark E observation)
           else do {
             run \<leftarrow> gets mem;
             let head = publishedHead run (ob_Head observation);
             let fenceToken = (case s_CIRepair (r_status run) of None \<Rightarrow> [] | Some a \<Rightarrow> rp_FenceToken a);
             if s_CIPark (r_status run) = None \<and> s_CIRepair (r_status run) = None \<and> park_unsupported E run
             then do {
               written \<leftarrow> (if head = None then markCIParkInapplicable E observation
                          else clear_inapplicable_write E);
               ret (False, done_result, written)
             }
             else (case head of
                 None \<Rightarrow>
                   if s_CIPark (r_status run) = None then do {
                     written \<leftarrow> markCIParkInapplicable E observation;
                     ret (False, done_result, written)
                   }
                   else handled (finishCIPark E observation CIParkOutcomeUnsupported fenceToken)
               | Some h \<Rightarrow> handled (advance_and_act E policy observation h))
           }
     }"

end
