(* ===== verification/Review.thy ===== *)
theory Review
  imports Lifecycle GoTime
begin

text \<open>
  The slow observation of a pull request that awaits review
  (\<open>internal/controller/merge_observation.go\<close>): one exact read of the recorded pull request at a
  durable cadence, after which the run is done, parked for a human, or left alone.
\<close>

abbreviation "mergeObservationRequeueDelay \<equiv> 5 * Minute"
abbreviation "mergeObservedAtAnnotation \<equiv> ''courier.misospace.dev/merge-observed-at''"

definition exactPullRequestIdentity :: "CoderRun \<Rightarrow> int \<Rightarrow> PullRequest \<Rightarrow> bool" where
  "exactPullRequestIdentity run number pull =
     (if pu_Number pull \<noteq> number then False
      else
        let trimmed = TrimSpace (s_HeadRepo (r_status run));
            headRepo = (if trimmed = [] then p_Repo (r_spec run) else trimmed)
        in EqualFold (pu_BaseRepo pull) (p_Repo (r_spec run)) \<and> EqualFold (pu_HeadRepo pull) headRepo
           \<and> pu_HeadRef pull = s_Branch (r_status run))"

text \<open>The recorded pull request's number, where the run carries an identity to read.\<close>

definition recorded_number :: "CoderRun \<Rightarrow> int option" where
  "recorded_number run =
     (case Atoi (TrimSpace (s_PR (r_status run))) of
        None \<Rightarrow> None
      | Some number \<Rightarrow>
          if number \<le> 0 \<or> TrimSpace (s_Branch (r_status run)) = [] then None else Some number)"

definition mergeObservationRemaining :: "time \<Rightarrow> CoderRun \<Rightarrow> duration option" where
  "mergeObservationRemaining now run =
     (case map_of (m_Annotations (r_meta run)) mergeObservedAtAnnotation of
        None \<Rightarrow> None
      | Some raw \<Rightarrow> (case ParseRFC3339 raw of
            None \<Rightarrow> None
          | Some stampedAt \<Rightarrow>
              let elapsed = now - stampedAt in
              if elapsed < 0 \<or> mergeObservationRequeueDelay \<le> elapsed then None
              else Some (mergeObservationRequeueDelay - elapsed)))"

text \<open>The clock is read only where the marker parses.\<close>

definition merge_wait :: "env \<Rightarrow> duration option prog" where
  "merge_wait E =
     do {
       run \<leftarrow> gets mem;
       case map_of (m_Annotations (r_meta run)) mergeObservedAtAnnotation of
         None \<Rightarrow> ret None
       | Some raw \<Rightarrow>
           if ParseRFC3339 raw = None then ret None
           else do { now \<leftarrow> clock E; ret (mergeObservationRemaining now run) }
     }"

definition stampMergeObserved :: "env \<Rightarrow> err option prog" where
  "stampMergeObserved E =
     do {
       now \<leftarrow> clock E;
       patchAnnotations E (set_annotation mergeObservedAtAnnotation (FormatRFC3339 now))
     }"

definition keep_observing :: "env \<Rightarrow> handler" where
  "keep_observing E =
     do {
       stamped \<leftarrow> stampMergeObserved E;
       ret (case stamped of Some e \<Rightarrow> errorResult e | None \<Rightarrow> (requeueAfter mergeObservationRequeueDelay, None))
     }"

definition closed_intent :: "CoderRun \<Rightarrow> int \<Rightarrow> time \<Rightarrow> terminalLifecycleIntent" where
  "closed_intent run number now =
     (let identity = p_Repo (r_spec run) @ ''#'' @ Itoa number in
      (error_intent (''recorded pull request '' @ identity @ '' was closed without merge''))
        \<lparr>ti_conditions := [\<lparr>c_Type = ConditionPullRequestClosedUnmerged, c_Status = ConditionTrue,
           c_Reason = ConditionReasonClosedUnmerged, c_Message = identity,
           c_ObservedGeneration = m_Generation (r_meta run), c_LastTransitionTime = now\<rparr>]\<rparr>)"

definition observeMergedReviewPR :: "env \<Rightarrow> handler" where
  "observeMergedReviewPR E =
     do {
       run \<leftarrow> gets mem;
       if \<not> e_pulls E then ret (done_result, None)
       else (case recorded_number run of
           None \<Rightarrow> ret (done_result, None)
         | Some number \<Rightarrow> do {
             waiting \<leftarrow> merge_wait E;
             case waiting of
               Some remaining \<Rightarrow> ret (requeueAfter remaining, None)
             | None \<Rightarrow> do {
                 read \<leftarrow> ask (e_pull E);
                 case read of
                   Inl e \<Rightarrow> keep_observing E
                 | Inr pull \<Rightarrow>
                     if \<not> exactPullRequestIdentity run number pull then keep_observing E
                     else if pu_Merged pull then
                       transitionTerminal E PhaseDone (s_PR (r_status run)) no_intent None
                     else if EqualFold (TrimSpace (pu_State pull)) ''closed'' then do {
                       now \<leftarrow> clock E;
                       transitionTerminal E PhaseNeedsHuman (s_PR (r_status run)) (closed_intent run number now) None
                     }
                     else keep_observing E
               }
           })
     }"

end
