(* ===== verification/Retry.thy ===== *)
theory Retry
  imports Review
begin

text \<open>
  The operator's retry request (\<open>internal/controller/retry.go\<close>): an annotation on a terminal run
  becomes a durable record with four states, and the source's fenced requeue is called only after the
  record is persisted. \<open>SuccessorRunName\<close> is the naming of \<open>internal/source/runner.go\<close>.
\<close>

section \<open>Keys and names\<close>

definition maxRetryRequestIDLength :: nat where "maxRetryRequestIDLength = 128"

abbreviation "retrySettlementRequeueDelay \<equiv> 30 * Second"
abbreviation "retryForgeRequeueDelay \<equiv> Minute"
abbreviation "retryAnnouncedAnnotation \<equiv> ''courier.misospace.dev/retry-announced''"

definition maxRetryAnnouncedTokens :: nat where "maxRetryAnnouncedTokens = 32"
definition retryAnnouncedTokenLength :: nat where "retryAnnouncedTokenLength = 16"
abbreviation "retryAnnouncedMarkerPrefix \<equiv> ''v1:''"

definition validRetryRequestID :: "string \<Rightarrow> bool" where
  "validRetryRequestID id' \<longleftrightarrow>
     id' \<noteq> [] \<and> ValidString id' \<and> RuneCountInString id' \<le> maxRetryRequestIDLength"

definition retryIdempotencyKey :: "CoderRun \<Rightarrow> string \<Rightarrow> string" where
  "retryIdempotencyKey run requestID =
     (let key = ''coderun/'' @ m_Namespace (r_meta run) @ ''/'' @ m_Name (r_meta run) @ ''/'' @ sha256_hex requestID
      in if m_UID (r_meta run) \<noteq> [] then key @ ''/'' @ m_UID (r_meta run) else key)"

definition workKey :: "string \<Rightarrow> string \<Rightarrow> string" where
  "workKey sourceName workItemID = sourceName @ NUL @ workItemID"

definition RunName :: "string \<Rightarrow> string \<Rightarrow> string" where
  "RunName sourceName workItemID = ''courier-'' @ take 32 (sha256_hex (workKey sourceName workItemID))"

definition SuccessorRunName :: "string \<Rightarrow> string \<Rightarrow> string \<Rightarrow> string" where
  "SuccessorRunName sourceName workItemID predecessorUID =
     ''courier-'' @ take 32 (sha256_hex (workKey sourceName workItemID @ NUL @ predecessorUID))"

section \<open>The announced set\<close>

text \<open>The map of the code is a list without repetitions here.\<close>

definition retryAnnouncedToken :: "string \<Rightarrow> string" where
  "retryAnnouncedToken id' = take 16 (sha256_hex id')"

definition isHex :: "string \<Rightarrow> bool" where
  "isHex s \<longleftrightarrow> s \<noteq> [] \<and>
     list_all (\<lambda>c. (CHR ''0'' \<le> c \<and> c \<le> CHR ''9'') \<or> (CHR ''a'' \<le> c \<and> c \<le> CHR ''f'')) s"

definition retryAnnouncedSet :: "string \<Rightarrow> string list" where
  "retryAnnouncedSet marker =
     (if marker = [] then []
      else (case CutPrefix marker retryAnnouncedMarkerPrefix of (raw, versioned) \<Rightarrow>
        if \<not> versioned then [retryAnnouncedToken marker]
        else remdups (filter (\<lambda>token. length token = retryAnnouncedTokenLength \<and> isHex token)
               (Split raw CHR '',''))))"

definition retryAnnouncedMarker :: "string list \<Rightarrow> string" where
  "retryAnnouncedMarker tokens = retryAnnouncedMarkerPrefix @ Join (sort tokens) '',''"

section \<open>The record\<close>

definition coreRetryRefusal :: "CoderRun \<Rightarrow> string option" where
  "coreRetryRefusal run =
     (case s_Phase (r_status run) of
        PhaseFailed \<Rightarrow> None
      | PhaseNeedsHuman \<Rightarrow> None
      | PhaseBlockedExternal \<Rightarrow> Some RetryRefusalAutomaticRecoveryChannel
      | _ \<Rightarrow> Some RetryRefusalNotRetryablePhase)"

definition active_owner :: "CoderRun \<Rightarrow> CoderRun \<Rightarrow> bool" where
  "active_owner run other \<longleftrightarrow>
     m_Name (r_meta other) \<noteq> m_Name (r_meta run) \<and> p_Source (r_spec other) = p_Source (r_spec run)
     \<and> p_Repo (r_spec other) = p_Repo (r_spec run) \<and> p_Ref (r_spec other) = p_Ref (r_spec run)
     \<and> s_Phase (r_status other) \<in> {PhasePending, PhaseClaimed, PhaseRunning, PhaseVerifying}"

definition activeOwnerExists :: "env \<Rightarrow> (err + bool) prog" where
  "activeOwnerExists E =
     do {
       run \<leftarrow> gets mem;
       runsR \<leftarrow> ask (e_runs E);
       ret (case runsR of Inl e \<Rightarrow> Inl e | Inr runs \<Rightarrow> Inr (list_ex (active_owner run) runs))
     }"

text \<open>The answers \<open>(closed, unreadable)\<close> of the forge guard.\<close>

definition fixPRUpstreamClosed :: "env \<Rightarrow> (bool \<times> bool) prog" where
  "fixPRUpstreamClosed E =
     do {
       run \<leftarrow> gets mem;
       case recorded_number run of
         None \<Rightarrow> ret (False, False)
       | Some number \<Rightarrow>
           if \<not> e_pulls E then ret (False, True)
           else do {
             read \<leftarrow> ask (e_pull E);
             ret (case read of
                 Inl e \<Rightarrow> (False, True)
               | Inr pull \<Rightarrow>
                   if \<not> exactPullRequestIdentity run number pull then (False, False)
                   else (pu_Merged pull \<or> EqualFold (TrimSpace (pu_State pull)) ''closed'', False))
           }
     }"

definition isRetryAdapterRefusalReason :: "string \<Rightarrow> bool" where
  "isRetryAdapterRefusalReason reason \<longleftrightarrow>
     reason \<in> {RetryRefusalStaleGeneration, RetryRefusalHeldForHuman, RetryRefusalSourceRefused}"

definition normalizeRetryAttemptID :: "string \<Rightarrow> string" where
  "normalizeRetryAttemptID attemptID =
     (if RuneCountInString attemptID \<le> RetryRequestMaxAttemptIDLength then attemptID else [])"

fun retry_state_name :: "RetryRequestState \<Rightarrow> string" where
  "retry_state_name RetryRequestStateRequested = ''Requested''"
| "retry_state_name RetryRequestStateRequeued = ''Requeued''"
| "retry_state_name RetryRequestStateMoot = ''Moot''"
| "retry_state_name RetryRequestStateRefused = ''Refused''"

definition retry_condition_status :: "RetryRequestState \<Rightarrow> ConditionStatus" where
  "retry_condition_status state =
     (case state of
        RetryRequestStateRequested \<Rightarrow> ConditionUnknown
      | RetryRequestStateRequeued \<Rightarrow> ConditionTrue
      | RetryRequestStateMoot \<Rightarrow> ConditionTrue
      | RetryRequestStateRefused \<Rightarrow> ConditionFalse)"

definition setRetryCondition :: "env \<Rightarrow> RetryRequestState \<Rightarrow> string \<Rightarrow> unit prog" where
  "setRetryCondition E state reason =
     do {
       run \<leftarrow> gets mem;
       set_condition_now E ConditionRetryRequest (retry_condition_status state) (retry_state_name state)
         (if reason = [] then retry_state_name state else reason) (m_Generation (r_meta run))
     }"

text \<open>Every write of the record: stamp, replace, mirror into the condition, persist.\<close>

definition write_retry ::
  "env \<Rightarrow> (time \<Rightarrow> RetryRequest) \<Rightarrow> err option prog" where
  "write_retry E record =
     do {
       before \<leftarrow> gets mem;
       now \<leftarrow> clock E;
       set_run (s_RetryRequest_update (\<lambda>_. Some (record now)));
       setRetryCondition E (rr_State (record now)) (rr_Reason (record now));
       patchStatus E before
     }"

type_synonym retry_answer = "result \<times> bool \<times> err option"

section \<open>The state machine\<close>

definition writeRetryRefusal :: "env \<Rightarrow> string \<Rightarrow> string \<Rightarrow> retry_answer prog" where
  "writeRetryRefusal E requestID reason =
     do {
       r \<leftarrow> write_retry E (\<lambda>now. \<lparr>rr_ID = requestID, rr_RequestedAt = now, rr_State = RetryRequestStateRefused,
         rr_Reason = reason, rr_AttemptID = [], rr_SettledAt = Some now\<rparr>);
       ret (done_result, True, r)
     }"

definition settleRetryOutcome ::
  "env \<Rightarrow> RetryRequest \<Rightarrow> RetryRequestState \<Rightarrow> string \<Rightarrow> string \<Rightarrow> retry_answer prog" where
  "settleRetryOutcome E record state reason attemptID =
     do {
       r \<leftarrow> write_retry E (\<lambda>now. \<lparr>rr_ID = rr_ID record, rr_RequestedAt = rr_RequestedAt record,
         rr_State = state, rr_Reason = reason, rr_AttemptID = attemptID, rr_SettledAt = Some now\<rparr>);
       ret (done_result, r \<noteq> None, r)
     }"

definition successor_spec :: "CoderRunSpec \<Rightarrow> string \<Rightarrow> CoderRunSpec" where
  "successor_spec spec freshIdentity =
     \<lparr>p_Mode = p_Mode spec, p_Source = p_Source spec, p_SourceAgent = p_SourceAgent spec,
      p_SourceContext = p_SourceContext spec, p_WorkItemID = freshIdentity, p_AssignmentKind = [],
      p_AssignmentReasons = [], p_Repo = p_Repo spec, p_WorkRepo = p_WorkRepo spec, p_Ref = p_Ref spec,
      p_Lane = p_Lane spec, p_Debug = p_Debug spec\<rparr>"

definition materializeRetrySuccessor :: "env \<Rightarrow> string \<Rightarrow> err option prog" where
  "materializeRetrySuccessor E freshIdentity =
     do {
       run \<leftarrow> gets mem;
       r \<leftarrow> act E (CreateSuccessor
         (SuccessorRunName (p_Source (r_spec run)) freshIdentity (m_UID (r_meta run)))
         (successor_spec (r_spec run) freshIdentity));
       ret (case r of
           None \<Rightarrow> None
         | Some e \<Rightarrow> if errorsIs e AlreadyExists then None
             else Some (wrapError (''create retry successor for '' @ quoted (m_Name (r_meta run)) @ '': '') e))
     }"

text \<open>\<open>errors.As\<close> to a typed refusal of the source.\<close>

fun first_refusal :: "sentinel list \<Rightarrow> (string \<times> bool) option" where
  "first_refusal [] = None"
| "first_refusal (RetryRefusal reason moot # ss) = Some (reason, moot)"
| "first_refusal (_ # ss) = first_refusal ss"

definition callRequeue :: "env \<Rightarrow> RetryRequest \<Rightarrow> WorkItem \<Rightarrow> retry_answer prog" where
  "callRequeue E record item =
     do {
       run \<leftarrow> gets mem;
       r \<leftarrow> act E (RequeueAttempt item \<lparr>aq_FenceToken = s_SourceReceipt (r_status run),
         aq_IdempotencyKey = retryIdempotencyKey run (rr_ID record), aq_Reason = rr_ID record\<rparr>);
       case r of
         None \<Rightarrow> do {
           result \<leftarrow> ask (e_requeue E);
           created \<leftarrow> (if ar_ControllerMaterializesSuccessor result \<and> ar_AttemptID result \<noteq> []
                      then materializeRetrySuccessor E (ar_AttemptID result) else ret None);
           case created of
             Some e \<Rightarrow> ret (done_result, True, Some e)
           | None \<Rightarrow> settleRetryOutcome E record RetryRequestStateRequeued []
               (normalizeRetryAttemptID (ar_AttemptID result))
         }
       | Some e \<Rightarrow>
           if errorsIs e ErrUnsupportedRetry
           then settleRetryOutcome E record RetryRequestStateRefused RetryRefusalUnsupportedSource []
           else (case first_refusal (er_is e) of
               Some (reason, moot) \<Rightarrow>
                 if moot then settleRetryOutcome E record RetryRequestStateMoot RetryRefusalAlreadyRequeued []
                 else settleRetryOutcome E record RetryRequestStateRefused
                   (if isRetryAdapterRefusalReason reason then reason else RetryRefusalSourceRefused) []
             | None \<Rightarrow> ret (requeueAfter retrySettlementRequeueDelay, True, None))
     }"

definition settleRetryRecord :: "env \<Rightarrow> RetryRequest \<Rightarrow> retry_answer prog" where
  "settleRetryRecord E record =
     do {
       run \<leftarrow> gets mem;
       case adapterAndWorkItem E run of
         Inl e \<Rightarrow> ret (done_result, True, Some e)
       | Inr (adapter, item) \<Rightarrow>
           if \<not> ad_AttemptRequeuer adapter
           then ret (done_result, True, Some (newError (''retry request '' @ quoted (rr_ID record) @
                  '' outstanding but source '' @ quoted (p_Source (r_spec run)) @
                  '' no longer implements the requeue capability'')))
           else callRequeue E record item
     }"

text \<open>The end of \<open>beginRetry\<close>: the record is persisted before the source is called.\<close>

definition request_and_call :: "env \<Rightarrow> string \<Rightarrow> retry_answer prog" where
  "request_and_call E requestID =
     do {
       run \<leftarrow> gets mem;
       case adapterAndWorkItem E run of
         Inl e \<Rightarrow> ret (done_result, True, Some e)
       | Inr (adapter, item) \<Rightarrow>
           if \<not> ad_AttemptRequeuer adapter then writeRetryRefusal E requestID RetryRefusalUnsupportedSource
           else do {
             written \<leftarrow> write_retry E (\<lambda>now. \<lparr>rr_ID = requestID, rr_RequestedAt = now,
               rr_State = RetryRequestStateRequested, rr_Reason = [], rr_AttemptID = [], rr_SettledAt = None\<rparr>);
             case written of
               Some e \<Rightarrow> ret (done_result, True, Some e)
             | None \<Rightarrow> do {
                 run \<leftarrow> gets mem;
                 case s_RetryRequest (r_status run) of
                   None \<Rightarrow> ret (done_result, True, None)
                 | Some record \<Rightarrow> callRequeue E record item
               }
           }
     }"

definition beginRetry :: "env \<Rightarrow> string \<Rightarrow> retry_answer prog" where
  "beginRetry E requestID =
     do {
       run \<leftarrow> gets mem;
       case coreRetryRefusal run of
         Some refusal \<Rightarrow> writeRetryRefusal E requestID refusal
       | None \<Rightarrow>
           if \<not> lifecycleReportSettled E run then ret (done_result, False, None)
           else do {
             active \<leftarrow> activeOwnerExists E;
             case active of
               Inl e \<Rightarrow> ret (done_result, True, Some e)
             | Inr owned \<Rightarrow>
                 if owned then writeRetryRefusal E requestID RetryRefusalActiveOwnerExists
                 else do {
                   guard \<leftarrow> (if p_Mode (r_spec run) = ModeFixPR then fixPRUpstreamClosed E else ret (False, False));
                   (case guard of (closed, unreadable) \<Rightarrow>
                      if unreadable then ret (requeueAfter retryForgeRequeueDelay, True, None)
                      else if closed then writeRetryRefusal E requestID RetryRefusalUpstreamClosed
                      else request_and_call E requestID)
                 }
           }
     }"

definition announceAlreadyRequeued :: "env \<Rightarrow> string \<Rightarrow> retry_answer prog" where
  "announceAlreadyRequeued E annotation =
     do {
       run \<leftarrow> gets mem;
       let token = retryAnnouncedToken annotation;
       let announced = retryAnnouncedSet (lookup_annotation (m_Annotations (r_meta run)) retryAnnouncedAnnotation);
       if token \<in> set announced \<or> maxRetryAnnouncedTokens \<le> length announced
       then ret (done_result, False, None)
       else do {
         r \<leftarrow> patchAnnotations E (set_annotation retryAnnouncedAnnotation (retryAnnouncedMarker (token # announced)));
         ret (done_result, False, r)
       }
     }"

definition syncRetry :: "env \<Rightarrow> retry_answer prog" where
  "syncRetry E =
     do {
       run \<leftarrow> gets mem;
       let annotation = lookup_annotation (m_Annotations (r_meta run)) RetryAnnotation;
       case s_RetryRequest (r_status run) of
         None \<Rightarrow>
           if \<not> validRetryRequestID annotation then ret (done_result, False, None)
           else beginRetry E annotation
       | Some record \<Rightarrow>
           if rr_State record = RetryRequestStateRequested then settleRetryRecord E record
           else if \<not> validRetryRequestID annotation then ret (done_result, False, None)
           else if annotation = rr_ID record then ret (done_result, False, None)
           else if rr_State record = RetryRequestStateRequeued then announceAlreadyRequeued E annotation
           else beginRetry E annotation
     }"

end
