(* ===== verification/Reap.thy ===== *)
theory Reap
  imports Retry
begin

text \<open>
  Retention and deletion of terminal runs (\<open>internal/controller/reap.go\<close>): a durable marker starts
  the window, the audit floor keeps the most recent outcomes of a repository, and a re-read at the
  delete boundary protects a retry request the reconcile could not see.
\<close>

abbreviation "doneAtAnnotation \<equiv> ''courier.misospace.dev/done-at''"
abbreviation "failedAtAnnotation \<equiv> ''courier.misospace.dev/failed-at''"
abbreviation "needsHumanAtAnnotation \<equiv> ''courier.misospace.dev/needs-human-at''"
abbreviation "alreadyDoneAtAnnotation \<equiv> ''courier.misospace.dev/already-done-at''"

definition defaultDoneRetention :: duration where "defaultDoneRetention = 5 * Minute"
definition defaultFailedRetention :: duration where "defaultFailedRetention = 168 * Hour"
definition defaultNeedsHumanRetention :: duration where "defaultNeedsHumanRetention = 168 * Hour"
definition defaultTerminalAuditKeep :: int where "defaultTerminalAuditKeep = 5"

definition doneRetention :: "env \<Rightarrow> duration" where
  "doneRetention E = (if 0 < e_DoneRetention E then e_DoneRetention E else defaultDoneRetention)"

definition failedRetention :: "env \<Rightarrow> duration" where
  "failedRetention E = (if 0 < e_FailedRetention E then e_FailedRetention E else defaultFailedRetention)"

definition needsHumanRetention :: "env \<Rightarrow> duration" where
  "needsHumanRetention E =
     (if 0 < e_NeedsHumanRetention E then e_NeedsHumanRetention E else defaultNeedsHumanRetention)"

definition terminalAuditKeep :: "env \<Rightarrow> int" where
  "terminalAuditKeep E = (if e_TerminalAuditKeep E \<noteq> 0 then e_TerminalAuditKeep E else defaultTerminalAuditKeep)"

section \<open>The audit floor\<close>

definition auditFloorPhase :: "Phase \<Rightarrow> bool" where
  "auditFloorPhase phase \<longleftrightarrow> phase \<in> {PhaseFailed, PhaseNeedsHuman}"

definition terminalPhase :: "Phase \<Rightarrow> bool" where
  "terminalPhase phase \<longleftrightarrow> phase \<in> {PhaseAwaitingReview, PhaseHandedOff, PhaseNeedsHuman, PhaseDone,
     PhaseFailed, PhaseBlockedExternal, PhaseAlreadyDone}"

definition terminalTime :: "CoderRun \<Rightarrow> time" where
  "terminalTime run =
     (case s_FinishedAt (r_status run) of Some t \<Rightarrow> t | None \<Rightarrow> m_CreationTimestamp (r_meta run))"

definition terminalNewer :: "CoderRun \<Rightarrow> CoderRun \<Rightarrow> bool" where
  "terminalNewer a b =
     (if terminalTime a \<noteq> terminalTime b then terminalTime b < terminalTime a
      else m_Name (r_meta b) < m_Name (r_meta a))"

definition floor_rival :: "CoderRun \<Rightarrow> CoderRun \<Rightarrow> bool" where
  "floor_rival run other \<longleftrightarrow>
     m_Name (r_meta other) \<noteq> m_Name (r_meta run) \<and> p_Repo (r_spec other) = p_Repo (r_spec run)
     \<and> auditFloorPhase (s_Phase (r_status other)) \<and> terminalNewer other run"

definition within_floor :: "int \<Rightarrow> CoderRun list \<Rightarrow> CoderRun \<Rightarrow> bool" where
  "within_floor n runs run = (int (length (filter (floor_rival run) runs)) < n)"

definition withinAuditFloor :: "env \<Rightarrow> (err + bool) prog" where
  "withinAuditFloor E =
     do {
       run \<leftarrow> gets mem;
       if terminalAuditKeep E \<le> 0 then ret (Inr False)
       else do {
         runsR \<leftarrow> ask (e_runs E);
         ret (case runsR of Inl e \<Rightarrow> Inl e | Inr runs \<Rightarrow> Inr (within_floor (terminalAuditKeep E) runs run))
       }
     }"

section \<open>The reaper\<close>

definition reapMarker :: "CoderRun \<Rightarrow> string \<Rightarrow> time option" where
  "reapMarker run marker =
     (case map_of (m_Annotations (r_meta run)) marker of None \<Rightarrow> None | Some raw \<Rightarrow> ParseRFC3339 raw)"

definition doneAtMarker :: "CoderRun \<Rightarrow> time option" where
  "doneAtMarker run = reapMarker run doneAtAnnotation"

definition retryHoldsReap :: "CoderRun \<Rightarrow> bool" where
  "retryHoldsReap run =
     (case s_RetryRequest (r_status run) of
        None \<Rightarrow> False | Some record \<Rightarrow> rr_State record = RetryRequestStateRequested)"

definition liveRetryHold :: "CoderRun \<Rightarrow> CoderRun \<Rightarrow> bool" where
  "liveRetryHold snapshot live =
     (if retryHoldsReap live then True
      else
        let liveID = lookup_annotation (m_Annotations (r_meta live)) RetryAnnotation in
        s_Phase (r_status snapshot) \<noteq> PhaseDone \<and> validRetryRequestID liveID
        \<and> liveID \<noteq> lookup_annotation (m_Annotations (r_meta snapshot)) RetryAnnotation)"

text \<open>The delete with its re-read; the preconditions make a concurrent write fail the delete.\<close>

definition delete_at_boundary :: "env \<Rightarrow> handler" where
  "delete_at_boundary E =
     do {
       run \<leftarrow> gets mem;
       liveR \<leftarrow> ask (e_run E);
       case liveR of
         Inl e \<Rightarrow> ret (done_result, if errorsIs e NotFound then None else Some e)
       | Inr live \<Rightarrow>
           if liveRetryHold run live then ret (done_result, None)
           else do {
             r \<leftarrow> act E DeleteRun;
             ret (done_result, case r of None \<Rightarrow> None | Some e \<Rightarrow> if errorsIs e NotFound then None else Some e)
           }
     }"

definition reapTerminal :: "env \<Rightarrow> string \<Rightarrow> duration \<Rightarrow> bool \<Rightarrow> handler" where
  "reapTerminal E marker retention applyAuditFloor =
     do {
       now \<leftarrow> clock E;
       run \<leftarrow> gets mem;
       case reapMarker run marker of
         None \<Rightarrow> do {
           r \<leftarrow> patchAnnotations E (set_annotation marker (FormatRFC3339 now));
           ret (case r of Some e \<Rightarrow> errorResult e | None \<Rightarrow> (requeueAfter retention, None))
         }
       | Some at \<Rightarrow>
           let remaining = at + retention - now in
           if 0 < remaining
           then ret (requeueAfter (if retention < remaining then retention else remaining), None)
           else if applyAuditFloor then do {
             floor_cover \<leftarrow> withinAuditFloor E;
             case floor_cover of
               Inl e \<Rightarrow> ret (errorResult e)
             | Inr covered \<Rightarrow>
                 if covered then ret (requeueAfter retention, None) else delete_at_boundary E
           }
           else delete_at_boundary E
     }"

definition reapDone :: "env \<Rightarrow> handler" where
  "reapDone E = reapTerminal E doneAtAnnotation (doneRetention E) False"

definition reapAlreadyDone :: "env \<Rightarrow> handler" where
  "reapAlreadyDone E = reapTerminal E alreadyDoneAtAnnotation (doneRetention E) False"

definition resolveCompleted :: "env \<Rightarrow> handler" where
  "resolveCompleted E =
     do {
       run \<leftarrow> gets mem;
       if doneAtMarker run \<noteq> None then reapDone E
       else (case adapterAndWorkItem E run of
           Inl e \<Rightarrow> ret (errorResult e)
         | Inr (adapter, item) \<Rightarrow> do {
             r \<leftarrow> act E (Resolve item);
             case r of
               None \<Rightarrow> reapDone E
             | Some e \<Rightarrow> if errorsIs e ErrPermanentRefusal then reapDone E else ret (errorResult e)
           })
     }"

end
