(* ===== verification/Liveness.thy ===== *)
theory Liveness
  imports Lifecycle
begin

text \<open>
  A running run (\<open>internal/controller/liveness.go\<close> and the running half of
  \<open>coderun_controller.go\<close>): soft-stop requests fenced to one coordinator incarnation, the liveness
  backstop that reaps a silent coordinator, the disappearance backstop for a lost one, and the
  bounded relaunch both end in.
\<close>

section \<open>Soft stop\<close>

definition maxSoftStopRequestIDLength :: nat where "maxSoftStopRequestIDLength = 128"

definition softStopDisarmMessage :: "string \<Rightarrow> string" where
  "softStopDisarmMessage id' =
     ''soft-stop request '' @ quoted id' @
     '' was never acknowledged by the coordinator before it was torn down; re-targeting requires a new annotation value''"

definition softStopDisarmed :: "env \<Rightarrow> CoderRun \<Rightarrow> string \<Rightarrow> bool" where
  "softStopDisarmed E run id' \<longleftrightarrow>
     (case s_ControlRequest (r_status run) of None \<Rightarrow> False | Some current \<Rightarrow> cr_ID current = id')
     \<or> (case s_ControlRequestAck (r_status run) of None \<Rightarrow> False | Some ack \<Rightarrow> ca_ID ack = id')
     \<or> (case find_condition E run ConditionSoftStopObserved of
          None \<Rightarrow> False | Some cond \<Rightarrow> c_Message cond = softStopDisarmMessage id')"

definition clearSoftStopCondition :: "env \<Rightarrow> CoderRunStatus \<Rightarrow> CoderRunStatus" where
  "clearSoftStopCondition E s = s\<lparr>s_Conditions := removeCond (e_conds E) (s_Conditions s) ConditionSoftStopObserved\<rparr>"

definition withdraw_soft_stop :: "env \<Rightarrow> CoderRunStatus \<Rightarrow> CoderRunStatus" where
  "withdraw_soft_stop E s = clearSoftStopCondition E (s\<lparr>s_ControlRequest := None, s_ControlRequestAck := None\<rparr>)"

definition stamp_soft_stop :: "env \<Rightarrow> string \<Rightarrow> Pod \<Rightarrow> time \<Rightarrow> CoderRunStatus \<Rightarrow> CoderRunStatus" where
  "stamp_soft_stop E id' pod now s =
     clearSoftStopCondition E (s\<lparr>s_ControlRequest := Some \<lparr>cr_ID = id', cr_Kind = ControlRequestSoftStop,
       cr_TargetPodUID = po_UID pod, cr_RequestedAt = now\<rparr>\<rparr>)"

definition syncSoftStop :: "env \<Rightarrow> Pod list \<Rightarrow> err option prog" where
  "syncSoftStop E pods =
     do {
       run \<leftarrow> gets mem;
       let id' = lookup_annotation (m_Annotations (r_meta run)) SoftStopAnnotation;
       if maxSoftStopRequestIDLength < length id' then ret None
       else if id' = [] then
         (if s_ControlRequest (r_status run) = None \<and> s_ControlRequestAck (r_status run) = None
             \<and> find_condition E run ConditionSoftStopObserved = None
          then ret None
          else update_run E (withdraw_soft_stop E))
       else if softStopDisarmed E run id' then ret None
       else (case coordinatorPodOf pods run of
           None \<Rightarrow> ret None
         | Some pod \<Rightarrow> do { now \<leftarrow> clock E; update_run E (stamp_soft_stop E id' pod now) })
     }"

definition softStopBeforeRelaunch :: "env \<Rightarrow> time \<Rightarrow> CoderRunStatus \<Rightarrow> CoderRunStatus" where
  "softStopBeforeRelaunch E now s =
     (case s_ControlRequest s of
        None \<Rightarrow> s
      | Some record \<Rightarrow>
          (if (case s_ControlRequestAck s of None \<Rightarrow> True | Some ack \<Rightarrow> ca_ID ack \<noteq> cr_ID record)
           then put_condition E \<lparr>c_Type = ConditionSoftStopObserved, c_Status = ConditionTrue,
                  c_Reason = ConditionReasonUnacknowledged, c_Message = softStopDisarmMessage (cr_ID record),
                  c_ObservedGeneration = 0, c_LastTransitionTime = now\<rparr> s
           else s)\<lparr>s_ControlRequest := None\<rparr>)"

section \<open>The bounded relaunch\<close>

definition defaultLivenessWindow :: duration where "defaultLivenessWindow = 5 * Minute"
definition defaultMaxRestarts :: int where "defaultMaxRestarts = 3"

abbreviation "podLostReason \<equiv> ''coordinator pod lost repeatedly and reached the infrastructure restart ceiling''"
abbreviation "infrastructureFailureCeilingReason \<equiv>
  ''coordinator infrastructure failures reached the infrastructure restart ceiling''"

definition livenessWindow :: "env \<Rightarrow> duration" where
  "livenessWindow E = (if 0 < e_LivenessWindow E then e_LivenessWindow E else defaultLivenessWindow)"

definition crashloopCeiling :: "int \<Rightarrow> int" where
  "crashloopCeiling configured = (if 0 < configured then configured else defaultMaxRestarts)"

definition maxRestarts :: "env \<Rightarrow> int" where
  "maxRestarts E = crashloopCeiling (e_MaxRestarts E)"

definition chargeRelaunch :: "env \<Rightarrow> time \<Rightarrow> CoderRunStatus \<Rightarrow> CoderRunStatus" where
  "chargeRelaunch E now s =
     (let s' = softStopBeforeRelaunch E now s in s'\<lparr>s_Restarts := s_Restarts s' + 1, s_Phase := PhaseClaimed\<rparr>)"

definition relaunchAfterInfraLoss :: "env \<Rightarrow> string \<Rightarrow> TerminalDiagnostic \<Rightarrow> handler" where
  "relaunchAfterInfraLoss E reason diagnostic =
     do {
       run \<leftarrow> gets mem;
       if maxRestarts E \<le> s_Restarts (r_status run)
       then transitionTerminal E PhaseNeedsHuman [] ((error_intent reason)\<lparr>ti_diagnostic := Some diagnostic\<rparr>) None
       else do {
         now \<leftarrow> clock E;
         r \<leftarrow> update_run E (chargeRelaunch E now);
         ret (case r of Some e \<Rightarrow> errorResult e | None \<Rightarrow> (\<lparr>re_RequeueAfter = 0, re_Requeue = True\<rparr>, None))
       }
     }"

section \<open>The pods of a run\<close>

text \<open>Listing by label: the executor's scheme, then every other scheme whose value differs.\<close>

definition label_schemes :: "string \<Rightarrow> string list" where
  "label_schemes name = RunLabelValue name #
     filter (\<lambda>value. value \<noteq> RunLabelValue name) [topology_RunLabelValue name, LegacyRunLabelValue name]"

fun list_labelled :: "env \<Rightarrow> string list \<Rightarrow> (err + Pod list) prog" where
  "list_labelled E [] = ret (Inr [])"
| "list_labelled E (value # values) =
     do {
       podsR \<leftarrow> ask (e_pods E);
       case podsR of
         Inl e \<Rightarrow> ret (Inl e)
       | Inr pods \<Rightarrow> do {
           more \<leftarrow> list_labelled E values;
           ret (case more of Inl e \<Rightarrow> Inl e | Inr ps \<Rightarrow> Inr (filter (\<lambda>p. po_RunLabel p = value) pods @ ps))
         }
     }"

definition list_run_pods :: "env \<Rightarrow> (err + Pod list) prog" where
  "list_run_pods E = do { run \<leftarrow> gets mem; list_labelled E (label_schemes (m_Name (r_meta run))) }"

definition coordinator_object :: "CoderRun \<Rightarrow> Pod \<Rightarrow> bool" where
  "coordinator_object run pod \<longleftrightarrow> podBelongsToRun pod run \<and> hasCoordinatorContainer pod"

definition coordinatorObjectPresentLive :: "env \<Rightarrow> (err + bool) prog" where
  "coordinatorObjectPresentLive E =
     do {
       run \<leftarrow> gets mem;
       podsR \<leftarrow> list_run_pods E;
       ret (case podsR of Inl e \<Rightarrow> Inl e | Inr pods \<Rightarrow> Inr (list_ex (coordinator_object run) pods))
     }"

definition ignoreNotFound :: "err option \<Rightarrow> err option" where
  "ignoreNotFound r = (case r of None \<Rightarrow> None | Some e \<Rightarrow> if errorsIs e NotFound then None else Some e)"

definition deleteObservedPod :: "env \<Rightarrow> Pod \<Rightarrow> err option prog" where
  "deleteObservedPod E pod =
     do { r \<leftarrow> act E (DeletePod (po_Name pod) (Some (po_UID pod))); ret (ignoreNotFound r) }"

section \<open>Active operations\<close>

definition podPhaseTerminal :: "PodPhase \<Rightarrow> bool" where
  "podPhaseTerminal phase \<longleftrightarrow> phase = PodFailed \<or> phase = PodSucceeded"

definition podOwnedByRunUID :: "Pod \<Rightarrow> string \<Rightarrow> bool" where
  "podOwnedByRunUID pod runUID =
     list_ex (\<lambda>owner. ow_Controller owner = Some True \<and> ow_UID owner = runUID) (po_Owners pod)"

definition workerShellRunning :: "Pod \<Rightarrow> bool" where
  "workerShellRunning pod =
     list_ex (\<lambda>cs. cs_Name cs = WorkerContainerName \<and> cs_Running cs \<noteq> None) (po_ContainerStatuses pod)"

text \<open>A live pod of exactly this run incarnation.\<close>

definition live_pod_of :: "CoderRun \<Rightarrow> Pod \<Rightarrow> bool" where
  "live_pod_of run pod \<longleftrightarrow> podBelongsToRun pod run \<and> \<not> podPhaseTerminal (po_Phase pod)
     \<and> podOwnedByRunUID pod (m_UID (r_meta run)) \<and> po_DeletionTimestamp pod = None"

definition activeOperationValid :: "CoderRun \<Rightarrow> ActiveOperation \<Rightarrow> Pod list \<Rightarrow> bool" where
  "activeOperationValid run entry pods =
     (if ao_CoordinatorPodUID entry = [] \<or> ao_WorkerPodUID entry = [] then False
      else list_ex (\<lambda>p. live_pod_of run p \<and> po_UID p = ao_CoordinatorPodUID entry \<and> hasCoordinatorContainer p) pods
         \<and> list_ex (\<lambda>p. live_pod_of run p \<and> po_UID p = ao_WorkerPodUID entry \<and> workerShellRunning p) pods)"

definition validActiveOperations :: "CoderRun \<Rightarrow> Pod list \<Rightarrow> bool" where
  "validActiveOperations run pods =
     (0 < length (filter (\<lambda>(key, entry). activeOperationValid run entry pods) (s_ActiveOperations (r_status run))))"

section \<open>The disappearance backstop\<close>

text \<open>What the live list says: the run is re-observed, nothing is charged, or these dead objects
  are all that is left.\<close>

datatype loss = LossUnsettled | LossNone | LossConfirmed "Pod list"

fun classify_loss :: "decoder \<Rightarrow> CoderRun \<Rightarrow> Pod list \<Rightarrow> Pod list \<Rightarrow> loss" where
  "classify_loss dec run [] dead = LossConfirmed (rev dead)"
| "classify_loss dec run (pod # pods) dead =
     (if \<not> coordinator_object run pod then classify_loss dec run pods dead
      else if po_DeletionTimestamp pod \<noteq> None then LossUnsettled
      else if coordinatorPodUnrecoverable dec pod then classify_loss dec run pods (pod # dead)
      else LossNone)"

fun delete_dead :: "env \<Rightarrow> Pod list \<Rightarrow> err option prog" where
  "delete_dead E [] = ret None"
| "delete_dead E (pod # pods) =
     do {
       r \<leftarrow> act E (DeletePod (po_Name pod) None);
       case ignoreNotFound r of Some e \<Rightarrow> ret (Some e) | None \<Rightarrow> delete_dead E pods
     }"

definition lost_diagnostic :: "env \<Rightarrow> Pod option \<Rightarrow> TerminalDiagnostic prog" where
  "lost_diagnostic E pod =
     do {
       now \<leftarrow> clock E;
       ret (buildTerminalDiagnostic (e_redact E) now None podLostReason [] [] True pod None)
     }"

definition charge_loss :: "env \<Rightarrow> Pod list \<Rightarrow> handler" where
  "charge_loss E dead =
     do {
       diagnostic \<leftarrow> lost_diagnostic E (case dead of [] \<Rightarrow> None | pod # _ \<Rightarrow> Some pod);
       relaunchAfterInfraLoss E podLostReason diagnostic
     }"

text \<open>Below the ceiling the dead objects are deleted, and the charge waits until none is left.\<close>

definition free_name :: "env \<Rightarrow> Pod list \<Rightarrow> handler \<Rightarrow> handler" where
  "free_name E dead charge =
     do {
       deleted \<leftarrow> delete_dead E dead;
       case deleted of
         Some e \<Rightarrow> ret (errorResult e)
       | None \<Rightarrow>
           if dead = [] then charge
           else do {
             present \<leftarrow> coordinatorObjectPresentLive E;
             if present = Inr False then charge else ret (requeueAfter observationRequeueDelay, None)
           }
     }"

definition observeMissingCoordinator :: "env \<Rightarrow> handler" where
  "observeMissingCoordinator E =
     do {
       run \<leftarrow> gets mem;
       podsR \<leftarrow> list_run_pods E;
       case podsR of
         Inl e \<Rightarrow> ret (requeueAfter observationRequeueDelay, None)
       | Inr pods \<Rightarrow>
           (case classify_loss (e_decode E) run pods [] of
              LossUnsettled \<Rightarrow> ret (requeueAfter observationRequeueDelay, None)
            | LossNone \<Rightarrow> ret (done_result, None)
            | LossConfirmed dead \<Rightarrow>
                if s_Restarts (r_status run) < maxRestarts E then free_name E dead (charge_loss E dead)
                else charge_loss E dead)
     }"

definition relaunchInfrastructureFailure :: "env \<Rightarrow> Pod \<Rightarrow> NativeResultKind \<Rightarrow> handler" where
  "relaunchInfrastructureFailure E pod kind =
     do {
       run \<leftarrow> gets mem;
       now \<leftarrow> clock E;
       let diagnostic = buildTerminalDiagnostic (e_redact E) now None [] [] [] False (Some pod) (Some kind);
       let relaunch = relaunchAfterInfraLoss E infrastructureFailureCeilingReason diagnostic;
       if s_Restarts (r_status run) < maxRestarts E then do {
         deleted \<leftarrow> deleteObservedPod E pod;
         case deleted of
           Some e \<Rightarrow>
             if errorsIs e Conflict then ret (requeueAfter observationRequeueDelay, None)
             else ret (errorResult e)
         | None \<Rightarrow> do {
             present \<leftarrow> coordinatorObjectPresentLive E;
             if present = Inr False then relaunch else ret (requeueAfter observationRequeueDelay, None)
           }
       }
       else relaunch
     }"

section \<open>The liveness backstop\<close>

text \<open>The answer of \<open>checkLiveness\<close>: result, whether it took action, error.\<close>

type_synonym liveness_answer = "result \<times> bool \<times> err option"

definition reobserve :: liveness_answer where
  "reobserve = (requeueAfter observationRequeueDelay, True, None)"

definition not_handled :: liveness_answer where
  "not_handled = (done_result, False, None)"

definition acted :: "handler \<Rightarrow> liveness_answer prog" where
  "acted m = do { (result, e) \<leftarrow> m; ret (result, True, e) }"

fun started_within :: "env \<Rightarrow> ContainerStatus list \<Rightarrow> bool prog" where
  "started_within E [] = ret False"
| "started_within E (cs # css) =
     (case cs_Running cs of
        Some started \<Rightarrow>
          if cs_Name cs = coordinatorContainerName then do {
            now \<leftarrow> clock E;
            if now - started \<le> livenessWindow E then ret True else started_within E css
          }
          else started_within E css
      | None \<Rightarrow> started_within E css)"

text \<open>Whether a coordinator of the run is too young to have a heartbeat.\<close>

fun fresh_coordinator :: "env \<Rightarrow> CoderRun \<Rightarrow> Pod list \<Rightarrow> bool prog" where
  "fresh_coordinator E run [] = ret False"
| "fresh_coordinator E run (pod # pods) =
     (if \<not> coordinator_object run pod \<or> po_DeletionTimestamp pod \<noteq> None then fresh_coordinator E run pods
      else do {
        now \<leftarrow> clock E;
        if now - po_CreationTimestamp pod \<le> livenessWindow E then ret True
        else do {
          started \<leftarrow> started_within E (po_ContainerStatuses pod);
          if started then ret True else fresh_coordinator E run pods
        }
      })"

text \<open>The loop that deletes the wedged coordinator: either it decides, or it leaves the flags
  \<open>missing\<close>, \<open>deleted\<close>, \<open>preserved\<close>.\<close>

fun reap_loop ::
  "env \<Rightarrow> CoderRun \<Rightarrow> bool \<Rightarrow> Pod list \<Rightarrow> bool \<times> bool \<times> bool \<Rightarrow> (liveness_answer + bool \<times> bool \<times> bool) prog" where
  "reap_loop E run atCeiling [] flags = ret (Inr flags)"
| "reap_loop E run atCeiling (pod # pods) (missing, deleted, preserved) =
     (if \<not> coordinator_object run pod then reap_loop E run atCeiling pods (missing, deleted, preserved)
      else if po_DeletionTimestamp pod \<noteq> None then reap_loop E run atCeiling pods (False, deleted, preserved)
      else if atCeiling \<and> coordinatorPodUnrecoverable (e_decode E) pod
      then reap_loop E run atCeiling pods (False, deleted, True)
      else do {
        r \<leftarrow> deleteObservedPod E pod;
        case r of
          None \<Rightarrow> reap_loop E run atCeiling pods (False, True, preserved)
        | Some e \<Rightarrow> ret (Inl (if errorsIs e Conflict then reobserve else (done_result, False, Some e)))
      })"

definition relaunch_wedged :: "env \<Rightarrow> Pod list \<Rightarrow> liveness_answer prog" where
  "relaunch_wedged E livePods =
     do {
       run \<leftarrow> gets mem;
       now \<leftarrow> clock E;
       acted (relaunchAfterInfraLoss E []
         (buildTerminalDiagnostic (e_redact E) now None wedgedReapDiagnosticReason [] [] False
            (coordinatorPodOf livePods run) None))
     }"

definition reap_wedged :: "env \<Rightarrow> bool \<Rightarrow> Pod list \<Rightarrow> liveness_answer prog" where
  "reap_wedged E atCeiling livePods =
     do {
       run \<leftarrow> gets mem;
       looped \<leftarrow> reap_loop E run atCeiling livePods (True, False, False);
       case looped of
         Inl answer \<Rightarrow> ret answer
       | Inr (missing, deleted, preserved) \<Rightarrow>
           if missing then ret not_handled
           else do {
             gone \<leftarrow> (if deleted \<and> \<not> atCeiling
                     then do { present \<leftarrow> coordinatorObjectPresentLive E; ret (present = Inr False) }
                     else ret True);
             if \<not> gone then ret reobserve
             else if \<not> deleted \<and> \<not> preserved
             then ret (requeueAfter observationRequeueDelay, False, None)
             else relaunch_wedged E livePods
           }
     }"

text \<open>The decisions of \<open>checkLiveness\<close> on the live run and its live pods.\<close>

definition heartbeat_names :: "CoderRun \<Rightarrow> Pod option \<Rightarrow> bool" where
  "heartbeat_names run coordinator =
     (case (s_Heartbeat (r_status run), coordinator) of
        (Some hb, Some pod) \<Rightarrow> hb_CoordinatorPodUID hb \<noteq> [] \<and> hb_CoordinatorPodUID hb = po_UID pod
      | _ \<Rightarrow> False)"

definition heartbeat_fresh :: "env \<Rightarrow> CoderRun \<Rightarrow> bool prog" where
  "heartbeat_fresh E run =
     (case s_Heartbeat (r_status run) of
        None \<Rightarrow> ret False
      | Some hb \<Rightarrow> do { now \<leftarrow> clock E; ret (now - hb_At hb \<le> livenessWindow E) })"

definition reset_streak :: "env \<Rightarrow> Pod option \<Rightarrow> liveness_answer prog" where
  "reset_streak E coordinator =
     do {
       run \<leftarrow> gets mem;
       if heartbeat_names run coordinator
          \<and> (case coordinator of None \<Rightarrow> False | Some pod \<Rightarrow> \<not> coordinatorPodUnrecoverable (e_decode E) pod)
          \<and> s_Restarts (r_status run) \<noteq> 0
       then do {
         r \<leftarrow> update_run E (s_Restarts_update (\<lambda>_. 0));
         ret (done_result, False, r)
       }
       else ret not_handled
     }"

definition stale_coordinator :: "env \<Rightarrow> bool \<Rightarrow> Pod list \<Rightarrow> liveness_answer prog" where
  "stale_coordinator E atCeiling livePods =
     do {
       run \<leftarrow> gets mem;
       if validActiveOperations run livePods then ret not_handled
       else if \<not> heartbeat_names run (coordinatorPodOf livePods run) then ret not_handled
       else do {
         fresh \<leftarrow> fresh_coordinator E run livePods;
         if fresh then ret not_handled else reap_wedged E atCeiling livePods
       }
     }"

definition cached_coordinator :: "env \<Rightarrow> CoderRun \<Rightarrow> Pod list \<Rightarrow> Pod option" where
  "cached_coordinator E run cachedPods =
     (case coordinatorPodOf cachedPods run of
        None \<Rightarrow> None
      | Some pod \<Rightarrow> if coordinatorPodUnrecoverable (e_decode E) pod then None else Some pod)"

definition judge_liveness :: "env \<Rightarrow> Pod list \<Rightarrow> Pod list \<Rightarrow> liveness_answer prog" where
  "judge_liveness E cachedPods livePods =
     do {
       run \<leftarrow> gets mem;
       let atCeiling = (maxRestarts E \<le> s_Restarts (r_status run));
       let coordinator = coordinatorPodOf livePods run;
       fresh \<leftarrow> heartbeat_fresh E run;
       if fresh then reset_streak E coordinator
       else if coordinator \<noteq> None then stale_coordinator E atCeiling livePods
       else (case cached_coordinator E run cachedPods of
           Some cached \<Rightarrow>
             if atCeiling then do {
               diagnostic \<leftarrow> lost_diagnostic E (Some cached);
               acted (relaunchAfterInfraLoss E podLostReason diagnostic)
             }
             else ret reobserve
         | None \<Rightarrow>
             if \<not> atCeiling \<and> list_ex (\<lambda>p. coordinator_object run p \<and> po_DeletionTimestamp p \<noteq> None) livePods
             then ret reobserve
             else stale_coordinator E atCeiling livePods)
     }"

text \<open>\<open>run = &fresh\<close>: the rest of \<open>checkLiveness\<close> works on the live copy, while the caller keeps
  its own.\<close>

definition on_run :: "CoderRun \<Rightarrow> 'a prog \<Rightarrow> 'a prog" where
  "on_run fresh m =
     do {
       run \<leftarrow> gets mem;
       modify (\<lambda>s. s\<lparr>mem := fresh\<rparr>);
       a \<leftarrow> m;
       modify (\<lambda>s. s\<lparr>mem := run\<rparr>);
       ret a
     }"

definition checkLiveness :: "env \<Rightarrow> Pod list \<Rightarrow> liveness_answer prog" where
  "checkLiveness E cachedPods =
     do {
       run \<leftarrow> gets mem;
       freshR \<leftarrow> ask (e_run E);
       case freshR of
         Inl e \<Rightarrow> ret reobserve
       | Inr fresh \<Rightarrow> do {
           podsR \<leftarrow> list_run_pods E;
           case podsR of
             Inl e \<Rightarrow> ret reobserve
           | Inr livePods \<Rightarrow>
               if m_UID (r_meta fresh) \<noteq> m_UID (r_meta run) \<or> s_Phase (r_status fresh) \<noteq> PhaseRunning
               then ret not_handled
               else on_run fresh (judge_liveness E cachedPods livePods)
         }
     }"

section \<open>Observing a running coordinator\<close>

definition record_start :: "time \<Rightarrow> time \<Rightarrow> CoderRunStatus \<Rightarrow> CoderRunStatus" where
  "record_start created start s =
     (let s' = s\<lparr>s_StartedAt := Some start\<rparr> in
      if s_WaitDuration s = [] then s'\<lparr>s_WaitDuration := durationString (start - created)\<rparr> else s')"

definition observe_start :: "env \<Rightarrow> Pod \<Rightarrow> err option prog" where
  "observe_start E pod =
     do {
       run \<leftarrow> gets mem;
       case (s_StartedAt (r_status run), coordinatorContainerStart pod) of
         (None, Some start) \<Rightarrow>
           if start = zero_time then ret None
           else update_run E (record_start (m_CreationTimestamp (r_meta run)) start)
       | _ \<Rightarrow> ret None
     }"

definition enter_verifying :: "bool \<Rightarrow> RunTelemetry option \<Rightarrow> CoderRunStatus \<Rightarrow> CoderRunStatus" where
  "enter_verifying declared summary s =
     (let s = (if declared then s\<lparr>s_DeclaredNoChange := True\<rparr> else s)\<lparr>s_Phase := PhaseVerifying\<rparr>
      in if summary \<noteq> None then s\<lparr>s_Telemetry := summary\<rparr> else s)"

text \<open>The ending of a coordinator, as the code reads it off the pod.\<close>

record ending =
  en_exit :: int
  en_reason :: string
  en_outcome :: string
  en_summary :: "RunTelemetry option"
  en_trusted :: "(NativeResultKind \<times> string) option"

definition is_kind :: "ending \<Rightarrow> NativeResultKind \<Rightarrow> bool" where
  "is_kind en kind = (case en_trusted en of None \<Rightarrow> False | Some (k, _) \<Rightarrow> k = kind)"

definition ending_phase :: "Mode \<Rightarrow> ending \<Rightarrow> Phase" where
  "ending_phase mode en =
     (case en_trusted en of
        None \<Rightarrow> phaseForExit mode (en_exit en) (en_outcome en)
      | Some (kind, _) \<Rightarrow> phaseForNativeResult mode kind)"

definition resolve_issue_no_change :: "Mode \<Rightarrow> ending \<Rightarrow> bool" where
  "resolve_issue_no_change mode en \<longleftrightarrow> mode = ModeResolveIssue \<and>
     (is_kind en NativeResultNoChange \<or> (en_trusted en = None \<and> en_exit en = exitDeclaredNoChange))"

definition declared_no_change :: "Mode \<Rightarrow> ending \<Rightarrow> bool" where
  "declared_no_change mode en \<longleftrightarrow> (mode = ModeFixPR \<or> mode = ModeRebase) \<and>
     (en_exit en = exitDeclaredNoChange \<or> is_kind en NativeResultNoChange)"

text \<open>The workspace evidence of an ending whose recovery needs it: \<open>Inl\<close> ends the reconcile,
  \<open>Inr\<close> gives the conditions to record with the transition.\<close>

definition acquire_safety :: "env \<Rightarrow> Pod \<Rightarrow> ((result \<times> err option) + Condition list) prog" where
  "acquire_safety E cached =
     do {
       run \<leftarrow> gets mem;
       podR \<leftarrow> ask (e_pod E);
       case podR of
         Inl e \<Rightarrow> ret (Inl (errorResult e))
       | Inr pod \<Rightarrow>
           (case legacyWorkspaceObservation (e_decodeObserver E) run cached pod of (safety, pending) \<Rightarrow>
              if pending then ret (Inl (requeueAfter observationRequeueDelay, None))
              else do {
                set_run (s_WorkspaceSafety_update (\<lambda>_. safety));
                conds \<leftarrow> (if safety = None then ret []
                         else do { now \<leftarrow> clock E; ret [legacyObservationCondition run now] });
                written \<leftarrow> (if s_WorkspaceSafety (r_status run) \<noteq> safety then patchStatus E run else ret None);
                ret (case written of Some e \<Rightarrow> Inl (errorResult e) | None \<Rightarrow> Inr conds)
              })
     }"

definition needs_safety :: "env \<Rightarrow> Pod \<Rightarrow> ending \<Rightarrow> bool" where
  "needs_safety E pod en \<longleftrightarrow> en_outcome en = outcomeCapacityExhausted \<or> is_kind en NativeResultCapacityExhausted
     \<or> trustedForgeUnavailableHandoff (e_decode E) (Some pod) (en_outcome en)"

definition ending_error :: "Phase \<Rightarrow> Mode \<Rightarrow> ending \<Rightarrow> string" where
  "ending_error phase mode en =
     (if resolve_issue_no_change mode en then
        (let reason = TrimSpace (en_reason en) in
         if reason \<noteq> [] then reason else (case en_trusted en of None \<Rightarrow> [] | Some (_, r) \<Rightarrow> r))
      else if phase = PhaseBlockedExternal then en_reason en else [])"

definition ending_diagnostic :: "env \<Rightarrow> Pod \<Rightarrow> ending \<Rightarrow> time \<Rightarrow> TerminalDiagnostic" where
  "ending_diagnostic E pod en now =
     buildTerminalDiagnostic (e_redact E) now (Some (en_exit en)) [] (en_outcome en)
       (coordinatorHandoffCategory (e_decode E) (Some pod))
       (kubernetesFailureEvidence (Some pod) (coordinatorHandoffValid (e_decode E) (Some pod)))
       (Some pod) (map_option fst (en_trusted en))"

text \<open>The phase of the ending, and whether it is held for want of close evidence.\<close>

definition conclude_phase :: "env \<Rightarrow> Pod \<Rightarrow> ending \<Rightarrow> (Phase \<times> bool) prog" where
  "conclude_phase E pod en =
     do {
       run \<leftarrow> gets mem;
       if \<not> resolve_issue_no_change (p_Mode (r_spec run)) en
       then ret (ending_phase (p_Mode (r_spec run)) en, False)
       else (case resolveIssueNoChangePhase run (po_UID pod) of (phase, grounded) \<Rightarrow>
           if grounded then ret (phase, False)
           else do {
             refreshed \<leftarrow> refreshFencedNoChange E (po_UID pod);
             ret (if refreshed then PhaseAlreadyDone else phase, \<not> refreshed)
           })
     }"

definition end_terminated :: "env \<Rightarrow> Pod \<Rightarrow> ending \<Rightarrow> Phase \<Rightarrow> bool \<Rightarrow> handler" where
  "end_terminated E pod en phase noChangeHold =
     do {
       run \<leftarrow> gets mem;
       safety \<leftarrow> (if needs_safety E pod en then acquire_safety E pod else ret (Inr []));
       case safety of
         Inl answer \<Rightarrow> ret answer
       | Inr conds \<Rightarrow> do {
           diagnostic \<leftarrow> (if phase \<in> {PhaseFailed, PhaseNeedsHuman, PhaseBlockedExternal}
             then do { now \<leftarrow> clock E; ret (Some (ending_diagnostic E pod en now)) } else ret None);
           (result, e) \<leftarrow> transitionTerminal E phase []
             (no_intent\<lparr>ti_error := ending_error phase (p_Mode (r_spec run)) en,
                ti_diagnostic := diagnostic, ti_conditions := conds\<rparr>) (en_summary en);
           (if e = None \<and> noChangeHold then commentAlreadyDoneHold E else ret ());
           ret (result, e)
         }
     }"

definition conclude :: "env \<Rightarrow> Pod \<Rightarrow> ending \<Rightarrow> handler" where
  "conclude E pod en =
     (if is_kind en NativeResultInfrastructureFailed
      then relaunchInfrastructureFailure E pod NativeResultInfrastructureFailed
      else do {
        (phase, noChangeHold) \<leftarrow> conclude_phase E pod en;
        run \<leftarrow> gets mem;
        if phase = PhaseVerifying then do {
          r \<leftarrow> update_run E (enter_verifying (declared_no_change (p_Mode (r_spec run)) en) (en_summary en));
          ret (case r of Some e \<Rightarrow> errorResult e | None \<Rightarrow> (\<lparr>re_RequeueAfter = 0, re_Requeue = True\<rparr>, None))
        }
        else end_terminated E pod en phase noChangeHold
      })"

definition ending_of :: "env \<Rightarrow> CoderRun \<Rightarrow> Pod \<Rightarrow> ending option" where
  "ending_of E run pod =
     (case coordinatorTermination (e_decode E) (Some pod) of
        None \<Rightarrow> None
      | Some (exitCode, reason, outcome, summary) \<Rightarrow>
          if po_DeletionTimestamp pod \<noteq> None then None
          else Some \<lparr>en_exit = exitCode, en_reason = reason, en_outcome = outcome, en_summary = summary,
                 en_trusted = trustedNativeResult (e_decode E) run (Some pod)\<rparr>)"

text \<open>The loop over the pods: \<open>Some\<close> where one of them ends the reconcile.\<close>

fun observe_pods :: "env \<Rightarrow> Pod list \<Rightarrow> (result \<times> err option) option prog" where
  "observe_pods E [] = ret None"
| "observe_pods E (pod # pods) =
     do {
       run \<leftarrow> gets mem;
       if \<not> podBelongsToRun pod run then observe_pods E pods
       else do {
         started \<leftarrow> observe_start E pod;
         case started of
           Some e \<Rightarrow> ret (Some (errorResult e))
         | None \<Rightarrow> do {
             run \<leftarrow> gets mem;
             case ending_of E run pod of
               None \<Rightarrow> observe_pods E pods
             | Some en \<Rightarrow> do { answer \<leftarrow> conclude E pod en; ret (Some answer) }
           }
       }
     }"

definition observeRunning :: "env \<Rightarrow> handler" where
  "observeRunning E =
     do {
       podsR \<leftarrow> ask (e_pods E);
       case podsR of
         Inl e \<Rightarrow> ret (errorResult e)
       | Inr pods \<Rightarrow> do {
           synced \<leftarrow> syncSoftStop E pods;
           case synced of
             Some e \<Rightarrow> ret (errorResult e)
           | None \<Rightarrow> do {
               observed \<leftarrow> observe_pods E pods;
               case observed of
                 Some answer \<Rightarrow> ret answer
               | None \<Rightarrow> do {
                   (result, handled, e) \<leftarrow> checkLiveness E pods;
                   if e \<noteq> None then ret (done_result, e)
                   else if handled \<or> 0 < re_RequeueAfter result \<or> re_Requeue result then ret (result, None)
                   else do {
                     run \<leftarrow> gets mem;
                     if (case coordinatorPodOf pods run of
                           None \<Rightarrow> True | Some pod \<Rightarrow> coordinatorPodUnrecoverable (e_decode E) pod)
                     then observeMissingCoordinator E
                     else ret (done_result, None)
                   }
                 }
             }
         }
     }"

end
