(* ===== verification/Reconcile.thy ===== *)
theory Reconcile
  imports CIPark Reap Liveness
begin

text \<open>
  The control loop (\<open>internal/controller/coderun_controller.go\<close>): admission of a pending run, the
  resume of a claimed one, the grading of a verifying one, the duties of a terminal one, and the
  dispatch between them.
\<close>

section \<open>Verifying\<close>

definition grade_candidate :: "string \<Rightarrow> string \<Rightarrow> string \<Rightarrow> CoderRunStatus \<Rightarrow> CoderRunStatus" where
  "grade_candidate pr green failed s =
     (if pr \<noteq> [] then s\<lparr>s_PR := pr\<rparr> else s)\<lparr>s_CheckFingerprint := green, s_FailedCheckFingerprint := failed\<rparr>"

text \<open>The grading of an observation the park loop does not own.\<close>

definition grade :: "env \<Rightarrow> PRObservation \<Rightarrow> handler" where
  "grade E observation =
     do {
       run \<leftarrow> gets mem;
       let pr = ob_PR observation;
       let st = observeState observation;
       let fingerprint = checkSetFingerprint observation;
       if st = observationFailed then
         (if p_Mode (r_spec run) = ModeFixPR
          then transitionTerminal E PhaseFailed pr (no_intent\<lparr>ti_ciFailure := True\<rparr>) None
          else do {
            let settled = (fingerprint \<noteq> [] \<and> fingerprint = s_FailedCheckFingerprint (r_status run));
            written \<leftarrow> update_run E (grade_candidate pr [] fingerprint);
            case written of
              Some e \<Rightarrow> ret (errorResult e)
            | None \<Rightarrow>
                if settled then transitionTerminal E PhaseHandedOff pr no_intent None
                else ret (requeueAfter observationRequeueDelay, None)
          })
       else if st = observationNeedsHuman then transitionTerminal E PhaseNeedsHuman pr no_intent None
       else do {
         let green = (if st = observationPassed then fingerprint else []);
         let settled = (green \<noteq> [] \<and> green = s_CheckFingerprint (r_status run));
         written \<leftarrow> update_run E (grade_candidate pr green []);
         case written of
           Some e \<Rightarrow> ret (errorResult e)
         | None \<Rightarrow>
             if settled then green_transition E pr
             else ret (requeueAfter observationRequeueDelay, None)
       }
     }"

definition observeVerifying :: "env \<Rightarrow> handler" where
  "observeVerifying E =
     (if \<not> e_observer E then transitionTerminal E PhaseNeedsHuman [] no_intent None
      else do {
        observed \<leftarrow> ask (e_observe E);
        case observed of
          Inl e \<Rightarrow> ret (requeueAfter observationRequeueDelay, None)
        | Inr observation \<Rightarrow>
            if observeState observation = observationMerged then do {
              (result, abandonErr) \<leftarrow> abandonCIPark E observation;
              case abandonErr of
                Some e \<Rightarrow> ret (errorResult e)
              | None \<Rightarrow> transitionTerminal E PhaseDone (ob_PR observation) no_intent None
            }
            else do {
              (handled, result, parkErr) \<leftarrow> observeCIPark E observation;
              case parkErr of
                Some e \<Rightarrow> ret (errorResult e)
              | None \<Rightarrow> if handled then ret (result, None) else grade E observation
            }
      })"

section \<open>Launching\<close>

text \<open>\<open>errors.As\<close> to the typed launch failures.\<close>

fun first_needs_human :: "sentinel list \<Rightarrow> (string \<times> string) option" where
  "first_needs_human [] = None"
| "first_needs_human (SecureNeedsHuman reason detail # ss) = Some (reason, detail)"
| "first_needs_human (_ # ss) = first_needs_human ss"

fun first_collision :: "sentinel list \<Rightarrow> (string \<times> string \<times> time) option" where
  "first_collision [] = None"
| "first_collision (ProvisioningCollision pod uid since # ss) = Some (pod, uid, since)"
| "first_collision (_ # ss) = first_collision ss"

abbreviation "baseUnverifiedReason \<equiv> ''BaseUnverified''"
abbreviation "laneConfigReason \<equiv> ''LaneConfig''"
abbreviation "contributionContextReason \<equiv> ''ContributionContext''"

definition terminalPreflightVerdict :: "err \<Rightarrow> string option" where
  "terminalPreflightVerdict e =
     (case first_needs_human (er_is e) of
        None \<Rightarrow> None
      | Some (reason, detail) \<Rightarrow>
          if reason \<in> {''PodAdmission'', ''ProbeIdentity'', baseUnverifiedReason} then Some detail else None)"

definition laneConfigRejection :: "err \<Rightarrow> string option" where
  "laneConfigRejection e =
     (case first_needs_human (er_is e) of
        None \<Rightarrow> None | Some (reason, detail) \<Rightarrow> if reason = laneConfigReason then Some detail else None)"

definition contributionContextRejection :: "err \<Rightarrow> string option" where
  "contributionContextRejection e =
     (case first_needs_human (er_is e) of
        None \<Rightarrow> None | Some (reason, detail) \<Rightarrow> if reason = contributionContextReason then Some detail else None)"

definition launchRejection :: "err \<Rightarrow> string option" where
  "launchRejection e =
     (case terminalPreflightVerdict e of
        Some detail \<Rightarrow> Some detail
      | None \<Rightarrow> (case laneConfigRejection e of
            Some detail \<Rightarrow> Some detail | None \<Rightarrow> contributionContextRejection e))"

definition preLaunch :: "env \<Rightarrow> adapter \<Rightarrow> WorkItem \<Rightarrow> err option prog" where
  "preLaunch E adapter item = (if ad_PreLauncher adapter then act E (PreLaunch item) else ret None)"

definition set_head :: "HeadRef \<Rightarrow> CoderRunStatus \<Rightarrow> CoderRunStatus" where
  "set_head head s = s\<lparr>s_Branch := hr_Branch head, s_HeadRepo := hr_Repo head, s_HeadSHA := hr_SHA head\<rparr>"

definition rolled_back :: "err option prog \<Rightarrow> handler" where
  "rolled_back m = do { e \<leftarrow> m; ret (done_result, e) }"

text \<open>Resolving the branch and recording it; \<open>Inl\<close> ends the reconcile.\<close>

definition resolve_head :: "env \<Rightarrow> WorkItem \<Rightarrow> ((result \<times> err option) option) prog" where
  "resolve_head E item =
     do {
       run \<leftarrow> gets mem;
       resolved \<leftarrow> resolveRunBranch E run;
       case resolved of
         Inl e \<Rightarrow>
           if errorsIs e ErrHeadRepositoryGone
           then do { answer \<leftarrow> terminateMissingHead E e; ret (Some answer) }
           else do { answer \<leftarrow> rolled_back (releaseClaim E item e); ret (Some answer) }
       | Inr head \<Rightarrow> do {
           written \<leftarrow> update_run E (set_head head);
           case written of
             None \<Rightarrow> ret None
           | Some e \<Rightarrow> do { answer \<leftarrow> rolled_back (releaseClaim E item e); ret (Some answer) }
         }
     }"

text \<open>The launch itself and what its failures mean, shared by admission and resume.\<close>

definition launch_coordinator :: "env \<Rightarrow> WorkItem \<Rightarrow> handler" where
  "launch_coordinator E item =
     do {
       beforeLaunch \<leftarrow> gets mem;
       launched \<leftarrow> act E Launch;
       case launched of
         Some e \<Rightarrow>
           (case launchRejection e of
              Some detail \<Rightarrow> terminateNeedsHuman E item detail
            | None \<Rightarrow>
                if errorsIs e ErrProvisioningInFlight then
                  (case first_collision (er_is e) of
                     Some (pod, uid, since) \<Rightarrow> terminateStuckTerminatingCollision E item pod uid since
                   | None \<Rightarrow> ret (requeueAfter provisioningInFlightRequeueDelay, None))
                else rolled_back (releaseClaim E item e))
       | None \<Rightarrow> do {
           set_run (s_Phase_update (\<lambda>_. PhaseRunning));
           written \<leftarrow> patchStatus E beforeLaunch;
           ret (done_result, written)
         }
     }"

text \<open>The preflight gate reads the clock only where both markers are readable.\<close>

definition preflight_wait :: "env \<Rightarrow> duration option prog" where
  "preflight_wait E =
     do {
       run \<leftarrow> gets mem;
       if (case map_of (m_Annotations (r_meta run)) preflightFailedAtAnnotation of
             None \<Rightarrow> False | Some raw \<Rightarrow> ParseRFC3339 raw \<noteq> None) \<and> recordedPreflightFailures run \<noteq> None
       then do { now \<leftarrow> clock E; ret (preflightBackoffRemaining now run) }
       else ret None
     }"

definition resumeClaimed :: "env \<Rightarrow> handler" where
  "resumeClaimed E =
     do {
       waiting \<leftarrow> preflight_wait E;
       case waiting of
         Some remaining \<Rightarrow> ret (requeueAfter remaining, None)
       | None \<Rightarrow> do {
           run \<leftarrow> gets mem;
           case adapterAndWorkItem E run of
             Inl e \<Rightarrow> ret (errorResult e)
           | Inr (adapter, item) \<Rightarrow>
               if \<not> e_launch E then ret (done_result, None)
               else do {
                 stopped \<leftarrow> (if TrimSpace (s_Branch (r_status run)) = [] then resolve_head E item else ret None);
                 case stopped of
                   Some answer \<Rightarrow> ret answer
                 | None \<Rightarrow> do {
                     guarded_launch \<leftarrow> preLaunch E adapter item;
                     case guarded_launch of
                       Some e \<Rightarrow> rolled_back (rejectClaim E item e)
                     | None \<Rightarrow> do {
                         moved \<leftarrow> act E (Transition item StateInProgress);
                         case moved of
                           Some e \<Rightarrow> ret (errorResult e)
                         | None \<Rightarrow> launch_coordinator E item
                       }
                   }
               }
         }
     }"

section \<open>Terminal duties\<close>

text \<open>The reports, the retention and the recovery of a terminal run, once its retry request had its
  turn.\<close>

definition terminal_reap :: "env \<Rightarrow> handler" where
  "terminal_reap E =
     do {
       run \<leftarrow> gets mem;
       let s = r_status run;
       if \<not> lifecycleReportSettled E run then ret (done_result, None)
       else if s_CISettlement s \<noteq> None \<or> s_CIParkRelease s \<noteq> None \<or> retryHoldsReap run
       then ret (done_result, None)
       else if s_Phase s = PhaseFailed then reapTerminal E failedAtAnnotation (failedRetention E) True
       else reapTerminal E needsHumanAtAnnotation (needsHumanRetention E) True
     }"

definition terminal_duties :: "env \<Rightarrow> handler" where
  "terminal_duties E =
     do {
       run \<leftarrow> gets mem;
       let s = r_status run;
       if lifecycleReportPending E run then
         (if lifecycleReportUnsupported E run \<and> \<not> lifecycleReportRetryRequested run
          then ret (done_result, None)
          else retryTerminalLifecycle E)
       else if s_Phase s = PhaseAwaitingReview then
         (if \<not> lifecycleReportSettled E run then ret (done_result, None) else observeMergedReviewPR E)
       else if s_Phase s = PhaseAlreadyDone then
         (if \<not> lifecycleReportSettled E run then ret (done_result, None) else reapAlreadyDone E)
       else if (s_Phase s = PhaseFailed \<or> s_Phase s = PhaseNeedsHuman) \<and> \<not> isCapacityExhaustionRun run
       then terminal_reap E
       else if isCapacityExhaustionRun run \<and> capacityRecoveryPending E run then
         (case adapterAndWorkItem E run of
            Inl e \<Rightarrow> ret (errorResult e)
          | Inr (adapter, item) \<Rightarrow> recoverCapacityExhaustion E adapter item)
       else ret (done_result, None)
     }"

text \<open>A run that terminalized with a repair fence still held settles it first.\<close>

definition backfill_fence :: "env \<Rightarrow> ((result \<times> err option) option) prog" where
  "backfill_fence E =
     do {
       run \<leftarrow> gets mem;
       if s_CIRepair (r_status run) = None then ret None
       else do {
         written \<leftarrow> update_run E (abandonCIRepairAttempt run);
         case written of
           Some e \<Rightarrow> ret (Some (errorResult e))
         | None \<Rightarrow> do {
             run \<leftarrow> gets mem;
             ret (if s_CISettlement (r_status run) \<noteq> None
                  then Some (requeueAfter ciparkSettlementRetryDelay, None) else None)
           }
       }
     }"

definition reconcileTerminal :: "env \<Rightarrow> handler" where
  "reconcileTerminal E =
     do {
       stopped \<leftarrow> backfill_fence E;
       case stopped of
         Some answer \<Rightarrow> ret answer
       | None \<Rightarrow> do {
           (retryResult, retryHandled, retryErr) \<leftarrow> syncRetry E;
           case retryErr of
             Some e \<Rightarrow> ret (errorResult e)
           | None \<Rightarrow>
               if retryHandled then ret (retryResult, None)
               else do {
                 run \<leftarrow> gets mem;
                 recorded \<leftarrow> (if isCapacityExhaustionRun run then recordCapacityCooldown E else ret None);
                 case recorded of
                   Some e \<Rightarrow> ret (errorResult e)
                 | None \<Rightarrow> terminal_duties E
               }
         }
     }"

definition capCloseRetry :: "result \<Rightarrow> duration \<Rightarrow> result" where
  "capCloseRetry result closeRetry =
     (if 0 < closeRetry \<and> (re_RequeueAfter result = 0 \<or> closeRetry < re_RequeueAfter result)
      then result\<lparr>re_RequeueAfter := closeRetry\<rparr> else result)"

section \<open>Admission\<close>

definition MaxSourceContextBytes :: nat where "MaxSourceContextBytes = 16 * 1024"

text \<open>Claiming the work item; \<open>Inr\<close> is the item as claimed.\<close>

definition claim_item :: "env \<Rightarrow> adapter \<Rightarrow> WorkItem \<Rightarrow> (err + WorkItem) prog" where
  "claim_item E adapter item =
     (if ad_ClaimerWithReceipt adapter then do {
        r \<leftarrow> act E (ClaimWithReceipt item);
        case r of
          Some e \<Rightarrow> ret (Inl e)
        | None \<Rightarrow> do {
            receipt \<leftarrow> ask (e_receipt E);
            ret (if receipt \<noteq> [] \<and> MaxSourceContextBytes < length receipt
                 then Inl (newError ''source claim returned oversized receipt'')
                 else Inr (item\<lparr>wi_Context := receipt\<rparr>))
          }
      }
      else do {
        r \<leftarrow> act E (Claim item);
        ret (case r of Some e \<Rightarrow> Inl e | None \<Rightarrow> Inr item)
      })"

definition admit :: "adapter \<Rightarrow> WorkItem \<Rightarrow> CoderRunStatus \<Rightarrow> CoderRunStatus" where
  "admit adapter item s =
     (if ad_ClaimerWithReceipt adapter then s\<lparr>s_SourceReceipt := wi_Context item\<rparr> else s)\<lparr>s_Phase := PhaseClaimed\<rparr>"

text \<open>The reservation: claim, then persist \<open>Claimed\<close>; a failed write releases the claim.\<close>

definition reserve_claim :: "env \<Rightarrow> adapter \<Rightarrow> WorkItem \<Rightarrow> (err option + WorkItem) prog" where
  "reserve_claim E adapter item =
     do {
       claimed \<leftarrow> claim_item E adapter item;
       case claimed of
         Inl e \<Rightarrow> ret (Inl (Some e))
       | Inr item \<Rightarrow> do {
           before \<leftarrow> gets mem;
           set_run (admit adapter item);
           (if s_AdmittedAt (r_status before) = None
            then do { now \<leftarrow> clock E; set_run (s_AdmittedAt_update (\<lambda>_. Some now)) } else ret ());
           written \<leftarrow> patchStatus E before;
           case written of
             None \<Rightarrow> ret (Inr item)
           | Some e \<Rightarrow> do {
               releaseErr \<leftarrow> act E (Release item);
               ret (Inl (errorsJoin [Some e, releaseErr]))
             }
         }
     }"

definition start_claimed :: "env \<Rightarrow> adapter \<Rightarrow> WorkItem \<Rightarrow> handler" where
  "start_claimed E adapter item =
     do {
       stopped \<leftarrow> resolve_head E item;
       case stopped of
         Some answer \<Rightarrow> ret answer
       | None \<Rightarrow>
           if \<not> e_launch E then ret (done_result, None)
           else do {
             checked \<leftarrow> preLaunch E adapter item;
             case checked of
               Some e \<Rightarrow> rolled_back (rejectClaim E item e)
             | None \<Rightarrow> do {
                 moved \<leftarrow> act E (Transition item StateInProgress);
                 case moved of
                   Some e \<Rightarrow> rolled_back (releaseClaim E item e)
                 | None \<Rightarrow> launch_coordinator E item
               }
           }
     }"

text \<open>Whether the lane takes the run now: \<open>Inr None\<close> admits it, \<open>Inr (Some d)\<close> makes it wait.\<close>

definition lane_gate :: "env \<Rightarrow> (err + duration option) prog" where
  "lane_gate E =
     do {
       run \<leftarrow> gets mem;
       laneR \<leftarrow> ask (e_lane E);
       case laneR of
         Inl e \<Rightarrow> ret (Inl e)
       | Inr lane \<Rightarrow>
           if Suspended lane then ret (Inr (Some capacityRequeueDelay))
           else do {
             lanesR \<leftarrow> ask (e_lanes E);
             case lanesR of
               Inl e \<Rightarrow> ret (Inl e)
             | Inr lanes \<Rightarrow> do {
                 now \<leftarrow> clock E;
                 if CapacityCooldownActive lane lanes now \<noteq> None then ret (Inr (Some capacityRequeueDelay))
                 else do {
                   runsR \<leftarrow> ask (e_runs E);
                   case runsR of
                     Inl e \<Rightarrow> ret (Inl e)
                   | Inr runs \<Rightarrow>
                       if \<not> laneHasCapacity runs (p_Lane (r_spec run)) (ls_Concurrency (l_Spec lane))
                       then ret (Inr (Some capacityRequeueDelay))
                       else do { waiting \<leftarrow> preflight_wait E; ret (Inr waiting) }
                 }
               }
           }
     }"

definition admit_pending :: "env \<Rightarrow> handler" where
  "admit_pending E =
     do {
       run \<leftarrow> gets mem;
       case adapterAndWorkItem E run of
         Inl e \<Rightarrow> ret (errorResult e)
       | Inr (adapter, item) \<Rightarrow> do {
           gate \<leftarrow> lane_gate E;
           case gate of
             Inl e \<Rightarrow> ret (errorResult e)
           | Inr (Some d) \<Rightarrow> ret (requeueAfter d, None)
           | Inr None \<Rightarrow> do {
               reserved \<leftarrow> reserve_claim E adapter item;
               case reserved of
                 Inl e \<Rightarrow> ret (done_result, e)
               | Inr item \<Rightarrow> start_claimed E adapter item
             }
         }
     }"

section \<open>The dispatch\<close>

definition owns :: "env \<Rightarrow> string \<Rightarrow> bool" where
  "owns E namespace \<longleftrightarrow> e_OwnedNamespaces E = [] \<or> namespace \<in> set (e_OwnedNamespaces E)"

text \<open>The park reports the run still owes: \<open>Inl\<close> stops the reconcile, \<open>Inr\<close> says whether a close is
  still pending.\<close>

definition active_phase :: "Phase \<Rightarrow> bool" where
  "active_phase phase \<longleftrightarrow> phase \<in> {PhaseVerifying, PhaseClaimed, PhaseRunning}"

definition deliver_notice :: "env \<Rightarrow> err option prog" where
  "deliver_notice E =
     do {
       run \<leftarrow> gets mem;
       if s_CIParkDeferral (r_status run) = None then ret None
       else if active_phase (s_Phase (r_status run)) then do { _ \<leftarrow> deliverCIParkNotice E; ret None }
       else update_run E (s_CIParkDeferral_update (\<lambda>_. None))
     }"

definition deliver_closes :: "env \<Rightarrow> bool prog" where
  "deliver_closes E =
     do {
       run \<leftarrow> gets mem;
       settled \<leftarrow> (if s_CISettlement (r_status run) = None then ret True
                  else do { (ok, e) \<leftarrow> deliverCISettlement E; ret ok });
       run \<leftarrow> gets mem;
       released \<leftarrow> (if s_CIParkRelease (r_status run) = None then ret True
                   else do { (ok, e) \<leftarrow> deliverCIParkRelease E; ret ok });
       ret (\<not> settled \<or> \<not> released)
     }"

definition held_terminal :: "Phase \<Rightarrow> bool" where
  "held_terminal phase \<longleftrightarrow> phase \<in> {PhaseAwaitingReview, PhaseHandedOff, PhaseNeedsHuman, PhaseFailed,
     PhaseBlockedExternal}"

definition dispatch :: "env \<Rightarrow> duration \<Rightarrow> handler" where
  "dispatch E closeRetry =
     do {
       run \<leftarrow> gets mem;
       case s_Phase (r_status run) of
         PhaseRunning \<Rightarrow> observeRunning E
       | PhaseVerifying \<Rightarrow> observeVerifying E
       | PhaseClaimed \<Rightarrow> resumeClaimed E
       | PhaseDone \<Rightarrow> resolveCompleted E
       | PhaseUnset \<Rightarrow> admit_pending E
       | PhasePending \<Rightarrow> admit_pending E
       | _ \<Rightarrow> do {
           (result, e) \<leftarrow> reconcileTerminal E;
           ret (if e \<noteq> None \<and> closeRetry = 0 then (done_result, e)
                else (capCloseRetry result closeRetry, None))
         }
     }"

definition reconcile_run :: "env \<Rightarrow> handler" where
  "reconcile_run E =
     do {
       noticed \<leftarrow> deliver_notice E;
       case noticed of
         Some e \<Rightarrow> ret (errorResult e)
       | None \<Rightarrow> do {
           closePending \<leftarrow> deliver_closes E;
           run \<leftarrow> gets mem;
           let phase = s_Phase (r_status run);
           if closePending \<and> \<not> active_phase phase \<and> \<not> held_terminal phase
           then ret (requeueAfter ciparkSettlementRetryDelay, None)
           else dispatch E (if closePending \<and> held_terminal phase then ciparkSettlementRetryDelay else 0)
         }
     }"

text \<open>\<open>Reconcile\<close>: the run read from the cache becomes the run in memory.\<close>

definition Reconcile :: "env \<Rightarrow> string \<Rightarrow> handler" where
  "Reconcile E namespace =
     (if \<not> owns E namespace then ret (done_result, None)
      else do {
        runR \<leftarrow> ask (e_run E);
        case runR of
          Inl e \<Rightarrow> ret (done_result, ignoreNotFound (Some e))
        | Inr run \<Rightarrow> do {
            modify (\<lambda>s. s\<lparr>mem := run\<rparr>);
            if m_DeletionTimestamp (r_meta run) \<noteq> None then ret (done_result, None)
            else reconcile_run E
          }
      })"

end
