(* ===== verification/Machine.thy ===== *)
theory Machine
  imports Reconcile
begin

text \<open>
  The contract of the controller, independent of its code: a state machine over the part of a run
  that decides its fate, with one named step per kind of status write, and the guard of every call
  that acts on the world. That the controller implements it is proved in the theories that follow:
  every write a reconcile attempts is a step of the machine and every call it makes is permitted.
\<close>

lemma terminalPhase_simps [simp]:
  "terminalPhase PhaseAwaitingReview" "terminalPhase PhaseHandedOff" "terminalPhase PhaseNeedsHuman"
  "terminalPhase PhaseDone" "terminalPhase PhaseFailed" "terminalPhase PhaseBlockedExternal"
  "terminalPhase PhaseAlreadyDone" "\<not> terminalPhase PhaseUnset" "\<not> terminalPhase PhasePending"
  "\<not> terminalPhase PhaseClaimed" "\<not> terminalPhase PhaseRunning" "\<not> terminalPhase PhaseVerifying"
  by (simp_all add: terminalPhase_def)

section \<open>The abstract state\<close>

record machine =
  mc_uid :: string
  mc_phase :: Phase
  mc_park :: "CIParkState option"
  mc_repair :: "CIRepairContext option"
  mc_settle :: "CISettlement option"
  mc_release :: "CIParkRelease option"
  mc_finished :: "time option"
  mc_control :: "ControlRequest option"
  mc_restarts :: int
  mc_retry :: "RetryRequest option"

definition abs_run :: "CoderRun \<Rightarrow> machine" where
  "abs_run run =
     \<lparr>mc_uid = m_UID (r_meta run), mc_phase = s_Phase (r_status run), mc_park = s_CIPark (r_status run),
      mc_repair = s_CIRepair (r_status run), mc_settle = s_CISettlement (r_status run),
      mc_release = s_CIParkRelease (r_status run), mc_finished = s_FinishedAt (r_status run),
      mc_control = s_ControlRequest (r_status run), mc_restarts = s_Restarts (r_status run),
      mc_retry = s_RetryRequest (r_status run)\<rparr>"

lemma abs_sel [simp]:
  "mc_uid (abs_run run) = m_UID (r_meta run)"
  "mc_phase (abs_run run) = s_Phase (r_status run)"
  "mc_park (abs_run run) = s_CIPark (r_status run)"
  "mc_repair (abs_run run) = s_CIRepair (r_status run)"
  "mc_settle (abs_run run) = s_CISettlement (r_status run)"
  "mc_release (abs_run run) = s_CIParkRelease (r_status run)"
  "mc_finished (abs_run run) = s_FinishedAt (r_status run)"
  "mc_control (abs_run run) = s_ControlRequest (r_status run)"
  "mc_restarts (abs_run run) = s_Restarts (r_status run)"
  "mc_retry (abs_run run) = s_RetryRequest (r_status run)"
  by (simp_all add: abs_run_def)

definition repair_key :: "string \<Rightarrow> int \<Rightarrow> string" where
  "repair_key uid attempt = ciparkDigest [uid, ''repair-key'', Itoa attempt]"

text \<open>The fence token of the attempt in flight; a run without one, or with a source that grants
  none, has the empty token.\<close>

definition fence_of :: "CIRepairContext option \<Rightarrow> string" where
  "fence_of repair = (case repair of None \<Rightarrow> [] | Some a \<Rightarrow> rp_FenceToken a)"

text \<open>Ending the attempt in flight outside the park loop: a fence is settled as unsupported.\<close>

definition abandoned :: "machine \<Rightarrow> machine" where
  "abandoned M =
     (case mc_repair M of
        None \<Rightarrow> M
      | Some a \<Rightarrow>
          (if rp_FenceToken a \<noteq> []
           then M\<lparr>mc_settle := Some (settlement (rp_FenceToken a) (repair_key (mc_uid M) (rp_Attempt a))
                  CIParkOutcomeUnsupported [])\<rparr>
           else M)\<lparr>mc_repair := None\<rparr>)"

text \<open>Which phases end in which terminal phase.\<close>

fun ends_in :: "Phase \<Rightarrow> Phase \<Rightarrow> bool" where
  "ends_in PhaseClaimed q = (q = PhaseNeedsHuman)"
| "ends_in PhaseRunning q =
     (q \<in> {PhaseNeedsHuman, PhaseFailed, PhaseBlockedExternal, PhaseAwaitingReview, PhaseAlreadyDone})"
| "ends_in PhaseVerifying q =
     (q \<in> {PhaseNeedsHuman, PhaseFailed, PhaseBlockedExternal, PhaseAwaitingReview, PhaseHandedOff, PhaseDone})"
| "ends_in PhaseAwaitingReview q = (q = PhaseDone \<or> q = PhaseNeedsHuman)"
| "ends_in PhaseAlreadyDone q = (q = PhaseNeedsHuman)"
| "ends_in _ q = False"

text \<open>How a retry record may be replaced: an outstanding request is settled under its identity, a
  settled one gives way to a request with another identity, and a requeue is final.\<close>

definition retry_next :: "RetryRequest option \<Rightarrow> RetryRequest \<Rightarrow> bool" where
  "retry_next old new =
     (case old of
        None \<Rightarrow> rr_State new \<in> {RetryRequestStateRequested, RetryRequestStateRefused}
      | Some r \<Rightarrow>
          (case rr_State r of
             RetryRequestStateRequested \<Rightarrow>
               rr_ID new = rr_ID r \<and> rr_RequestedAt new = rr_RequestedAt r
               \<and> rr_State new \<noteq> RetryRequestStateRequested
           | RetryRequestStateRequeued \<Rightarrow> False
           | _ \<Rightarrow> rr_ID new \<noteq> rr_ID r
               \<and> rr_State new \<in> {RetryRequestStateRequested, RetryRequestStateRefused}))"

section \<open>The steps\<close>

inductive step :: "int \<Rightarrow> machine \<Rightarrow> machine \<Rightarrow> bool" for ceiling :: int where
  noted: "step ceiling M M"
| admit: "mc_phase M \<in> {PhaseUnset, PhasePending} \<Longrightarrow> step ceiling M (M\<lparr>mc_phase := PhaseClaimed\<rparr>)"
| start: "mc_phase M = PhaseClaimed \<Longrightarrow> step ceiling M (M\<lparr>mc_phase := PhaseRunning\<rparr>)"
| roll_back: "mc_phase M = PhaseClaimed \<Longrightarrow> step ceiling M (M\<lparr>mc_phase := PhasePending\<rparr>)"
| relaunch: "mc_phase M = PhaseRunning \<Longrightarrow> mc_restarts M < ceiling \<Longrightarrow>
    step ceiling M (M\<lparr>mc_phase := PhaseClaimed, mc_restarts := mc_restarts M + 1, mc_control := None\<rparr>)"
| alive: "mc_phase M = PhaseRunning \<Longrightarrow> step ceiling M (M\<lparr>mc_restarts := 0\<rparr>)"
| control: "mc_phase M = PhaseRunning \<Longrightarrow> step ceiling M (M\<lparr>mc_control := c\<rparr>)"
| verify: "mc_phase M = PhaseRunning \<Longrightarrow> step ceiling M (M\<lparr>mc_phase := PhaseVerifying\<rparr>)"
| terminate: "ends_in (mc_phase M) p \<Longrightarrow> finished = (case mc_finished M of None \<Rightarrow> now | Some t \<Rightarrow> t) \<Longrightarrow>
    step ceiling M ((abandoned M)\<lparr>mc_phase := p, mc_control := None, mc_finished := Some finished\<rparr>)"
| backfill: "terminalPhase (mc_phase M) \<Longrightarrow> step ceiling M (abandoned M)"
| park: "mc_phase M = PhaseVerifying \<Longrightarrow> mc_park M = None \<Longrightarrow> pk_Attempts p = 0 \<Longrightarrow>
    step ceiling M (M\<lparr>mc_park := Some p, mc_repair := None\<rparr>)"
| republish: "mc_phase M = PhaseVerifying \<Longrightarrow> mc_park M = Some p \<Longrightarrow> pk_Head p' \<noteq> pk_Head p \<Longrightarrow>
    pk_Attempts p' = pk_Attempts p \<Longrightarrow>
    settle' = (case mc_repair M of None \<Rightarrow> mc_settle M
      | Some a \<Rightarrow> if 0 < pk_Attempts p \<and> rp_FenceToken a \<noteq> []
          then Some (settlement (rp_FenceToken a) (repair_key (mc_uid M) (rp_Attempt a)) CIParkOutcomeRepushed (pk_Head p'))
          else mc_settle M) \<Longrightarrow>
    step ceiling M (M\<lparr>mc_park := Some p', mc_repair := None, mc_settle := settle'\<rparr>)"
| stay: "mc_phase M = PhaseVerifying \<Longrightarrow> mc_park M = Some p \<Longrightarrow>
    (\<And>a. mc_repair M = Some a \<Longrightarrow> \<not> (0 < pk_Attempts p \<and> pk_Head p = rp_Head a)) \<Longrightarrow>
    step ceiling M (M\<lparr>mc_repair := None\<rparr>)"
| arm: "mc_phase M = PhaseVerifying \<Longrightarrow> mc_repair M = None \<Longrightarrow> mc_park M = Some p \<Longrightarrow>
    rp_Head a = pk_Head p \<Longrightarrow> rp_Attempt a = pk_Attempts p + 1 \<Longrightarrow> rp_Attempt a \<le> rp_MaxAttempts a \<Longrightarrow>
    step ceiling M (M\<lparr>mc_phase := PhaseClaimed, mc_park := Some (p\<lparr>pk_Attempts := rp_Attempt a\<rparr>),
      mc_repair := Some a\<rparr>)"
| finish_fenced: "mc_phase M = PhaseVerifying \<Longrightarrow> mc_park M = Some p \<Longrightarrow> fence_of (mc_repair M) \<noteq> [] \<Longrightarrow>
    step ceiling M (M\<lparr>mc_park := Some (p\<lparr>pk_LastOutcome := outcome\<rparr>), mc_repair := None,
      mc_settle := Some (settlement (fence_of (mc_repair M)) (repair_key (mc_uid M) (pk_Attempts p)) outcome [])\<rparr>)"
| finish_free: "mc_phase M = PhaseVerifying \<Longrightarrow> mc_park M = Some p \<Longrightarrow> fence_of (mc_repair M) = [] \<Longrightarrow>
    step ceiling M (M\<lparr>mc_park := Some (p\<lparr>pk_LastOutcome := outcome\<rparr>), mc_repair := None, mc_release := released\<rparr>)"
| abandon_fenced: "mc_phase M = PhaseVerifying \<Longrightarrow> mc_repair M = Some a \<Longrightarrow> rp_FenceToken a \<noteq> [] \<Longrightarrow>
    se_FenceToken s = rp_FenceToken a \<Longrightarrow> se_IdempotencyKey s = repair_key (mc_uid M) (rp_Attempt a) \<Longrightarrow>
    step ceiling M (M\<lparr>mc_park := None, mc_repair := None, mc_settle := Some s\<rparr>)"
| abandon_free: "mc_phase M = PhaseVerifying \<Longrightarrow> fence_of (mc_repair M) = [] \<Longrightarrow>
    map_option se_FenceToken settle' = map_option se_FenceToken (mc_settle M) \<Longrightarrow>
    step ceiling M (M\<lparr>mc_park := None, mc_repair := None, mc_settle := settle', mc_release := released\<rparr>)"
| record_release: "mc_phase M = PhaseVerifying \<Longrightarrow> step ceiling M (M\<lparr>mc_release := released\<rparr>)"
| settled: "step ceiling M (M\<lparr>mc_settle := None\<rparr>)"
| released: "step ceiling M (M\<lparr>mc_release := None\<rparr>)"
| retry: "terminalPhase (mc_phase M) \<Longrightarrow> retry_next (mc_retry M) r \<Longrightarrow>
    step ceiling M (M\<lparr>mc_retry := Some r\<rparr>)"

section \<open>The calls\<close>

text \<open>A run that owes its source no report on a park or a repair.\<close>

definition closed_out :: "CoderRun \<Rightarrow> bool" where
  "closed_out run \<longleftrightarrow> s_CISettlement (r_status run) = None \<and> s_CIParkRelease (r_status run) = None"

definition requested :: "CoderRun \<Rightarrow> (RetryRequest \<Rightarrow> bool) \<Rightarrow> bool" where
  "requested run P = (case s_RetryRequest (r_status run) of
     None \<Rightarrow> False | Some r \<Rightarrow> rr_State r = RetryRequestStateRequested \<and> P r)"

fun permitted :: "env \<Rightarrow> CoderRun \<Rightarrow> call \<Rightarrow> bool" where
  "permitted E run (Claim item) = (s_Phase (r_status run) \<in> {PhaseUnset, PhasePending})"
| "permitted E run (ClaimWithReceipt item) = (s_Phase (r_status run) \<in> {PhaseUnset, PhasePending})"
| "permitted E run (PreLaunch item) = (s_Phase (r_status run) = PhaseClaimed)"
| "permitted E run Launch = (s_Phase (r_status run) = PhaseClaimed)"
| "permitted E run (Release item) = (s_Phase (r_status run) = PhaseClaimed)"
| "permitted E run (Transition item st) =
     ((s_Phase (r_status run) = PhaseClaimed \<and> st = StateInProgress) \<or> terminalPhase (s_Phase (r_status run)))"
| "permitted E run (Resolve item) = (s_Phase (r_status run) = PhaseDone)"
| "permitted E run (ReserveCIRepair item rv) =
     (s_Phase (r_status run) = PhaseVerifying \<and> s_CIRepair (r_status run) = None \<and>
      (case s_CIPark (r_status run) of
         None \<Rightarrow> False
       | Some p \<Rightarrow> cv_Head rv = pk_Head p \<and> cv_FenceToken rv = ciparkFenceToken run (pk_Attempts p + 1)
           \<and> cv_IdempotencyKey rv = ciparkRepairKey run (pk_Attempts p + 1)))"
| "permitted E run (ReportCIRepair item oc) =
     (case s_CISettlement (r_status run) of
        None \<Rightarrow> False
      | Some s \<Rightarrow> oc_FenceToken oc = se_FenceToken s \<and> oc_FenceToken oc \<noteq> [] \<and> oc_Result oc = se_Result s
          \<and> (se_IdempotencyKey s \<noteq> [] \<longrightarrow> oc_IdempotencyKey oc = se_IdempotencyKey s))"
| "permitted E run (ReleaseCIPark item pc) =
     (case s_CIParkRelease (r_status run) of
        None \<Rightarrow> False
      | Some r \<Rightarrow> pc_Head pc = rl_Head r \<and> pc_IdempotencyKey pc = rl_IdempotencyKey r)"
| "permitted E run (ReportCIParked item pn) =
     (case s_CIParkDeferral (r_status run) of
        None \<Rightarrow> False
      | Some d \<Rightarrow> pn_Head pn = df_Head d \<and> pn_IdempotencyKey pn = df_IdempotencyKey d)"
| "permitted E run (RequeueAttempt item q) =
     requested run (\<lambda>r. aq_Reason q = rr_ID r \<and> aq_IdempotencyKey q = retryIdempotencyKey run (rr_ID r))"
| "permitted E run (CreateSuccessor name spec) = requested run (\<lambda>r. True)"
| "permitted E run (Report item lc) =
     (terminalPhase (s_Phase (r_status run)) \<and>
      lc_IdempotencyKey lc = lifecycleIdempotencyKey run (s_Phase (r_status run)))"
| "permitted E run (ReportClose item lc) =
     (s_Phase (r_status run) = PhaseAlreadyDone \<and> lc_IdempotencyKey lc = lifecycleIdempotencyKey run PhaseAlreadyDone
      \<and> s_NoChange (r_status run) \<noteq> None)"
| "permitted E run (SettleCapacityExhaustion item h) =
     (isCapacityExhaustionRun run \<and>
      safeCapacityWorkspace (s_WorkspaceSafety (r_status run)) (s_Branch (r_status run)) (s_HeadSHA (r_status run)) \<and>
      ch_IdempotencyKey h = capacitySettlementKey run)"
| "permitted E run (DeletePod name uid) = (s_Phase (r_status run) = PhaseRunning)"
| "permitted E run DeleteRun =
     (s_Phase (r_status run) = PhaseClaimed \<or> closed_out run \<and>
        (s_Phase (r_status run) = PhaseDone \<or>
         s_Phase (r_status run) \<in> {PhaseAlreadyDone, PhaseFailed, PhaseNeedsHuman} \<and>
           \<not> retryHoldsReap run \<and> lifecycleReportSettled E run))"
| "permitted E run _ = True"

definition machine_write :: "env \<Rightarrow> CoderRun \<Rightarrow> CoderRun \<Rightarrow> bool" where
  "machine_write E before after \<longleftrightarrow> step (maxRestarts E) (abs_run before) (abs_run after)"

text \<open>A program that implements the contract.\<close>

definition refines :: "env \<Rightarrow> (CoderRun \<Rightarrow> bool) \<Rightarrow> 'a prog \<Rightarrow> ('a \<Rightarrow> CoderRun \<Rightarrow> bool) \<Rightarrow> bool" where
  "refines E = does (machine_write E) (permitted E)"

section \<open>Programs that only take notes\<close>

text \<open>
  Much of what a handler writes is bookkeeping: conditions, report tokens, annotations, the phase
  marker. \<open>core run\<close> is the run without them. \<open>keeps_core E P m\<close>: on a run whose core satisfies \<open>P\<close>, the
  program \<open>m\<close> implements the contract and leaves the core alone.
\<close>

definition core :: "CoderRun \<Rightarrow> CoderRun" where
  "core run = run\<lparr>r_meta := (r_meta run)\<lparr>m_Annotations := []\<rparr>,
     r_status := (r_status run)\<lparr>s_PhaseEnteredAt := None, s_LifecycleReportRetryToken := [],
       s_LifecycleReportActiveRetryToken := [], s_Conditions := []\<rparr>\<rparr>"

definition keeps_core :: "env \<Rightarrow> (CoderRun \<Rightarrow> bool) \<Rightarrow> 'a prog \<Rightarrow> bool" where
  "keeps_core E P m \<longleftrightarrow> (\<forall>k. P k \<longrightarrow> refines E (\<lambda>run. core run = k) m (\<lambda>_ run. core run = k))"

named_theorems core_intro \<open>rules for programs that keep the core of the run\<close>

lemma core_sel [simp]:
  "r_spec (core run) = r_spec run"
  "m_UID (r_meta (core run)) = m_UID (r_meta run)"
  "m_Name (r_meta (core run)) = m_Name (r_meta run)"
  "m_Namespace (r_meta (core run)) = m_Namespace (r_meta run)"
  "s_Phase (r_status (core run)) = s_Phase (r_status run)"
  "s_CIPark (r_status (core run)) = s_CIPark (r_status run)"
  "s_CIRepair (r_status (core run)) = s_CIRepair (r_status run)"
  "s_CISettlement (r_status (core run)) = s_CISettlement (r_status run)"
  "s_CIParkRelease (r_status (core run)) = s_CIParkRelease (r_status run)"
  "s_CIParkDeferral (r_status (core run)) = s_CIParkDeferral (r_status run)"
  "s_FinishedAt (r_status (core run)) = s_FinishedAt (r_status run)"
  "s_ControlRequest (r_status (core run)) = s_ControlRequest (r_status run)"
  "s_Restarts (r_status (core run)) = s_Restarts (r_status run)"
  "s_RetryRequest (r_status (core run)) = s_RetryRequest (r_status run)"
  "s_TerminalDiagnostic (r_status (core run)) = s_TerminalDiagnostic (r_status run)"
  "s_WorkspaceSafety (r_status (core run)) = s_WorkspaceSafety (r_status run)"
  "s_Branch (r_status (core run)) = s_Branch (r_status run)"
  "s_HeadSHA (r_status (core run)) = s_HeadSHA (r_status run)"
  "s_NoChange (r_status (core run)) = s_NoChange (r_status run)"
  by (simp_all add: core_def)

lemma core_core [simp]: "core (core run) = core run"
  by (simp add: core_def)

lemma core_stamped [simp]: "core (stamped before run now) = core run"
  by (simp add: core_def stamped_def upd_status_def)

lemma core_annotations [simp]: "core (upd_annotations f run) = core run"
  by (simp add: core_def upd_annotations_def)

lemma core_condition [simp]: "core (upd_status (put_condition E c) run) = core run"
  by (simp add: core_def upd_status_def put_condition_def)

lemma core_drop_condition [simp]: "core (upd_status (drop_condition E t) run) = core run"
  by (simp add: core_def upd_status_def drop_condition_def)

lemma core_token [simp]: "core (upd_status (settle_token t r) run) = core run"
  by (simp add: core_def upd_status_def settle_token_def)

lemma core_fold_conditions [simp]: "core (upd_status (fold (put_condition E) cs) run) = core run"
proof (induction cs arbitrary: run)
  case Nil then show ?case by (simp add: upd_status_def)
next
  case (Cons c cs)
  have "upd_status (fold (put_condition E) (c # cs)) run
      = upd_status (fold (put_condition E) cs) (upd_status (put_condition E c) run)"
    by (simp add: upd_status_def)
  then show ?case using Cons by (simp only: core_condition)
qed

lemma abs_core [simp]: "abs_run (core run) = abs_run run"
  by (simp add: abs_run_def)

lemma core_abs: "core a = core b \<Longrightarrow> abs_run a = abs_run b"
  by (metis abs_core)

lemma machine_write_note: "core a = core b \<Longrightarrow> machine_write E a b"
  unfolding machine_write_def using core_abs step.noted by metis

lemma keeps_coreI:
  assumes "\<And>k. P k \<Longrightarrow> refines E (\<lambda>run. core run = k) m (\<lambda>_ run. core run = k)"
  shows "keeps_core E P m"
  using assms by (simp add: keeps_core_def)

lemma keeps_core_wp:
  assumes "keeps_core E P m"
  shows "refines E (\<lambda>run. P (core run) \<and> (\<forall>a run'. core run' = core run \<longrightarrow> Q a run')) m Q"
proof -
  have "does (machine_write E) (permitted E) (\<lambda>run. core run = k) m (\<lambda>_ run. core run = k)" if "P k" for k
    using assms that by (simp add: keeps_core_def refines_def)
  then show ?thesis unfolding refines_def does_def by (metis (full_types))
qed

lemma core_wp_all:
  "keeps_core E (\<lambda>_. True) m \<Longrightarrow>
     does (machine_write E) (permitted E) (\<lambda>run. \<forall>a run'. core run' = core run \<longrightarrow> Q a run') m Q"
  by (drule keeps_core_wp) (simp add: refines_def)

lemma refines_wp:
  "refines E P m Q' \<Longrightarrow>
     does (machine_write E) (permitted E) (\<lambda>run. P run \<and> (\<forall>a run'. Q' a run' \<longrightarrow> Q a run')) m Q"
  unfolding refines_def by (rule does_post)

lemma core_weaken: "keeps_core E P m \<Longrightarrow> (\<And>k. P' k \<Longrightarrow> P k) \<Longrightarrow> keeps_core E P' m"
  by (simp add: keeps_core_def)

lemma core_ret [core_intro]: "keeps_core E P (ret a)"
  by (rule keeps_coreI) (simp add: refines_def does_def)

lemma core_bind [core_intro]:
  assumes "keeps_core E P m" and "\<And>a. keeps_core E P (f a)"
  shows "keeps_core E P (State_Monad.bind m f)"
proof (rule keeps_coreI)
  fix k assume "P k"
  with assms show "refines E (\<lambda>run. core run = k) (State_Monad.bind m f) (\<lambda>_ run. core run = k)"
    unfolding keeps_core_def refines_def
    by (intro does_bind [where R = "\<lambda>_ run. core run = k"]) auto
qed

lemma core_get:
  assumes "\<And>run. P (core run) \<Longrightarrow> keeps_core E (\<lambda>k. P k \<and> k = core run) (f run)"
  shows "keeps_core E P (State_Monad.bind (gets mem) f)"
proof (rule keeps_coreI)
  fix k assume k: "P k"
  show "refines E (\<lambda>run. core run = k) (State_Monad.bind (gets mem) f) (\<lambda>_ run. core run = k)"
    unfolding refines_def
  proof (rule doesI)
    fix s a t assume c: "core (mem s) = k" and r: "run_state (State_Monad.bind (gets mem) f) s = (a, t)"
    from r have r': "run_state (f (mem s)) s = (a, t)" by simp
    have "refines E (\<lambda>run. core run = k) (f (mem s)) (\<lambda>_ run. core run = k)"
      using assms [of "mem s"] c k by (simp add: keeps_core_def)
    from doesD [OF this [unfolded refines_def] c r']
    show "core (mem t) = k \<and> logs (machine_write E) (permitted E) (trace s) (trace t)" by simp
  qed
qed

lemma core_if [core_intro]:
  "(b \<Longrightarrow> keeps_core E P m) \<Longrightarrow> (\<not> b \<Longrightarrow> keeps_core E P n) \<Longrightarrow> keeps_core E P (if b then m else n)"
  by simp

lemma core_option [core_intro]:
  "(x = None \<Longrightarrow> keeps_core E P m) \<Longrightarrow> (\<And>a. x = Some a \<Longrightarrow> keeps_core E P (f a)) \<Longrightarrow>
     keeps_core E P (case x of None \<Rightarrow> m | Some a \<Rightarrow> f a)"
  by (cases x) auto

lemma core_sum [core_intro]:
  "(\<And>e. x = Inl e \<Longrightarrow> keeps_core E P (f e)) \<Longrightarrow> (\<And>a. x = Inr a \<Longrightarrow> keeps_core E P (g a)) \<Longrightarrow>
     keeps_core E P (case x of Inl e \<Rightarrow> f e | Inr a \<Rightarrow> g a)"
  by (cases x) auto

lemma core_prod [core_intro]:
  "(\<And>a b. x = (a, b) \<Longrightarrow> keeps_core E P (f a b)) \<Longrightarrow> keeps_core E P (case x of (a, b) \<Rightarrow> f a b)"
  by (cases x) auto

lemma core_Let [core_intro]: "keeps_core E P (f x) \<Longrightarrow> keeps_core E P (Let x f)"
  by simp

lemma core_ask [core_intro]: "keeps_core E P (ask f)"
  by (rule keeps_coreI) (simp add: refines_def does_pre [OF does_ask])

lemma core_clock [core_intro]: "keeps_core E P (clock E')"
  by (simp add: clock_def core_ask)

lemma core_act [core_intro]:
  "(\<And>run. P (core run) \<Longrightarrow> permitted E run c) \<Longrightarrow> keeps_core E P (act E' c)"
  by (rule keeps_coreI) (auto simp: refines_def intro!: does_pre [OF does_act])

lemma core_set_run:
  "(\<And>run. core (upd_status f run) = core run) \<Longrightarrow> keeps_core E P (set_run f)"
  by (rule keeps_coreI) (simp add: refines_def does_pre [OF does_set_run])

lemma core_update_run:
  "(\<And>run. core (upd_status f run) = core run) \<Longrightarrow> keeps_core E P (update_run E' f)"
  by (rule keeps_coreI) (auto simp: refines_def intro!: does_pre [OF does_update_run] machine_write_note)

lemma core_patchStatus [core_intro]:
  "(\<And>k. P k \<Longrightarrow> k = core before) \<Longrightarrow> keeps_core E P (patchStatus E' before)"
  by (rule keeps_coreI) (auto simp: refines_def intro!: does_pre [OF does_patchStatus] machine_write_note)

lemma core_patchAnnotations [core_intro]: "keeps_core E P (patchAnnotations E' f)"
  by (rule keeps_coreI) (simp add: refines_def does_pre [OF does_patchAnnotations])

lemma core_set_condition_now [core_intro]: "keeps_core E P (set_condition_now E' t st reason message gen)"
  unfolding set_condition_now_def by (intro core_intro core_set_run) simp

lemmas core_updates = core_set_run core_update_run

end
