(* ===== verification/Invariants.thy ===== *)
theory Invariants
  imports Machine
begin

text \<open>
  What the machine guarantees, proved once by cases on its steps: the account of repairs and their
  fences, the phase graph, the end time, the bounds on restarts and attempts, the retry record, and
  by induction the invariants of every reachable state.
\<close>

section \<open>Repairs and fences\<close>

text \<open>The attempt in flight is the last one the park counts, for the head that is parked.\<close>

definition park_ok :: "machine \<Rightarrow> bool" where
  "park_ok M \<longleftrightarrow>
     (case mc_park M of None \<Rightarrow> mc_repair M = None
      | Some p \<Rightarrow> 0 \<le> pk_Attempts p \<and>
          (case mc_repair M of None \<Rightarrow> True
           | Some a \<Rightarrow> rp_Head a = pk_Head p \<and> rp_Attempt a = pk_Attempts p \<and> 0 < rp_Attempt a))"

text \<open>A fenced attempt that ends leaves the settlement of exactly its fence.\<close>

definition fence_settled :: "machine \<Rightarrow> machine \<Rightarrow> bool" where
  "fence_settled M N \<longleftrightarrow>
     (\<forall>a. mc_repair M = Some a \<and> rp_FenceToken a \<noteq> [] \<and> mc_repair N \<noteq> Some a \<longrightarrow>
        map_option (\<lambda>s. (se_FenceToken s, se_IdempotencyKey s)) (mc_settle N)
          = Some (rp_FenceToken a, repair_key (mc_uid M) (rp_Attempt a)))"

lemma abandoned_sel [simp]:
  "mc_uid (abandoned M) = mc_uid M" "mc_phase (abandoned M) = mc_phase M" "mc_park (abandoned M) = mc_park M"
  "mc_repair (abandoned M) = None" "mc_release (abandoned M) = mc_release M"
  "mc_finished (abandoned M) = mc_finished M" "mc_control (abandoned M) = mc_control M"
  "mc_restarts (abandoned M) = mc_restarts M" "mc_retry (abandoned M) = mc_retry M"
  by (auto simp: abandoned_def split: option.splits)

lemma abandoned_settle:
  "mc_repair M = Some a \<Longrightarrow> rp_FenceToken a \<noteq> [] \<Longrightarrow>
     mc_settle (abandoned M) = Some (settlement (rp_FenceToken a) (repair_key (mc_uid M) (rp_Attempt a))
       CIParkOutcomeUnsupported [])"
  by (simp add: abandoned_def)

lemma settlement_sel [simp]:
  "se_FenceToken (settlement f k r h) = f" "se_IdempotencyKey (settlement f k r h) = k"
  "se_Result (settlement f k r h) = r" "se_Head (settlement f k r h) = h"
  by (simp_all add: settlement_def)

lemma step_park_ok: "step c M N \<Longrightarrow> park_ok M \<Longrightarrow> park_ok N"
  by (induction rule: step.induct) (auto simp: park_ok_def split: option.splits)

lemma step_fence: "step c M N \<Longrightarrow> park_ok M \<Longrightarrow> fence_settled M N"
  by (induction rule: step.induct)
    (auto simp: fence_settled_def park_ok_def fence_of_def abandoned_settle split: option.splits)

section \<open>Phases\<close>

definition phase_edge :: "Phase \<Rightarrow> Phase \<Rightarrow> bool" where
  "phase_edge p q \<longleftrightarrow> p = q \<or> ends_in p q \<or>
     (p, q) \<in> {(PhaseUnset, PhaseClaimed), (PhasePending, PhaseClaimed), (PhaseClaimed, PhaseRunning),
       (PhaseClaimed, PhasePending), (PhaseRunning, PhaseClaimed), (PhaseRunning, PhaseVerifying),
       (PhaseVerifying, PhaseClaimed)}"

lemma step_phase: "step c M N \<Longrightarrow> phase_edge (mc_phase M) (mc_phase N)"
  by (induction rule: step.induct) (auto simp: phase_edge_def)

lemma step_uid: "step c M N \<Longrightarrow> mc_uid N = mc_uid M"
  by (induction rule: step.induct) auto

section \<open>The end of a run\<close>

definition end_ok :: "machine \<Rightarrow> bool" where
  "end_ok M \<longleftrightarrow> (terminalPhase (mc_phase M) \<longrightarrow> mc_finished M \<noteq> None \<and> mc_control M = None)"

lemma step_finished: "step c M N \<Longrightarrow> mc_finished M = Some t \<Longrightarrow> mc_finished N = Some t"
  by (induction rule: step.induct) auto

lemma step_end_ok: "step c M N \<Longrightarrow> end_ok M \<Longrightarrow> end_ok N"
  by (induction rule: step.induct) (auto simp: end_ok_def terminalPhase_def)

section \<open>Bounds\<close>

lemma step_restarts:
  "step c M N \<Longrightarrow> mc_restarts N \<noteq> mc_restarts M \<Longrightarrow> mc_phase M = PhaseRunning \<and>
     (mc_restarts N = 0 \<or> mc_restarts N = mc_restarts M + 1 \<and> mc_restarts N \<le> c \<and> mc_phase N = PhaseClaimed)"
  by (induction rule: step.induct) auto

lemma step_attempts:
  "step c M N \<Longrightarrow> mc_park M = Some p \<Longrightarrow> mc_park N = Some q \<Longrightarrow>
     pk_Attempts q = pk_Attempts p \<or>
     mc_phase M = PhaseVerifying \<and> mc_phase N = PhaseClaimed \<and> pk_Attempts q = pk_Attempts p + 1 \<and>
       pk_Head q = pk_Head p \<and> mc_repair M = None \<and>
       (\<exists>a. mc_repair N = Some a \<and> rp_Attempt a = pk_Attempts q \<and> rp_Attempt a \<le> rp_MaxAttempts a)"
  by (induction rule: step.induct) auto

lemma step_retry:
  "step c M N \<Longrightarrow> mc_retry N \<noteq> mc_retry M \<Longrightarrow>
     terminalPhase (mc_phase M) \<and> (\<exists>r. mc_retry N = Some r \<and> retry_next (mc_retry M) r)"
  by (induction rule: step.induct) auto

section \<open>Reachable states\<close>

definition newborn :: "machine \<Rightarrow> bool" where
  "newborn M \<longleftrightarrow> mc_phase M = PhaseUnset \<and> mc_park M = None \<and> mc_repair M = None \<and> mc_settle M = None
     \<and> mc_release M = None \<and> mc_finished M = None \<and> mc_control M = None \<and> mc_restarts M = 0 \<and> mc_retry M = None"

inductive reachable :: "int \<Rightarrow> machine \<Rightarrow> bool" for ceiling :: int where
  start: "newborn M \<Longrightarrow> reachable ceiling M"
| next_step: "reachable ceiling M \<Longrightarrow> step ceiling M N \<Longrightarrow> reachable ceiling N"

text \<open>An invariant of the machine: it holds of a new run and every step keeps it.\<close>

locale machine_invariant =
  fixes ceiling :: int and I :: "machine \<Rightarrow> bool"
  assumes initially: "newborn M \<Longrightarrow> I M"
    and kept: "step ceiling M N \<Longrightarrow> I M \<Longrightarrow> I N"
begin

lemma holds: "reachable ceiling M \<Longrightarrow> I M"
  by (induction rule: reachable.induct) (auto intro: initially kept)

end

definition restarts_ok :: "int \<Rightarrow> machine \<Rightarrow> bool" where
  "restarts_ok c M \<longleftrightarrow> 0 \<le> mc_restarts M \<and> mc_restarts M \<le> max 0 c"

lemma step_restarts_ok: "step c M N \<Longrightarrow> restarts_ok c M \<Longrightarrow> restarts_ok c N"
  using step_restarts [of c M N]
  by (cases "mc_restarts N = mc_restarts M") (auto simp: restarts_ok_def)

lemma newborn_ok:
  "newborn M \<Longrightarrow> park_ok M" "newborn M \<Longrightarrow> end_ok M" "newborn M \<Longrightarrow> restarts_ok c M"
  by (simp_all add: newborn_def park_ok_def end_ok_def restarts_ok_def terminalPhase_def)

interpretation fences: machine_invariant ceiling park_ok for ceiling
  by unfold_locales (auto intro: newborn_ok step_park_ok)

interpretation endings: machine_invariant ceiling end_ok for ceiling
  by unfold_locales (auto intro: newborn_ok step_end_ok)

interpretation restarts: machine_invariant ceiling "restarts_ok ceiling" for ceiling
  by unfold_locales (auto intro: newborn_ok step_restarts_ok)

end
