(* ===== verification/Refine_Report.thy ===== *)
theory Refine_Report
  imports Invariants
begin

text \<open>
  The lifecycle report, the capacity recovery and the terminal transition implement the contract:
  reports and recovery only take notes, and the terminal transition is the step \<open>terminate\<close>.
\<close>

lemma core_permitted [simp]:
  "isCapacityExhaustionRun (core run) = isCapacityExhaustionRun run"
  "lifecycleIdempotencyKey (core run) p = lifecycleIdempotencyKey run p"
  "capacitySettlementKey (core run) = capacitySettlementKey run"
  "retryIdempotencyKey (core run) rid = retryIdempotencyKey run rid"
  by (simp_all add: isCapacityExhaustionRun_def lifecycleIdempotencyKey_def capacitySettlementKey_def
      retryIdempotencyKey_def Let_def)

text \<open>Runs with the same core agree on whatever the core determines.\<close>

lemma core_eq:
  assumes "core a = core b"
  shows "s_Phase (r_status a) = s_Phase (r_status b)"
    and "lifecycleIdempotencyKey a p = lifecycleIdempotencyKey b p"
    and "capacitySettlementKey a = capacitySettlementKey b"
    and "retryIdempotencyKey a rid = retryIdempotencyKey b rid"
    and "s_RetryRequest (r_status a) = s_RetryRequest (r_status b)"
    and "s_CIParkDeferral (r_status a) = s_CIParkDeferral (r_status b)"
    and "s_NoChange (r_status a) = s_NoChange (r_status b)"
    and "isCapacityExhaustionRun a = isCapacityExhaustionRun b"
    and "r_spec a = r_spec b"
  using assms by (metis core_sel core_permitted)+

section \<open>Capacity\<close>

lemma core_setCapacityRecovery [core_intro]: "keeps_core E P (setCapacityRecovery E st reason message)"
  unfolding setCapacityRecovery_def by (intro core_intro core_updates) simp

lemma core_capacity_refusal [core_intro]: "keeps_core E P (capacity_refusal E e)"
  unfolding capacity_refusal_def by (intro core_intro)

lemma core_cooldown_lane [core_intro]: "keeps_core E P (recordCapacityCooldownLane E)"
  unfolding recordCapacityCooldownLane_def by (intro core_get core_intro) simp

lemma core_retry_on_conflict [core_intro]: "keeps_core E P m \<Longrightarrow> keeps_core E P (retry_on_conflict n m)"
  by (induction n) (auto intro!: core_intro)

lemma core_recordCapacityCooldown [core_intro]: "keeps_core E P (recordCapacityCooldown E)"
  unfolding recordCapacityCooldown_def by (intro core_get core_intro core_updates) simp

lemma core_settle_capacity:
  "keeps_core E (\<lambda>k. isCapacityExhaustionRun k \<and>
      safeCapacityWorkspace (s_WorkspaceSafety (r_status k)) (s_Branch (r_status k)) (s_HeadSHA (r_status k)))
    (settle_capacity E adapter item)"
  unfolding settle_capacity_def
  by (intro core_get core_intro) (auto dest: core_eq(3))

lemma core_recoverCapacityExhaustion [core_intro]:
  assumes "\<And>k. P k \<Longrightarrow> isCapacityExhaustionRun k"
  shows "keeps_core E P (recoverCapacityExhaustion E adapter item)"
  unfolding recoverCapacityExhaustion_def
  by (intro core_get core_intro) (auto intro!: core_weaken [OF core_settle_capacity] dest: assms)

section \<open>The report\<close>

lemma core_setLifecycleReport [core_intro]: "keeps_core E P (setLifecycleReport E published reason message)"
  unfolding setLifecycleReport_def by (intro core_intro)

lemma core_record_support [core_intro]: "keeps_core E P (record_support E reason)"
  unfolding record_support_def setLifecycleReportCapability_def by (intro core_intro)

lemma core_markLifecycleReportOutcome [core_intro]:
  "keeps_core E P (markLifecycleReportOutcome E published reason message token support)"
  unfolding markLifecycleReportOutcome_def by (intro core_get core_intro core_updates) auto

lemma core_publishSourceLifecycle:
  "keeps_core E (\<lambda>k. s_Phase (r_status k) = phase \<and> terminalPhase phase)
     (publishSourceLifecycle E adapter item phase intent)"
  unfolding publishSourceLifecycle_def reportLifecycle_def
  by (intro core_get core_intro) (auto intro: core_eq(2) [OF sym])

lemma core_publish_ordinary:
  "keeps_core E (\<lambda>k. s_Phase (r_status k) = phase \<and> terminalPhase phase)
     (publish_ordinary E adapter item phase intent)"
  unfolding publish_ordinary_def
  by (rule core_bind [OF core_publishSourceLifecycle], intro core_get core_intro)
    (auto dest: core_eq(8))

section \<open>Announcing a close\<close>

lemma core_recordAnnouncementNotDelivered [core_intro]: "keeps_core E P (recordAnnouncementNotDelivered E r d)"
  unfolding recordAnnouncementNotDelivered_def by (intro core_intro)

lemma core_markAlreadyDoneCommented [core_intro]: "keeps_core E P (markAlreadyDoneCommented E)"
  unfolding markAlreadyDoneCommented_def by (intro core_intro)

lemma core_setSourceClose [core_intro]: "keeps_core E P (setSourceClose E closed reason resolution)"
  unfolding setSourceClose_def by (intro core_intro)

lemma core_commentAlreadyDone [core_intro]: "keeps_core E P (commentAlreadyDone E closed reason resolution)"
  unfolding commentAlreadyDone_def by (intro core_get core_intro) auto

lemma core_commentAlreadyDoneHold [core_intro]: "keeps_core E P (commentAlreadyDoneHold E)"
  unfolding commentAlreadyDoneHold_def by (intro core_get core_intro) auto

section \<open>The terminal transition\<close>

lemma does_enrichTerminalPR [wp]: "does W C (\<lambda>run. \<forall>pr. Q pr run) (enrichTerminalPR E) Q"
  unfolding enrichTerminalPR_def by (rule does_pre, (rule wp)+) auto

lemma abs_enter_terminal:
  "abs_run (upd_status (enter_terminal run phase pr telemetry) run) =
     (abandoned (abs_run run))\<lparr>mc_phase := phase, mc_control := None\<rparr>"
  by (simp add: abs_run_def enter_terminal_def abandonCIRepairAttempt_def abandoned_def Let_def
      ciparkRepairKey_def repair_key_def settlement_def split: option.splits)

lemma abs_bookkeeping [simp]:
  "abs_run (upd_status (put_condition E c) run) = abs_run run"
  "abs_run (upd_status (fold (put_condition E) cs) run) = abs_run run"
  "abs_run (stamped before run now) = abs_run run"
  by (rule core_abs; simp)+

lemma abs_diagnostic [simp]: "abs_run (upd_status (s_TerminalDiagnostic_update f) run) = abs_run run"
  by (simp add: abs_run_def)

lemma abs_finish_at [simp]:
  "abs_run (upd_status (finish_at now) run) = (abs_run run)\<lparr>mc_finished := Some now\<rparr>"
  by (simp add: abs_run_def finish_at_def Let_def split: option.splits)

lemma wp_stamp_terminal:
  "does W C (\<lambda>run. \<forall>now run'. abs_run run' = (abs_run run)\<lparr>mc_finished :=
       Some (case s_FinishedAt (r_status run) of None \<Rightarrow> now | Some t \<Rightarrow> t)\<rparr> \<longrightarrow> Q () run')
     (stamp_terminal E intent) Q"
  unfolding stamp_terminal_def setLifecycleReport_def set_condition_now_def
  by (rule does_pre, (rule wp)+) auto

text \<open>What the terminal transition needs of the report it ends in.\<close>

definition publishes ::
  "env \<Rightarrow> (adapter \<Rightarrow> WorkItem \<Rightarrow> Phase \<Rightarrow> terminalLifecycleIntent \<Rightarrow> handler) \<Rightarrow> Phase \<Rightarrow> bool" where
  "publishes E publish phase \<longleftrightarrow>
     (\<forall>adapter item intent. refines E (\<lambda>run. s_Phase (r_status run) = phase)
        (publish adapter item phase intent) (\<lambda>_ _. True))"

lemma ends_in_terminal: "ends_in p q \<Longrightarrow> terminalPhase q"
  by (cases p) (auto simp: terminalPhase_def)

lemma ends_in_neq: "ends_in p q \<Longrightarrow> p \<noteq> q"
  by (cases p) auto

lemma abs_phase: "abs_run run = M \<Longrightarrow> s_Phase (r_status run) = mc_phase M"
  by auto

lemma terminate_write:
  assumes "ends_in (s_Phase (r_status b)) p"
    and "abs_run a = (abandoned (abs_run b))\<lparr>mc_phase := p, mc_control := None,
      mc_finished := Some (case s_FinishedAt (r_status b) of None \<Rightarrow> now | Some t \<Rightarrow> t)\<rparr>"
  shows "machine_write E b a"
  unfolding machine_write_def assms(2) by (rule step.terminate) (use assms(1) in auto)

lemma finished_after_entry [simp]:
  "s_FinishedAt (enter_terminal b phase pr tel (r_status b)) = s_FinishedAt (r_status b)"
  using arg_cong [OF abs_enter_terminal, of mc_finished] by simp

lemma refines_transition_with:
  assumes "publishes E publish phase"
  shows "refines E (\<lambda>run. ends_in (s_Phase (r_status run)) phase)
    (transitionTerminal_with publish E phase pr intent telemetry) (\<lambda>_ _. True)"
proof -
  note pub = assms [unfolded publishes_def, rule_format, THEN refines_wp]
  show ?thesis
    unfolding refines_def transitionTerminal_with_def
    by (rule does_pre, (rule wp wp_stamp_terminal pub)+)
      (auto simp: abs_enter_terminal intro!: terminate_write dest: ends_in_neq abs_phase)
qed

lemma publishes_ordinary: "terminalPhase phase \<Longrightarrow> publishes E (publish_ordinary E) phase"
  unfolding publishes_def refines_def
  by (intro allI does_pre [OF keeps_core_wp [OF core_publish_ordinary, unfolded refines_def]]) simp

lemmas park_transition =
  refines_transition_with [OF publishes_ordinary [OF terminalPhase_simps(3)], THEN refines_wp]

lemma refines_parkAlreadyDoneClose:
  "refines E (\<lambda>run. s_Phase (r_status run) = PhaseAlreadyDone)
     (parkAlreadyDoneClose E reason detail resolution) (\<lambda>_ _. True)"
  unfolding refines_def parkAlreadyDoneClose_def
  by (rule does_pre, (rule wp park_transition core_wp_all core_setSourceClose core_commentAlreadyDone)+)
    (auto dest!: core_eq(1))

lemma refines_settleAlreadyDoneClose:
  "refines E (\<lambda>run. s_Phase (r_status run) = PhaseAlreadyDone)
     (settleAlreadyDoneClose E adapter item intent) (\<lambda>_ _. True)"
  unfolding refines_def settleAlreadyDoneClose_def markAlreadyDoneClosePending_def
  by (rule does_pre, (rule wp refines_parkAlreadyDoneClose [THEN refines_wp] core_wp_all
        core_setSourceClose core_commentAlreadyDone core_markLifecycleReportOutcome)+)
    (auto simp: alreadyDoneLifecycle_def)

lemma publishes_terminal:
  assumes "terminalPhase phase"
  shows "publishes E (publishTerminalLifecycle E) phase"
proof (cases "phase = PhaseAlreadyDone")
  case True
  then show ?thesis
    by (simp add: publishes_def publishTerminalLifecycle_def refines_settleAlreadyDoneClose)
next
  case False
  then show ?thesis using publishes_ordinary [OF assms]
    by (simp add: publishes_def publishTerminalLifecycle_def)
qed

lemma refines_transitionTerminal:
  "refines E (\<lambda>run. ends_in (s_Phase (r_status run)) phase)
     (transitionTerminal E phase pr intent telemetry) (\<lambda>_ _. True)"
proof (cases "terminalPhase phase")
  case True
  then show ?thesis
    unfolding transitionTerminal_def by (intro refines_transition_with publishes_terminal)
next
  case False
  then show ?thesis
    by (auto simp: refines_def does_def dest: ends_in_terminal)
qed

lemmas wp_transitionTerminal [wp] = refines_transitionTerminal [THEN refines_wp]

lemma refines_publishTerminalLifecycle:
  "refines E (\<lambda>run. s_Phase (r_status run) = phase \<and> terminalPhase phase)
     (publishTerminalLifecycle E adapter item phase intent) (\<lambda>_ _. True)"
  by (cases "terminalPhase phase")
    (auto simp: publishes_def refines_def does_def dest!: publishes_terminal [of _ E])

lemma refines_retryTerminalLifecycle:
  "refines E (\<lambda>run. terminalPhase (s_Phase (r_status run))) (retryTerminalLifecycle E) (\<lambda>_ _. True)"
  unfolding refines_def retryTerminalLifecycle_def
  by (rule does_pre, (rule wp refines_publishTerminalLifecycle [THEN refines_wp])+) auto

section \<open>Rolling a claim back\<close>

lemma roll_back_write: "s_Phase (r_status run) = PhaseClaimed \<Longrightarrow> machine_write E run (stamped run (upd_status unclaim run) now)"
proof -
  assume c: "s_Phase (r_status run) = PhaseClaimed"
  have "abs_run (stamped run (upd_status unclaim run) now) = (abs_run run)\<lparr>mc_phase := PhasePending\<rparr>"
    by (simp add: abs_run_def unclaim_def)
  then show ?thesis
    unfolding machine_write_def using c step.roll_back [of "abs_run run" "maxRestarts E"] by simp
qed

lemma refines_releaseClaim:
  "refines E (\<lambda>run. s_Phase (r_status run) = PhaseClaimed) (releaseClaim E item cause) (\<lambda>_ _. True)"
  unfolding refines_def releaseClaim_def
  by (rule does_pre, (rule wp)+) (auto intro: roll_back_write)

lemma refines_rejectClaim:
  "refines E (\<lambda>run. s_Phase (r_status run) = PhaseClaimed) (rejectClaim E item cause) (\<lambda>_ _. True)"
  unfolding refines_def rejectClaim_def
  by (rule does_pre, (rule wp)+) (auto intro: roll_back_write)

lemma refines_terminateNeedsHuman:
  "refines E (\<lambda>run. s_Phase (r_status run) = PhaseClaimed) (terminateNeedsHuman E item detail) (\<lambda>_ _. True)"
  unfolding refines_def terminateNeedsHuman_def
  by (rule does_pre, (rule wp)+) auto

lemma refines_terminateMissingHead:
  "refines E (\<lambda>run. s_Phase (r_status run) = PhaseClaimed) (terminateMissingHead E cause) (\<lambda>_ _. True)"
  unfolding refines_def terminateMissingHead_def
  by (rule does_pre, (rule wp refines_terminateNeedsHuman [THEN refines_wp])+) auto

lemma refines_terminateStuckTerminatingCollision:
  "refines E (\<lambda>run. s_Phase (r_status run) = PhaseClaimed)
     (terminateStuckTerminatingCollision E item pod uid since) (\<lambda>_ _. True)"
  unfolding refines_def terminateStuckTerminatingCollision_def
  by (rule does_pre, (rule wp)+) auto

lemmas wp_claim [wp] = refines_releaseClaim [THEN refines_wp] refines_rejectClaim [THEN refines_wp]
  refines_terminateNeedsHuman [THEN refines_wp] refines_terminateMissingHead [THEN refines_wp]
  refines_terminateStuckTerminatingCollision [THEN refines_wp]

end
