(* ===== verification/Refine_Park.thy ===== *)
theory Refine_Park
  imports Refine_Report
begin

text \<open>
  The park loop implements the contract: each of its writes is one of the park steps, a reservation
  is only requested for the next attempt of the parked head, and what it reports is what it recorded.
\<close>

section \<open>Deliveries\<close>

lemma machine_write_same: "abs_run a = abs_run b \<Longrightarrow> machine_write E a b"
  unfolding machine_write_def using step.noted by metis

lemma abs_deferral [simp]: "abs_run (upd_status (s_CIParkDeferral_update f) run) = abs_run run"
  by (simp add: abs_run_def)

lemma abs_settlement [simp]:
  "abs_run (upd_status (s_CISettlement_update f) run) = (abs_run run)\<lparr>mc_settle := f (s_CISettlement (r_status run))\<rparr>"
  by (simp add: abs_run_def)

lemma abs_release [simp]:
  "abs_run (upd_status (s_CIParkRelease_update f) run) = (abs_run run)\<lparr>mc_release := f (s_CIParkRelease (r_status run))\<rparr>"
  by (simp add: abs_run_def)

lemma wp_deliverCIParkNotice [wp]:
  "does (machine_write E) (permitted E) (\<lambda>run. \<forall>a run'. abs_run run' = abs_run run \<longrightarrow> Q a run')
     (deliverCIParkNotice E) Q"
  unfolding deliverCIParkNotice_def settle_record_def
  by (rule does_pre, (rule wp)+) (auto intro!: machine_write_same)

text \<open>A delivery that succeeds has cleared its record; one that does not leaves everything as it was.\<close>

lemma wp_deliverCISettlement [wp]:
  "does (machine_write E) (permitted E)
     (\<lambda>run. \<forall>a run'. abs_run run' = abs_run run \<or> abs_run run' = (abs_run run)\<lparr>mc_settle := None\<rparr> \<longrightarrow>
        (fst a \<longrightarrow> s_CISettlement (r_status run') = None) \<longrightarrow> Q a run')
     (deliverCISettlement E) Q"
  unfolding deliverCISettlement_def settle_record_def reportCIRepair_def
  by (rule does_pre, (rule wp)+) (auto simp: machine_write_def intro: step.settled)

lemma wp_deliverCIParkRelease [wp]:
  "does (machine_write E) (permitted E)
     (\<lambda>run. \<forall>a run'. abs_run run' = abs_run run \<or> abs_run run' = (abs_run run)\<lparr>mc_release := None\<rparr> \<longrightarrow>
        (fst a \<longrightarrow> s_CIParkRelease (r_status run') = None) \<longrightarrow> Q a run')
     (deliverCIParkRelease E) Q"
  unfolding deliverCIParkRelease_def settle_record_def
  by (rule does_pre, (rule wp)+) (auto simp: machine_write_def intro: step.released)

text \<open>Deliveries change nothing but what is owed.\<close>

definition unowed :: "machine \<Rightarrow> machine" where
  "unowed M = M\<lparr>mc_settle := None, mc_release := None\<rparr>"

lemma unowed_simps [simp]:
  "unowed (M\<lparr>mc_settle := x\<rparr>) = unowed M" "unowed (M\<lparr>mc_release := y\<rparr>) = unowed M"
  "unowed (M\<lparr>mc_settle := x, mc_release := y\<rparr>) = unowed M"
  by (simp_all add: unowed_def)

lemma unowed_eq:
  assumes "unowed (abs_run a) = unowed (abs_run b)"
  shows "s_Phase (r_status a) = s_Phase (r_status b)" and "s_CIRepair (r_status a) = s_CIRepair (r_status b)"
    and "s_CIPark (r_status a) = s_CIPark (r_status b)"
  using arg_cong [OF assms, of mc_phase] arg_cong [OF assms, of mc_repair] arg_cong [OF assms, of mc_park]
  by (simp_all add: unowed_def)

lemma wp_deliver_owed [wp]:
  "does (machine_write E) (permitted E)
     (\<lambda>run. \<forall>a run'. unowed (abs_run run') = unowed (abs_run run) \<longrightarrow> Q a run') (deliver_owed E) Q"
  unfolding deliver_owed_def
  by (rule does_pre, (rule wp)+) auto

section \<open>Ending a park\<close>

lemma wp_recordCIParkRelease [wp]:
  "does W C (\<lambda>run. (\<forall>a. Q a run) \<and> (\<forall>a x. Q a (upd_status (s_CIParkRelease_update (\<lambda>_. Some x)) run)))
     (recordCIParkRelease E park) Q"
  unfolding recordCIParkRelease_def by (rule does_pre, (rule wp)+) auto

lemma repair_key_run [simp]: "ciparkRepairKey run n = repair_key (m_UID (r_meta run)) n"
  by (simp add: ciparkRepairKey_def repair_key_def)

lemma abs_end_park:
  "s_CIPark (r_status run) = Some p \<Longrightarrow>
   abs_run (upd_status (end_park run outcome fence) run) =
     (if fence = []
      then (abs_run run)\<lparr>mc_park := Some (p\<lparr>pk_LastOutcome := outcome\<rparr>), mc_repair := None\<rparr>
      else (abs_run run)\<lparr>mc_park := Some (p\<lparr>pk_LastOutcome := outcome\<rparr>), mc_repair := None,
         mc_settle := Some (settlement fence (repair_key (m_UID (r_meta run)) (pk_Attempts p)) outcome [])\<rparr>)"
  by (simp add: abs_run_def end_park_def Let_def)

lemma finish_write:
  assumes "s_Phase (r_status b) = PhaseVerifying" and "s_CIPark (r_status b) \<noteq> None"
    and "fence = fence_of (s_CIRepair (r_status b))"
    and "abs_run a = abs_run (upd_status (end_park b outcome fence) b) \<or>
      fence = [] \<and> (\<exists>rl. abs_run a = (abs_run (upd_status (end_park b outcome []) b))\<lparr>mc_release := rl\<rparr>)"
  shows "machine_write E b a"
proof -
  obtain p where p: "s_CIPark (r_status b) = Some p" using assms(2) by auto
  note steps = step.finish_fenced [of "abs_run b" p "maxRestarts E" outcome]
    step.finish_free [of "abs_run b" p "maxRestarts E" _ outcome]
  show ?thesis
  proof (cases "fence = []")
    case True
    let ?M = "abs_run (upd_status (end_park b outcome []) b)"
    have "\<exists>rl. ?M = ?M\<lparr>mc_release := rl\<rparr>" by (rule exI [of _ "mc_release ?M"]) simp
    with True assms(4) obtain rl where "abs_run a = ?M\<lparr>mc_release := rl\<rparr>" by metis
    with True p assms(1,3) steps(2) [of rl] show ?thesis
      unfolding machine_write_def by (simp add: abs_end_park)
  next
    case False
    with p assms steps(1) show ?thesis unfolding machine_write_def by (simp add: abs_end_park)
  qed
qed

lemma phase_end_park [simp]: "s_Phase (end_park run outcome fence s) = s_Phase s"
  by (simp add: end_park_def Let_def split: option.splits)

lemma refines_finishCIPark:
  "refines E (\<lambda>run. s_Phase (r_status run) = PhaseVerifying \<and> s_CIPark (r_status run) \<noteq> None
       \<and> fenceToken = fence_of (s_CIRepair (r_status run)))
     (finishCIPark E observation outcome fenceToken) (\<lambda>_ _. True)"
  unfolding refines_def finishCIPark_def finish_transition_def
  by (rule does_pre, (rule wp)+) (auto intro!: finish_write dest!: unowed_eq(1))

lemmas wp_finishCIPark [wp] = refines_finishCIPark [THEN refines_wp]

section \<open>Abandoning a park\<close>

lemma abandon_fenced_write:
  assumes "s_Phase (r_status b) = PhaseVerifying" and "s_CIRepair (r_status b) = Some attempt"
    and "rp_FenceToken attempt \<noteq> []"
    and "abs_run a = (abs_run b)\<lparr>mc_park := None, mc_repair := None,
      mc_settle := Some (fenced_outcome b attempt observation)\<rparr>"
  shows "machine_write E b a"
  unfolding machine_write_def assms(4)
  by (rule step.abandon_fenced [of _ attempt])
    (use assms in \<open>auto simp: fenced_outcome_def settlement_def Let_def split: option.splits\<close>)

lemma abs_abandon [simp]:
  "abs_run (upd_status (\<lambda>s. s\<lparr>s_CISettlement := st s, s_CIParkDeferral := None, s_CIRepair := None,
       s_CIPark := None\<rparr>) run) =
     (abs_run run)\<lparr>mc_park := None, mc_repair := None, mc_settle := st (r_status run)\<rparr>"
  by (simp add: abs_run_def)

lemma refines_abandonFencedCIPark:
  "refines E (\<lambda>run. s_Phase (r_status run) = PhaseVerifying \<and> s_CIRepair (r_status run) = Some attempt
       \<and> rp_FenceToken attempt \<noteq> [])
     (abandonFencedCIPark E attempt observation) (\<lambda>_ run. s_Phase (r_status run) = PhaseVerifying)"
  unfolding refines_def abandonFencedCIPark_def
  by (rule does_pre, (rule wp)+) (auto intro!: abandon_fenced_write dest: abs_phase)

lemma abandon_free_write:
  assumes "s_Phase (r_status b) = PhaseVerifying" and "fence_of (s_CIRepair (r_status b)) = []"
    and "unowed (abs_run a) = unowed ((abs_run b)\<lparr>mc_park := None, mc_repair := None\<rparr>)"
    and "map_option se_FenceToken (s_CISettlement (r_status a)) = map_option se_FenceToken (s_CISettlement (r_status b))"
  shows "machine_write E b a"
proof -
  have "abs_run a = (abs_run b)\<lparr>mc_park := None, mc_repair := None, mc_settle := s_CISettlement (r_status a),
      mc_release := s_CIParkRelease (r_status a)\<rparr>"
    using assms(3) by (simp add: abs_run_def unowed_def)
  then show ?thesis
    unfolding machine_write_def using assms step.abandon_free [of "abs_run b"] by simp
qed

lemma adopt_key_fence [simp]:
  "map_option se_FenceToken (adopt_key run park st) = map_option se_FenceToken st"
  by (cases st) (auto simp: adopt_key_def)

lemma refines_abandon_unfenced:
  "refines E (\<lambda>run. s_Phase (r_status run) = PhaseVerifying \<and> fence_of (s_CIRepair (r_status run)) = [])
     (abandon_unfenced E) (\<lambda>_ run. s_Phase (r_status run) = PhaseVerifying)"
  unfolding refines_def abandon_unfenced_def
  by (rule does_pre, (rule wp)+) (auto intro!: abandon_free_write simp: unowed_def dest: abs_phase)

lemma refines_abandonCIPark:
  "refines E (\<lambda>run. s_Phase (r_status run) = PhaseVerifying)
     (abandonCIPark E observation) (\<lambda>_ run. s_Phase (r_status run) = PhaseVerifying)"
  unfolding refines_def abandonCIPark_def
  by (rule does_pre, (rule wp refines_abandonFencedCIPark [THEN refines_wp]
        refines_abandon_unfenced [THEN refines_wp])+) (auto simp: fence_of_def)

lemmas wp_abandonCIPark [wp] = refines_abandonCIPark [THEN refines_wp]

section \<open>Settling, holding and resuming\<close>

lemma does_ciparkWindowExpired [wp]: "does W C (\<lambda>run. \<forall>a. Q a run) (ciparkWindowExpired E park policy) Q"
  unfolding ciparkWindowExpired_def by (rule does_pre, (rule wp)+) auto

lemma does_ciRepairPolicy [wp]: "does W C (\<lambda>run. \<forall>a. Q a run) (ciRepairPolicy E) Q"
  unfolding ciRepairPolicy_def by (rule does_pre, (rule wp)+) auto

lemma does_ciparkCapacityAvailable [wp]: "does W C (\<lambda>run. \<forall>a. Q a run) (ciparkCapacityAvailable E) Q"
  unfolding ciparkCapacityAvailable_def by (rule does_pre, (rule wp)+) auto

text \<open>A parked run between observations: it is verifying and no attempt is in flight.\<close>

definition parked_at :: "CIParkState \<Rightarrow> CoderRun \<Rightarrow> bool" where
  "parked_at park run \<longleftrightarrow> s_Phase (r_status run) = PhaseVerifying \<and> s_CIPark (r_status run) = Some park
     \<and> s_CIRepair (r_status run) = None"

lemma refines_holdCIPark:
  "refines E (parked_at park) (holdCIPark E park' policy observation) (\<lambda>_ _. True)"
  unfolding refines_def holdCIPark_def parked_at_def
  by (rule does_pre, (rule wp)+) (auto simp: fence_of_def)

lemma release_write:
  assumes "s_Phase (r_status b) = PhaseVerifying" and "abs_run a = (abs_run b)\<lparr>mc_release := s_CIParkRelease (r_status a)\<rparr>"
  shows "machine_write E b a"
  unfolding machine_write_def by (subst assms(2), rule step.record_release) (simp add: assms(1))

lemma refines_green_transition:
  "refines E (\<lambda>run. s_Phase (r_status run) = PhaseVerifying) (green_transition E pr) (\<lambda>_ _. True)"
  unfolding refines_def green_transition_def by (rule does_pre, (rule wp)+) auto

lemmas wp_green_transition [wp] = refines_green_transition [THEN refines_wp]

lemma refines_settleCIParkGreen:
  "refines E (\<lambda>run. s_Phase (r_status run) = PhaseVerifying)
     (settleCIParkGreen E observation greenSettled) (\<lambda>_ _. True)"
  unfolding refines_def settleCIParkGreen_def
  by (rule does_pre, (rule wp)+)
    (auto intro!: release_write simp: abs_run_def dest: abs_phase)

lemmas wp_settleCIParkGreen [wp] = refines_settleCIParkGreen [THEN refines_wp]

lemma refines_settleCIPark:
  "refines E (parked_at park)
     (settleCIPark E observation names remaining failureSettled greenSettled) (\<lambda>_ _. True)"
  unfolding refines_def settleCIPark_def parked_at_def
  by (rule does_pre, (rule wp)+) (auto simp: fence_of_def)

lemma arm_write:
  assumes "parked_at park b" and "pk_Attempts park + 1 \<le> cp_MaxAttempts policy"
  shows "machine_write E b (stamped b (upd_status (arm_repair park policy observation selector fence) b) now)"
proof -
  let ?a = "stamped b (upd_status (arm_repair park policy observation selector fence) b) now"
  obtain r where r: "s_CIRepair (r_status ?a) = Some r" by (simp add: arm_repair_def)
  then have "rp_Head r = pk_Head park" "rp_Attempt r = pk_Attempts park + 1" "rp_MaxAttempts r = cp_MaxAttempts policy"
    by (auto simp: arm_repair_def)
  moreover have "abs_run ?a = (abs_run b)\<lparr>mc_phase := PhaseClaimed,
      mc_park := Some (park\<lparr>pk_Attempts := rp_Attempt r\<rparr>), mc_repair := Some r\<rparr>"
    using assms(1) r by (auto simp: abs_run_def arm_repair_def parked_at_def)
  ultimately show ?thesis
    unfolding machine_write_def using assms step.arm [of "abs_run b" park r] by (simp add: parked_at_def)
qed

lemma refines_resumeCIPark:
  "refines E (\<lambda>run. parked_at park run \<and> pk_Attempts park + 1 \<le> cp_MaxAttempts policy)
     (resumeCIPark E park policy observation selector failureSettled) (\<lambda>_ _. True)"
  unfolding refines_def resumeCIPark_def reserveCIRepair_def
  by (rule does_pre, (rule wp)+) (auto intro: arm_write simp: parked_at_def fence_of_def)

text \<open>The trigger resumes a repair only while the budget lasts.\<close>

lemma resume_budget:
  "ClassifyCIParkTrigger observation head selector remaining = CIParkResumeRepair \<Longrightarrow> 0 < remaining"
  by (auto simp: ClassifyCIParkTrigger_def split: if_splits prod.splits)

lemma refines_act_on_trigger:
  "refines E (parked_at park)
     (act_on_trigger E park policy observation failureSettled greenSettled) (\<lambda>_ _. True)"
  unfolding act_on_trigger_def Let_def
  by (auto split: CIParkTrigger.split dest!: resume_budget
      intro!: refines_holdCIPark refines_settleCIPark
        does_pre [OF refines_resumeCIPark [unfolded refines_def], folded refines_def])

lemmas wp_act_on_trigger [wp] = refines_act_on_trigger [THEN refines_wp]

section \<open>One observation of a parked run\<close>

lemma core_clear [core_intro]: "keeps_core E P (clearCIParkInapplicable E)"
  unfolding clearCIParkInapplicable_def by (intro core_get core_intro core_updates) simp

lemma core_mark [core_intro]: "keeps_core E P (markCIParkInapplicable E observation)"
  unfolding markCIParkInapplicable_def by (intro core_get core_intro core_updates) auto

lemma core_clear_write [core_intro]: "keeps_core E P (clear_inapplicable_write E)"
  unfolding clear_inapplicable_write_def by (intro core_get core_intro core_updates) auto

text \<open>The account after one observation that found progress.\<close>

lemma abs_advance_park:
  "abs_run (upd_status (advance_park E before park established republished attempt candidates) run) =
     (abs_run run)\<lparr>mc_park := Some park, mc_repair := None,
       mc_settle := (case attempt of None \<Rightarrow> s_CISettlement (r_status run)
         | Some a \<Rightarrow> if republished \<and> rp_FenceToken a \<noteq> []
             then Some (settlement (rp_FenceToken a) (repair_key (m_UID (r_meta before)) (rp_Attempt a))
               CIParkOutcomeRepushed (pk_Head park))
             else s_CISettlement (r_status run))\<rparr>"
  by (simp add: abs_run_def advance_park_def Let_def split: option.splits)

lemma advance_write:
  assumes "nextCIPark (s_CIPark (r_status b)) head (s_CIRepair (r_status b)) now = (Some park, established, republished, np)"
    and "s_Phase (r_status b) = PhaseVerifying" and "abs_run run = abs_run b"
  shows "machine_write E b (stamped b' (upd_status (advance_park E' b park established republished
      (s_CIRepair (r_status b)) candidates) run) now')" (is "machine_write E b ?a")
proof -
  let ?M = "abs_run b"
  let ?settle = "case mc_repair ?M of None \<Rightarrow> mc_settle ?M
    | Some a \<Rightarrow> if republished \<and> rp_FenceToken a \<noteq> []
        then Some (settlement (rp_FenceToken a) (repair_key (mc_uid ?M) (rp_Attempt a)) CIParkOutcomeRepushed (pk_Head park))
        else mc_settle ?M"
  have settle: "s_CISettlement (r_status run) = mc_settle ?M" using assms(3) [symmetric] by simp
  have a: "abs_run ?a = ?M\<lparr>mc_park := Some park, mc_repair := None, mc_settle := ?settle\<rparr>"
    unfolding abs_bookkeeping abs_advance_park assms(3) settle by (simp split: option.split)
  have keep_settle: "?M\<lparr>mc_park := q, mc_repair := None, mc_settle := mc_settle ?M\<rparr> = ?M\<lparr>mc_park := q, mc_repair := None\<rparr>"
    for q by simp
  consider (fresh) "mc_park ?M = None" "pk_Attempts park = 0" "\<not> republished"
    | (moved) p where "mc_park ?M = Some p" "pk_Head park \<noteq> pk_Head p" "pk_Attempts park = pk_Attempts p"
        "republished = (0 < pk_Attempts p)"
    | (same) "mc_park ?M = Some park" "\<not> republished"
        "\<And>r. mc_repair ?M = Some r \<Longrightarrow> \<not> (0 < pk_Attempts park \<and> pk_Head park = rp_Head r)"
    using assms(1) by (auto simp: nextCIPark_def split: option.splits if_splits)
  then have "step (maxRestarts E) ?M (abs_run ?a)"
  proof cases
    case fresh
    have kept: "?settle = mc_settle ?M" using fresh by (simp split: option.splits)
    show ?thesis unfolding a kept keep_settle using fresh assms(2) step.park [of ?M park] by simp
  next
    case moved
    then show ?thesis unfolding a using assms(2) by (intro step.republish) (auto split: option.splits)
  next
    case same
    have kept: "?settle = mc_settle ?M" using same by (simp split: option.splits)
    have keep_park: "?M\<lparr>mc_park := Some park, mc_repair := None\<rparr> = ?M\<lparr>mc_repair := None\<rparr>"
      unfolding same(1) [symmetric] by simp
    show ?thesis unfolding a kept keep_settle unfolding keep_park using same assms(2) step.stay [of ?M park] by simp
  qed
  then show ?thesis by (simp add: machine_write_def)
qed

lemma no_progress:
  "nextCIPark current head attempt now = (None, flags) \<Longrightarrow> current \<noteq> None"
  by (auto simp: nextCIPark_def split: option.splits if_splits)

lemma abs_pr [simp]: "abs_run (upd_status (s_PR_update f) run) = abs_run run"
  by (simp add: abs_run_def)

lemma parked_abs:
  "parked_at park run \<longleftrightarrow> mc_phase (abs_run run) = PhaseVerifying \<and> mc_park (abs_run run) = Some park
     \<and> mc_repair (abs_run run) = None"
  by (simp add: parked_at_def)

lemma refines_after_advance:
  "refines E (parked_at park)
     (do {
        _ \<leftarrow> (if established then do { _ \<leftarrow> deliverCIParkNotice E; ret () } else ret ());
        _ \<leftarrow> (if fenced then do { _ \<leftarrow> deliverCISettlement E; ret () } else ret ());
        act_on_trigger E park policy observation failureSettled greenSettled
      }) (\<lambda>_ _. True)"
  unfolding refines_def by (rule does_pre, (rule wp)+) (auto simp: parked_abs simp del: abs_sel)

lemma parked_advanced:
  "abs_run run' = abs_run run \<Longrightarrow> s_Phase (r_status run) = PhaseVerifying \<Longrightarrow>
     parked_at park (stamped b (upd_status (advance_park E b' park es rp at cs) run') now)"
  "abs_run run' = abs_run run \<Longrightarrow> s_Phase (r_status run) = PhaseVerifying \<Longrightarrow>
     parked_at park (upd_status (advance_park E b' park es rp at cs) run')"
  by (simp_all only: parked_abs abs_bookkeeping abs_advance_park) simp_all

lemma abs_same:
  assumes "abs_run a = abs_run b"
  shows "s_Phase (r_status a) = s_Phase (r_status b) \<and> s_CIPark (r_status a) = s_CIPark (r_status b)
    \<and> s_CIRepair (r_status a) = s_CIRepair (r_status b)"
  using assms by (simp add: abs_run_def)

lemma refines_advance_and_act:
  "refines E (\<lambda>run. s_Phase (r_status run) = PhaseVerifying)
     (advance_and_act E policy observation head) (\<lambda>_ _. True)"
  unfolding refines_def advance_and_act_def
  by (rule does_pre, (rule refines_after_advance [THEN refines_wp] wp core_wp_all core_clear)+)
    (auto intro!: parked_advanced advance_write simp: fence_of_def dest!: core_abs no_progress dest: abs_same)

lemmas wp_advance_and_act = refines_advance_and_act [THEN refines_wp]

text \<open>An observation the park does not handle leaves the run verifying.\<close>

lemma refines_observeCIPark:
  "refines E (\<lambda>run. s_Phase (r_status run) = PhaseVerifying) (observeCIPark E observation)
     (\<lambda>answer run. fst answer \<or> s_Phase (r_status run) = PhaseVerifying)"
  unfolding refines_def observeCIPark_def fall_through_def handled_def
  by (rule does_pre, (rule wp wp_advance_and_act core_wp_all core_mark core_clear_write)+)
    (auto simp: fence_of_def dest: core_eq(1) split: option.splits)

end
