(* ===== verification/Refine_Liveness.thy ===== *)
theory Refine_Liveness
  imports Refine_Park
begin

text \<open>
  A running run implements the contract: its soft stops, its bounded relaunch, the two backstops and
  the ending of its coordinator are steps of the machine, and it deletes pods only while it runs.
\<close>

section \<open>Soft stop and relaunch\<close>

lemma control_write:
  assumes "s_Phase (r_status b) = PhaseRunning"
    and "abs_run a = (abs_run b)\<lparr>mc_control := s_ControlRequest (r_status a)\<rparr>"
  shows "machine_write E b a"
  unfolding machine_write_def by (subst assms(2), rule step.control) (simp add: assms(1))

lemma refines_syncSoftStop:
  "refines E (\<lambda>run. s_Phase (r_status run) = PhaseRunning) (syncSoftStop E pods)
     (\<lambda>_ run. s_Phase (r_status run) = PhaseRunning)"
  unfolding refines_def syncSoftStop_def
  by (rule does_pre, (rule wp)+)
    (auto intro!: control_write simp: abs_run_def withdraw_soft_stop_def stamp_soft_stop_def
      clearSoftStopCondition_def)

lemmas wp_syncSoftStop [wp] = refines_syncSoftStop [THEN refines_wp]

lemma abs_chargeRelaunch:
  "abs_run (upd_status (chargeRelaunch E now) run) =
     (abs_run run)\<lparr>mc_phase := PhaseClaimed, mc_restarts := s_Restarts (r_status run) + 1, mc_control := None\<rparr>"
  by (simp add: abs_run_def chargeRelaunch_def softStopBeforeRelaunch_def put_condition_def Let_def
      split: option.splits)

lemma relaunch_write:
  assumes "s_Phase (r_status b) = PhaseRunning" and "s_Restarts (r_status b) < maxRestarts E"
  shows "machine_write E b (stamped b (upd_status (chargeRelaunch E' now) b) now')"
  unfolding machine_write_def abs_bookkeeping abs_chargeRelaunch
  using assms step.relaunch [of "abs_run b" "maxRestarts E"] by simp

lemma refines_relaunchAfterInfraLoss:
  "refines E (\<lambda>run. s_Phase (r_status run) = PhaseRunning) (relaunchAfterInfraLoss E reason diagnostic) (\<lambda>_ _. True)"
  unfolding refines_def relaunchAfterInfraLoss_def
  by (rule does_pre, (rule wp)+) (auto intro: relaunch_write)

lemmas wp_relaunch [wp] = refines_relaunchAfterInfraLoss [THEN refines_wp]

section \<open>Programs that only look\<close>

lemma does_list_labelled [wp]: "does W C (\<lambda>run. \<forall>a. Q a run) (list_labelled E vs) Q"
proof (induction vs arbitrary: Q)
  case Nil
  then show ?case by (auto intro: does_pre [OF does_ret])
next
  case (Cons v vs)
  show ?case unfolding list_labelled.simps by (rule does_pre, (rule Cons wp)+) auto
qed

lemma does_list_run_pods [wp]: "does W C (\<lambda>run. \<forall>a. Q a run) (list_run_pods E) Q"
  unfolding list_run_pods_def by (rule does_pre, (rule wp)+) auto

lemma does_coordinatorObjectPresentLive [wp]: "does W C (\<lambda>run. \<forall>a. Q a run) (coordinatorObjectPresentLive E) Q"
  unfolding coordinatorObjectPresentLive_def by (rule does_pre, (rule wp)+) auto

lemma does_lost_diagnostic [wp]: "does W C (\<lambda>run. \<forall>a. Q a run) (lost_diagnostic E pod) Q"
  unfolding lost_diagnostic_def by (rule does_pre, (rule wp)+) auto

lemma does_heartbeat_fresh [wp]: "does W C (\<lambda>r. \<forall>a. Q a r) (heartbeat_fresh E run) Q"
  unfolding heartbeat_fresh_def by (rule does_pre, (rule wp)+) auto

lemma does_started_within [wp]: "does W C (\<lambda>run. \<forall>a. Q a run) (started_within E css) Q"
proof (induction css arbitrary: Q)
  case Nil
  then show ?case by (auto intro: does_pre [OF does_ret])
next
  case (Cons cs css)
  show ?case unfolding started_within.simps by (rule does_pre, (rule Cons wp)+) auto
qed

lemma does_fresh_coordinator [wp]: "does W C (\<lambda>r. \<forall>a. Q a r) (fresh_coordinator E run pods) Q"
proof (induction pods arbitrary: Q)
  case Nil
  then show ?case by (auto intro: does_pre [OF does_ret])
next
  case (Cons pod pods)
  show ?case unfolding fresh_coordinator.simps by (rule does_pre, (rule Cons wp)+) auto
qed

section \<open>Deleting pods\<close>

text \<open>A program that changes no run, and acts on the pods of a running one only.\<close>

abbreviation "while_running E m \<equiv>
  \<forall>Q. does (machine_write E) (permitted E)
    (\<lambda>run. s_Phase (r_status run) = PhaseRunning \<and> (\<forall>a. Q a run)) m Q"

lemma running_deleteObservedPod: "while_running E (deleteObservedPod E pod)"
  unfolding deleteObservedPod_def by (intro allI, rule does_pre, (rule wp)+) auto

lemma running_delete_dead: "while_running E (delete_dead E pods)"
proof (induction pods)
  case Nil
  then show ?case by (auto intro: does_pre [OF does_ret])
next
  case (Cons pod pods)
  show ?case unfolding delete_dead.simps by (intro allI, rule does_pre, (rule Cons [rule_format] wp)+) auto
qed

lemma running_reap_loop: "while_running E (reap_loop E run atCeiling pods flags)"
proof (induction pods arbitrary: flags)
  case Nil
  then show ?case by (auto intro: does_pre [OF does_ret])
next
  case (Cons pod pods)
  obtain m d p where f: "flags = (m, d, p)" by (cases flags) auto
  show ?case
    unfolding f reap_loop.simps
    by (intro allI, rule does_pre, (rule Cons [rule_format] running_deleteObservedPod [rule_format] wp)+) auto
qed

lemmas wp_running [wp] = running_deleteObservedPod [rule_format] running_delete_dead [rule_format]
  running_reap_loop [rule_format]

section \<open>The backstops\<close>

abbreviation "running run \<equiv> s_Phase (r_status run) = PhaseRunning"

lemma refines_charge_loss: "refines E running (charge_loss E dead) (\<lambda>_ _. True)"
  unfolding refines_def charge_loss_def by (rule does_pre, (rule wp)+) auto

lemmas wp_charge_loss [wp] = refines_charge_loss [THEN refines_wp]

lemma refines_free_name:
  assumes "refines E running charge (\<lambda>_ _. True)"
  shows "refines E running (free_name E dead charge) (\<lambda>_ _. True)"
  unfolding free_name_def refines_def
  by (rule does_pre, (rule wp assms [THEN refines_wp])+) auto

lemma does_loss [wp]:
  assumes "does W C P m Q" and "does W C P' n Q" and "\<And>dead. does W C (P'' dead) (f dead) Q"
  shows "does W C (\<lambda>run. P run \<and> P' run \<and> (\<forall>dead. P'' dead run))
    (case x of LossUnsettled \<Rightarrow> m | LossNone \<Rightarrow> n | LossConfirmed dead \<Rightarrow> f dead) Q"
  using assms by (cases x) (auto intro: does_pre)

lemma refines_observeMissingCoordinator: "refines E running (observeMissingCoordinator E) (\<lambda>_ _. True)"
  unfolding refines_def observeMissingCoordinator_def
  by (rule does_pre, (rule wp refines_free_name [OF refines_charge_loss, THEN refines_wp])+) auto

lemma refines_relaunchInfrastructureFailure:
  "refines E running (relaunchInfrastructureFailure E pod kind) (\<lambda>_ _. True)"
  unfolding refines_def relaunchInfrastructureFailure_def Let_def
  by (rule does_pre, (rule wp)+) auto

lemma refines_relaunch_wedged: "refines E running (relaunch_wedged E livePods) (\<lambda>_ _. True)"
  unfolding refines_def relaunch_wedged_def acted_def by (rule does_pre, (rule wp)+) auto

lemma refines_reap_wedged: "refines E running (reap_wedged E atCeiling livePods) (\<lambda>_ _. True)"
  unfolding refines_def reap_wedged_def
  by (rule does_pre, (rule wp refines_relaunch_wedged [THEN refines_wp])+) auto

lemma alive_write:
  "running b \<Longrightarrow> machine_write E b (stamped b (upd_status (s_Restarts_update (\<lambda>_. 0)) b) now)"
  using step.alive [of "abs_run b" "maxRestarts E"] by (simp add: machine_write_def abs_run_def)

lemma refines_reset_streak: "refines E running (reset_streak E coordinator) (\<lambda>_ _. True)"
  unfolding refines_def reset_streak_def by (rule does_pre, (rule wp)+) (auto intro: alive_write)

lemma refines_stale_coordinator: "refines E running (stale_coordinator E atCeiling livePods) (\<lambda>_ _. True)"
  unfolding refines_def stale_coordinator_def
  by (rule does_pre, (rule wp refines_reap_wedged [THEN refines_wp])+) auto

lemma refines_judge_liveness: "refines E running (judge_liveness E cachedPods livePods) (\<lambda>_ _. True)"
  unfolding refines_def judge_liveness_def acted_def
  by (rule does_pre, (rule wp refines_reset_streak [THEN refines_wp] refines_stale_coordinator [THEN refines_wp])+) auto

text \<open>The live copy is judged in its own memory: the caller finds its own run again.\<close>

lemma does_on_run:
  assumes "does W C P m (\<lambda>_ _. True)"
  shows "does W C (\<lambda>run. P fresh \<and> (\<forall>a. Q a run)) (on_run fresh m) Q"
proof (rule doesI)
  fix s a t assume pre: "P fresh \<and> (\<forall>a. Q a (mem s))" and r: "run_state (on_run fresh m) s = (a, t)"
  obtain b u where u: "run_state m (s\<lparr>mem := fresh\<rparr>) = (b, u)" by fastforce
  with r have t: "a = b" "t = u\<lparr>mem := mem s\<rparr>" by (simp_all add: on_run_def)
  from doesD [OF assms _ u] pre t show "Q a (mem t) \<and> logs W C (trace s) (trace t)" by simp
qed

lemma wp_checkLiveness [wp]:
  "does (machine_write E) (permitted E) (\<lambda>run. \<forall>a. Q a run) (checkLiveness E cachedPods) Q"
  unfolding checkLiveness_def
  by (rule does_pre, (rule wp does_on_run [OF refines_judge_liveness [unfolded refines_def]])+)
    (auto simp: reobserve_def not_handled_def)

section \<open>The ending of a coordinator\<close>

lemma verify_write:
  "running b \<Longrightarrow> machine_write E b (stamped b (upd_status (enter_verifying declared summary) b) now)"
  using step.verify [of "abs_run b" "maxRestarts E"]
  by (simp add: machine_write_def abs_run_def enter_verifying_def Let_def)

lemma observe_start_running [wp]:
  "does (machine_write E) (permitted E) (\<lambda>run. running run \<and> (\<forall>a run'. running run' \<longrightarrow> Q a run')) (observe_start E pod) Q"
  unfolding observe_start_def
  by (rule does_pre, (rule wp)+) (auto intro!: machine_write_same simp: abs_run_def record_start_def Let_def)

text \<open>The phases a coordinator's ending leads to.\<close>

definition concludes :: "Phase \<Rightarrow> bool" where
  "concludes phase \<longleftrightarrow> phase = PhaseVerifying \<or> ends_in PhaseRunning phase"

lemma ending_concludes [simp]: "concludes (ending_phase mode en)"
  by (auto simp: concludes_def ending_phase_def phaseForExit_def phaseForNativeResult_def
      split: option.splits Mode.splits NativeResultKind.splits)

lemma nochange_concludes:
  "resolveIssueNoChangePhase run uid = (phase, grounded) \<Longrightarrow> concludes phase"
  by (auto simp: concludes_def resolveIssueNoChangePhase_def split: option.splits if_splits)

text \<open>What an ending leaves in memory before the transition: the phase is still running.\<close>

lemma wp_conclude_phase:
  "does W C (\<lambda>run. running run \<and> (\<forall>phase hold run'. running run' \<longrightarrow> concludes phase \<longrightarrow> Q (phase, hold) run'))
     (conclude_phase E pod en) Q"
  unfolding conclude_phase_def refreshFencedNoChange_def
  by (rule does_pre, (rule wp)+) (auto dest!: nochange_concludes simp: concludes_def [of PhaseAlreadyDone])

lemma wp_acquire_safety:
  "does (machine_write E) (permitted E) (\<lambda>run. running run \<and> (\<forall>a run'. running run' \<longrightarrow> Q a run')) (acquire_safety E cached) Q"
  unfolding acquire_safety_def
  by (rule does_pre, (rule wp)+) (auto intro!: machine_write_same simp: abs_run_def)

lemma refines_end_terminated:
  "refines E (\<lambda>run. running run \<and> ends_in PhaseRunning phase)
     (end_terminated E pod en phase noChangeHold) (\<lambda>_ _. True)"
  unfolding refines_def end_terminated_def
  by (rule does_pre, (rule wp wp_acquire_safety core_wp_all core_commentAlreadyDoneHold)+) auto

lemma refines_conclude: "refines E running (conclude E pod en) (\<lambda>_ _. True)"
  unfolding refines_def conclude_def
  by (rule does_pre, (rule wp wp_conclude_phase refines_end_terminated [THEN refines_wp]
        refines_relaunchInfrastructureFailure [THEN refines_wp])+)
    (auto intro: verify_write simp: concludes_def)

lemma refines_observe_pods:
  "refines E running (observe_pods E pods) (\<lambda>answer run. answer = None \<longrightarrow> running run)"
proof (induction pods)
  case Nil
  then show ?case by (auto simp: refines_def intro: does_pre [OF does_ret])
next
  case (Cons pod pods)
  show ?case
    unfolding observe_pods.simps refines_def
    by (rule does_pre, (rule wp Cons [THEN refines_wp] refines_conclude [THEN refines_wp])+) auto
qed

lemma refines_observeRunning: "refines E running (observeRunning E) (\<lambda>_ _. True)"
  unfolding refines_def observeRunning_def
  by (rule does_pre, (rule wp refines_observe_pods [THEN refines_wp]
        refines_observeMissingCoordinator [THEN refines_wp])+) auto

end
