(* ===== verification/Refine_Reconcile.thy ===== *)
theory Refine_Reconcile
  imports Refine_Liveness
begin

text \<open>
  The rest of the control loop implements the contract: retry, review, retention, admission, resume
  and grading, and with them the reconcile as a whole.
\<close>

section \<open>Retry\<close>

lemma abs_retry_record:
  "abs_run (upd_status (s_RetryRequest_update f) run) = (abs_run run)\<lparr>mc_retry := f (s_RetryRequest (r_status run))\<rparr>"
  by (simp add: abs_run_def)

lemma wp_write_retry:
  "does (machine_write E) (permitted E)
     (\<lambda>run. terminalPhase (s_Phase (r_status run)) \<and> (\<forall>now. retry_next (s_RetryRequest (r_status run)) (record now))
        \<and> (\<forall>a now run'. abs_run run' = (abs_run run)\<lparr>mc_retry := Some (record now)\<rparr> \<longrightarrow> Q a run'))
     (write_retry E record) Q"
  unfolding write_retry_def setRetryCondition_def set_condition_now_def
  by (rule does_pre, (rule wp)+)
    (auto simp: machine_write_def abs_retry_record intro: step.retry)

text \<open>What a retry may leave: another record on a run that is otherwise the same.\<close>

definition unretried :: "machine \<Rightarrow> machine" where
  "unretried M = M\<lparr>mc_retry := None\<rparr>"

lemma unretried_simps [simp]: "unretried (M\<lparr>mc_retry := x\<rparr>) = unretried M"
  by (simp add: unretried_def)

lemma unretried_same:
  assumes "unretried (abs_run a) = unretried (abs_run b)"
  shows "s_Phase (r_status a) = s_Phase (r_status b) \<and> closed_out a = closed_out b"
  using arg_cong [OF assms, of mc_phase] arg_cong [OF assms, of mc_settle] arg_cong [OF assms, of mc_release]
  by (simp add: unretried_def closed_out_def)

text \<open>A step of the request that lets the reconcile go on has left no request outstanding.\<close>

definition passes :: "CoderRun \<Rightarrow> retry_answer \<Rightarrow> CoderRun \<Rightarrow> bool" where
  "passes run answer run' \<longleftrightarrow> unretried (abs_run run') = unretried (abs_run run) \<and>
     (\<not> fst (snd answer) \<and> snd (snd answer) = None \<longrightarrow> \<not> retryHoldsReap run')"

lemma holds_abs: "retryHoldsReap run \<longleftrightarrow>
    (case mc_retry (abs_run run) of None \<Rightarrow> False | Some record \<Rightarrow> rr_State record = RetryRequestStateRequested)"
  by (simp add: retryHoldsReap_def)

lemma wp_settleRetryOutcome:
  "does (machine_write E) (permitted E)
     (\<lambda>run. terminalPhase (s_Phase (r_status run)) \<and> s_RetryRequest (r_status run) = Some record
        \<and> rr_State record = RetryRequestStateRequested \<and> state \<noteq> RetryRequestStateRequested
        \<and> (\<forall>a run'. passes run a run' \<longrightarrow> Q a run'))
     (settleRetryOutcome E record state reason attemptID) Q"
  unfolding settleRetryOutcome_def
  by (rule does_pre, (rule wp wp_write_retry)+)
    (auto simp: retry_next_def passes_def holds_abs simp del: abs_sel)

lemma wp_callRequeue:
  "does (machine_write E) (permitted E)
     (\<lambda>run. terminalPhase (s_Phase (r_status run)) \<and> s_RetryRequest (r_status run) = Some record
        \<and> rr_State record = RetryRequestStateRequested \<and> (\<forall>a run'. passes run a run' \<longrightarrow> Q a run'))
     (callRequeue E record item) Q"
  unfolding callRequeue_def materializeRetrySuccessor_def
  by (rule does_pre, (rule wp wp_settleRetryOutcome)+) (auto simp: requested_def passes_def)

lemma wp_settleRetryRecord:
  "does (machine_write E) (permitted E)
     (\<lambda>run. terminalPhase (s_Phase (r_status run)) \<and> s_RetryRequest (r_status run) = Some record
        \<and> rr_State record = RetryRequestStateRequested \<and> (\<forall>a run'. passes run a run' \<longrightarrow> Q a run'))
     (settleRetryRecord E record) Q"
  unfolding settleRetryRecord_def
  by (rule does_pre, (rule wp wp_callRequeue)+) (auto simp: passes_def)

text \<open>A new request is taken up where none is outstanding and none was requeued.\<close>

definition idle :: "string \<Rightarrow> CoderRun \<Rightarrow> bool" where
  "idle requestID run \<longleftrightarrow> terminalPhase (s_Phase (r_status run)) \<and>
     (case s_RetryRequest (r_status run) of None \<Rightarrow> True
      | Some r \<Rightarrow> rr_ID r \<noteq> requestID \<and> rr_State r \<notin> {RetryRequestStateRequested, RetryRequestStateRequeued})"

lemma idle_next:
  "idle requestID run \<Longrightarrow> rr_ID new = requestID \<Longrightarrow> rr_State new \<in> {RetryRequestStateRequested, RetryRequestStateRefused}
     \<Longrightarrow> retry_next (s_RetryRequest (r_status run)) new"
  by (auto simp: idle_def retry_next_def split: option.splits RetryRequestState.splits)

lemma idle_terminal: "idle requestID run \<Longrightarrow> terminalPhase (s_Phase (r_status run))"
  by (simp add: idle_def)

lemma requested_state:
  "s_RetryRequest (r_status run') = Some r' \<Longrightarrow> abs_run run' = M\<lparr>mc_retry := Some r\<rparr> \<Longrightarrow> r' = r"
  using abs_sel(10) [of run'] by simp

lemma requested_after:
  "abs_run run' = (abs_run run)\<lparr>mc_retry := Some r\<rparr> \<Longrightarrow> idle requestID run \<Longrightarrow>
     terminalPhase (s_Phase (r_status run')) \<and> s_RetryRequest (r_status run') = Some r"
  by (simp add: idle_def abs_run_def)

lemma wp_writeRetryRefusal:
  "does (machine_write E) (permitted E)
     (\<lambda>run. idle requestID run \<and> (\<forall>a run'. passes run a run' \<longrightarrow> Q a run'))
     (writeRetryRefusal E requestID reason) Q"
  unfolding writeRetryRefusal_def
  by (rule does_pre, (rule wp wp_write_retry)+)
    (auto intro!: idle_next intro: idle_terminal simp: passes_def)

lemma wp_request_and_call:
  "does (machine_write E) (permitted E)
     (\<lambda>run. idle requestID run \<and> (\<forall>a run'. passes run a run' \<longrightarrow> Q a run'))
     (request_and_call E requestID) Q"
  unfolding request_and_call_def
  by (rule does_pre, (rule wp wp_write_retry wp_writeRetryRefusal wp_callRequeue)+)
    (auto intro!: idle_next intro: idle_terminal simp: passes_def dest!: requested_state dest: requested_after)

lemma does_activeOwnerExists [wp]: "does W C (\<lambda>run. \<forall>a. Q a run) (activeOwnerExists E) Q"
  unfolding activeOwnerExists_def by (rule does_pre, (rule wp)+) auto

lemma does_fixPRUpstreamClosed [wp]: "does W C (\<lambda>run. \<forall>a. Q a run) (fixPRUpstreamClosed E) Q"
  unfolding fixPRUpstreamClosed_def by (rule does_pre, (rule wp)+) (auto split: sum.split)

lemma idle_free: "idle requestID run \<Longrightarrow> \<not> retryHoldsReap run"
  by (auto simp: idle_def retryHoldsReap_def split: option.splits)

lemma wp_beginRetry:
  "does (machine_write E) (permitted E)
     (\<lambda>run. idle requestID run \<and> (\<forall>a run'. passes run a run' \<longrightarrow> Q a run')) (beginRetry E requestID) Q"
  unfolding beginRetry_def
  by (rule does_pre, (rule wp wp_writeRetryRefusal wp_request_and_call)+)
    (auto simp: passes_def dest: idle_free)

lemma wp_announceAlreadyRequeued:
  "does (machine_write E) (permitted E)
     (\<lambda>run. \<not> retryHoldsReap run \<and> (\<forall>a run'. passes run a run' \<longrightarrow> Q a run')) (announceAlreadyRequeued E annotation) Q"
  unfolding announceAlreadyRequeued_def
  by (rule does_pre, (rule wp)+)
    (auto simp: passes_def holds_abs core_abs [OF core_annotations] simp del: abs_sel)

text \<open>After its turn a run's retry request is settled, or the reconcile stops there.\<close>

lemma wp_syncRetry:
  "does (machine_write E) (permitted E)
     (\<lambda>run. terminalPhase (s_Phase (r_status run)) \<and> (\<forall>a run'. passes run a run' \<longrightarrow> Q a run')) (syncRetry E) Q"
  unfolding syncRetry_def
  by (rule does_pre, (rule wp wp_settleRetryRecord wp_beginRetry wp_announceAlreadyRequeued)+)
    (auto simp: passes_def idle_def retryHoldsReap_def)

section \<open>Review and retention\<close>

lemma does_merge_wait [wp]: "does W C (\<lambda>run. \<forall>a. Q a run) (merge_wait E) Q"
  unfolding merge_wait_def by (rule does_pre, (rule wp)+) auto

lemma core_keep_observing [core_intro]: "keeps_core E P (keep_observing E)"
  unfolding keep_observing_def stampMergeObserved_def by (intro core_intro)

lemma refines_observeMergedReviewPR:
  "refines E (\<lambda>run. s_Phase (r_status run) = PhaseAwaitingReview) (observeMergedReviewPR E) (\<lambda>_ _. True)"
  unfolding refines_def observeMergedReviewPR_def
  by (rule does_pre, (rule wp core_wp_all core_keep_observing)+) auto

lemma does_withinAuditFloor [wp]: "does W C (\<lambda>run. \<forall>a. Q a run) (withinAuditFloor E) Q"
  unfolding withinAuditFloor_def by (rule does_pre, (rule wp)+) auto

lemma refines_reapTerminal:
  "refines E (\<lambda>run. permitted E run DeleteRun) (reapTerminal E marker retention floor_applies) (\<lambda>_ _. True)"
  unfolding refines_def reapTerminal_def delete_at_boundary_def
  by (rule does_pre, (rule wp)+) auto

lemmas wp_reapTerminal = refines_reapTerminal [THEN refines_wp]

text \<open>A done run is deleted only when it owes its source nothing.\<close>

lemma refines_resolveCompleted:
  "refines E (\<lambda>run. s_Phase (r_status run) = PhaseDone \<and> closed_out run) (resolveCompleted E) (\<lambda>_ _. True)"
  unfolding refines_def resolveCompleted_def reapDone_def
  by (rule does_pre, (rule wp wp_reapTerminal)+) auto

section \<open>Terminal duties\<close>

lemma refines_terminal_reap:
  "refines E (\<lambda>run. s_Phase (r_status run) = PhaseFailed \<or> s_Phase (r_status run) = PhaseNeedsHuman)
     (terminal_reap E) (\<lambda>_ _. True)"
  unfolding refines_def terminal_reap_def
  by (rule does_pre, (rule wp wp_reapTerminal)+) (auto simp: closed_out_def)

lemma core_recover_own: "keeps_core E isCapacityExhaustionRun (recoverCapacityExhaustion E adapter item)"
  by (rule core_recoverCapacityExhaustion)

lemma refines_terminal_duties:
  "refines E (\<lambda>run. terminalPhase (s_Phase (r_status run)) \<and>
        (s_Phase (r_status run) = PhaseAlreadyDone \<longrightarrow> closed_out run \<and> \<not> retryHoldsReap run))
     (terminal_duties E) (\<lambda>_ _. True)"
  unfolding refines_def terminal_duties_def reapAlreadyDone_def
  by (rule does_pre, (rule wp wp_reapTerminal refines_retryTerminalLifecycle [THEN refines_wp]
        refines_observeMergedReviewPR [THEN refines_wp] refines_terminal_reap [THEN refines_wp]
        keeps_core_wp [OF core_recover_own, unfolded refines_def])+) auto

lemma abs_abandonCIRepairAttempt:
  "abs_run (upd_status (abandonCIRepairAttempt run) run) = abandoned (abs_run run)"
  by (simp add: abs_run_def abandonCIRepairAttempt_def abandoned_def Let_def
      ciparkRepairKey_def repair_key_def settlement_def split: option.splits)

lemma backfill_write:
  "terminalPhase (s_Phase (r_status b)) \<Longrightarrow>
     machine_write E b (stamped b (upd_status (abandonCIRepairAttempt b) b) now)"
  using step.backfill [of "abs_run b" "maxRestarts E"]
  by (simp add: machine_write_def abs_abandonCIRepairAttempt)

lemma core_same:
  assumes "core a = core b"
  shows "s_Phase (r_status a) = s_Phase (r_status b) \<and> closed_out a = closed_out b
    \<and> retryHoldsReap a = retryHoldsReap b"
  using core_abs [OF assms] by (simp add: abs_run_def closed_out_def retryHoldsReap_def)

lemma wp_backfill_fence:
  "does (machine_write E) (permitted E)
     (\<lambda>run. terminalPhase (s_Phase (r_status run)) \<and>
        (\<forall>a run'. s_Phase (r_status run') = s_Phase (r_status run) \<and>
            (a = None \<and> closed_out run \<longrightarrow> closed_out run') \<longrightarrow> Q a run'))
     (backfill_fence E) Q"
  unfolding backfill_fence_def
  by (rule does_pre, (rule wp)+)
    (auto intro!: backfill_write simp: closed_out_def abandonCIRepairAttempt_def Let_def split: option.splits)

lemma refines_reconcileTerminal:
  "refines E (\<lambda>run. terminalPhase (s_Phase (r_status run)) \<and>
        (s_Phase (r_status run) = PhaseAlreadyDone \<longrightarrow> closed_out run))
     (reconcileTerminal E) (\<lambda>_ _. True)"
  unfolding refines_def reconcileTerminal_def
  by (rule does_pre, (rule wp wp_backfill_fence wp_syncRetry core_wp_all [OF core_recordCapacityCooldown]
      refines_terminal_duties [THEN refines_wp])+)
    (auto simp: passes_def dest!: unretried_same core_same)

section \<open>Verifying\<close>

lemma abs_grade_candidate [simp]: "abs_run (upd_status (grade_candidate pr green failed) run) = abs_run run"
  by (simp add: abs_run_def grade_candidate_def)

lemma phase_grade_candidate [simp]: "s_Phase (grade_candidate pr green failed s) = s_Phase s"
  by (simp add: grade_candidate_def)

lemma refines_grade: "refines E (\<lambda>run. s_Phase (r_status run) = PhaseVerifying) (grade E observation) (\<lambda>_ _. True)"
  unfolding refines_def grade_def
  by (rule does_pre, (rule wp)+) (auto intro!: machine_write_same)

lemma refines_observeVerifying:
  "refines E (\<lambda>run. s_Phase (r_status run) = PhaseVerifying) (observeVerifying E) (\<lambda>_ _. True)"
  unfolding refines_def observeVerifying_def
  by (rule does_pre, (rule wp refines_grade [THEN refines_wp] refines_observeCIPark [THEN refines_wp])+) auto

section \<open>Launching\<close>

abbreviation "claimed run \<equiv> s_Phase (r_status run) = PhaseClaimed"

lemma wp_preLaunch:
  "does (machine_write E) (permitted E) (\<lambda>run. claimed run \<and> (\<forall>a. Q a run)) (preLaunch E adapter item) Q"
  unfolding preLaunch_def by (rule does_pre, (rule wp)+) auto

lemma does_preflight_wait [wp]: "does W C (\<lambda>run. \<forall>a. Q a run) (preflight_wait E) Q"
  unfolding preflight_wait_def by (rule does_pre, (rule wp)+) auto

lemma abs_set_head [simp]: "abs_run (upd_status (set_head head) run) = abs_run run"
  by (simp add: abs_run_def set_head_def)

lemma phase_set_head [simp]: "s_Phase (set_head head s) = s_Phase s"
  by (simp add: set_head_def)

lemma wp_resolve_head:
  "does (machine_write E) (permitted E)
     (\<lambda>run. claimed run \<and> (\<forall>a run'. a = None \<longrightarrow> claimed run' \<longrightarrow> Q a run') \<and> (\<forall>a run'. a \<noteq> None \<longrightarrow> Q a run'))
     (resolve_head E item) Q"
  unfolding resolve_head_def rolled_back_def
  by (rule does_pre, (rule wp)+) (auto intro!: machine_write_same)

lemma start_write:
  "claimed b \<Longrightarrow> machine_write E b (stamped b (upd_status (s_Phase_update (\<lambda>_. PhaseRunning)) b) now)"
  using step.start [of "abs_run b" "maxRestarts E"] by (simp add: machine_write_def abs_run_def)

lemma refines_launch_coordinator: "refines E claimed (launch_coordinator E item) (\<lambda>_ _. True)"
  unfolding refines_def launch_coordinator_def rolled_back_def
  by (rule does_pre, (rule wp)+) (auto intro: start_write)

lemmas wp_launching = wp_preLaunch wp_resolve_head refines_launch_coordinator [THEN refines_wp]

lemma refines_resumeClaimed: "refines E claimed (resumeClaimed E) (\<lambda>_ _. True)"
  unfolding refines_def resumeClaimed_def rolled_back_def
  by (rule does_pre, (rule wp wp_launching)+) auto

lemma refines_start_claimed: "refines E claimed (start_claimed E adapter item) (\<lambda>_ _. True)"
  unfolding refines_def start_claimed_def rolled_back_def
  by (rule does_pre, (rule wp wp_launching)+) auto

section \<open>Admission\<close>

abbreviation "unclaimed run \<equiv> s_Phase (r_status run) \<in> {PhaseUnset, PhasePending}"

lemma wp_claim_item:
  "does (machine_write E) (permitted E) (\<lambda>run. unclaimed run \<and> (\<forall>a. Q a run)) (claim_item E adapter item) Q"
  unfolding claim_item_def by (rule does_pre, (rule wp)+) auto

lemma abs_admit:
  "abs_run (upd_status (admit adapter item) run) = (abs_run run)\<lparr>mc_phase := PhaseClaimed\<rparr>"
  "abs_run (upd_status (s_AdmittedAt_update f) run) = abs_run run"
  by (simp_all add: abs_run_def admit_def)

lemma phase_admit [simp]: "s_Phase (admit adapter item s) = PhaseClaimed"
  by (simp add: admit_def)

lemma wp_reserve_claim:
  "does (machine_write E) (permitted E)
     (\<lambda>run. unclaimed run \<and> (\<forall>a run'. claimed run' \<longrightarrow> Q (Inr a) run') \<and> (\<forall>e run'. Q (Inl e) run'))
     (reserve_claim E adapter item) Q"
  unfolding reserve_claim_def
  by (rule does_pre, (rule wp wp_claim_item)+) (auto simp: machine_write_def abs_admit intro: step.admit)

lemma does_lane_gate [wp]: "does W C (\<lambda>run. \<forall>a. Q a run) (lane_gate E) Q"
  unfolding lane_gate_def by (rule does_pre, (rule wp)+) auto

lemma refines_admit_pending: "refines E unclaimed (admit_pending E) (\<lambda>_ _. True)"
  unfolding refines_def admit_pending_def
  by (rule does_pre, (rule wp wp_reserve_claim refines_start_claimed [THEN refines_wp])+) auto

section \<open>The reconcile\<close>

lemma wp_deliver_notice:
  "does (machine_write E) (permitted E) (\<lambda>run. \<forall>a run'. abs_run run' = abs_run run \<longrightarrow> Q a run') (deliver_notice E) Q"
  unfolding deliver_notice_def by (rule does_pre, (rule wp)+) (auto intro!: machine_write_same)

lemma wp_deliver_closes:
  "does (machine_write E) (permitted E)
     (\<lambda>run. \<forall>a run'. unowed (abs_run run') = unowed (abs_run run) \<and> (\<not> a \<longrightarrow> closed_out run') \<longrightarrow> Q a run')
     (deliver_closes E) Q"
  unfolding deliver_closes_def
  by (rule does_pre, (rule wp)+)
    (auto simp: closed_out_def abs_sel(5,6) [symmetric] simp del: abs_sel)

lemma does_phase [wp]:
  assumes "does W C P1 m1 Q" "does W C P2 m2 Q" "does W C P3 m3 Q" "does W C P4 m4 Q" "does W C P5 m5 Q"
    "does W C P6 m6 Q" "does W C P7 m7 Q"
  shows "does W C (\<lambda>run. (ph = PhaseRunning \<longrightarrow> P1 run) \<and> (ph = PhaseVerifying \<longrightarrow> P2 run)
      \<and> (ph = PhaseClaimed \<longrightarrow> P3 run) \<and> (ph = PhaseDone \<longrightarrow> P4 run) \<and> (ph = PhaseUnset \<longrightarrow> P5 run)
      \<and> (ph = PhasePending \<longrightarrow> P6 run) \<and> (terminalPhase ph \<and> ph \<noteq> PhaseDone \<longrightarrow> P7 run))
    (case ph of PhaseRunning \<Rightarrow> m1 | PhaseVerifying \<Rightarrow> m2 | PhaseClaimed \<Rightarrow> m3 | PhaseDone \<Rightarrow> m4
       | PhaseUnset \<Rightarrow> m5 | PhasePending \<Rightarrow> m6 | _ \<Rightarrow> m7) Q"
  using assms by (cases ph) (auto intro: does_pre)

lemma refines_dispatch:
  "refines E (\<lambda>run. s_Phase (r_status run) \<in> {PhaseDone, PhaseAlreadyDone} \<longrightarrow> closed_out run)
     (dispatch E closeRetry) (\<lambda>_ _. True)"
  unfolding refines_def dispatch_def
  by (rule does_pre, (rule wp refines_observeRunning [THEN refines_wp] refines_observeVerifying [THEN refines_wp]
        refines_resumeClaimed [THEN refines_wp] refines_resolveCompleted [THEN refines_wp]
        refines_admit_pending [THEN refines_wp] refines_reconcileTerminal [THEN refines_wp])+) auto

lemma refines_reconcile_run: "refines E (\<lambda>_. True) (reconcile_run E) (\<lambda>_ _. True)"
  unfolding refines_def reconcile_run_def
  by (rule does_pre, (rule wp wp_deliver_notice wp_deliver_closes refines_dispatch [THEN refines_wp])+)
    (auto simp: active_phase_def held_terminal_def)

text \<open>The controller implements its contract.\<close>

lemma refines_Reconcile: "refines E (\<lambda>_. True) (Reconcile E namespace) (\<lambda>_ _. True)"
  unfolding refines_def Reconcile_def
  by (rule does_pre, (rule wp refines_reconcile_run [THEN refines_wp])+) auto

end
