(* ===== verification/Journal.thy ===== *)
theory Journal
  imports Refine_Reconcile
begin

text \<open>
  What one reconcile did, as a list of status writes and calls in order; the reading of a contract
  that every reconcile honours; and a small world on which the model is evaluated.
\<close>

section \<open>The journal of a reconcile\<close>

definition journal :: "env \<Rightarrow> string \<Rightarrow> st \<Rightarrow> event list" where
  "journal E namespace s = acts (Reconcile E namespace) s"

lemma journal_refines: "list_all (event_ok (machine_write E) (permitted E)) (journal E namespace s)"
proof -
  let ?s = "s\<lparr>trace := []\<rparr>"
  obtain a t where t: "run_state (Reconcile E namespace) ?s = (a, t)" by fastforce
  from doesD(2) [OF refines_Reconcile [unfolded refines_def] _ t]
  have "list_all (event_ok (machine_write E) (permitted E)) (trace t)" by (auto simp: logs_def)
  then show ?thesis by (simp add: journal_def acts_def t)
qed

lemma journal_write:
  assumes "EPatch before after r \<in> set (journal E namespace s)"
  shows "step (maxRestarts E) (abs_run before) (abs_run after)"
  using journal_refines [of E namespace s] assms by (auto simp: list_all_iff machine_write_def)

lemma journal_call:
  assumes "ECall run c r \<in> set (journal E namespace s)"
  shows "permitted E run c"
  using journal_refines [of E namespace s] assms by (auto simp: list_all_iff)

section \<open>A world to evaluate\<close>

definition sample_adapter :: adapter where
  "sample_adapter = \<lparr>ad_CIParkLifecycle = True, ad_CIParkLifecycleUnsupported = None, ad_AttemptRequeuer = True,
     ad_Reporter = False, ad_CloseReporter = False, ad_ClaimerWithReceipt = False, ad_PreLauncher = False,
     ad_CapacityRecoveryPreparer = False, ad_CapacityRecovery = False\<rparr>"

text \<open>A world in which every write and call succeeds, the clock counts seconds, and the cache holds
  the given run; everything else is unavailable.\<close>

definition sample_env :: "CoderRun \<Rightarrow> env" where
  "sample_env run =
     (let down = newError ''unavailable'' in
      \<lparr>e_now = (\<lambda>n. int n * Second), e_patch = (\<lambda>_. None), e_call = (\<lambda>_ _. None), e_grant = (\<lambda>_. []),
       e_requeue = (\<lambda>_. \<lparr>ar_AttemptID = [], ar_ControllerMaterializesSuccessor = False\<rparr>),
       e_close = (\<lambda>_. \<lparr>cz_Action = [], cz_Reason = [], cz_Reasons = [], cz_HeadSHA = [], cz_EvidenceDigest = []\<rparr>),
       e_receipt = (\<lambda>_. []),
       e_proof = (\<lambda>_. \<lparr>cq_FenceToken = [], cq_WorkIdentity = [], cq_SafetyProof = [], cq_Branch = [], cq_PR = []\<rparr>),
       e_head = (\<lambda>_. Inl down), e_lane = (\<lambda>_. Inl down), e_lanes = (\<lambda>_. Inl down), e_runs = (\<lambda>_. Inl down),
       e_run = (\<lambda>_. Inr run), e_pods = (\<lambda>_. Inr []), e_pod = (\<lambda>_. Inl down), e_observe = (\<lambda>_. Inl down),
       e_pull = (\<lambda>_. Inl down), e_sources = Some [(''src'', sample_adapter)], e_conds = kube_conditions,
       e_decode = (\<lambda>_. None), e_decodeObserver = (\<lambda>_. None), e_redact = id, e_observer = False, e_launch = True,
       e_resolver = False, e_comments = False, e_links = None, e_pulls = False, e_LivenessWindow = 0,
       e_MaxRestarts = 0, e_ProvisioningCollisionGrace = 0, e_CapacityCooldownWindow = 0, e_DoneRetention = 0,
       e_FailedRetention = 0, e_NeedsHumanRetention = 0, e_TerminalAuditKeep = 0, e_OwnedNamespaces = [],
       e_conflict_retries = 4\<rparr>)"

definition sample_st :: "CoderRun \<Rightarrow> st" where
  "sample_st run = \<lparr>mem = run, api = run, tick = 0, trace = []\<rparr>"

definition conflict_error :: err where
  "conflict_error = sentinelError Conflict ''the object has been modified''"

text \<open>The same world with an API server that refuses every status write: a reconcile stops at the first
  one.\<close>

definition read_only :: "CoderRun \<Rightarrow> env" where
  "read_only run = (sample_env run)\<lparr>e_patch := \<lambda>_. Some conflict_error\<rparr>"

definition sample_item :: "CoderRunStatus \<Rightarrow> WorkItem" where
  "sample_item s = \<lparr>wi_Context = s_SourceReceipt s, wi_ID = ''item'', wi_Mode = ModeFixPR, wi_Repo = ''o/r'',
     wi_Ref = 7, wi_Lane = ''lane'', wi_Debug = False\<rparr>"

lemma sample_env_sel [simp]:
  "e_run (sample_env run) = (\<lambda>_. Inr run)" "e_now (sample_env run) = (\<lambda>n. int n * Second)"
  "e_patch (sample_env run) = (\<lambda>_. None)" "e_observer (sample_env run) = False"
  "e_call (sample_env run) = (\<lambda>_ _. None)" "e_pods (sample_env run) = (\<lambda>_. Inr [])"
  "e_sources (sample_env run) = Some [(''src'', sample_adapter)]" "e_OwnedNamespaces (sample_env run) = []"
  "e_MaxRestarts (sample_env run) = 0" "e_LivenessWindow (sample_env run) = 0" "e_conds (sample_env run) = kube_conditions"
  "e_redact (sample_env run) = id" "e_decode (sample_env run) = (\<lambda>_. None)" "e_DoneRetention (sample_env run) = 0"
  by (simp_all add: sample_env_def Let_def)

lemma read_only_sel [simp]:
  "e_run (read_only run) = (\<lambda>_. Inr run)" "e_now (read_only run) = (\<lambda>n. int n * Second)"
  "e_patch (read_only run) = (\<lambda>_. Some conflict_error)" "e_observer (read_only run) = False"
  "e_call (read_only run) = (\<lambda>_ _. None)" "e_pods (read_only run) = (\<lambda>_. Inr [])"
  "e_sources (read_only run) = Some [(''src'', sample_adapter)]" "e_OwnedNamespaces (read_only run) = []"
  "e_MaxRestarts (read_only run) = 0" "e_LivenessWindow (read_only run) = 0" "e_conds (read_only run) = kube_conditions"
  "e_redact (read_only run) = id" "e_decode (read_only run) = (\<lambda>_. None)"
  by (simp_all add: read_only_def)

lemma trim_item: "TrimSpace ''item'' = ''item''"
  by (rule TrimSpace_id) (simp_all add: byte_def)

lemma sample_adapter_found [simp]:
  "e_sources E = Some [(''src'', sample_adapter)] \<Longrightarrow>
     adapterAndWorkItem E (sample_run s) = Inr (sample_adapter, sample_item s)"
  by (simp add: adapterAndWorkItem_def lookupRun_def lookup_def sourceWorkItem_def trim_item sample_item_def)
    (simp add: sample_run_def)

lemma patch_of_phase:
  "s_Phase b \<noteq> s_Phase a \<Longrightarrow> s_Phase a \<noteq> PhaseUnset \<Longrightarrow> operator_patch b a \<noteq> empty_patch"
  using arg_cong [of "operator_patch b a" empty_patch o_Phase]
  by (auto simp: operator_patch_def empty_patch_def Let_def)

lemma terminal_sel [simp]:
  "s_Phase (enter_terminal run phase pr telemetry s) = phase" "s_Phase (finish_at now s) = s_Phase s"
  "s_Phase (put_condition E c s) = s_Phase s"
  "s_FinishedAt (enter_terminal run phase pr telemetry s) = s_FinishedAt s"
  by (simp_all add: enter_terminal_def abandonCIRepairAttempt_def finish_at_def put_condition_def Let_def
      split: option.splits)

lemma phase_write_due: "s_Phase a \<noteq> s_Phase b \<Longrightarrow> terminal_write_due b a"
  by (simp add: terminal_write_due_def)

lemma upd_status_id [simp]: "upd_status id run = run"
  by (simp add: upd_status_def)

lemmas evaluate = journal_def acts_def Reconcile_def reconcile_run_def dispatch_def owns_def sample_st_def
  ask_def clock_def next_tick_def act_def set_run_def update_run_def set_condition_now_def run_patchStatus Let_def
  deliver_notice_def deliver_closes_def active_phase_def held_terminal_def patch_of_phase

lemma unobserved_journal:
  assumes "s_Phase s = PhaseVerifying" "s_CIParkDeferral s = None" "s_CISettlement s = None"
    "s_CIParkRelease s = None" "s_FinishedAt s = None"
  shows "\<exists>after. journal (read_only (sample_run s)) ''ns'' (sample_st (sample_run s)) =
       [EPatch (sample_run s) after (Some conflict_error)]
    \<and> abs_run after = (abandoned (abs_run (sample_run s)))
        \<lparr>mc_phase := PhaseNeedsHuman, mc_control := None, mc_finished := Some Second\<rparr>"
  using assms
  by (simp add: evaluate observeVerifying_def transitionTerminal_def transitionTerminal_with_def enrichTerminalPR_def
      stamp_terminal_def no_intent_def setLifecycleReport_def phase_write_due abs_enter_terminal)

lemma list_labelled_none:
  "e_pods E = (\<lambda>_. Inr []) \<Longrightarrow> run_state (list_labelled E vs) st = (Inr [], st\<lparr>tick := tick st + length vs\<rparr>)"
  by (induction vs arbitrary: st) (auto simp: ask_def next_tick_def)

lemma chargeRelaunch_phase [simp]: "s_Phase (chargeRelaunch E now s) = PhaseClaimed"
  by (simp add: chargeRelaunch_def Let_def)

lemma lost_journal:
  assumes "s_Phase s = PhaseRunning" "s_CIParkDeferral s = None" "s_CISettlement s = None"
    "s_CIParkRelease s = None" "s_ControlRequest s = None" "s_ControlRequestAck s = None" "s_Conditions s = []"
    "s_Heartbeat s = None" "s_ActiveOperations s = []" "s_Restarts s = 0"
  shows "\<exists>after. journal (read_only (sample_run s)) ''ns'' (sample_st (sample_run s)) =
       [EPatch (sample_run s) after (Some conflict_error)]
    \<and> abs_run after = (abs_run (sample_run s))\<lparr>mc_phase := PhaseClaimed, mc_restarts := 1, mc_control := None\<rparr>"
  using assms
  by (simp add: evaluate observeRunning_def syncSoftStop_def lookup_annotation_def find_condition_def kube_conditions_def
    checkLiveness_def list_run_pods_def list_labelled_none on_run_def judge_liveness_def heartbeat_fresh_def maxRestarts_def
    crashloopCeiling_def defaultMaxRestarts_def coordinatorPodOf_def cached_coordinator_def stale_coordinator_def validActiveOperations_def
    heartbeat_names_def not_handled_def observeMissingCoordinator_def done_result_def free_name_def charge_loss_def
    lost_diagnostic_def relaunchAfterInfraLoss_def abs_chargeRelaunch)

text \<open>A world whose lane has room, and whose API server refuses every status write.\<close>

definition open_lane :: LaneProfile where
  "open_lane = \<lparr>l_Name = ''lane'', l_Annotations = [], l_Spec = \<lparr>ls_RuntimeImage = [], ls_Concurrency = 1,
     ls_Roles = [], ls_Transport = [], ls_Framing = [], ls_CapacityGroup = [], ls_Context = None, ls_CIRepair = None,
     ls_Skills = []\<rparr>, l_CapacityCooldown = None\<rparr>"

definition admitting :: "CoderRun \<Rightarrow> env" where
  "admitting run = (read_only run)\<lparr>e_lane := \<lambda>_. Inr open_lane, e_lanes := \<lambda>_. Inr [open_lane], e_runs := \<lambda>_. Inr []\<rparr>"

lemma admitting_sel [simp]:
  "e_lane (admitting run) = (\<lambda>_. Inr open_lane)" "e_lanes (admitting run) = (\<lambda>_. Inr [open_lane])"
  "e_runs (admitting run) = (\<lambda>_. Inr [])" "e_run (admitting run) = (\<lambda>_. Inr run)"
  "e_now (admitting run) = (\<lambda>n. int n * Second)" "e_patch (admitting run) = (\<lambda>_. Some conflict_error)"
  "e_call (admitting run) = (\<lambda>_ _. None)" "e_sources (admitting run) = Some [(''src'', sample_adapter)]"
  "e_OwnedNamespaces (admitting run) = []" "e_MaxRestarts (admitting run) = 0"
  by (simp_all add: admitting_def)

lemma open_lane_sel [simp]:
  "\<not> Suspended open_lane" "l_CapacityCooldown open_lane = None" "ls_Concurrency (l_Spec open_lane) = 1"
  by (simp_all add: Suspended_def open_lane_def lookup_annotation_def EqualFold_def byte_def)

lemma admission_journal:
  assumes "s_Phase s = PhasePending \<or> s_Phase s = PhaseUnset" "s_CIParkDeferral s = None" "s_CISettlement s = None"
    "s_CIParkRelease s = None"
  shows "\<exists>after. journal (admitting (sample_run s)) ''ns'' (sample_st (sample_run s)) =
       [ECall (sample_run s) (Claim (sample_item s)) None, EPatch (sample_run s) after (Some conflict_error),
        ECall after (Release (sample_item s)) None]
    \<and> abs_run after = (abs_run (sample_run s))\<lparr>mc_phase := PhaseClaimed\<rparr>"
  using assms
  by (auto simp: evaluate admit_pending_def lane_gate_def CapacityCooldownActive_def laneHasCapacity_def
      preflight_wait_def reserve_claim_def claim_item_def sample_adapter_def abs_admit ActiveFor_def)

text \<open>A done run whose marker is an hour old.\<close>

definition done_run :: CoderRun where
  "done_run = upd_annotations (set_annotation doneAtAnnotation (FormatRFC3339 0))
     (sample_run (zero_status\<lparr>s_Phase := PhaseDone\<rparr>))"

definition hour_later :: env where
  "hour_later = (sample_env done_run)\<lparr>e_now := \<lambda>_. Hour\<rparr>"

lemma hour_later_sel [simp]:
  "e_run hour_later = (\<lambda>_. Inr done_run)" "e_now hour_later = (\<lambda>_. Hour)" "e_call hour_later = (\<lambda>_ _. None)"
  "e_OwnedNamespaces hour_later = []" "e_DoneRetention hour_later = 0"
  by (simp_all add: hour_later_def)

lemma done_run_sel [simp]:
  "r_status done_run = zero_status\<lparr>s_Phase := PhaseDone\<rparr>" "m_DeletionTimestamp (r_meta done_run) = None"
  "lookup_annotation (m_Annotations (r_meta done_run)) RetryAnnotation = []"
  "reapMarker done_run doneAtAnnotation = Some 0"
  by (simp_all add: done_run_def reapMarker_def map_of_set_annotation Parse_Format four_digit_year_def
      lookup_annotation_def upd_annotations_def)

lemma delete_journal: "journal hour_later ''ns'' (sample_st done_run) = [ECall done_run DeleteRun None]"
  by (simp add: evaluate resolveCompleted_def doneAtMarker_def reapDone_def reapTerminal_def doneRetention_def
      defaultDoneRetention_def delete_at_boundary_def liveRetryHold_def retryHoldsReap_def zero_status_def)

section \<open>Histories\<close>

text \<open>A run as reconciles leave it: created, then written again and again, each write starting from what
  the last one left. Between writes the world, and the reconciler's configuration but for its restart
  ceiling, may be anything.\<close>

inductive lived :: "int \<Rightarrow> CoderRun \<Rightarrow> bool" for ceiling :: int where
  created: "newborn (abs_run run) \<Longrightarrow> lived ceiling run"
| written: "lived ceiling before \<Longrightarrow> maxRestarts E = ceiling \<Longrightarrow>
    EPatch before after r \<in> set (journal E namespace s) \<Longrightarrow> lived ceiling after"

lemma lived_reachable: "lived ceiling run \<Longrightarrow> reachable ceiling (abs_run run)"
proof (induction rule: lived.induct)
  case (created run)
  then show ?case by (rule reachable.start)
next
  case (written before E after r namespace s)
  then show ?case using journal_write reachable.next_step by blast
qed

text \<open>A parked run whose required check failed twice with the same fingerprint, in a world that grants
  the repair.\<close>

definition red_observation :: PRObservation where
  "red_observation = \<lparr>ob_PR = ''7'', ob_Draft = False, ob_Head = ''h'',
     ob_Checks = [\<lparr>co_Name = ''ci'', co_State = CheckStateFailed, co_Output = []\<rparr>], ob_Merged = False\<rparr>"

definition red_lane :: LaneProfile where
  "red_lane = open_lane\<lparr>l_Spec := (l_Spec open_lane)\<lparr>ls_CIRepair :=
     Some \<lparr>cp_MechanicalChecks = [''ci''], cp_MaxAttempts = 2, cp_ObservationWindowSeconds = 0\<rparr>\<rparr>\<rparr>"

definition parked_status :: CoderRunStatus where
  "parked_status = zero_status\<lparr>s_Phase := PhaseVerifying, s_LastCommit := ''h'', s_PR := ''7'',
     s_FailedCheckFingerprint := checkSetFingerprint red_observation,
     s_CIPark := Some \<lparr>pk_Head = ''h'', pk_ParkedAt = 0, pk_Attempts = 0, pk_LastOutcome = CIParkOutcomeUnset\<rparr>\<rparr>"

definition repairing :: env where
  "repairing = (admitting (sample_run parked_status))\<lparr>e_observer := True, e_observe := \<lambda>_. Inr red_observation,
     e_lane := \<lambda>_. Inr red_lane, e_lanes := \<lambda>_. Inr [red_lane]\<rparr>"

lemma repairing_sel [simp]:
  "e_lane repairing = (\<lambda>_. Inr red_lane)" "e_lanes repairing = (\<lambda>_. Inr [red_lane])"
  "e_runs repairing = (\<lambda>_. Inr [])" "e_run repairing = (\<lambda>_. Inr (sample_run parked_status))"
  "e_now repairing = (\<lambda>n. int n * Second)" "e_patch repairing = (\<lambda>_. Some conflict_error)"
  "e_call repairing = (\<lambda>_ _. None)" "e_sources repairing = Some [(''src'', sample_adapter)]"
  "e_OwnedNamespaces repairing = []" "e_observer repairing" "e_observe repairing = (\<lambda>_. Inr red_observation)"
  "e_grant repairing = (\<lambda>_. [])" "e_conds repairing = kube_conditions"
  by (simp_all add: repairing_def admitting_def read_only_def sample_env_def Let_def)

lemma red_lane_sel [simp]:
  "\<not> Suspended red_lane" "l_CapacityCooldown red_lane = None" "ls_Concurrency (l_Spec red_lane) = 1"
  "ls_CIRepair (l_Spec red_lane) = Some \<lparr>cp_MechanicalChecks = [''ci''], cp_MaxAttempts = 2, cp_ObservationWindowSeconds = 0\<rparr>"
  using open_lane_sel by (simp_all add: red_lane_def Suspended_def)

lemma parked_status_sel [simp]:
  "s_Phase parked_status = PhaseVerifying" "s_LastCommit parked_status = ''h''" "s_PR parked_status = ''7''"
  "s_FailedCheckFingerprint parked_status = checkSetFingerprint red_observation" "s_CheckFingerprint parked_status = []"
  "s_CIPark parked_status = Some \<lparr>pk_Head = ''h'', pk_ParkedAt = 0, pk_Attempts = 0, pk_LastOutcome = CIParkOutcomeUnset\<rparr>"
  "s_CIRepair parked_status = None" "s_CIParkDeferral parked_status = None" "s_CISettlement parked_status = None"
  "s_CIParkRelease parked_status = None" "s_Conditions parked_status = []"
  by (simp_all add: parked_status_def zero_status_def)

lemma red_sel [simp]:
  "observeState red_observation = observationFailed" "ob_PR red_observation = ''7''" "\<not> ob_Draft red_observation"
  "ob_Head red_observation = ''h''" "anyCheckFailed red_observation" "checkSetFingerprint red_observation \<noteq> []"
  "ClassifyCIParkTrigger red_observation ''h'' (mechanicalSelector [''ci'']) 2 = CIParkResumeRepair"
  by (simp_all add: red_observation_def observeState_def anyCheckFailed_def checkSetFingerprint_def
      ClassifyCIParkTrigger_def unrecognized_def)

lemma sample_upd: "upd_status f (sample_run s) = sample_run (f s)"
  by (simp add: sample_run_def upd_status_def)

lemma repair_journal:
  "\<exists>item reservation before after a. journal repairing ''ns'' (sample_st (sample_run parked_status)) =
       [ECall before (ReserveCIRepair item reservation) None, EPatch before after (Some conflict_error)]
    \<and> s_CIPark (r_status before) = s_CIPark parked_status
    \<and> s_CIPark (r_status after) = Some \<lparr>pk_Head = ''h'', pk_ParkedAt = 0, pk_Attempts = 1, pk_LastOutcome = CIParkOutcomeUnset\<rparr>
    \<and> s_CIRepair (r_status after) = Some a \<and> rp_Attempt a = 1"
  by (simp add: evaluate observeVerifying_def observeCIPark_def ciRepairPolicy_def normalizedMechanicalChecks_def
    publishedHead_def park_unsupported_def handled_def advance_and_act_def clearCIParkInapplicable_def find_condition_def
    kube_conditions_def nextCIPark_def ciparkFingerprints_def advance_park_def park_changed_def act_on_trigger_def
    resumeCIPark_def ciparkWindowExpired_def ciparkCapacityAvailable_def CapacityCooldownActive_def ActiveFor_def laneHasCapacity_def
    reserveCIRepair_def sample_upd sample_adapter_def arm_repair_def)

text \<open>A failed run with a retry request that was recorded but not yet presented.\<close>

definition retry_status :: CoderRunStatus where
  "retry_status = zero_status\<lparr>s_Phase := PhaseFailed, s_RetryRequest := Some \<lparr>rr_ID = ''again'', rr_RequestedAt = 0,
     rr_State = RetryRequestStateRequested, rr_Reason = [], rr_AttemptID = [], rr_SettledAt = None\<rparr>\<rparr>"

lemma retry_status_sel [simp]:
  "s_Phase retry_status = PhaseFailed" "s_CIRepair retry_status = None" "s_CIParkDeferral retry_status = None"
  "s_CISettlement retry_status = None" "s_CIParkRelease retry_status = None"
  "s_RetryRequest retry_status = Some \<lparr>rr_ID = ''again'', rr_RequestedAt = 0,
     rr_State = RetryRequestStateRequested, rr_Reason = [], rr_AttemptID = [], rr_SettledAt = None\<rparr>"
  by (simp_all add: retry_status_def zero_status_def)

lemma patch_of_retry: "s_RetryRequest b \<noteq> s_RetryRequest a \<Longrightarrow> s_RetryRequest a \<noteq> None \<Longrightarrow> operator_patch b a \<noteq> empty_patch"
  using arg_cong [of "operator_patch b a" empty_patch o_RetryRequest]
  by (auto simp: operator_patch_def empty_patch_def Let_def)

lemma retry_sel [simp]:
  "s_RetryRequest (put_condition E c s) = s_RetryRequest s"
  by (simp add: put_condition_def)

lemma read_only_requeue:
  "e_requeue (read_only run) n = \<lparr>ar_AttemptID = [], ar_ControllerMaterializesSuccessor = False\<rparr>"
  by (simp add: read_only_def sample_env_def Let_def)

lemma retry_journal:
  "\<exists>request after now. journal (read_only (sample_run retry_status)) ''ns'' (sample_st (sample_run retry_status)) =
       [ECall (sample_run retry_status) (RequeueAttempt (sample_item retry_status) request) None,
        EPatch (sample_run retry_status) after (Some conflict_error)]
    \<and> s_RetryRequest (r_status after) = Some \<lparr>rr_ID = ''again'', rr_RequestedAt = 0,
     rr_State = RetryRequestStateRequeued, rr_Reason = [], rr_AttemptID = [], rr_SettledAt = Some now\<rparr>"
  by (simp add: evaluate reconcileTerminal_def backfill_fence_def syncRetry_def settleRetryRecord_def sample_adapter_def
    callRequeue_def settleRetryOutcome_def write_retry_def setRetryCondition_def patch_of_retry normalizeRetryAttemptID_def
    read_only_requeue errorResult_def)

end
