(* ===== verification/Requeue.thy ===== *)
theory Requeue
  imports Reconcile
begin

text \<open>
  What the answer of a handler says whatever the state it started in: \<open>yields A m\<close>, with rules that
  follow the program to its last step. The instance here is the delay a terminal handler asks for, which
  is never negative (a negative delay would be dropped by the queue).
\<close>

definition yields :: "('a \<Rightarrow> bool) \<Rightarrow> 'a prog \<Rightarrow> bool" where
  "yields A m \<longleftrightarrow> (\<forall>s. A (fst (run_state m s)))"

named_theorems yields_intro \<open>rules for the answer of a program\<close>

lemma yieldsD: "yields A m \<Longrightarrow> run_state m s = (a, t) \<Longrightarrow> A a"
  by (metis yields_def fst_conv)

lemma yields_ret [yields_intro]: "A a \<Longrightarrow> yields A (ret a)"
  by (simp add: yields_def)

lemma yields_bind: "yields B m \<Longrightarrow> (\<And>a. B a \<Longrightarrow> yields A (f a)) \<Longrightarrow> yields A (State_Monad.bind m f)"
  unfolding yields_def by (auto simp: case_prod_unfold)

lemma yields_last [yields_intro]: "(\<And>a. yields A (f a)) \<Longrightarrow> yields A (State_Monad.bind m f)"
  unfolding yields_def by (auto simp: case_prod_unfold)

lemma yields_if [yields_intro]:
  "(b \<Longrightarrow> yields A m) \<Longrightarrow> (\<not> b \<Longrightarrow> yields A n) \<Longrightarrow> yields A (if b then m else n)"
  by simp

lemma yields_option [yields_intro]:
  "yields A m \<Longrightarrow> (\<And>a. x = Some a \<Longrightarrow> yields A (f a)) \<Longrightarrow> yields A (case x of None \<Rightarrow> m | Some a \<Rightarrow> f a)"
  by (cases x) auto

lemma yields_sum [yields_intro]:
  "(\<And>e. yields A (f e)) \<Longrightarrow> (\<And>a. yields A (g a)) \<Longrightarrow> yields A (case x of Inl e \<Rightarrow> f e | Inr a \<Rightarrow> g a)"
  by (cases x) auto

lemma yields_prod [yields_intro]:
  "(\<And>a b. x = (a, b) \<Longrightarrow> yields A (f a b)) \<Longrightarrow> yields A (case x of (a, b) \<Rightarrow> f a b)"
  by (cases x) auto

lemma yields_Let [yields_intro]: "yields A (f x) \<Longrightarrow> yields A (Let x f)"
  by simp

section \<open>Delays\<close>

definition waits :: "result \<times> 'a \<Rightarrow> bool" where
  "waits answer \<longleftrightarrow> 0 \<le> re_RequeueAfter (fst answer)"

lemma waits_simps [simp]:
  "waits (done_result, e)" "waits (errorResult err)" "waits (requeueAfter d, e) \<longleftrightarrow> 0 \<le> d"
  by (simp_all add: waits_def done_result_def errorResult_def requeueAfter_def)

lemma waits_recoverCapacityExhaustion: "yields waits (recoverCapacityExhaustion E adapter item)"
  unfolding recoverCapacityExhaustion_def settle_capacity_def capacity_refusal_def
  by (intro yields_intro) simp_all

lemma waits_publish_ordinary: "yields waits (publish_ordinary E adapter item phase intent)"
  unfolding publish_ordinary_def by (intro yields_intro waits_recoverCapacityExhaustion) simp_all

lemma waits_transition_with:
  "(\<And>adapter item phase intent. yields waits (publish adapter item phase intent)) \<Longrightarrow>
     yields waits (transitionTerminal_with publish E phase pr intent telemetry)"
  unfolding transitionTerminal_with_def by (intro yields_intro) simp_all

lemma waits_settleAlreadyDoneClose: "yields waits (settleAlreadyDoneClose E adapter item intent)"
  unfolding settleAlreadyDoneClose_def parkAlreadyDoneClose_def
  by (intro yields_intro waits_transition_with waits_publish_ordinary) simp_all

lemma waits_publishTerminalLifecycle: "yields waits (publishTerminalLifecycle E adapter item phase intent)"
  unfolding publishTerminalLifecycle_def
  by (intro yields_intro waits_settleAlreadyDoneClose waits_publish_ordinary)

lemma waits_transitionTerminal: "yields waits (transitionTerminal E phase pr intent telemetry)"
  unfolding transitionTerminal_def by (intro waits_transition_with waits_publishTerminalLifecycle)

lemma waits_retryTerminalLifecycle: "yields waits (retryTerminalLifecycle E)"
  unfolding retryTerminalLifecycle_def by (intro yields_intro waits_publishTerminalLifecycle) simp_all

lemma remaining_positive: "mergeObservationRemaining now run = Some d \<Longrightarrow> 0 < d"
  by (auto simp: mergeObservationRemaining_def Let_def split: option.splits if_splits)

lemma yields_merge_wait: "yields (\<lambda>w. \<forall>d. w = Some d \<longrightarrow> 0 < d) (merge_wait E)"
  unfolding merge_wait_def by (intro yields_intro) (auto dest: remaining_positive)

lemma waits_observeMergedReviewPR: "yields waits (observeMergedReviewPR E)"
  unfolding observeMergedReviewPR_def keep_observing_def
  by (intro yields_ret yields_if yields_option yields_last [where m = "gets _"] yields_bind [OF yields_merge_wait])
    (auto intro!: yields_intro waits_transitionTerminal split: option.splits)

lemma waits_reapTerminal: "0 < retention \<Longrightarrow> yields waits (reapTerminal E marker retention floor_applies)"
  unfolding reapTerminal_def delete_at_boundary_def
  by (intro yields_intro) (auto split: option.splits)

lemma retention_positive: "0 < doneRetention E" "0 < failedRetention E" "0 < needsHumanRetention E"
  by (simp_all add: doneRetention_def failedRetention_def needsHumanRetention_def defaultDoneRetention_def
      defaultFailedRetention_def defaultNeedsHumanRetention_def)

lemma waits_terminal_duties: "yields waits (terminal_duties E)"
  unfolding terminal_duties_def terminal_reap_def reapAlreadyDone_def
  by (intro yields_intro waits_retryTerminalLifecycle waits_observeMergedReviewPR waits_reapTerminal
      waits_recoverCapacityExhaustion retention_positive) simp_all

text \<open>The answer of a retry step.\<close>

lemma waits_retry:
  "yields waits (settleRetryOutcome E record state reason attemptID)"
  "yields waits (writeRetryRefusal E requestID reason)"
  unfolding settleRetryOutcome_def writeRetryRefusal_def by (intro yields_intro; simp)+

lemma waits_callRequeue: "yields waits (callRequeue E record item)"
  unfolding callRequeue_def by (intro yields_intro waits_retry) simp_all

lemma waits_syncRetry: "yields waits (syncRetry E)"
  unfolding syncRetry_def beginRetry_def request_and_call_def settleRetryRecord_def announceAlreadyRequeued_def
  by (intro yields_intro waits_callRequeue waits_retry) simp_all

lemma yields_backfill: "yields (\<lambda>a. \<forall>answer. a = Some answer \<longrightarrow> waits answer) (backfill_fence E)"
  unfolding backfill_fence_def by (intro yields_intro) auto

lemma waits_reconcileTerminal: "yields waits (reconcileTerminal E)"
  unfolding reconcileTerminal_def
  by (intro yields_bind [OF yields_backfill] yields_option yields_ret yields_bind [OF waits_syncRetry])
    (auto intro!: yields_intro waits_terminal_duties simp: waits_def errorResult_def done_result_def)

end
