(* ===== verification/Duties.thy ===== *)
theory Duties
  imports Journal Requeue
begin

text \<open>
  What single handlers of the controller guarantee, beyond the contract of the whole loop: when the
  reaper deletes and which runs the audit floor keeps, when a pending run may be claimed, what one
  observation of the checks can decide, how often a capacity cooldown is written, and that the
  markers the handlers leave on a run are read back as they were written. The handlers are those of
  \<open>Reap\<close>, \<open>Reconcile\<close>, \<open>Capacity\<close>, \<open>Retry\<close> and \<open>Lifecycle\<close>.
\<close>

lemmas step_by_step = acts_def ask_def clock_def next_tick_def act_def set_run_def run_patchStatus Let_def

section \<open>The reaper\<close>

lemma delete_at_boundary_acts:
  "acts (delete_at_boundary E) s =
     (case e_run E (tick s) of
        Inl e \<Rightarrow> []
      | Inr live \<Rightarrow> if liveRetryHold (mem s) live then []
          else [ECall (mem s) DeleteRun (e_call E (Suc (tick s)) DeleteRun)])"
  by (simp add: step_by_step delete_at_boundary_def split: sum.split)

text \<open>C24: The reaper deletes a run only when the run carries the marker, the retention after the marked
  time has passed by the clock it read, the audit floor (where it applies) could be read and does
  not cover the run, and the run as re-read at the delete holds no retry request the reconcile
  missed.\<close>

theorem reaper_deletes_only_expired:
  assumes "ECall run DeleteRun r \<in> set (acts (reapTerminal E marker retention useFloor) s)"
  shows "run = mem s \<and> (\<exists>at. reapMarker (mem s) marker = Some at \<and> at + retention \<le> e_now E (tick s))
    \<and> (useFloor \<longrightarrow> terminalAuditKeep E \<le> 0 \<or>
         (\<exists>n runs. e_runs E n = Inr runs \<and> \<not> within_floor (terminalAuditKeep E) runs (mem s)))
    \<and> (\<exists>n live. e_run E n = Inr live \<and> \<not> liveRetryHold (mem s) live)"
  using assms
  by (auto simp: step_by_step reapTerminal_def patchAnnotations_def withinAuditFloor_def delete_at_boundary_def
      split: option.splits if_splits sum.splits)

theorem reaper_deletes_only_expired_witness:
  "doneRetention hour_later \<le> e_now hour_later 0 \<and> (\<exists>n live. e_run hour_later n = Inr live \<and> \<not> liveRetryHold done_run live)"
proof -
  have "ECall done_run DeleteRun None \<in>
      set (acts (reapTerminal hour_later doneAtAnnotation (doneRetention hour_later) False) (sample_st done_run))"
    by (simp add: step_by_step reapTerminal_def doneRetention_def defaultDoneRetention_def delete_at_boundary_def
        liveRetryHold_def retryHoldsReap_def zero_status_def sample_st_def)
  from reaper_deletes_only_expired [OF this] show ?thesis by (simp add: sample_st_def)
qed

lemma terminalNewer_strict:
  "\<not> terminalNewer a a"
  "terminalNewer a b \<Longrightarrow> terminalNewer b c \<Longrightarrow> terminalNewer a c"
  "m_Name (r_meta a) \<noteq> m_Name (r_meta b) \<Longrightarrow> terminalNewer a b \<or> terminalNewer b a"
  by (auto simp: terminalNewer_def split: if_splits)

definition audited :: "string \<Rightarrow> CoderRun \<Rightarrow> bool" where
  "audited repo run \<longleftrightarrow> p_Repo (r_spec run) = repo \<and> auditFloorPhase (s_Phase (r_status run))"

lemma within_floor_rank:
  assumes "distinct (map (\<lambda>r. m_Name (r_meta r)) runs)" and "run \<in> set runs" and "audited repo run"
  shows "within_floor (int n) runs run \<longleftrightarrow> rank {r \<in> set runs. audited repo r} terminalNewer run < n"
proof -
  have "filter (floor_rival run) runs = filter (\<lambda>r. audited repo r \<and> terminalNewer r run) runs"
    using assms terminalNewer_strict(1)
    by (intro filter_cong) (auto simp: floor_rival_def audited_def distinct_map dest: inj_onD)
  moreover have "distinct runs" using assms(1) by (simp add: distinct_map)
  ultimately have "length (filter (floor_rival run) runs) = card {r \<in> set runs. audited repo r \<and> terminalNewer r run}"
    by (simp add: distinct_length_filter Int_def conj_commute)
  then show ?thesis by (simp add: within_floor_def rank_def conj_ac)
qed

text \<open>C31: The audit floor keeps exactly the newest outcomes. Of the failed and parked runs of a repository,
  in any list of runs with distinct names, a floor of \<open>n\<close> covers \<open>n\<close> of them, or all when there are
  fewer, and every one that is newer than a covered one.\<close>

theorem audit_floor_keeps_the_newest:
  assumes "distinct (map (\<lambda>r. m_Name (r_meta r)) runs)"
  shows "length (filter (\<lambda>r. audited repo r \<and> within_floor (int n) runs r) runs) =
      min n (length (filter (audited repo) runs))
    \<and> (\<forall>a \<in> set runs. \<forall>b \<in> set runs. audited repo a \<longrightarrow> audited repo b \<longrightarrow> terminalNewer a b \<longrightarrow>
        within_floor (int n) runs b \<longrightarrow> within_floor (int n) runs a)"
proof
  let ?A = "{r \<in> set runs. audited repo r}"
  have d: "distinct runs" using assms by (simp add: distinct_map)
  have order: "\<And>a b. a \<in> ?A \<Longrightarrow> b \<in> ?A \<Longrightarrow> a \<noteq> b \<Longrightarrow> terminalNewer a b \<or> terminalNewer b a"
    using assms terminalNewer_strict(3) by (fastforce simp: distinct_map dest: inj_onD)
  have "length (filter (\<lambda>r. audited repo r \<and> within_floor (int n) runs r) runs) =
      card {r \<in> set runs. audited repo r \<and> within_floor (int n) runs r}"
    using d by (simp add: distinct_length_filter Int_def conj_commute)
  also have "\<dots> = card {r \<in> ?A. rank ?A terminalNewer r < n}"
    using within_floor_rank [OF assms] by (intro arg_cong [of _ _ card]) auto
  also have "\<dots> = min n (card ?A)"
    by (rule card_rank_less [OF _ terminalNewer_strict(1,2) order]) simp_all
  also have "card ?A = length (filter (audited repo) runs)"
    using d by (simp add: distinct_length_filter Int_def conj_commute)
  finally show "length (filter (\<lambda>r. audited repo r \<and> within_floor (int n) runs r) runs) =
      min n (length (filter (audited repo) runs))" .
  show "\<forall>a \<in> set runs. \<forall>b \<in> set runs. audited repo a \<longrightarrow> audited repo b \<longrightarrow> terminalNewer a b \<longrightarrow>
        within_floor (int n) runs b \<longrightarrow> within_floor (int n) runs a"
  proof (intro ballI impI)
    fix a b
    assume ab: "a \<in> set runs" "b \<in> set runs" "audited repo a" "audited repo b" "terminalNewer a b"
      "within_floor (int n) runs b"
    have "rank ?A terminalNewer a < rank ?A terminalNewer b"
      using ab by (intro rank_less) (auto intro: terminalNewer_strict(2) simp: terminalNewer_strict(1))
    then show "within_floor (int n) runs a" using ab within_floor_rank [OF assms] by simp
  qed
qed

theorem audit_floor_keeps_the_newest_witness:
  "length (filter (\<lambda>r. audited ''o/r'' r \<and>
      within_floor 1 [sample_run (zero_status\<lparr>s_Phase := PhaseFailed\<rparr>)] r)
      [sample_run (zero_status\<lparr>s_Phase := PhaseFailed\<rparr>)]) = 1"
  using audit_floor_keeps_the_newest [of "[sample_run (zero_status\<lparr>s_Phase := PhaseFailed\<rparr>)]" "''o/r''" 1]
  by (simp add: audited_def auditFloorPhase_def sample_run_def)

section \<open>Admission\<close>

definition lane_open :: "env \<Rightarrow> CoderRun \<Rightarrow> LaneProfile \<Rightarrow> bool" where
  "lane_open E run lane \<longleftrightarrow>
     \<not> Suspended lane
     \<and> (\<exists>n m lanes. e_lanes E n = Inr lanes \<and> CapacityCooldownActive lane lanes (e_now E m) = None)
     \<and> (\<exists>n runs. e_runs E n = Inr runs \<and>
          laneHasCapacity runs (p_Lane (r_spec run)) (ls_Concurrency (l_Spec lane)))
     \<and> (\<exists>n. preflightBackoffRemaining (e_now E n) run = None)"

lemma preflight_wait_None:
  assumes "run_state (preflight_wait E) s = (None, t)"
  shows "\<exists>n. preflightBackoffRemaining (e_now E n) (mem s) = None"
  using assms
  by (auto simp: preflight_wait_def clock_def ask_def next_tick_def preflightBackoffRemaining_def split: if_splits option.splits)

lemma lane_gate_trace: "trace (snd (run_state (lane_gate E) s)) = trace s"
  by (simp add: lane_gate_def preflight_wait_def clock_def ask_def next_tick_def split: sum.split)

lemma lane_gate_open:
  assumes "run_state (lane_gate E) s = (Inr None, t)"
  shows "\<exists>lane. e_lane E (tick s) = Inr lane \<and> lane_open E (mem s) lane"
  using assms
  by (auto simp: lane_gate_def lane_open_def clock_def ask_def next_tick_def split: sum.splits if_splits prod.splits dest!: preflight_wait_None)

text \<open>C23: A closed lane admits nothing. A pending run is claimed, written or launched only when its lane
  could be read and is not suspended, no lane of its capacity identity is cooling down at the time
  the controller read, fewer runs than the lane's concurrency are admitted, and the run is not
  backing off from a failed preflight.\<close>

theorem closed_lane_admits_nothing:
  assumes "acts (admit_pending E) s \<noteq> []"
  shows "\<exists>lane. e_lane E (tick s) = Inr lane \<and> lane_open E (mem s) lane"
proof -
  let ?s = "s\<lparr>trace := []\<rparr>"
  obtain a t where g: "run_state (lane_gate E) ?s = (a, t)" by fastforce
  have "trace t = []" using lane_gate_trace [of E ?s] g by simp
  then have "a = Inr None"
    using assms g by (auto simp: acts_def admit_pending_def split: sum.splits option.splits)
  with lane_gate_open [of E ?s t] g show ?thesis by simp
qed

lemma pending_acts:
  assumes "s_Phase s = PhasePending"
  shows "acts (admit_pending (admitting (sample_run s))) (sample_st (sample_run s)) \<noteq> []"
  using assms
  by (simp add: step_by_step admit_pending_def lane_gate_def CapacityCooldownActive_def laneHasCapacity_def sample_st_def
      preflight_wait_def reserve_claim_def claim_item_def sample_adapter_def ActiveFor_def admit_def patch_of_phase)

theorem closed_lane_admits_nothing_witness:
  "lane_open (admitting (sample_run (zero_status\<lparr>s_Phase := PhasePending\<rparr>)))
     (sample_run (zero_status\<lparr>s_Phase := PhasePending\<rparr>)) open_lane"
  using closed_lane_admits_nothing [OF pending_acts [of "zero_status\<lparr>s_Phase := PhasePending\<rparr>"]]
  by (simp add: sample_st_def)

section \<open>Grading the checks\<close>

text \<open>The fingerprint the run carries of the last observation with the same verdict.\<close>

definition recorded_fingerprint :: "CoderRunStatus \<Rightarrow> observationState \<Rightarrow> string" where
  "recorded_fingerprint s st = (if st = observationFailed then s_FailedCheckFingerprint s else s_CheckFingerprint s)"

definition phase_kept :: "event \<Rightarrow> bool" where
  "phase_kept e \<longleftrightarrow> (case e of EPatch b a r \<Rightarrow> s_Phase (r_status a) = s_Phase (r_status b) | ECall run c r \<Rightarrow> False)"

lemma grade_candidate_phase [simp]: "s_Phase (grade_candidate pr green failed s) = s_Phase s"
  by (simp add: grade_candidate_def)

lemma quiet_update:
  assumes "\<And>st. s_Phase (f st) = s_Phase st"
  shows "s_Phase (r_status (mem (snd (run_state (update_run E f) s)))) = s_Phase (r_status (mem s))"
    and "trace s = [] \<Longrightarrow> list_all phase_kept (trace (snd (run_state (update_run E f) s)))"
  using assms by (simp_all add: update_run_def set_run_def run_patchStatus Let_def phase_kept_def)

definition candidate :: "PRObservation \<Rightarrow> CoderRunStatus \<Rightarrow> CoderRunStatus" where
  "candidate ob = grade_candidate (ob_PR ob) (if observeState ob = observationPassed then checkSetFingerprint ob else [])
     (if observeState ob = observationFailed then checkSetFingerprint ob else [])"

lemma quiet_grade:
  assumes "observeState ob \<noteq> observationNeedsHuman"
    and "observeState ob = observationFailed \<Longrightarrow> p_Mode (r_spec (mem s)) \<noteq> ModeFixPR"
    and "checkSetFingerprint ob = [] \<or> checkSetFingerprint ob \<noteq> recorded_fingerprint (r_status (mem s)) (observeState ob)"
  shows "run_state (grade E ob) s =
    (case fst (run_state (update_run E (candidate ob)) s) of
       None \<Rightarrow> (requeueAfter observationRequeueDelay, None) | Some e \<Rightarrow> errorResult e,
     snd (run_state (update_run E (candidate ob)) s))"
proof -
  obtain r t where u: "run_state (update_run E (candidate ob)) s = (r, t)" by fastforce
  show ?thesis
  proof (cases "observeState ob = observationFailed")
    case True
    then have "run_state (update_run E (grade_candidate (ob_PR ob) [] (checkSetFingerprint ob))) s = (r, t)"
      using u by (simp add: candidate_def)
    then show ?thesis using True assms u
      by (cases r) (auto simp: grade_def recorded_fingerprint_def Let_def)
  next
    case False
    then have "run_state (update_run E (grade_candidate (ob_PR ob)
        (if observeState ob = observationPassed then checkSetFingerprint ob else []) [])) s = (r, t)"
      using u by (simp add: candidate_def)
    then show ?thesis using False assms u
      by (cases r) (auto simp: grade_def recorded_fingerprint_def Let_def)
  qed
qed


definition green_observation :: PRObservation where
  "green_observation = red_observation\<lparr>ob_Checks := [\<lparr>co_Name = ''ci'', co_State = CheckStatePassed, co_Output = []\<rparr>]\<rparr>"

lemma green_sel:
  "observeState green_observation = observationPassed" "checkSetFingerprint green_observation \<noteq> []"
  by (simp_all add: green_observation_def red_observation_def observeState_def checkSetFingerprint_def)


section \<open>The capacity cooldown\<close>

lemma recordCapacityCooldownLane_trace:
  "length (trace (snd (run_state (recordCapacityCooldownLane E) s))) \<le> Suc (length (trace s))"
  by (simp add: recordCapacityCooldownLane_def clock_def ask_def next_tick_def act_def Let_def split: sum.split)

lemma retry_on_conflict_trace:
  assumes "\<And>s. length (trace (snd (run_state m s))) \<le> Suc (length (trace s))"
  shows "length (trace (snd (run_state (retry_on_conflict n m) s))) \<le> Suc n + length (trace s)"
proof (induction n arbitrary: s)
  case 0
  then show ?case using assms [of s] by simp
next
  case (Suc n)
  obtain r t where m: "run_state m s = (r, t)" by fastforce
  have "length (trace t) \<le> Suc (length (trace s))" using assms [of s] m by simp
  then show ?case using Suc [of t] m by (auto split: option.split)
qed

lemma update_run_trace: "length (trace (snd (run_state (update_run E f) s))) \<le> Suc (length (trace s))"
  by (simp add: update_run_def set_run_def run_patchStatus Let_def)


section \<open>Markers are read back\<close>

definition announced_token :: "string \<Rightarrow> bool" where
  "announced_token t \<longleftrightarrow> length t = 16 \<and> isHex t"

lemma isHex_no_comma: "isHex t \<Longrightarrow> CHR '','' \<notin> set t"
  by (auto simp: isHex_def list_all_iff)

lemma hex_char_isHex: "list_all hex_char s \<Longrightarrow> s \<noteq> [] \<Longrightarrow> isHex s"
  by (auto simp: isHex_def list_all_iff hex_char_def byte_def less_eq_char_def)

lemma announced_token_token: "announced_token (retryAnnouncedToken i)"
proof -
  have "list_all hex_char (retryAnnouncedToken i)"
    using sha256_hex_chars [of i] by (auto simp: retryAnnouncedToken_def list_all_iff dest: in_set_takeD)
  moreover have l: "length (retryAnnouncedToken i) = 16" by (simp add: retryAnnouncedToken_def)
  moreover from l have "retryAnnouncedToken i \<noteq> []" by (metis length_0_conv zero_neq_numeral)
  ultimately show ?thesis by (simp add: announced_token_def hex_char_isHex)
qed

lemma retryAnnouncedSet_wf: "list_all announced_token (retryAnnouncedSet m) \<and> distinct (retryAnnouncedSet m)"
  using announced_token_token [of m]
  by (auto simp: retryAnnouncedSet_def announced_token_def list_all_iff retryAnnouncedTokenLength_def split: prod.split)

lemma marker_read_back:
  assumes "list_all announced_token tokens" and "distinct tokens"
  shows "retryAnnouncedSet (retryAnnouncedMarker tokens) = sort tokens"
proof (cases "tokens = []")
  case True
  then show ?thesis
    by (simp add: retryAnnouncedSet_def retryAnnouncedMarker_def CutPrefix_def HasPrefix_def retryAnnouncedTokenLength_def)
next
  case False
  have "sort tokens \<noteq> []" using False by (metis set_empty set_sort)
  then have "Split (Join (sort tokens) '','') CHR '','' = sort tokens"
    using assms isHex_no_comma by (intro Split_Join) (auto simp: list_all_iff announced_token_def)
  moreover have "filter (\<lambda>t. length t = retryAnnouncedTokenLength \<and> isHex t) (sort tokens) = sort tokens"
    using assms(1) by (intro filter_True) (auto simp: list_all_iff announced_token_def retryAnnouncedTokenLength_def)
  ultimately show ?thesis using assms(2)
    by (simp add: retryAnnouncedSet_def retryAnnouncedMarker_def CutPrefix_def HasPrefix_def distinct_remdups_id)
qed

text \<open>C32: The announced set survives its annotation. Whatever the annotation held, once a further retry
  request is announced the written marker is read back as exactly the tokens announced before and the
  new one, so the request is not announced again.\<close>

theorem announced_marker_round_trip:
  assumes "retryAnnouncedToken request \<notin> set (retryAnnouncedSet marker)"
  shows "retryAnnouncedSet (retryAnnouncedMarker (retryAnnouncedToken request # retryAnnouncedSet marker))
    = sort (retryAnnouncedToken request # retryAnnouncedSet marker)"
  using assms retryAnnouncedSet_wf [of marker] announced_token_token [of request]
  by (intro marker_read_back) simp_all

theorem announced_marker_round_trip_witness:
  "retryAnnouncedSet (retryAnnouncedMarker [retryAnnouncedToken ''again'']) = [retryAnnouncedToken ''again'']"
  using announced_marker_round_trip [of "''again''" "[]"] by (simp add: retryAnnouncedSet_def [of "[]"])

section \<open>A report that is retried\<close>

definition pending_intent :: "env \<Rightarrow> terminalLifecycleIntent \<Rightarrow> st \<Rightarrow> terminalLifecycleIntent" where
  "pending_intent E intent s = pendingLifecycleIntent E
     (mem (snd (run_state (setLifecycleReport E False (pendingLifecycleReason intent) (ti_error intent)) s)))"

lemma pending_intent_fields:
  assumes "status_conditions (e_conds E)"
  shows "ti_ciFailure (pending_intent E intent s) = ti_ciFailure intent"
    and "ti_skipPRFixQueueMark (pending_intent E intent s) = (ti_skipPRFixQueueMark intent \<and> \<not> ti_ciFailure intent)"
    and "ti_error (pending_intent E intent s) = ti_error intent"
proof -
  define c where "c = \<lparr>c_Type = lifecycleReportedCondition, c_Status = ConditionFalse, c_Reason = pendingLifecycleReason intent,
      c_Message = ti_error intent, c_ObservedGeneration = 0, c_LastTransitionTime = e_now E (tick s)\<rparr>"
  obtain d where "findCond (e_conds E) (setCond (e_conds E) (s_Conditions (r_status (mem s))) c) (c_Type c) = Some d"
    "c_Status d = c_Status c" "c_Reason d = c_Reason c" "c_Message d = c_Message c"
    using status_conditions.find_set_same [OF assms] by blast
  then have "pending_intent E intent s = no_intent\<lparr>
      ti_skipPRFixQueueMark := (pendingLifecycleReason intent = lifecycleReportPendingBlockedReportParksPRFixReason),
      ti_ciFailure := (pendingLifecycleReason intent = lifecycleReportPendingExternalVerificationFailureReason),
      ti_error := ti_error intent\<rparr>"
    by (simp add: pending_intent_def pendingLifecycleIntent_def find_condition_def setLifecycleReport_def
        set_condition_now_def clock_def ask_def next_tick_def set_run_def put_condition_def c_def)
  then show "ti_ciFailure (pending_intent E intent s) = ti_ciFailure intent"
    and "ti_skipPRFixQueueMark (pending_intent E intent s) = (ti_skipPRFixQueueMark intent \<and> \<not> ti_ciFailure intent)"
    and "ti_error (pending_intent E intent s) = ti_error intent"
    by (simp_all add: pendingLifecycleReason_def)
qed

text \<open>C27: A retried report is the report of the transition. What a terminal transition records of its
  intent in the pending condition is enough: the intent read back from the run yields the same
  lifecycle report in every phase and mode, unless both flags were set, which no transition does.\<close>

theorem retried_report_is_the_first_report:
  assumes "status_conditions (e_conds E)" and "\<not> (ti_ciFailure intent \<and> ti_skipPRFixQueueMark intent)"
  shows "lifecycleForPhase phase mode (stateForTerminalPhase phase mode (pending_intent E intent s)) pr at
      (pending_intent E intent s)
    = lifecycleForPhase phase mode (stateForTerminalPhase phase mode intent) pr at intent"
  using assms(2)
  by (cases phase) (auto simp: lifecycleForPhase_def stateForTerminalPhase_def pending_intent_fields [OF assms(1)] Let_def)

theorem retried_report_is_the_first_report_witness:
  "lc_Error (lifecycleForPhase PhaseNeedsHuman ModeFixPR StateNeedsHuman [] None
     (pending_intent (sample_env (sample_run zero_status)) (error_intent ''head repository gone'')
        (sample_st (sample_run zero_status)))) = ''head repository gone''"
proof -
  have "status_conditions (e_conds (sample_env (sample_run zero_status)))"
    using kc.status_conditions_axioms by simp
  from retried_report_is_the_first_report [OF this, of "error_intent ''head repository gone''" PhaseNeedsHuman ModeFixPR
      "sample_st (sample_run zero_status)" "[]" None]
  show ?thesis by (simp add: error_intent_def no_intent_def stateForTerminalPhase_def) (simp add: lifecycleForPhase_def Let_def)
qed

section \<open>Liveness\<close>

text \<open>C25: Signs of life protect a coordinator. While the run's heartbeat is within the liveness window, or
  a pod of the run reports a valid operation in progress beside a live coordinator, the liveness
  backstop deletes no pod, makes no call and leaves the phase alone.\<close>

theorem signs_of_life_protect:
  assumes "(case s_Heartbeat (r_status (mem s)) of None \<Rightarrow> False | Some hb \<Rightarrow> e_now E (tick s) - hb_At hb \<le> livenessWindow E)
    \<or> coordinatorPodOf livePods (mem s) \<noteq> None \<and> validActiveOperations (mem s) livePods"
  shows "list_all phase_kept (acts (judge_liveness E cachedPods livePods) s)"
proof -
  have reset: "list_all phase_kept (trace (snd (run_state (reset_streak E c) t)))" if "trace t = []" for c t
    using quiet_update(2) [of "s_Restarts_update (\<lambda>_. 0)" t E] that by (auto simp: reset_streak_def split: prod.split)
  show ?thesis using assms reset
    by (auto simp: acts_def judge_liveness_def heartbeat_fresh_def clock_def ask_def next_tick_def Let_def list_all_rev
        stale_coordinator_def split: option.splits)
qed

theorem signs_of_life_protect_witness:
  "list_all phase_kept (acts (judge_liveness (sample_env (sample_run zero_status)) [] [])
     (sample_st (sample_run (zero_status\<lparr>s_Phase := PhaseRunning,
        s_Heartbeat := Some \<lparr>hb_At = 0, hb_Kind = ''agent'', hb_CoordinatorPodUID = ''pod''\<rparr>\<rparr>))))"
  by (rule signs_of_life_protect) (simp add: sample_st_def livenessWindow_def defaultLivenessWindow_def)

end
