(* ===== verification/Json.thy ===== *)
theory Json
  imports GoLib Sha256
begin

text \<open>
  The part of \<open>encoding/json\<close> the handoff between the coordinator and the operator goes through: how
  \<open>json.Marshal\<close> writes strings, numbers, arrays and objects, and how \<open>json.Unmarshal\<close> reads a
  document. Reading is a recursive descent over the bytes; its second argument is fuel, and the
  length of the document is always enough (\<open>pval_fuel\<close>). Its first argument is the nesting the
  scanner of the library still allows, 10000 at the top.
\<close>

section \<open>Values\<close>

datatype json = JNull | JBool bool | JNumber string | JString string
  | JArray "json list" | JObject "(string \<times> json) list"

abbreviation "backslash \<equiv> chr 92"
abbreviation "dquote \<equiv> chr 34"

section \<open>Writing\<close>

text \<open>The escape of an ASCII byte; \<open>Marshal\<close> escapes the HTML characters as well.\<close>

definition escape_ascii :: "char \<Rightarrow> string" where
  "escape_ascii c =
     (let b = byte c in
      if b = 34 \<or> b = 92 then [backslash, c]
      else if b = 8 then backslash # ''b''
      else if b = 12 then backslash # ''f''
      else if b = 10 then backslash # ''n''
      else if b = 13 then backslash # ''r''
      else if b = 9 then backslash # ''t''
      else if b < 32 \<or> b = 38 \<or> b = 60 \<or> b = 62
      then backslash # ''u00'' @ [hex_digit (b div 16), hex_digit (b mod 16)]
      else [c])"

text \<open>An invalid byte becomes the escape of U+FFFD; U+2028 and U+2029 are escaped.\<close>

function escape_string :: "string \<Rightarrow> string" where
  "escape_string s =
     (if s = [] then []
      else if byte (hd s) < 128 then escape_ascii (hd s) @ escape_string (drop 1 s)
      else if rune_width s = 0 then backslash # ''ufffd'' @ escape_string (drop 1 s)
      else
        let w = rune_width s; r = take w s in
        (if r = [chr 226, chr 128, chr 168] then backslash # ''u2028''
         else if r = [chr 226, chr 128, chr 169] then backslash # ''u2029'' else r)
        @ escape_string (drop w s))"
  by pat_completeness auto
termination
  by (relation "measure length") (auto simp: length_greater_0_conv)

declare escape_string.simps [simp del]

definition quote_string :: "string \<Rightarrow> string" where
  "quote_string s = [dquote] @ escape_string s @ [dquote]"

primrec encode :: "json \<Rightarrow> string" where
  "encode JNull = ''null''"
| "encode (JBool b) = (if b then ''true'' else ''false'')"
| "encode (JNumber t) = t"
| "encode (JString s) = quote_string s"
| "encode (JArray vs) = ''['' @ Join (map encode vs) '','' @ '']''"
| "encode (JObject ms) =
     ''{'' @ Join (map (\<lambda>(k, t). quote_string k @ '':'' @ t) (map (map_prod id encode) ms)) '','' @ ''}''"

section \<open>Reading\<close>

text \<open>\<open>utf8.AppendRune\<close>.\<close>

definition encode_rune :: "nat \<Rightarrow> string" where
  "encode_rune r =
     (if r < 128 then [chr r]
      else if r < 2048 then [chr (192 + r div 64), chr (128 + r mod 64)]
      else if (55296 \<le> r \<and> r < 57344) \<or> 1114112 \<le> r then [chr 239, chr 191, chr 189]
      else if r < 65536 then [chr (224 + r div 4096), chr (128 + r div 64 mod 64), chr (128 + r mod 64)]
      else [chr (240 + r div 262144), chr (128 + r div 4096 mod 64), chr (128 + r div 64 mod 64), chr (128 + r mod 64)])"

definition hex_val :: "char \<Rightarrow> nat option" where
  "hex_val c =
     (let b = byte c in
      if 48 \<le> b \<and> b \<le> 57 then Some (b - 48)
      else if 97 \<le> b \<and> b \<le> 102 then Some (b - 87)
      else if 65 \<le> b \<and> b \<le> 70 then Some (b - 55)
      else None)"

text \<open>The four hexadecimal digits a string starts with.\<close>

fun u4 :: "string \<Rightarrow> nat option" where
  "u4 (a # b # c # d # s) =
     (case (hex_val a, hex_val b, hex_val c, hex_val d) of
        (Some w, Some x, Some y, Some z) \<Rightarrow> Some (4096 * w + 256 * x + 16 * y + z)
      | _ \<Rightarrow> None)"
| "u4 _ = None"

text \<open>The pair of escapes a surrogate may start; \<open>s\<close> is what follows the digits of the first.\<close>

definition surrogate_pair :: "nat \<Rightarrow> string \<Rightarrow> nat option" where
  "surrogate_pair v s =
     (if 55296 \<le> v \<and> v < 56320 \<and> take 2 s = [backslash, CHR ''u''] then
        (case u4 (drop 2 s) of
           Some w \<Rightarrow> if 56320 \<le> w \<and> w < 57344 then Some (65536 + (v - 55296) * 1024 + (w - 56320)) else None
         | None \<Rightarrow> None)
      else None)"

definition simple_escape :: "char \<Rightarrow> char option" where
  "simple_escape c =
     (if c = dquote \<or> c = backslash \<or> c = CHR ''/'' then Some c
      else if c = CHR ''b'' then Some (chr 8)
      else if c = CHR ''f'' then Some (chr 12)
      else if c = CHR ''n'' then Some (chr 10)
      else if c = CHR ''r'' then Some (chr 13)
      else if c = CHR ''t'' then Some (chr 9)
      else None)"

text \<open>The rest of a string literal and what follows its closing quote.\<close>

function unquote :: "string \<Rightarrow> (string \<times> string) option" where
  "unquote s =
     (if s = [] then None
      else if hd s = dquote then Some ([], drop 1 s)
      else if hd s = backslash then
        (if length s = 1 then None
         else if s ! 1 = CHR ''u'' then
           (case u4 (drop 2 s) of
              None \<Rightarrow> None
            | Some v \<Rightarrow> (case surrogate_pair v (drop 6 s) of
                  Some r \<Rightarrow> map_option (apfst (append (encode_rune r))) (unquote (drop 12 s))
                | None \<Rightarrow> map_option (apfst (append (encode_rune v))) (unquote (drop 6 s))))
         else (case simple_escape (s ! 1) of
             None \<Rightarrow> None
           | Some c \<Rightarrow> map_option (apfst ((#) c)) (unquote (drop 2 s))))
      else if byte (hd s) < 32 then None
      else if byte (hd s) < 128 then map_option (apfst ((#) (hd s))) (unquote (drop 1 s))
      else if rune_width s = 0
      then map_option (apfst (append [chr 239, chr 191, chr 189])) (unquote (drop 1 s))
      else map_option (apfst (append (take (rune_width s) s))) (unquote (drop (rune_width s) s)))"
  by pat_completeness auto
termination
  by (relation "measure length") (auto simp: length_greater_0_conv)

declare unquote.simps [simp del]

definition skip_ws :: "string \<Rightarrow> string" where
  "skip_ws s = dropWhile (\<lambda>c. byte c \<in> {32, 9, 13, 10}) s"

text \<open>A number literal and what follows it: an integer part without leading zeros, then a fraction
  and an exponent, each of which may be missing.\<close>

definition digits_part :: "string \<Rightarrow> (string \<times> string) option" where
  "digits_part s =
     (let ds = takeWhile is_digit s in if ds = [] then None else Some (ds, dropWhile is_digit s))"

definition number_int :: "string \<Rightarrow> (string \<times> string) option" where
  "number_int s =
     (case s of
        [] \<Rightarrow> None
      | c # cs \<Rightarrow> if c = CHR ''0'' then Some ([c], cs) else digits_part s)"

definition number_frac :: "string \<Rightarrow> (string \<times> string) option" where
  "number_frac s =
     (case s of
        [] \<Rightarrow> Some ([], [])
      | c # cs \<Rightarrow> if c = CHR ''.'' then map_option (apfst ((#) c)) (digits_part cs) else Some ([], s))"

definition number_exp :: "string \<Rightarrow> (string \<times> string) option" where
  "number_exp s =
     (case s of
        [] \<Rightarrow> Some ([], [])
      | c # cs \<Rightarrow>
          if c = CHR ''e'' \<or> c = CHR ''E'' then
            (if cs \<noteq> [] \<and> (hd cs = CHR ''+'' \<or> hd cs = CHR ''-'')
             then map_option (apfst (\<lambda>ds. c # hd cs # ds)) (digits_part (tl cs))
             else map_option (apfst ((#) c)) (digits_part cs))
          else Some ([], s))"

definition scan_number :: "string \<Rightarrow> (string \<times> string) option" where
  "scan_number s =
     (let sign = (if s \<noteq> [] \<and> hd s = CHR ''-'' then ''-'' else []) in
      case number_int (drop (length sign) s) of
        None \<Rightarrow> None
      | Some (i, r) \<Rightarrow> (case number_frac r of
            None \<Rightarrow> None
          | Some (f, r) \<Rightarrow> (case number_exp r of
                None \<Rightarrow> None
              | Some (e, r) \<Rightarrow> Some (sign @ i @ f @ e, r))))"

text \<open>A value, the members of an object after its brace, and the elements of an array after its
  bracket.\<close>

fun pval :: "nat \<Rightarrow> nat \<Rightarrow> string \<Rightarrow> (json \<times> string) option"
  and pmembers :: "nat \<Rightarrow> nat \<Rightarrow> string \<Rightarrow> ((string \<times> json) list \<times> string) option"
  and pelems :: "nat \<Rightarrow> nat \<Rightarrow> string \<Rightarrow> (json list \<times> string) option" where
  "pval d 0 s = None"
| "pval d (Suc n) s =
     (case s of
        [] \<Rightarrow> None
      | c # cs \<Rightarrow>
          if c = CHR ''{'' then
            (if d = 0 then None
             else case skip_ws cs of
               [] \<Rightarrow> None
             | e # r \<Rightarrow> if e = CHR ''}'' then Some (JObject [], r)
                 else map_option (apfst JObject) (pmembers (d - 1) n (e # r)))
          else if c = CHR ''['' then
            (if d = 0 then None
             else case skip_ws cs of
               [] \<Rightarrow> None
             | e # r \<Rightarrow> if e = CHR '']'' then Some (JArray [], r)
                 else map_option (apfst JArray) (pelems (d - 1) n (e # r)))
          else if c = dquote then map_option (apfst JString) (unquote cs)
          else if HasPrefix s ''true'' then Some (JBool True, drop 4 s)
          else if HasPrefix s ''false'' then Some (JBool False, drop 5 s)
          else if HasPrefix s ''null'' then Some (JNull, drop 4 s)
          else map_option (apfst JNumber) (scan_number s))"
| "pmembers d 0 s = None"
| "pmembers d (Suc n) s =
     (if s = [] \<or> hd s \<noteq> dquote then None
      else (case unquote (tl s) of
          None \<Rightarrow> None
        | Some (k, r) \<Rightarrow> (case skip_ws r of
              [] \<Rightarrow> None
            | e # r \<Rightarrow>
                if e \<noteq> CHR '':'' then None
                else (case pval d n (skip_ws r) of
                    None \<Rightarrow> None
                  | Some (v, r) \<Rightarrow> (case skip_ws r of
                        [] \<Rightarrow> None
                      | e # r \<Rightarrow>
                          if e = CHR ''}'' then Some ([(k, v)], r)
                          else if e = CHR '','' then map_option (apfst ((#) (k, v))) (pmembers d n (skip_ws r))
                          else None)))))"
| "pelems d 0 s = None"
| "pelems d (Suc n) s =
     (case pval d n s of
        None \<Rightarrow> None
      | Some (v, r) \<Rightarrow> (case skip_ws r of
            [] \<Rightarrow> None
          | e # r \<Rightarrow>
              if e = CHR '']'' then Some ([v], r)
              else if e = CHR '','' then map_option (apfst ((#) v)) (pelems d n (skip_ws r))
              else None))"

definition parse_fuel :: "string \<Rightarrow> nat" where
  "parse_fuel s = 2 * length s + 2"

definition Unmarshal :: "string \<Rightarrow> json option" where
  "Unmarshal s =
     (case pval 10000 (parse_fuel s) (skip_ws s) of
        None \<Rightarrow> None
      | Some (v, r) \<Rightarrow> if skip_ws r = [] then Some v else None)"

section \<open>Reading consumes its input\<close>

lemma unquote_step:
  assumes "unquote s = Some (t, r)"
  shows "s \<noteq> [] \<and> (r = drop 1 s \<or> (\<exists>k a. 0 < k \<and> unquote (drop k s) = Some (a, r)))"
proof -
  have k: "0 < (12::nat)" "0 < (6::nat)" "0 < (2::nat)" "0 < (1::nat)" by simp_all
  show ?thesis
    using assms
    by (subst (asm) unquote.simps) (auto split: if_splits option.splits intro: k)
qed

lemma unquote_shorter: "unquote s = Some (t, r) \<Longrightarrow> length r < length s"
proof (induction s arbitrary: t rule: length_induct)
  case (1 s)
  from unquote_step [OF 1(2)] consider "s \<noteq> []" "r = drop 1 s"
    | k a where "s \<noteq> []" "0 < k" "unquote (drop k s) = Some (a, r)" by blast
  then show ?case
  proof cases
    case (2 k a)
    then have "length (drop k s) < length s" by (simp add: length_greater_0_conv)
    with 1(1) 2(3) show ?thesis by fastforce
  qed (simp add: length_greater_0_conv)
qed

lemma digits_part_shorter: "digits_part s = Some (t, r) \<Longrightarrow> length r < length s"
  by (cases s) (auto simp: digits_part_def Let_def length_dropWhile_le le_imp_less_Suc split: if_splits)

lemma number_parts_shorter:
  "number_int s = Some (t, r) \<Longrightarrow> length r < length s"
  "number_frac s = Some (t, r) \<Longrightarrow> length r \<le> length s"
  "number_exp s = Some (t, r) \<Longrightarrow> length r \<le> length s"
  by (auto simp: number_int_def number_frac_def number_exp_def split: list.splits if_splits dest!: digits_part_shorter)

lemma scan_number_shorter: "scan_number s = Some (t, r) \<Longrightarrow> length r < length s"
  by (auto simp: scan_number_def Let_def split: option.splits if_splits prod.splits dest!: number_parts_shorter)

lemma skip_ws_le: "length (skip_ws s) \<le> length s"
  by (simp add: skip_ws_def length_dropWhile_le)

lemma skip_ws_Cons: "skip_ws s = e # r \<Longrightarrow> length r < length s"
  using skip_ws_le [of s] by simp

lemma parse_shorter:
  "(\<forall>d s v r. pval d n s = Some (v, r) \<longrightarrow> length r < length s) \<and>
   (\<forall>d s ms r. pmembers d n s = Some (ms, r) \<longrightarrow> length r < length s) \<and>
   (\<forall>d s vs r. pelems d n s = Some (vs, r) \<longrightarrow> length r < length s)"
proof (induction n)
  case (Suc n)
  then have v: "length r < length s" if "pval d n s = Some (v, r)" for d s v r using that by blast
  from Suc have m: "length r < length s" if "pmembers d n s = Some (ms, r)" for d s ms r using that by blast
  from Suc have e: "length r < length s" if "pelems d n s = Some (vs, r)" for d s vs r using that by blast
  have "length r < length s" if "pval d (Suc n) s = Some (v, r)" for d s v r
    using that by (auto split: list.splits if_splits dest!: m e unquote_shorter scan_number_shorter skip_ws_Cons)
  moreover have "length r < length s" if p: "pmembers d (Suc n) s = Some (ms, r)" for d s ms r
  proof -
    have ws: "length (skip_ws t) \<le> length t" for t by (rule skip_ws_le)
    show ?thesis using p ws
      by (cases s) (auto split: list.splits if_splits option.splits prod.splits dest!: v m unquote_shorter skip_ws_Cons,
        (meson less_trans less_le_trans le_less_trans less_SucI le_imp_less_Suc)+)
  qed
  moreover have "length r < length s" if p: "pelems d (Suc n) s = Some (vs, r)" for d s vs r
    using p skip_ws_le
    by (auto split: list.splits if_splits option.splits prod.splits dest!: v e skip_ws_Cons,
        (meson less_trans less_le_trans le_less_trans less_SucI le_imp_less_Suc)+)
  ultimately show ?case by blast
qed simp

declare pval.simps [simp del] pmembers.simps [simp del] pelems.simps [simp del]

lemma parse_shorterD:
  "pval d n s = Some (v, r) \<Longrightarrow> length r < length s"
  "pmembers d n s = Some (ms, r) \<Longrightarrow> length r < length s"
  "pelems d n s = Some (vs, r) \<Longrightarrow> length r < length s"
  using parse_shorter [of n] by blast+

text \<open>More fuel than twice the length of the input changes nothing.\<close>

lemma fuel_step:
  "(\<forall>d s. 2 * length s < n \<longrightarrow> pval d (Suc n) s = pval d n s) \<and>
   (\<forall>d s. 2 * length s < n \<longrightarrow> pmembers d (Suc n) s = pmembers d n s) \<and>
   (\<forall>d s. 2 * length s + 1 < n \<longrightarrow> pelems d (Suc n) s = pelems d n s)"
proof (induction n)
  case (Suc n)
  then have v: "pval d (Suc n) s = pval d n s" if "2 * length s < n" for d s using that by blast
  from Suc have m: "pmembers d (Suc n) s = pmembers d n s" if "2 * length s < n" for d s using that by blast
  from Suc have e: "pelems d (Suc n) s = pelems d n s" if "2 * length s + 1 < n" for d s using that by blast
  have "pval d (Suc (Suc n)) s = pval d (Suc n) s" if "2 * length s < Suc n" for d s
    using that skip_ws_le
    by (subst (1 2) pval.simps(2)) (auto split: list.split simp: m e dest!: skip_ws_Cons)
  moreover have "pmembers d (Suc (Suc n)) s = pmembers d (Suc n) s" if l: "2 * length s < Suc n" for d s
  proof -
    have a: "2 * length (skip_ws r') < n" if "s \<noteq> []" "unquote (tl s) = Some (k, r)" "skip_ws r = c # r'" for k r c r'
      using that l unquote_shorter [OF that(2)] skip_ws_Cons [OF that(3)] skip_ws_le [of r'] by simp
    have b: "2 * length (skip_ws r') < n" if "pval d n t = Some (w, r)" "2 * length t < n" "skip_ws r = c # r'" for t w r c r'
      using that parse_shorterD(1) [OF that(1)] skip_ws_Cons [OF that(3)] skip_ws_le [of r'] by simp
    show ?thesis
    proof (cases "\<exists>k r c r'. s \<noteq> [] \<and> unquote (tl s) = Some (k, r) \<and> skip_ws r = c # r'")
      case True
      then obtain k r c r' where t: "s \<noteq> []" "unquote (tl s) = Some (k, r)" "skip_ws r = c # r'" by blast
      have eq: "pval d (Suc n) (skip_ws r') = pval d n (skip_ws r')" using v a [OF t] by blast
      have "pmembers d (Suc n) (skip_ws r3) = pmembers d n (skip_ws r3)"
        if "pval d n (skip_ws r') = Some (w, r2)" "skip_ws r2 = e # r3" for w r2 e r3
        using m b [OF that(1) a [OF t] that(2)] by blast
      then show ?thesis using t eq
        by (subst (1 2) pmembers.simps(2)) (auto split: option.split list.split)
    next
      case False
      then show ?thesis
        by (subst (1 2) pmembers.simps(2)) (auto split: option.split list.split)
    qed
  qed
  moreover have "pelems d (Suc (Suc n)) s = pelems d (Suc n) s" if l: "2 * length s + 1 < Suc n" for d s
  proof -
    have a: "2 * length s < n" using l by simp
    have b: "2 * length (skip_ws r') + 1 < n" if "pval d n s = Some (w, r)" "skip_ws r = c # r'" for w r c r'
      using that l parse_shorterD(1) [OF that(1)] skip_ws_Cons [OF that(2)] skip_ws_le [of r'] by simp
    show ?thesis
      by (subst (1 2) pelems.simps(2)) (auto split: option.split list.split dest: b simp: v [OF a] e)
  qed
  ultimately show ?case by blast
qed simp

lemma pval_fuel: "2 * length s < n \<Longrightarrow> n \<le> m \<Longrightarrow> pval d m s = pval d n s"
proof (induction m)
  case (Suc m)
  then show ?case using fuel_step [of m] by (cases "n = Suc m") auto
qed simp

section \<open>What is written is read back\<close>

text \<open>A string as it survives: every byte that starts no valid encoding is replaced by U+FFFD.\<close>

function to_valid :: "string \<Rightarrow> string" where
  "to_valid s =
     (if s = [] then []
      else if rune_width s = 0 then [chr 239, chr 191, chr 189] @ to_valid (drop 1 s)
      else take (rune_width s) s @ to_valid (drop (rune_width s) s))"
  by pat_completeness auto
termination
  by (relation "measure length") (auto simp: length_greater_0_conv)

declare to_valid.simps [simp del]

lemma to_valid_id: "ValidString s \<Longrightarrow> to_valid s = s"
proof (induction s rule: to_valid.induct)
  case (1 s)
  show ?case
  proof (cases "s = []")
    case False
    then have w: "rune_width s \<noteq> 0" using 1(3) by (simp add: ValidString_width)
    then have "ValidString (drop (rune_width s) s)" using 1(3) ValidString_rune by blast
    then show ?thesis using 1(2) [OF False w] w False by (simp add: to_valid.simps [of s])
  qed (simp add: to_valid.simps)
qed

lemma chr_eq_iff: "n < 256 \<Longrightarrow> (chr n = c) = (byte c = n)" "n < 256 \<Longrightarrow> (c = chr n) = (byte c = n)"
  by (metis byte_chr chr_byte)+

lemma backslash_dquote [simp]: "backslash \<noteq> dquote" "dquote \<noteq> backslash"
  by (simp_all add: chr_eq_iff)

lemma hex_val_hex_digit [simp]: "n < 16 \<Longrightarrow> hex_val (hex_digit n) = Some n"
  by (simp add: hex_val_def hex_digit_def Let_def)

lemma unquote_u:
  assumes "u4 ds = Some v" and "length ds = 4" and "v < 55296 \<or> 57344 \<le> v"
  shows "unquote (backslash # CHR ''u'' # ds @ X) = map_option (apfst (append (encode_rune v))) (unquote X)"
proof -
  obtain a b c d where ds: "ds = [a, b, c, d]" using assms(2)
    by (auto simp: length_Suc_conv numeral_eq_Suc)
  have u: "u4 (ds @ X) = Some v" using assms(1) ds by simp
  have p: "surrogate_pair v X = None" using assms(3) by (auto simp: surrogate_pair_def)
  have d: "drop 2 (backslash # CHR ''u'' # ds @ X) = ds @ X" "drop 6 (backslash # CHR ''u'' # ds @ X) = X"
    using ds by simp_all
  show ?thesis by (subst unquote.simps) (simp only: d u, simp add: p)
qed

lemma unquote_simple:
  assumes "simple_escape e = Some c"
  shows "unquote (backslash # e # X) = map_option (apfst ((#) c)) (unquote X)"
proof -
  have "e \<noteq> CHR ''u''" using assms by (auto simp: simple_escape_def chr_eq_iff byte_def split: if_splits)
  then show ?thesis using assms by (subst unquote.simps) simp
qed

lemma unquote_ascii:
  assumes "byte c < 128"
  shows "unquote (escape_ascii c @ X) = map_option (apfst ((#) c)) (unquote X)"
proof -
  let ?b = "byte c"
  consider "?b \<in> {34, 92}" | "?b \<in> {8, 12, 10, 13, 9}"
    | "?b \<notin> {34, 92, 8, 12, 10, 13, 9}" "?b < 32 \<or> ?b \<in> {38, 60, 62}"
    | "?b \<notin> {34, 92, 38, 60, 62}" "32 \<le> ?b" by force
  then show ?thesis
  proof cases
    case 1
    then have "simple_escape c = Some c" by (auto simp: simple_escape_def chr_eq_iff)
    then show ?thesis using 1 unquote_simple by (auto simp: escape_ascii_def Let_def)
  next
    case 2
    then obtain e where "escape_ascii c = [backslash, e]" "simple_escape e = Some c"
      by (auto simp: escape_ascii_def simple_escape_def Let_def chr_eq_iff byte_def)
    then show ?thesis using unquote_simple by simp
  next
    case 3
    have "unquote (backslash # CHR ''u'' # ''00'' @ [hex_digit (?b div 16), hex_digit (?b mod 16)] @ X) =
        map_option (apfst (append (encode_rune ?b))) (unquote X)"
      using assms
      by (intro unquote_u [of "''00'' @ [hex_digit (?b div 16), hex_digit (?b mod 16)]", simplified append_assoc])
        (auto simp: hex_val_def [of "CHR ''0''"] byte_def [of "CHR ''0''"])
    moreover have "encode_rune ?b = [c]" using assms by (simp add: encode_rune_def)
    moreover have "append [c] = (#) c" by auto
    ultimately show ?thesis using 3 by (auto simp: escape_ascii_def Let_def)
  next
    case 4
    then show ?thesis using assms
      by (subst unquote.simps) (auto simp: escape_ascii_def Let_def chr_eq_iff)
  qed
qed

lemma append_raw: "rune_width s \<noteq> 0 \<Longrightarrow> 128 \<le> byte (hd s) \<Longrightarrow>
    unquote (take (rune_width s) s @ X) = map_option (apfst (append (take (rune_width s) s))) (unquote X)"
proof -
  assume w: "rune_width s \<noteq> 0" and b: "128 \<le> byte (hd s)"
  let ?r = "take (rune_width s) s"
  have l: "length ?r = rune_width s" using rune_width_le [of s] by simp
  have rw: "rune_width (?r @ X) = rune_width s" using w by (simp add: rune_width_append rune_width_take)
  have h: "hd (?r @ X) = hd s" using w by (cases s) (auto simp: take_Cons')
  have ne: "?r @ X \<noteq> []" using w l by (metis append_is_Nil_conv length_0_conv)
  have q: "hd s \<noteq> dquote" "hd s \<noteq> backslash" using b by (auto simp: chr_eq_iff)
  have d: "drop (rune_width s) (?r @ X) = X" "take (rune_width s) (?r @ X) = ?r" using l by simp_all
  show ?thesis
    using w b q ne by (subst unquote.simps) (simp only: h rw d, simp)
qed

lemma unquote_escape: "unquote (escape_string s @ dquote # rest) = Some (to_valid s, rest)"
proof (induction s rule: escape_string.induct)
  case (1 s)
  have u: "u4 ''fffd'' = Some 65533" "u4 ''2028'' = Some 8232" "u4 ''2029'' = Some 8233"
    by (simp_all add: hex_val_def Let_def byte_def)
  have r: "encode_rune 65533 = [chr 239, chr 191, chr 189]" "encode_rune 8232 = [chr 226, chr 128, chr 168]"
    "encode_rune 8233 = [chr 226, chr 128, chr 169]"
    by (simp_all add: encode_rune_def)
  show ?case
  proof (cases "s = []")
    case True
    then show ?thesis by (simp add: escape_string.simps to_valid.simps unquote.simps [of "dquote # rest"])
  next
    case ne: False
    show ?thesis
    proof (cases "byte (hd s) < 128")
      case True
      then have "rune_width s = 1" "take 1 s = [hd s]" using ne by (cases s; simp add: Let_def)+
      then show ?thesis using 1(1) [OF ne True] True ne
        by (simp add: escape_string.simps [of s] to_valid.simps [of s] unquote_ascii)
    next
      case False
      show ?thesis
      proof (cases "rune_width s = 0")
        case True
        then show ?thesis using 1(2) [OF ne False True] False ne unquote_u [OF u(1)]
          by (simp add: escape_string.simps [of s] to_valid.simps [of s] r)
      next
        case w: False
        have IH: "unquote (escape_string (drop (rune_width s) s) @ dquote # rest)
            = Some (to_valid (drop (rune_width s) s), rest)"
          using 1(3) [OF ne False w refl refl] .
        show ?thesis
          using ne False w IH unquote_u [OF u(2)] unquote_u [OF u(3)] append_raw [OF w]
          by (auto simp: escape_string.simps [of s] to_valid.simps [of s] r Let_def)
      qed
    qed
  qed
qed

text \<open>A number literal that ends where the next character cannot continue it.\<close>

definition ends_number :: "string \<Rightarrow> bool" where
  "ends_number rest \<longleftrightarrow> rest = [] \<or> \<not> is_digit (hd rest) \<and> hd rest \<notin> {CHR ''.'', CHR ''e'', CHR ''E''}"

definition number_ok :: "string \<Rightarrow> bool" where
  "number_ok t \<longleftrightarrow> t \<noteq> [] \<and> (is_digit (hd t) \<or> hd t = CHR ''-'') \<and>
     (\<forall>rest. ends_number rest \<longrightarrow> scan_number (t @ rest) = Some (t, rest))"

primrec wf_json :: "json \<Rightarrow> bool" where
  "wf_json JNull = True"
| "wf_json (JBool b) = True"
| "wf_json (JNumber t) = number_ok t"
| "wf_json (JString s) = True"
| "wf_json (JArray vs) = list_all id (map wf_json vs)"
| "wf_json (JObject ms) = list_all snd (map (map_prod id wf_json) ms)"

primrec nesting :: "json \<Rightarrow> nat" where
  "nesting JNull = 0"
| "nesting (JBool b) = 0"
| "nesting (JNumber t) = 0"
| "nesting (JString s) = 0"
| "nesting (JArray vs) = Suc (foldr max (map nesting vs) 0)"
| "nesting (JObject ms) = Suc (foldr max (map snd (map (map_prod id nesting) ms)) 0)"

text \<open>The value with its strings as they survive.\<close>

primrec received :: "json \<Rightarrow> json" where
  "received JNull = JNull"
| "received (JBool b) = JBool b"
| "received (JNumber t) = JNumber t"
| "received (JString s) = JString (to_valid s)"
| "received (JArray vs) = JArray (map received vs)"
| "received (JObject ms) = JObject (map (map_prod to_valid received) ms)"

lemma skip_ws_id: "s \<noteq> [] \<Longrightarrow> byte (hd s) \<notin> {32, 9, 13, 10} \<Longrightarrow> skip_ws s = s"
  by (cases s) (auto simp: skip_ws_def)

lemma encode_hd:
  "wf_json v \<Longrightarrow> encode v \<noteq> [] \<and> byte (hd (encode v)) \<notin> {32, 9, 13, 10, 93, 125}"
  by (cases v) (auto simp: quote_string_def number_ok_def is_digit_def byte_def chr_def)

lemma skip_ws_encode: "wf_json v \<Longrightarrow> skip_ws (encode v @ rest) = encode v @ rest"
  using encode_hd [of v] by (intro skip_ws_id) auto

lemma foldr_max_le: "foldr max xs 0 \<le> (d::nat) \<longleftrightarrow> (\<forall>x \<in> set xs. x \<le> d)"
  by (induction xs) auto

definition member_text :: "string \<times> json \<Rightarrow> string" where
  "member_text m = quote_string (fst m) @ '':'' @ encode (snd m)"

lemma encode_JObject: "encode (JObject ms) = ''{'' @ Join (map member_text ms) '','' @ ''}''"
proof -
  have "map (\<lambda>(k, t). quote_string k @ '':'' @ t) (map (map_prod id encode) ms) = map member_text ms"
    by (auto simp: member_text_def)
  then show ?thesis by (metis encode.simps(6))
qed

lemma ends_number_delim: "ends_number (CHR '','' # s)" "ends_number (CHR ''}'' # s)" "ends_number (CHR '']'' # s)"
  by (simp_all add: ends_number_def is_digit_def byte_def)

lemma skip_ws_delim:
  "skip_ws (CHR '','' # s) = CHR '','' # s" "skip_ws (CHR ''}'' # s) = CHR ''}'' # s"
  "skip_ws (CHR '']'' # s) = CHR '']'' # s" "skip_ws (CHR '':'' # s) = CHR '':'' # s" "skip_ws (dquote # s) = dquote # s"
  by (simp_all add: skip_ws_def byte_def chr_def)

lemma member_read:
  assumes "wf_json v" and "pval d n (encode v @ e # rest) = Some (received v, e # rest)"
    and "e = CHR '','' \<or> e = CHR ''}''"
  shows "pmembers d (Suc n) (member_text (k, v) @ e # rest) =
    (if e = CHR ''}'' then Some ([(to_valid k, received v)], rest)
     else map_option (apfst ((#) (to_valid k, received v))) (pmembers d n (skip_ws rest)))"
proof -
  have s: "member_text (k, v) @ e # rest = dquote # escape_string k @ dquote # CHR '':'' # encode v @ e # rest"
    by (simp add: member_text_def quote_string_def)
  show ?thesis unfolding s using assms
    by (subst pmembers.simps(2)) (auto simp: unquote_escape skip_ws_delim skip_ws_encode)
qed

lemma members_read:
  assumes "\<And>k v n rest. (k, v) \<in> set ms \<Longrightarrow> 2 * length (encode v) < n \<Longrightarrow> ends_number rest \<Longrightarrow>
      pval d n (encode v @ rest) = Some (received v, rest)"
    and "\<And>k v. (k, v) \<in> set ms \<Longrightarrow> wf_json v" and "ms \<noteq> []"
    and "2 * length (Join (map member_text ms) '','') < n"
  shows "pmembers d n (Join (map member_text ms) '','' @ CHR ''}'' # rest) = Some (map (map_prod to_valid received) ms, rest)"
  using assms
proof (induction ms arbitrary: n)
  case (Cons m ms)
  obtain k v where m: "m = (k, v)" by fastforce
  obtain n' where n: "n = Suc n'" using Cons.prems(4) by (cases n) auto
  have len: "2 * length (encode v) < n'"
    using Cons.prems(4) m n by (cases ms) (simp_all add: member_text_def quote_string_def)
  have wf: "wf_json v" using Cons.prems(2) [of k v] m by simp
  show ?case
  proof (cases ms)
    case Nil
    have "pval d n' (encode v @ CHR ''}'' # rest) = Some (received v, CHR ''}'' # rest)"
      using Cons.prems(1) [of k v n' "CHR ''}'' # rest"] m len by (simp add: ends_number_delim)
    from member_read [OF wf this] show ?thesis using Nil m n by simp
  next
    case (Cons m' ms')
    let ?t = "Join (map member_text ms) '','' @ CHR ''}'' # rest"
    have r: "pval d n' (encode v @ CHR '','' # ?t) = Some (received v, CHR '','' # ?t)"
      using Cons.prems(1) [of k v n' "CHR '','' # ?t"] m len by (simp add: ends_number_delim)
    have t: "skip_ws ?t = ?t"
      using Cons by (intro skip_ws_id) (cases ms'; simp add: member_text_def quote_string_def)+
    have "2 * length (Join (map member_text ms) '','') < n'"
      using Cons.prems(4) Cons n by simp
    then have "pmembers d n' ?t = Some (map (map_prod to_valid received) ms, rest)"
      using Cons.IH [of n'] Cons.prems(1,2) Cons by fastforce
    then show ?thesis using member_read [OF wf r] Cons m n t by simp
  qed
qed simp

lemma elems_read:
  assumes "\<And>v n rest. v \<in> set vs \<Longrightarrow> 2 * length (encode v) < n \<Longrightarrow> ends_number rest \<Longrightarrow>
      pval d n (encode v @ rest) = Some (received v, rest)"
    and "\<And>v. v \<in> set vs \<Longrightarrow> wf_json v" and "vs \<noteq> []"
    and "2 * length (Join (map encode vs) '','') + 1 < n"
  shows "pelems d n (Join (map encode vs) '','' @ CHR '']'' # rest) = Some (map received vs, rest)"
  using assms
proof (induction vs arbitrary: n)
  case (Cons v vs)
  obtain n' where n: "n = Suc n'" using Cons.prems(4) by (cases n) auto
  have len: "2 * length (encode v) < n'" using Cons.prems(4) n by (cases vs) simp_all
  show ?case
  proof (cases vs)
    case Nil
    have "pval d n' (encode v @ CHR '']'' # rest) = Some (received v, CHR '']'' # rest)"
      using Cons.prems(1) [of v n' "CHR '']'' # rest"] len by (simp add: ends_number_delim)
    then show ?thesis using Nil n by (simp add: pelems.simps skip_ws_delim)
  next
    case (Cons v' vs')
    let ?t = "Join (map encode vs) '','' @ CHR '']'' # rest"
    have r: "pval d n' (encode v @ CHR '','' # ?t) = Some (received v, CHR '','' # ?t)"
      using Cons.prems(1) [of v n' "CHR '','' # ?t"] len by (simp add: ends_number_delim)
    have t: "skip_ws ?t = ?t"
      using Cons Cons.prems(2) [of v'] encode_hd [of v'] by (intro skip_ws_id) (cases vs'; simp)+
    have "2 * length (Join (map encode vs) '','') + 1 < n'" using Cons.prems(4) Cons n by simp
    then have "pelems d n' ?t = Some (map received vs, rest)"
      using Cons.IH [of n'] Cons.prems(1,2) Cons by fastforce
    then show ?thesis using r Cons n t by (simp add: pelems.simps skip_ws_delim)
  qed
qed simp

lemma pval_encode:
  "wf_json v \<Longrightarrow> nesting v \<le> d \<Longrightarrow> 2 * length (encode v) < n \<Longrightarrow> ends_number rest \<Longrightarrow>
     pval d n (encode v @ rest) = Some (received v, rest)"
proof (induction v arbitrary: d n rest)
  case JNull
  then obtain m where "n = Suc m" by (cases n) auto
  then show ?case by (simp add: pval.simps HasPrefix_def chr_eq_iff byte_def)
next
  case (JBool b)
  then obtain m where "n = Suc m" by (cases n) auto
  then show ?case by (simp add: pval.simps HasPrefix_def chr_eq_iff byte_def)
next
  case (JNumber t)
  then obtain m where m: "n = Suc m" by (cases n) auto
  obtain c cs where t: "t = c # cs" "is_digit c \<or> c = CHR ''-''"
    using JNumber by (cases t) (auto simp: number_ok_def)
  have "c \<notin> {CHR ''{'', CHR ''['', dquote, CHR ''t'', CHR ''f'', CHR ''n''}"
    using t(2) by (auto simp: is_digit_def chr_eq_iff byte_def)
  then show ?case using JNumber m t by (simp add: pval.simps HasPrefix_def number_ok_def)
next
  case (JString s)
  then obtain m where "n = Suc m" by (cases n) auto
  moreover have "dquote \<notin> {CHR ''{'', CHR ''[''}" by (simp add: chr_eq_iff byte_def)
  ultimately show ?case by (simp add: pval.simps quote_string_def unquote_escape)
next
  case (JArray vs)
  obtain m where m: "n = Suc m" using JArray.prems(3) by (cases n) auto
  obtain e where e: "d = Suc e" using JArray.prems(2) by (cases d) auto
  show ?case
  proof (cases "vs = []")
    case True
    then show ?thesis using m e by (simp add: pval.simps skip_ws_delim)
  next
    case False
    have wf: "wf_json v" if "v \<in> set vs" for v using JArray.prems(1) that by (auto simp: list_all_iff)
    have "pelems e m (Join (map encode vs) '','' @ CHR '']'' # rest) = Some (map received vs, rest)"
      using JArray.IH JArray.prems(2,3) wf False m e
      by (intro elems_read) (auto simp: foldr_max_le)
    moreover obtain j js where j: "Join (map encode vs) '','' = j # js" "byte j \<notin> {32, 9, 13, 10, 93, 125}"
      using False wf encode_hd [of "hd vs"] by (cases vs; cases "tl vs"; cases "encode (hd vs)") auto
    moreover have "skip_ws (j # js @ CHR '']'' # rest) = j # js @ CHR '']'' # rest" "j \<noteq> CHR '']''"
      using j(2) by (auto simp: skip_ws_id byte_def)
    ultimately show ?thesis by (simp add: m e pval.simps chr_eq_iff byte_def)
  qed
next
  case (JObject ms)
  obtain m where m: "n = Suc m" using JObject.prems(3) by (cases n) auto
  obtain e where e: "d = Suc e" using JObject.prems(2) by (cases d) auto
  show ?case
  proof (cases "ms = []")
    case True
    then show ?thesis using m e by (simp add: pval.simps skip_ws_delim)
  next
    case False
    have wf: "wf_json v" if "(k, v) \<in> set ms" for k v using JObject.prems(1) that by (auto simp: list_all_iff)
    have deep: "nesting v \<le> e" if "(k, v) \<in> set ms" for k v
      using JObject.prems(2) that e by (auto simp: foldr_max_le)
    have "pmembers e m (Join (map member_text ms) '','' @ CHR ''}'' # rest) =
        Some (map (map_prod to_valid received) ms, rest)"
    proof (rule members_read)
      show "2 * length (Join (map member_text ms) '','') < m"
        using JObject.prems(3) m unfolding encode_JObject by simp
    qed (use JObject.IH wf deep False in auto)
    moreover obtain js where j: "Join (map member_text ms) '','' = dquote # js"
      using False by (cases ms; cases "tl ms") (auto simp: member_text_def quote_string_def)
    ultimately show ?thesis
      unfolding encode_JObject by (simp add: m e pval.simps skip_ws_delim chr_eq_iff byte_def)
  qed
qed

lemma Unmarshal_encode:
  assumes "wf_json v" and "nesting v \<le> 10000"
  shows "Unmarshal (encode v) = Some (received v)"
proof -
  have "skip_ws (encode v) = encode v" using skip_ws_encode [OF assms(1), of "[]"] by simp
  moreover have "pval 10000 (parse_fuel (encode v)) (encode v @ []) = Some (received v, [])"
    using assms by (intro pval_encode) (simp_all add: parse_fuel_def ends_number_def)
  ultimately show ?thesis by (simp add: Unmarshal_def skip_ws_def)
qed

lemma Unmarshal_fuel:
  assumes "parse_fuel s \<le> m"
  shows "Unmarshal s = (case pval 10000 m (skip_ws s) of None \<Rightarrow> None | Some (v, r) \<Rightarrow> if skip_ws r = [] then Some v else None)"
  using pval_fuel [of "skip_ws s" "parse_fuel s" m 10000] skip_ws_le [of s] assms
  by (simp add: Unmarshal_def parse_fuel_def)

text \<open>The numbers the model writes are integers.\<close>

lemma nat_digits_hd: "n \<noteq> 0 \<Longrightarrow> hd (nat_digits n) \<noteq> CHR ''0''"
proof (induction n rule: nat_digits.induct)
  case (1 n)
  show ?case
  proof (cases "n < 10")
    case True
    then show ?thesis using 1(2) by (simp add: nat_digits.simps [of n] digit_char_def chr_eq_iff byte_def)
  next
    case False
    then have "n div 10 \<noteq> 0" by simp
    with 1(1) [OF False] show ?thesis using False nat_digits_all [of "n div 10"]
      by (simp add: nat_digits.simps [of n])
  qed
qed

lemma number_int_digits:
  assumes "ends_number rest"
  shows "number_int (nat_digits n @ rest) = Some (nat_digits n, rest)"
proof (cases "n = 0")
  case True
  then show ?thesis by (simp add: nat_digits.simps [of 0] digit_char_def number_int_def chr_eq_iff byte_def)
next
  case False
  have all: "\<forall>c \<in> set (nat_digits n). is_digit c" and ne: "nat_digits n \<noteq> []"
    using nat_digits_all [of n] by (auto simp: list_all_iff)
  have "takeWhile is_digit (nat_digits n @ rest) = nat_digits n" "dropWhile is_digit (nat_digits n @ rest) = rest"
    using all assms by (cases rest; auto simp: ends_number_def takeWhile_append dropWhile_append)+
  then have "digits_part (nat_digits n @ rest) = Some (nat_digits n, rest)" using ne by (simp add: digits_part_def)
  then show ?thesis using nat_digits_hd [OF False] ne by (cases "nat_digits n") (auto simp: number_int_def)
qed

lemma Itoa_number_ok: "number_ok (Itoa i)"
proof -
  have parts: "number_frac rest = Some ([], rest)" "number_exp rest = Some ([], rest)" if "ends_number rest" for rest
    using that by (cases rest; auto simp: number_frac_def number_exp_def ends_number_def)+
  have hd: "is_digit (hd (nat_digits n))" "nat_digits n \<noteq> []" for n
    using nat_digits_all [of n] by (cases "nat_digits n"; auto)+
  have minus: "hd (nat_digits n @ rest) \<noteq> CHR ''-''" for n rest
    using hd [of n] nat_digits_hd_not_sign [of n] by simp
  show ?thesis
    using hd minus by (auto simp: number_ok_def Itoa_def scan_number_def Let_def number_int_digits parts)
qed

end
