(* ===== verification/Handoff.thy ===== *)
theory Handoff
  imports Pods Json
begin

text \<open>
  The handoff from the coordinator to the operator. The control pod turns the result of its harness
  into a termination payload (\<open>cmd/courier-control/main.go\<close>), renders it as one line within the
  budget of a pod's termination message (\<open>internal/executor/termination.go\<close>), and exits with its code;
  the operator decodes the line it finds on the terminated container (\<open>terminationMessage\<close> of
  \<open>internal/controller/coderun_controller.go\<close>). \<open>decode_termination\<close> is the decoder that \<open>Pods\<close> and
  the controller take as an argument.
\<close>

section \<open>The payload of the control pod\<close>

text \<open>The declared outcomes, as the strings they are.\<close>

abbreviation "OutcomeChanges \<equiv> ''changes''"
abbreviation "OutcomeNoChangeNeeded \<equiv> ''no_change_needed''"
abbreviation "OutcomeNeedsDecision \<equiv> ''needs_decision''"
abbreviation "OutcomeBlockedExternal \<equiv> ''blocked_external''"
abbreviation "OutcomeCapacityExhausted \<equiv> ''capacity_exhausted''"

text \<open>The result of a harness; the error is its message.\<close>

record HarnessResult =
  hx_Outcome :: string
  hx_Kind :: NativeResultKind
  hx_Reason :: string
  hx_Err :: "string option"
  hx_WorkspaceSafety :: "WorkspaceSafetyEvidence option"
  hx_NoChange :: "NoChangeClose option"

fun kind_name :: "NativeResultKind \<Rightarrow> string" where
  "kind_name NativeResultPublished = ''published''"
| "kind_name NativeResultNoChange = ''no_change''"
| "kind_name NativeResultNeedsHuman = ''needs_human''"
| "kind_name NativeResultBlockedExternal = ''blocked_external''"
| "kind_name NativeResultCapacityExhausted = ''capacity_exhausted''"
| "kind_name NativeResultWorkloadFailed = ''workload_failed''"
| "kind_name NativeResultInfrastructureFailed = ''infrastructure_failed''"
| "kind_name (NativeResultOther s) = s"

record Termination =
  tn_Phase :: string
  tn_Result :: string
  tn_ExitCode :: int
  tn_Reason :: string
  tn_Outcome :: string
  tn_ResultKind :: string
  tn_WorkspaceSafety :: "WorkspaceSafetyEvidence option"
  tn_Category :: string

definition maxTerminationReasonBytes :: nat where "maxTerminationReasonBytes = 1200"
abbreviation "TerminationTruncationSuffix \<equiv> ''... [truncated]''"
abbreviation "TerminationLinePrefix \<equiv> ''COURIER_TERMINATION ''"

definition boundReason :: "string \<Rightarrow> string" where
  "boundReason reason =
     (if length reason \<le> maxTerminationReasonBytes then reason
      else take (valid_cut reason (maxTerminationReasonBytes - length TerminationTruncationSuffix)) reason
           @ TerminationTruncationSuffix)"

definition terminationFor :: "HarnessResult \<Rightarrow> Termination" where
  "terminationFor r =
     (let base = \<lparr>tn_Phase = ''Failed'', tn_Result = ''failure'', tn_ExitCode = 1, tn_Reason = boundReason (hx_Reason r),
            tn_Outcome = [], tn_ResultKind = kind_name (hx_Kind r), tn_WorkspaceSafety = hx_WorkspaceSafety r,
            tn_Category = []\<rparr>
      in case hx_Err r of
           Some e \<Rightarrow>
             base\<lparr>tn_Reason := boundReason e, tn_Outcome := (if hx_Outcome r = OutcomeChanges then OutcomeChanges else [])\<rparr>
         | None \<Rightarrow>
             if hx_Outcome r = OutcomeChanges
             then base\<lparr>tn_ExitCode := 0, tn_Phase := ''Verifying'', tn_Result := ''success'', tn_Outcome := hx_Outcome r\<rparr>
             else if hx_Outcome r = OutcomeNoChangeNeeded
             then base\<lparr>tn_ExitCode := 3, tn_Phase := ''NoChangeNeeded'', tn_Result := ''success'', tn_Outcome := hx_Outcome r\<rparr>
             else if hx_Outcome r = OutcomeNeedsDecision \<or> hx_Outcome r = OutcomeBlockedExternal
             then base\<lparr>tn_ExitCode := 2, tn_Phase := ''NeedsHuman'', tn_Result := ''needs-human'', tn_Outcome := hx_Outcome r\<rparr>
             else if hx_Outcome r = OutcomeCapacityExhausted
             then base\<lparr>tn_ExitCode := 2, tn_Phase := ''NeedsHuman'', tn_Result := ''needs-human'', tn_Outcome := hx_Outcome r,
                    tn_Category := ''capacity-exhaustion''\<rparr>
             else base)"

section \<open>The line\<close>

text \<open>The document \<open>json.Marshal\<close> writes for the payload: the fields in the order of the struct, the
  ones with \<open>omitempty\<close> left out when they are empty.\<close>

definition json_field :: "string \<Rightarrow> string \<Rightarrow> (string \<times> json) list" where
  "json_field key value = (if value = [] then [] else [(key, JString value)])"

definition safety_json :: "WorkspaceSafetyEvidence \<Rightarrow> json" where
  "safety_json e = JObject [(''state'', JString (ws_State e)), (''branch'', JString (ws_Branch e)),
     (''head'', JString (ws_Head e)), (''remote_head'', JString (ws_RemoteHead e))]"

definition termination_json :: "Termination \<Rightarrow> json" where
  "termination_json t = JObject
     ([(''phase'', JString (tn_Phase t)), (''result'', JString (tn_Result t)),
       (''exit_code'', JNumber (Itoa (tn_ExitCode t))), (''reason'', JString (tn_Reason t))]
      @ json_field ''outcome'' (tn_Outcome t) @ json_field ''result_kind'' (tn_ResultKind t)
      @ (case tn_WorkspaceSafety t of None \<Rightarrow> [] | Some e \<Rightarrow> [(''workspace_safety'', safety_json e)])
      @ json_field ''category'' (tn_Category t))"

definition MarshalTerminationLine :: "Termination \<Rightarrow> string" where
  "MarshalTerminationLine payload = TerminationLinePrefix @ encode (termination_json payload) @ [chr 10]"

fun back_off :: "string \<Rightarrow> nat \<Rightarrow> nat" where
  "back_off s 0 = 0"
| "back_off s (Suc n) = (if cont_byte (s ! Suc n) then back_off s n else Suc n)"

definition ShrinkTerminationReason :: "string \<Rightarrow> nat \<Rightarrow> string" where
  "ShrinkTerminationReason reason overflow =
     (let floor = length TerminationTruncationSuffix in
      if length reason \<le> floor then reason
      else
        let base = (if HasSuffix reason TerminationTruncationSuffix then take (length reason - floor) reason else reason);
            limit = back_off base (length base - (overflow + floor))
        in take limit base @ TerminationTruncationSuffix)"

lemma back_off_le: "back_off s n \<le> n"
  by (induction n) auto

lemma ShrinkTerminationReason_shorter:
  assumes "0 < overflow" and "15 < length reason"
  shows "length (ShrinkTerminationReason reason overflow) < length reason"
proof -
  define base where "base = (if HasSuffix reason TerminationTruncationSuffix
      then take (length reason - length TerminationTruncationSuffix) reason else reason)"
  have b: "length base \<le> length reason" by (simp add: base_def)
  have "ShrinkTerminationReason reason overflow =
      take (back_off base (length base - (overflow + length TerminationTruncationSuffix))) base @ TerminationTruncationSuffix"
    using assms(2) by (simp only: ShrinkTerminationReason_def Let_def base_def [symmetric]) simp
  then have "length (ShrinkTerminationReason reason overflow) \<le> (length base - (overflow + 15)) + 15"
    using back_off_le [of base "length base - (overflow + length TerminationTruncationSuffix)"] by simp
  then show ?thesis using assms b by simp
qed

text \<open>The loop of \<open>FitTerminationLine\<close>: the payload whose line is sent.\<close>

function fit_termination :: "Termination \<Rightarrow> Termination" where
  "fit_termination payload =
     (let line = MarshalTerminationLine payload in
      if length line \<le> MaxTerminationLineBytes then payload
      else
        let shrunk = ShrinkTerminationReason (tn_Reason payload) (length line - MaxTerminationLineBytes)
        in if shrunk = tn_Reason payload then payload else fit_termination (payload\<lparr>tn_Reason := shrunk\<rparr>))"
  by pat_completeness auto
termination
proof (relation "measure (length \<circ> tn_Reason)", goal_cases)
  case (2 payload line shrunk)
  have "15 < length (tn_Reason payload)"
    using 2 by (auto simp: ShrinkTerminationReason_def Let_def split: if_splits)
  then show ?case using 2 ShrinkTerminationReason_shorter by simp
qed simp

declare fit_termination.simps [simp del]

definition FitTerminationLine :: "Termination \<Rightarrow> string" where
  "FitTerminationLine payload = MarshalTerminationLine (fit_termination payload)"

section \<open>The decoder of the operator\<close>

text \<open>
  \<open>json.Unmarshal\<close> into a struct: a key names the field of that name, or else the first whose name
  differs in case only; other keys are skipped, null leaves a field alone (and clears a pointer), a
  key that occurs again decodes into what is there, and a value of another type is an error, as is
  an integer out of range. \<open>None\<close> is an error.
\<close>

definition field_of :: "(string \<times> 'f) list \<Rightarrow> string \<Rightarrow> 'f option" where
  "field_of fs key =
     (case map_of fs key of
        Some f \<Rightarrow> Some f
      | None \<Rightarrow> map_option snd (find (\<lambda>(name, f). EqualFold name key) fs))"

fun decode_members :: "(string \<times> (json \<Rightarrow> 'a \<Rightarrow> 'a option)) list \<Rightarrow> (string \<times> json) list \<Rightarrow> 'a \<Rightarrow> 'a option" where
  "decode_members fs [] a = Some a"
| "decode_members fs ((key, v) # ms) a =
     (case field_of fs key of
        None \<Rightarrow> decode_members fs ms a
      | Some f \<Rightarrow> (case f v a of None \<Rightarrow> None | Some a' \<Rightarrow> decode_members fs ms a'))"

definition decode_struct :: "(string \<times> (json \<Rightarrow> 'a \<Rightarrow> 'a option)) list \<Rightarrow> json \<Rightarrow> 'a \<Rightarrow> 'a option" where
  "decode_struct fs v a =
     (case v of JObject ms \<Rightarrow> decode_members fs ms a | JNull \<Rightarrow> Some a | _ \<Rightarrow> None)"

definition string_field :: "((string \<Rightarrow> string) \<Rightarrow> 'a \<Rightarrow> 'a) \<Rightarrow> json \<Rightarrow> 'a \<Rightarrow> 'a option" where
  "string_field upd v a =
     (case v of JString s \<Rightarrow> Some (upd (\<lambda>_. s) a) | JNull \<Rightarrow> Some a | _ \<Rightarrow> None)"

definition int_field :: "int \<Rightarrow> int \<Rightarrow> ((int \<Rightarrow> int) \<Rightarrow> 'a \<Rightarrow> 'a) \<Rightarrow> json \<Rightarrow> 'a \<Rightarrow> 'a option" where
  "int_field lo hi upd v a =
     (case v of
        JNumber t \<Rightarrow> (case Atoi t of
            None \<Rightarrow> None | Some i \<Rightarrow> if lo \<le> i \<and> i \<le> hi then Some (upd (\<lambda>_. i) a) else None)
      | JNull \<Rightarrow> Some a
      | _ \<Rightarrow> None)"

abbreviation "int64_field \<equiv> int_field min_int max_int"
abbreviation "int32_field \<equiv> int_field (- (2 ^ 31)) (2 ^ 31 - 1)"

definition pointer_field ::
  "(json \<Rightarrow> 'b \<Rightarrow> 'b option) \<Rightarrow> 'b \<Rightarrow> ('a \<Rightarrow> 'b option) \<Rightarrow> (('b option \<Rightarrow> 'b option) \<Rightarrow> 'a \<Rightarrow> 'a) \<Rightarrow>
     json \<Rightarrow> 'a \<Rightarrow> 'a option" where
  "pointer_field decode zero get upd v a =
     (if v = JNull then Some (upd (\<lambda>_. None) a)
      else (case decode v (case get a of None \<Rightarrow> zero | Some b \<Rightarrow> b) of
          None \<Rightarrow> None | Some b \<Rightarrow> Some (upd (\<lambda>_. Some b) a)))"

fun decode_elems :: "(json \<Rightarrow> 'b \<Rightarrow> 'b option) \<Rightarrow> 'b \<Rightarrow> json list \<Rightarrow> 'b list \<Rightarrow> 'b list option" where
  "decode_elems decode zero [] old = Some []"
| "decode_elems decode zero (v # vs) old =
     (case decode v (if old = [] then zero else hd old) of
        None \<Rightarrow> None
      | Some b \<Rightarrow> map_option ((#) b) (decode_elems decode zero vs (drop 1 old)))"

definition slice_field ::
  "(json \<Rightarrow> 'b \<Rightarrow> 'b option) \<Rightarrow> 'b \<Rightarrow> ('a \<Rightarrow> 'b list) \<Rightarrow> (('b list \<Rightarrow> 'b list) \<Rightarrow> 'a \<Rightarrow> 'a) \<Rightarrow> json \<Rightarrow> 'a \<Rightarrow> 'a option" where
  "slice_field decode zero get upd v a =
     (case v of
        JArray vs \<Rightarrow> (case decode_elems decode zero vs (get a) of None \<Rightarrow> None | Some bs \<Rightarrow> Some (upd (\<lambda>_. bs) a))
      | JNull \<Rightarrow> Some (upd (\<lambda>_. []) a)
      | _ \<Rightarrow> None)"

definition zero_safety :: WorkspaceSafetyEvidence where
  "zero_safety = \<lparr>ws_State = [], ws_Branch = [], ws_Head = [], ws_RemoteHead = []\<rparr>"

definition safety_fields :: "(string \<times> (json \<Rightarrow> WorkspaceSafetyEvidence \<Rightarrow> WorkspaceSafetyEvidence option)) list" where
  "safety_fields = [(''state'', string_field ws_State_update), (''branch'', string_field ws_Branch_update),
     (''head'', string_field ws_Head_update), (''remoteHead'', string_field ws_RemoteHead_update)]"

definition zero_tokens :: TokenUsage where
  "zero_tokens = \<lparr>tu_Input = 0, tu_Output = 0, tu_Reasoning = 0, tu_CacheRead = 0, tu_CacheWrite = 0, tu_Total = 0\<rparr>"

definition token_fields :: "(string \<times> (json \<Rightarrow> TokenUsage \<Rightarrow> TokenUsage option)) list" where
  "token_fields = [(''input'', int64_field tu_Input_update), (''output'', int64_field tu_Output_update),
     (''reasoning'', int64_field tu_Reasoning_update), (''cacheRead'', int64_field tu_CacheRead_update),
     (''cacheWrite'', int64_field tu_CacheWrite_update), (''total'', int64_field tu_Total_update)]"

definition zero_tally :: SubagentTally where
  "zero_tally = \<lparr>sa_Agent = [], sa_Model = [], sa_Calls = 0, sa_Errors = 0, sa_RuntimeMillis = 0\<rparr>"

definition tally_fields :: "(string \<times> (json \<Rightarrow> SubagentTally \<Rightarrow> SubagentTally option)) list" where
  "tally_fields = [(''agent'', string_field sa_Agent_update), (''model'', string_field sa_Model_update),
     (''calls'', int64_field sa_Calls_update), (''errors'', int64_field sa_Errors_update),
     (''runtimeMillis'', int64_field sa_RuntimeMillis_update)]"

definition zero_telemetry :: RunTelemetry where
  "zero_telemetry = \<lparr>rt_ModelCalls = 0, rt_ToolCalls = 0, rt_Sessions = 0, rt_MaxContext = 0, rt_Tokens = None,
     rt_Subagents = [], rt_DurationMillis = 0, rt_Continuations = 0\<rparr>"

definition telemetry_fields :: "(string \<times> (json \<Rightarrow> RunTelemetry \<Rightarrow> RunTelemetry option)) list" where
  "telemetry_fields = [(''modelCalls'', int64_field rt_ModelCalls_update), (''toolCalls'', int64_field rt_ToolCalls_update),
     (''sessions'', int64_field rt_Sessions_update), (''maxContext'', int64_field rt_MaxContext_update),
     (''tokens'', pointer_field (decode_struct token_fields) zero_tokens rt_Tokens rt_Tokens_update),
     (''subagents'', slice_field (decode_struct tally_fields) zero_tally rt_Subagents rt_Subagents_update),
     (''durationMillis'', int64_field rt_DurationMillis_update), (''continuations'', int64_field rt_Continuations_update)]"

definition zero_message :: terminationMessage where
  "zero_message = \<lparr>te_Phase = [], te_Result = [], te_ExitCode = 0, te_Reason = [], te_Outcome = [], te_ResultKind = [],
     te_Category = [], te_Summary = None, te_WorkspaceSafety = None\<rparr>"

definition message_fields :: "(string \<times> (json \<Rightarrow> terminationMessage \<Rightarrow> terminationMessage option)) list" where
  "message_fields = [(''phase'', string_field te_Phase_update), (''result'', string_field te_Result_update),
     (''exit_code'', int32_field te_ExitCode_update), (''reason'', string_field te_Reason_update),
     (''outcome'', string_field te_Outcome_update), (''result_kind'', string_field te_ResultKind_update),
     (''category'', string_field te_Category_update),
     (''summary'', pointer_field (decode_struct telemetry_fields) zero_telemetry te_Summary te_Summary_update),
     (''workspace_safety'',
        pointer_field (decode_struct safety_fields) zero_safety te_WorkspaceSafety te_WorkspaceSafety_update)]"

definition decode_termination :: decoder where
  "decode_termination payload =
     (case Unmarshal payload of None \<Rightarrow> None | Some v \<Rightarrow> decode_struct message_fields v zero_message)"

section \<open>What arrives\<close>

definition arrived_safety :: "WorkspaceSafetyEvidence \<Rightarrow> WorkspaceSafetyEvidence" where
  "arrived_safety e = \<lparr>ws_State = to_valid (ws_State e), ws_Branch = to_valid (ws_Branch e),
     ws_Head = to_valid (ws_Head e), ws_RemoteHead = []\<rparr>"

definition arrived :: "Termination \<Rightarrow> terminationMessage" where
  "arrived t = \<lparr>te_Phase = to_valid (tn_Phase t), te_Result = to_valid (tn_Result t), te_ExitCode = tn_ExitCode t,
     te_Reason = to_valid (tn_Reason t), te_Outcome = to_valid (tn_Outcome t), te_ResultKind = to_valid (tn_ResultKind t),
     te_Category = to_valid (tn_Category t), te_Summary = None,
     te_WorkspaceSafety = map_option arrived_safety (tn_WorkspaceSafety t)\<rparr>"

lemma to_valid_Nil [simp]: "to_valid [] = []"
  by (simp add: to_valid.simps)

lemma to_valid_ascii: "byte c < 128 \<Longrightarrow> to_valid (c # s) = c # to_valid s"
  by (subst to_valid.simps) (simp add: Let_def)

lemma decode_safety:
  "decode_struct safety_fields (received (safety_json e)) zero_safety = Some (arrived_safety e)"
  by (simp add: safety_json_def decode_struct_def zero_safety_def arrived_safety_def to_valid_ascii byte_def field_of_def
      safety_fields_def string_field_def EqualFold_def ascii_lower_def)

lemma wf_termination_json: "wf_json (termination_json t)" "nesting (termination_json t) \<le> 10000"
  by (simp_all add: termination_json_def safety_json_def json_field_def Itoa_number_ok split: option.split)

lemmas field_lookup = field_of_def to_valid_ascii byte_def string_field_def EqualFold_def ascii_lower_def

lemma decode_members_append:
  "decode_members fs (xs @ ys) a = (case decode_members fs xs a of None \<Rightarrow> None | Some b \<Rightarrow> decode_members fs ys b)"
  by (induction fs xs a rule: decode_members.induct) (auto split: option.split)

lemma decode_json_field:
  "field_of fs (to_valid key) = Some (string_field upd) \<Longrightarrow> upd (\<lambda>_. []) a = a \<Longrightarrow>
   decode_members fs (map (map_prod to_valid received) (json_field key value)) a = Some (upd (\<lambda>_. to_valid value) a)"
  by (simp add: json_field_def string_field_def)

lemma message_field:
  "field_of message_fields (to_valid ''phase'') = Some (string_field te_Phase_update)"
  "field_of message_fields (to_valid ''result'') = Some (string_field te_Result_update)"
  "field_of message_fields (to_valid ''exit_code'') = Some (int32_field te_ExitCode_update)"
  "field_of message_fields (to_valid ''reason'') = Some (string_field te_Reason_update)"
  "field_of message_fields (to_valid ''outcome'') = Some (string_field te_Outcome_update)"
  "field_of message_fields (to_valid ''result_kind'') = Some (string_field te_ResultKind_update)"
  "field_of message_fields (to_valid ''category'') = Some (string_field te_Category_update)"
  "field_of message_fields (to_valid ''workspace_safety'') =
     Some (pointer_field (decode_struct safety_fields) zero_safety te_WorkspaceSafety te_WorkspaceSafety_update)"
  by (simp_all add: message_fields_def field_of_def to_valid_ascii byte_def)

lemma decode_payload:
  assumes "- (2 ^ 31) \<le> tn_ExitCode t" and "tn_ExitCode t \<le> 2 ^ 31 - 1"
  shows "decode_termination (encode (termination_json t)) = Some (arrived t)"
proof -
  have code: "Atoi (Itoa (tn_ExitCode t)) = Some (tn_ExitCode t)"
    using assms by (intro Atoi_Itoa) (simp_all add: min_int_def max_int_def)
  have base: "decode_members message_fields (map (map_prod to_valid received)
      [(''phase'', JString (tn_Phase t)), (''result'', JString (tn_Result t)),
       (''exit_code'', JNumber (Itoa (tn_ExitCode t))), (''reason'', JString (tn_Reason t))]) zero_message =
      Some (zero_message\<lparr>te_Phase := to_valid (tn_Phase t), te_Result := to_valid (tn_Result t),
        te_ExitCode := tn_ExitCode t, te_Reason := to_valid (tn_Reason t)\<rparr>)"
    using assms by (simp add: message_field string_field_def int_field_def code)
  have "received (safety_json e) \<noteq> JNull" for e by (simp add: safety_json_def)
  then have safety: "decode_members message_fields (map (map_prod to_valid received)
      (case tn_WorkspaceSafety t of None \<Rightarrow> [] | Some e \<Rightarrow> [(''workspace_safety'', safety_json e)])) m =
      Some (m\<lparr>te_WorkspaceSafety := map_option arrived_safety (tn_WorkspaceSafety t)\<rparr>)" if "te_WorkspaceSafety m = None" for m
    using that by (cases "tn_WorkspaceSafety t")
      (simp_all add: message_field pointer_field_def decode_safety)
  have "decode_struct message_fields (received (termination_json t)) zero_message = Some (arrived t)"
    by (simp only: termination_json_def received.simps map_append decode_struct_def json.case decode_members_append base
        option.case)
      (simp add: decode_json_field message_field safety zero_message_def arrived_def)
  then show ?thesis by (simp add: decode_termination_def Unmarshal_encode wf_termination_json)
qed

lemma TrimSpace_newline:
  assumes "s \<noteq> []" "33 \<le> byte (hd s)" "byte (hd s) < 128" "33 \<le> byte (last s)" "byte (last s) < 128"
  shows "TrimSpace (s @ [chr 10]) = s"
proof -
  have l: "trim_left space_runes (s @ [chr 10]) = s @ [chr 10]"
    using assms space_runes_ends by (intro trim_left_None strip_prefix_None) auto
  have r: "trim_left (map rev space_runes) (rev s) = rev s"
    using assms space_runes_ends by (intro trim_left_None strip_prefix_None) (auto simp: hd_rev)
  have "strip_prefix (map rev space_runes) (chr 10 # rev s) = Some (rev s)"
    by (simp add: space_runes_def chr_eq_iff)
  moreover have "[] \<notin> set (map rev space_runes)" using Nil_notin_space_runes by auto
  ultimately have "trim_left (map rev space_runes) (chr 10 # rev s) = rev s"
    using r by (simp add: trim_left.simps [of "map rev space_runes" "chr 10 # rev s"])
  with l show ?thesis by (simp add: TrimSpace_def)
qed

lemma trimmed_line: "TrimSpace (MarshalTerminationLine t) = TerminationLinePrefix @ encode (termination_json t)"
proof -
  have "\<exists>b. encode (termination_json t) = b @ ''}''" by (simp add: termination_json_def)
  then obtain b where b: "encode (termination_json t) = b @ ''}''" ..
  have "TrimSpace ((TerminationLinePrefix @ encode (termination_json t)) @ [chr 10]) =
      TerminationLinePrefix @ encode (termination_json t)"
    using b by (intro TrimSpace_newline) (simp_all add: byte_def)
  then show ?thesis by (simp add: MarshalTerminationLine_def)
qed

lemma fit_termination_keeps:
  "tn_Phase (fit_termination t) = tn_Phase t" "tn_Result (fit_termination t) = tn_Result t"
  "tn_ExitCode (fit_termination t) = tn_ExitCode t" "tn_Outcome (fit_termination t) = tn_Outcome t"
  "tn_ResultKind (fit_termination t) = tn_ResultKind t" "tn_Category (fit_termination t) = tn_Category t"
  "tn_WorkspaceSafety (fit_termination t) = tn_WorkspaceSafety t"
proof -
  have "fit_termination t = t\<lparr>tn_Reason := tn_Reason (fit_termination t)\<rparr>"
  proof (induction t rule: fit_termination.induct)
    case (1 t)
    show ?case
    proof (cases "length (MarshalTerminationLine t) \<le> MaxTerminationLineBytes \<or>
        ShrinkTerminationReason (tn_Reason t) (length (MarshalTerminationLine t) - MaxTerminationLineBytes) = tn_Reason t")
      case True
      then show ?thesis by (subst (1 2) fit_termination.simps) (auto simp: Let_def)
    next
      case False
      then show ?thesis using 1 [OF refl _ refl]
        by (subst (1 2) fit_termination.simps) (auto simp: Let_def)
    qed
  qed
  then obtain reason where e: "fit_termination t = t\<lparr>tn_Reason := reason\<rparr>" by blast
  show "tn_Phase (fit_termination t) = tn_Phase t" "tn_Result (fit_termination t) = tn_Result t"
    "tn_ExitCode (fit_termination t) = tn_ExitCode t" "tn_Outcome (fit_termination t) = tn_Outcome t"
    "tn_ResultKind (fit_termination t) = tn_ResultKind t" "tn_Category (fit_termination t) = tn_Category t"
    "tn_WorkspaceSafety (fit_termination t) = tn_WorkspaceSafety t"
    by (simp_all add: e)
qed

text \<open>The fixed parts of a payload, by the ending.\<close>

lemma terminationFor_cases:
  obtains (failed) "tn_ExitCode (terminationFor r) = 1" "tn_Phase (terminationFor r) = ''Failed''"
      "tn_Result (terminationFor r) = ''failure''" "tn_Outcome (terminationFor r) \<in> {[], OutcomeChanges}"
      "tn_Category (terminationFor r) = []"
  | (changes) "tn_ExitCode (terminationFor r) = 0" "tn_Phase (terminationFor r) = ''Verifying''"
      "tn_Result (terminationFor r) = ''success''" "tn_Outcome (terminationFor r) = OutcomeChanges"
      "tn_Category (terminationFor r) = []"
  | (no_change) "tn_ExitCode (terminationFor r) = 3" "tn_Phase (terminationFor r) = ''NoChangeNeeded''"
      "tn_Result (terminationFor r) = ''success''" "tn_Outcome (terminationFor r) = OutcomeNoChangeNeeded"
      "tn_Category (terminationFor r) = []"
  | (parked) "tn_ExitCode (terminationFor r) = 2" "tn_Phase (terminationFor r) = ''NeedsHuman''"
      "tn_Result (terminationFor r) = ''needs-human''"
      "tn_Outcome (terminationFor r) \<in> {OutcomeNeedsDecision, OutcomeBlockedExternal, OutcomeCapacityExhausted}"
      "tn_Category (terminationFor r) \<in> {[], ''capacity-exhaustion''}"
proof (cases "hx_Err r")
  case (Some e)
  then show ?thesis by (intro failed) (simp_all add: terminationFor_def Let_def)
next
  case None
  consider "hx_Outcome r = OutcomeChanges" | "hx_Outcome r = OutcomeNoChangeNeeded"
    | "hx_Outcome r \<in> {OutcomeNeedsDecision, OutcomeBlockedExternal, OutcomeCapacityExhausted}"
    | "hx_Outcome r \<notin> {OutcomeChanges, OutcomeNoChangeNeeded, OutcomeNeedsDecision, OutcomeBlockedExternal, OutcomeCapacityExhausted}"
    by blast
  then show ?thesis
  proof cases
    case 1
    with None show ?thesis by (intro changes) (simp_all add: terminationFor_def Let_def)
  next
    case 2
    with None show ?thesis by (intro no_change) (simp_all add: terminationFor_def Let_def)
  next
    case 3
    with None show ?thesis by (intro parked) (auto simp: terminationFor_def Let_def)
  next
    case 4
    with None show ?thesis by (intro failed) (simp_all add: terminationFor_def Let_def)
  qed
qed

lemma terminationFor_valid:
  "validTerminationPhaseResult (tn_ExitCode (terminationFor r)) (tn_Phase (terminationFor r)) (tn_Result (terminationFor r))"
  "tn_ExitCode (terminationFor r) \<in> {0, 1, 2, 3}"
  by (cases r rule: terminationFor_cases; simp add: validTerminationPhaseResult_def exitDeclaredNoChange_def)+

lemma terminationFor_plain:
  "to_valid (tn_Phase (terminationFor r)) = tn_Phase (terminationFor r)"
  "to_valid (tn_Result (terminationFor r)) = tn_Result (terminationFor r)"
  "to_valid (tn_Outcome (terminationFor r)) = tn_Outcome (terminationFor r)"
  "to_valid (tn_Category (terminationFor r)) = tn_Category (terminationFor r)"
  by (cases r rule: terminationFor_cases; auto simp: to_valid_ascii byte_def)+

fun known_kind :: "NativeResultKind \<Rightarrow> bool" where
  "known_kind (NativeResultOther s) = False"
| "known_kind _ = True"

lemma kind_name_read:
  assumes "known_kind kind"
  shows "native_kind (TrimSpace (to_valid (kind_name kind))) = Some kind"
proof -
  have "to_valid (kind_name kind) = kind_name kind" "TrimSpace (kind_name kind) = kind_name kind"
    using assms by (cases kind; simp add: to_valid_ascii TrimSpace_id byte_def)+
  then show ?thesis using assms by (cases kind) (simp_all add: native_kind_def)
qed

lemma operator_parses:
  assumes "coordinatorTerminated pod = Some tm" and "tm_Message tm = FitTerminationLine (terminationFor r)"
    and "tm_ExitCode tm = tn_ExitCode (terminationFor r)"
  shows "parseCoordinatorTermination decode_termination (Some pod) = Some (arrived (fit_termination (terminationFor r)))"
proof -
  let ?t = "fit_termination (terminationFor r)"
  have "CutPrefix (TrimSpace (tm_Message tm)) handoffPrefix = (encode (termination_json ?t), True)"
    using assms(2) by (simp add: FitTerminationLine_def trimmed_line CutPrefix_def HasPrefix_def)
  moreover have "decode_termination (encode (termination_json ?t)) = Some (arrived ?t)"
    using terminationFor_valid(2) [of r] by (intro decode_payload) (auto simp: fit_termination_keeps)
  moreover have "te_ExitCode (arrived ?t) = tm_ExitCode tm"
    "validTerminationPhaseResult (tm_ExitCode tm) (te_Phase (arrived ?t)) (te_Result (arrived ?t))"
    using assms(3) terminationFor_valid(1) [of r] by (simp_all add: arrived_def fit_termination_keeps terminationFor_plain)
  ultimately show ?thesis using assms(1) by (simp add: parseCoordinatorTermination_def)
qed

text \<open>C6: The operator reads what the control pod wrote. For every result a harness can end with, a
  coordinator that exits with the code and the termination line of that result is understood: the
  phase, the outcome, the category and the kind of the result arrive as they were written, and the
  reason arrives as far as the line has room for it.\<close>

theorem handoff_is_read_as_written:
  assumes "coordinatorTerminated pod = Some tm" and "tm_Message tm = FitTerminationLine (terminationFor r)"
    and "tm_ExitCode tm = tn_ExitCode (terminationFor r)" and "known_kind (hx_Kind r)"
  shows "\<exists>m. parseCoordinatorTermination decode_termination (Some pod) = Some m
    \<and> te_Phase m = tn_Phase (terminationFor r) \<and> te_Outcome m = tn_Outcome (terminationFor r)
    \<and> te_Category m = tn_Category (terminationFor r) \<and> nativeResultKindOf m = Some (hx_Kind r)
    \<and> te_Reason m = to_valid (tn_Reason (fit_termination (terminationFor r)))"
proof -
  have "tn_ResultKind (terminationFor r) = kind_name (hx_Kind r)"
    by (simp add: terminationFor_def Let_def split: option.split)
  then show ?thesis
    using operator_parses [OF assms(1-3)] kind_name_read [OF assms(4)]
    by (simp add: arrived_def fit_termination_keeps terminationFor_plain nativeResultKindOf_def)
qed

definition ended_pod :: "HarnessResult \<Rightarrow> Pod" where
  "ended_pod r = \<lparr>po_Name = ''pod'', po_Namespace = ''ns'', po_UID = ''uid'', po_RunLabel = ''run'', po_Owners = [],
     po_Annotations = [], po_Spec = \<lparr>ps_RestartPolicy = ''Never'', ps_HostPID = False, ps_ShareProcessNamespace = None,
       ps_Containers = [], ps_InitContainers = [], ps_AutomountServiceAccountToken = None, ps_NodeName = ''node''\<rparr>,
     po_Phase = PodFailed, po_Reason = [], po_CreationTimestamp = 0, po_DeletionTimestamp = None,
     po_ContainerStatuses = [\<lparr>cs_Name = coordinatorContainerName, cs_Running = None,
       cs_Terminated = Some \<lparr>tm_ExitCode = tn_ExitCode (terminationFor r), tm_Reason = [],
         tm_Message = FitTerminationLine (terminationFor r), tm_StartedAt = 0, tm_FinishedAt = 0\<rparr>,
       cs_ContainerID = [], cs_Image = [], cs_RestartCount = 0\<rparr>],
     po_InitContainerStatuses = []\<rparr>"

lemma ended_pod_terminated:
  "\<exists>tm. coordinatorTerminated (ended_pod r) = Some tm \<and> tm_Message tm = FitTerminationLine (terminationFor r)
     \<and> tm_ExitCode tm = tn_ExitCode (terminationFor r)"
  by (simp add: coordinatorTerminated_def ended_pod_def)

definition blocked_result :: HarnessResult where
  "blocked_result = \<lparr>hx_Outcome = OutcomeBlockedExternal, hx_Kind = NativeResultBlockedExternal, hx_Reason = ''no network'',
     hx_Err = None, hx_WorkspaceSafety = None, hx_NoChange = None\<rparr>"

theorem handoff_is_read_as_written_witness:
  "\<exists>m. parseCoordinatorTermination decode_termination (Some (ended_pod blocked_result)) = Some m
    \<and> te_Phase m = ''NeedsHuman'' \<and> te_Outcome m = ''blocked_external'' \<and> nativeResultKindOf m = Some NativeResultBlockedExternal"
proof -
  obtain tm where "coordinatorTerminated (ended_pod blocked_result) = Some tm"
    "tm_Message tm = FitTerminationLine (terminationFor blocked_result)"
    "tm_ExitCode tm = tn_ExitCode (terminationFor blocked_result)"
    using ended_pod_terminated by blast
  from handoff_is_read_as_written [OF this] show ?thesis
    by (auto simp: blocked_result_def terminationFor_def)
qed

section \<open>The line fits\<close>

lemma escape_string_length: "length (escape_string s) \<le> 6 * length s"
proof (induction s rule: escape_string.induct)
  case (1 s)
  have ascii: "length (escape_ascii c) \<le> 6" for c by (simp add: escape_ascii_def Let_def)
  show ?case
  proof (cases "s = []")
    case False
    then obtain n where one: "length s = Suc n" by (cases s) auto
    consider "byte (hd s) < 128" | "\<not> byte (hd s) < 128" "rune_width s = 0"
      | "\<not> byte (hd s) < 128" "rune_width s \<noteq> 0" by blast
    then show ?thesis
    proof cases
      case 1
      then show ?thesis using "1.IH"(1) [OF False] ascii [of "hd s"] one False by (subst escape_string.simps) simp
    next
      case 2
      then show ?thesis using "1.IH"(2) [OF False] one False by (subst escape_string.simps) simp
    next
      case 3
      have w: "rune_width s \<le> length s" by (rule rune_width_le)
      have IH: "length (escape_string (drop (rune_width s) s)) \<le> 6 * (length s - rune_width s)"
        using "1.IH"(3) [OF False 3 refl refl] by simp
      have "length (escape_string s) \<le> max 6 (rune_width s) + length (escape_string (drop (rune_width s) s))"
        using 3 False w by (subst escape_string.simps) (simp add: Let_def min_def le_max_iff_disj)
      moreover have "max 6 (rune_width s) \<le> 6 * rune_width s" using 3 by simp
      ultimately show ?thesis using IH w by (simp add: diff_mult_distrib2)
    qed
  qed (simp add: escape_string.simps)
qed

definition plain_char :: "char \<Rightarrow> bool" where
  "plain_char c \<longleftrightarrow> 32 \<le> byte c \<and> byte c < 127 \<and> byte c \<notin> {34, 38, 60, 62, 92}"

lemma escape_string_plain: "list_all plain_char s \<Longrightarrow> escape_string s = s"
  by (induction s) (auto simp: escape_string.simps [of "_ # _"] escape_string.simps [of "[]"] escape_ascii_def plain_char_def Let_def)

lemma length_Join_comma: "length (Join ws '','') \<le> sum_list (map (\<lambda>w. Suc (length w)) ws)"
  by (induction ws "'',''" rule: Join.induct) auto

definition text_cost :: "(string \<times> json) list \<Rightarrow> nat" where
  "text_cost ms = sum_list (map (\<lambda>m. Suc (length (member_text m))) ms)"

lemma encode_cost: "length (encode (JObject ms)) \<le> text_cost ms + 2"
  using length_Join_comma [of "map member_text ms"] unfolding encode_JObject
  by (simp add: text_cost_def comp_def)

lemma text_cost_append: "text_cost (xs @ ys) = text_cost xs + text_cost ys"
  by (simp add: text_cost_def)

lemma text_cost_string:
  "list_all plain_char k \<Longrightarrow> text_cost [(k, JString s)] = length k + length (escape_string s) + 6"
  by (simp add: text_cost_def member_text_def quote_string_def escape_string_plain)

lemma json_field_cost:
  "list_all plain_char k \<Longrightarrow> text_cost (json_field k s) \<le> length k + length (escape_string s) + 6"
  using text_cost_string [of k s] by (simp add: json_field_def text_cost_def)

definition safety_bytes :: "WorkspaceSafetyEvidence option \<Rightarrow> nat" where
  "safety_bytes e = (case e of None \<Rightarrow> 0
     | Some e \<Rightarrow> length (ws_State e) + length (ws_Branch e) + length (ws_Head e) + length (ws_RemoteHead e))"

lemma safety_cost:
  "text_cost (case e of None \<Rightarrow> [] | Some e \<Rightarrow> [(''workspace_safety'', safety_json e)]) \<le> 80 + 6 * safety_bytes e"
proof (cases e)
  case (Some w)
  define inner where "inner = [(''state'', JString (ws_State w)), (''branch'', JString (ws_Branch w)),
     (''head'', JString (ws_Head w)), (''remote_head'', JString (ws_RemoteHead w))]"
  have split: "inner = [(''state'', JString (ws_State w))] @ [(''branch'', JString (ws_Branch w))] @
     [(''head'', JString (ws_Head w))] @ [(''remote_head'', JString (ws_RemoteHead w))]"
    by (simp add: inner_def)
  have plain: "list_all plain_char ''state''" "list_all plain_char ''branch''" "list_all plain_char ''head''"
    "list_all plain_char ''remote_head''" "list_all plain_char ''workspace_safety''"
    by (simp_all add: plain_char_def byte_def)
  have "text_cost inner \<le> 50 + 6 * safety_bytes e"
    unfolding split text_cost_append
    using escape_string_length [of "ws_State w"] escape_string_length [of "ws_Branch w"]
      escape_string_length [of "ws_Head w"] escape_string_length [of "ws_RemoteHead w"] plain Some
    by (simp add: text_cost_string safety_bytes_def)
  moreover have "text_cost [(''workspace_safety'', JObject inner)] \<le> 20 + length (encode (JObject inner))"
    using plain(5) by (simp add: text_cost_def member_text_def quote_string_def escape_string_plain del: encode.simps(6))
  ultimately show ?thesis using Some encode_cost [of inner] by (simp add: safety_json_def inner_def [symmetric] del: encode.simps(6))
qed (simp add: text_cost_def)

lemma fit_or_floor:
  "length (FitTerminationLine t) \<le> MaxTerminationLineBytes \<or> length (tn_Reason (fit_termination t)) \<le> 15"
proof (induction t rule: fit_termination.induct)
  case (1 t)
  let ?over = "length (MarshalTerminationLine t) - MaxTerminationLineBytes"
  consider "length (MarshalTerminationLine t) \<le> MaxTerminationLineBytes"
    | "\<not> length (MarshalTerminationLine t) \<le> MaxTerminationLineBytes" "ShrinkTerminationReason (tn_Reason t) ?over = tn_Reason t"
    | "\<not> length (MarshalTerminationLine t) \<le> MaxTerminationLineBytes" "ShrinkTerminationReason (tn_Reason t) ?over \<noteq> tn_Reason t"
    by blast
  then show ?case
  proof cases
    case 1
    then show ?thesis by (simp add: FitTerminationLine_def fit_termination.simps [of t] Let_def)
  next
    case 2
    then have "length (tn_Reason t) \<le> 15"
      using ShrinkTerminationReason_shorter [of ?over "tn_Reason t"] by (cases "15 < length (tn_Reason t)") auto
    then show ?thesis using 2 by (simp add: fit_termination.simps [of t] Let_def)
  next
    case 3
    then have "fit_termination t = fit_termination (t\<lparr>tn_Reason := ShrinkTerminationReason (tn_Reason t) ?over\<rparr>)"
      by (subst fit_termination.simps) (simp add: Let_def)
    then show ?thesis using "1.IH" [OF refl 3(1) refl 3(2)] by (simp add: FitTerminationLine_def)
  qed
qed

lemma terminationFor_lengths:
  assumes "known_kind (hx_Kind r)"
  shows "length (tn_Phase (terminationFor r)) \<le> 14" "length (tn_Result (terminationFor r)) \<le> 11"
    "length (tn_Outcome (terminationFor r)) \<le> 18" "length (tn_Category (terminationFor r)) \<le> 19"
    "length (Itoa (tn_ExitCode (terminationFor r))) = 1" "length (tn_ResultKind (terminationFor r)) \<le> 21"
proof -
  show "length (tn_Phase (terminationFor r)) \<le> 14" "length (tn_Result (terminationFor r)) \<le> 11"
    "length (tn_Outcome (terminationFor r)) \<le> 18" "length (tn_Category (terminationFor r)) \<le> 19"
    "length (Itoa (tn_ExitCode (terminationFor r))) = 1"
    by (cases r rule: terminationFor_cases; auto simp: Itoa_def nat_digits.simps)+
  have "tn_ResultKind (terminationFor r) = kind_name (hx_Kind r)"
    by (simp add: terminationFor_def Let_def split: option.split)
  then show "length (tn_ResultKind (terminationFor r)) \<le> 21" using assms by (cases "hx_Kind r") auto
qed

lemma line_cost:
  "length (MarshalTerminationLine t) \<le> 200 + length (Itoa (tn_ExitCode t)) + 6 * (length (tn_Phase t) + length (tn_Result t)
     + length (tn_Reason t) + length (tn_Outcome t) + length (tn_ResultKind t) + length (tn_Category t)
     + safety_bytes (tn_WorkspaceSafety t))"
proof -
  have plain: "list_all plain_char ''phase''" "list_all plain_char ''result''" "list_all plain_char ''exit_code''"
    "list_all plain_char ''reason''" "list_all plain_char ''outcome''" "list_all plain_char ''result_kind''"
    "list_all plain_char ''category''"
    by (simp_all add: plain_char_def byte_def)
  obtain ms where ms: "termination_json t = JObject ms" by (simp add: termination_json_def)
  then have "text_cost ms = text_cost [(''phase'', JString (tn_Phase t))] + text_cost [(''result'', JString (tn_Result t))]
      + text_cost [(''exit_code'', JNumber (Itoa (tn_ExitCode t)))] + text_cost [(''reason'', JString (tn_Reason t))]
      + text_cost (json_field ''outcome'' (tn_Outcome t)) + text_cost (json_field ''result_kind'' (tn_ResultKind t))
      + text_cost (case tn_WorkspaceSafety t of None \<Rightarrow> [] | Some e \<Rightarrow> [(''workspace_safety'', safety_json e)])
      + text_cost (json_field ''category'' (tn_Category t))"
    by (auto simp: termination_json_def text_cost_def)
  moreover have "text_cost [(''exit_code'', JNumber (Itoa (tn_ExitCode t)))] = 13 + length (Itoa (tn_ExitCode t))"
    using plain(3) by (simp add: text_cost_def member_text_def quote_string_def escape_string_plain)
  moreover have "length (MarshalTerminationLine t) \<le> 23 + text_cost ms"
    using encode_cost [of ms] by (simp add: MarshalTerminationLine_def ms del: encode.simps(6))
  ultimately show ?thesis
    using json_field_cost [OF plain(5), of "tn_Outcome t"] json_field_cost [OF plain(6), of "tn_ResultKind t"]
      json_field_cost [OF plain(7), of "tn_Category t"] safety_cost [of "tn_WorkspaceSafety t"]
      text_cost_string [OF plain(1), of "tn_Phase t"] text_cost_string [OF plain(2), of "tn_Result t"]
      text_cost_string [OF plain(4), of "tn_Reason t"]
      escape_string_length [of "tn_Phase t"] escape_string_length [of "tn_Result t"] escape_string_length [of "tn_Reason t"]
      escape_string_length [of "tn_Outcome t"] escape_string_length [of "tn_ResultKind t"] escape_string_length [of "tn_Category t"]
    by simp
qed

text \<open>C29: The termination line fits the budget of a pod's termination message. Whatever the reason says
  and however it inflates under escaping, the line is cut to at most 4096 bytes, as long as the
  workspace evidence has at most 544 bytes (the operator keeps at most 519 of it), and the loop that
  cuts it ends.\<close>

theorem termination_line_fits:
  assumes "known_kind (hx_Kind r)" and "safety_bytes (hx_WorkspaceSafety r) \<le> 544"
  shows "length (FitTerminationLine (terminationFor r)) \<le> 4096"
proof -
  let ?t = "fit_termination (terminationFor r)"
  have "tn_WorkspaceSafety (terminationFor r) = hx_WorkspaceSafety r"
    by (simp add: terminationFor_def Let_def split: option.split)
  then have "length (MarshalTerminationLine ?t) \<le> 3963 + 6 * length (tn_Reason ?t)"
    using line_cost [of ?t] terminationFor_lengths [OF assms(1)] assms(2) by (simp add: fit_termination_keeps)
  then show ?thesis using fit_or_floor [of "terminationFor r"]
    by (auto simp: FitTerminationLine_def MaxTerminationLineBytes_def)
qed

definition noisy_result :: HarnessResult where
  "noisy_result = blocked_result\<lparr>hx_Reason := replicate 5000 (chr 0)\<rparr>"

theorem termination_line_fits_witness:
  "length (FitTerminationLine (terminationFor noisy_result)) \<le> 4096"
  by (rule termination_line_fits) (simp_all add: noisy_result_def blocked_result_def safety_bytes_def)

end
