(* ===== verification/Availability.thy ===== *)
theory Availability
  imports Admission Handoff
begin

text \<open>
  Why a model call failed (\<open>internal/harness/availability.go\<close>): the classification of a provider's error
  response by its structured signals and its status, and the reset hint of its header. Two
  functions are arguments: \<open>until\<close> is the time left to an HTTP date (\<open>http.ParseTime\<close> and the clock),
  \<open>None\<close> where the date does not parse, and \<open>float_text\<close> renders a number literal through
  \<open>strconv.FormatFloat\<close>; no theorem assumes anything about either.
\<close>

datatype ProviderAvailability = ProviderAvailable | ProviderTransientRateLimit | ProviderAllowanceExhausted
  | ProviderAuthenticationFailed | ProviderRequestRejected | ProviderContextExhausted | ProviderUnavailable
  | ProviderUnknown

definition maxProviderSignalLength :: nat where "maxProviderSignalLength = 64"
definition maxRetryAfter :: duration where "maxRetryAfter = 24 * Hour"
definition maxInProcessRetryAfter :: duration where "maxInProcessRetryAfter = 5 * Second"

record ExhaustionSignals =
  xs_Codes :: "string list"
  xs_Types :: "string list"

definition DefaultExhaustionSignals :: ExhaustionSignals where
  "DefaultExhaustionSignals = \<lparr>
     xs_Codes = [''insufficient_quota'', ''quota_exceeded'', ''usage_limit_reached'', ''insufficient_balance'',
       ''billing_hard_limit_reached''],
     xs_Types = [''insufficient_quota'', ''quota_exceeded'', ''billing_error'']\<rparr>"

definition Empty_signals :: "ExhaustionSignals \<Rightarrow> bool" where
  "Empty_signals s \<longleftrightarrow> xs_Codes s = [] \<and> xs_Types s = []"

record ProviderClassification =
  pc_Availability :: ProviderAvailability
  pc_Code :: string
  pc_RetryAfter :: duration
  pc_Retryable :: bool

definition Deferred :: "ProviderClassification \<Rightarrow> bool" where
  "Deferred c \<longleftrightarrow>
     (if pc_Availability c \<in> {ProviderAllowanceExhausted, ProviderTransientRateLimit} then True
      else pc_Retryable c \<and> maxInProcessRetryAfter < pc_RetryAfter c)"

section \<open>Signals\<close>

definition signal_char :: "char \<Rightarrow> bool" where
  "signal_char c \<longleftrightarrow> (97 \<le> byte c \<and> byte c \<le> 122) \<or> (65 \<le> byte c \<and> byte c \<le> 90) \<or> is_digit c
     \<or> c \<in> {CHR ''_'', CHR ''.'', CHR ''-''}"

definition normalizeProviderSignalText :: "string \<Rightarrow> string" where
  "normalizeProviderSignalText value =
     (let v = TrimSpace value in
      if v = [] \<or> maxProviderSignalLength < length v then []
      else if list_all signal_char v then v else [])"

text \<open>A code is a string or a number; null decodes into the empty string.\<close>

definition normalizeProviderSignal :: "(string \<Rightarrow> string) \<Rightarrow> json option \<Rightarrow> string" where
  "normalizeProviderSignal float_text raw =
     (case raw of
        None \<Rightarrow> []
      | Some JNull \<Rightarrow> normalizeProviderSignalText []
      | Some (JString s) \<Rightarrow> normalizeProviderSignalText s
      | Some (JNumber t) \<Rightarrow> normalizeProviderSignalText (float_text t)
      | _ \<Rightarrow> [])"

text \<open>A raw message keeps the value as it is, null included.\<close>

definition raw_field :: "((json option \<Rightarrow> json option) \<Rightarrow> 'a \<Rightarrow> 'a) \<Rightarrow> json \<Rightarrow> 'a \<Rightarrow> 'a option" where
  "raw_field upd v a = Some (upd (\<lambda>_. Some v) a)"

record providerErrorFields =
  pf_Code :: "json option"
  pf_Type :: string

record providerErrorEnvelope =
  pe_Error :: "providerErrorFields option"
  pe_Code :: "json option"
  pe_Type :: string

definition error_fields :: "(string \<times> (json \<Rightarrow> providerErrorFields \<Rightarrow> providerErrorFields option)) list" where
  "error_fields = [(''code'', raw_field pf_Code_update), (''type'', string_field pf_Type_update)]"

definition envelope_fields :: "(string \<times> (json \<Rightarrow> providerErrorEnvelope \<Rightarrow> providerErrorEnvelope option)) list" where
  "envelope_fields =
     [(''error'', pointer_field (decode_struct error_fields) \<lparr>pf_Code = None, pf_Type = []\<rparr> pe_Error pe_Error_update),
      (''code'', raw_field pe_Code_update), (''type'', string_field pe_Type_update)]"

definition structuredErrorSignal :: "(string \<Rightarrow> string) \<Rightarrow> string \<Rightarrow> string \<times> string" where
  "structuredErrorSignal float_text body =
     (if body = [] then ([], [])
      else (case Unmarshal body of
          None \<Rightarrow> ([], [])
        | Some v \<Rightarrow> (case decode_struct envelope_fields v \<lparr>pe_Error = None, pe_Code = None, pe_Type = []\<rparr> of
              None \<Rightarrow> ([], [])
            | Some envelope \<Rightarrow>
                let rawCode = (case pe_Error envelope of
                       None \<Rightarrow> pe_Code envelope
                     | Some f \<Rightarrow> if pf_Code f \<noteq> None then pf_Code f else pe_Code envelope);
                    errType = (case pe_Error envelope of
                       None \<Rightarrow> pe_Type envelope
                     | Some f \<Rightarrow> if pf_Type f \<noteq> [] then pf_Type f else pe_Type envelope)
                in (normalizeProviderSignal float_text rawCode, normalizeProviderSignalText errType))))"

definition signals_match :: "ExhaustionSignals \<Rightarrow> string \<Rightarrow> string \<Rightarrow> bool" where
  "signals_match s code errType =
     list_ex (\<lambda>candidate. candidate \<noteq> [] \<and>
        (list_ex (EqualFold candidate) (xs_Codes s) \<or> list_ex (EqualFold candidate) (xs_Types s))) [code, errType]"

definition firstSignal :: "string list \<Rightarrow> string" where
  "firstSignal vs = (case find (\<lambda>v. v \<noteq> []) vs of None \<Rightarrow> [] | Some v \<Rightarrow> v)"

text \<open>The signals are normalised, so lowering them is lowering ASCII letters.\<close>

definition isContextSignal :: "string \<Rightarrow> string \<Rightarrow> bool" where
  "isContextSignal code errType =
     list_ex (\<lambda>candidate. map ascii_lower candidate \<in> {''context_length_exceeded'', ''context_length_exceeded_error'',
        ''max_tokens_exceeded'', ''string_above_max_length''}) [code, errType]"

section \<open>The reset hint\<close>

definition boundRetryAfter :: "duration \<Rightarrow> duration" where
  "boundRetryAfter d = (if maxRetryAfter < d then maxRetryAfter else d)"

text \<open>\<open>time.Duration(seconds) * time.Second\<close> is a product of 64-bit integers, which wraps; \<open>raw\<close> is
  the header's value.\<close>

definition parseRetryAfter :: "(string \<Rightarrow> duration option) \<Rightarrow> string \<Rightarrow> duration" where
  "parseRetryAfter until raw =
     (let raw = TrimSpace raw in
      if raw = [] then 0
      else (case Atoi raw of
          Some seconds \<Rightarrow>
            if seconds \<le> 0 then 0 else boundRetryAfter (sint (of_int (seconds * Second) :: 64 word))
        | None \<Rightarrow> (case until raw of
              None \<Rightarrow> 0
            | Some d \<Rightarrow> if d \<le> 0 then 0 else boundRetryAfter d)))"

section \<open>The classification\<close>

definition ClassifyProviderError ::
  "(string \<Rightarrow> duration option) \<Rightarrow> (string \<Rightarrow> string) \<Rightarrow> int \<Rightarrow> string \<Rightarrow> string \<Rightarrow> ExhaustionSignals \<Rightarrow> ProviderClassification" where
  "ClassifyProviderError until float_text status header body signals0 =
     (let signals = (if Empty_signals signals0 then DefaultExhaustionSignals else signals0);
          c = \<lparr>pc_Availability = ProviderUnknown, pc_Code = [], pc_RetryAfter = parseRetryAfter until header,
               pc_Retryable = False\<rparr>;
          (code, errType) = structuredErrorSignal float_text body
      in if isContextSignal code errType
         then c\<lparr>pc_Availability := ProviderContextExhausted, pc_Code := firstSignal [code, errType]\<rparr>
         else if signals_match signals code errType \<or> status = 402
         then c\<lparr>pc_Availability := ProviderAllowanceExhausted, pc_Code := firstSignal [code, errType]\<rparr>
         else if status = 429 then c\<lparr>pc_Availability := ProviderTransientRateLimit, pc_Retryable := True\<rparr>
         else if status = 401 \<or> status = 403 then c\<lparr>pc_Availability := ProviderAuthenticationFailed\<rparr>
         else if status = 408 then c\<lparr>pc_Availability := ProviderUnavailable, pc_Retryable := True\<rparr>
         else if 500 \<le> status then c\<lparr>pc_Availability := ProviderUnavailable, pc_Retryable := True\<rparr>
         else if status \<in> {400, 404, 422, 413} then c\<lparr>pc_Availability := ProviderRequestRejected\<rparr>
         else c)"

definition classifyStreamSignal :: "string \<Rightarrow> string \<Rightarrow> ExhaustionSignals \<Rightarrow> ProviderClassification" where
  "classifyStreamSignal code0 errType0 signals0 =
     (let signals = (if Empty_signals signals0 then DefaultExhaustionSignals else signals0);
          c = \<lparr>pc_Availability = ProviderUnknown, pc_Code = [], pc_RetryAfter = 0, pc_Retryable = False\<rparr>;
          code = normalizeProviderSignalText code0; errType = normalizeProviderSignalText errType0
      in if isContextSignal code errType
         then c\<lparr>pc_Availability := ProviderContextExhausted, pc_Code := firstSignal [code, errType]\<rparr>
         else if signals_match signals code errType
         then c\<lparr>pc_Availability := ProviderAllowanceExhausted, pc_Code := firstSignal [code, errType]\<rparr>
         else c)"

section \<open>The session's in-process retry\<close>

definition retryBackoff :: duration where "retryBackoff = 250 * 1000000"

record GatewayError =
  ge_Status :: int
  ge_Availability :: "ProviderAvailability option"
  ge_ProviderCode :: string
  ge_RetryAfter :: duration
  ge_Retryable :: bool

definition GatewayError_classification ::
  "(string \<Rightarrow> duration option) \<Rightarrow> (string \<Rightarrow> string) \<Rightarrow> GatewayError \<Rightarrow> ProviderClassification" where
  "GatewayError_classification until float_text e =
     (case ge_Availability e of
        None \<Rightarrow> ClassifyProviderError until float_text (ge_Status e) [] [] DefaultExhaustionSignals
      | Some a \<Rightarrow> \<lparr>pc_Availability = a, pc_Code = ge_ProviderCode e, pc_RetryAfter = ge_RetryAfter e,
                  pc_Retryable = ge_Retryable e\<rparr>)"

datatype turn_error = TransportError | Gateway GatewayError | OtherTurnError

text \<open>\<open>None\<close> is no retry.\<close>

definition turnRetryDelay :: "(string \<Rightarrow> duration option) \<Rightarrow> (string \<Rightarrow> string) \<Rightarrow> turn_error \<Rightarrow> duration option" where
  "turnRetryDelay until float_text err =
     (case err of
        TransportError \<Rightarrow> Some retryBackoff
      | OtherTurnError \<Rightarrow> None
      | Gateway e \<Rightarrow>
          let c = GatewayError_classification until float_text e in
          if \<not> pc_Retryable c \<or> maxInProcessRetryAfter < pc_RetryAfter c then None
          else if 0 < pc_RetryAfter c then Some (pc_RetryAfter c)
          else if pc_Availability c = ProviderTransientRateLimit then None
          else Some retryBackoff)"

definition gatewayStatusError ::
  "(string \<Rightarrow> duration option) \<Rightarrow> (string \<Rightarrow> string) \<Rightarrow> int \<Rightarrow> string \<Rightarrow> string \<Rightarrow> ExhaustionSignals \<Rightarrow> GatewayError" where
  "gatewayStatusError until float_text status header body signals =
     (let c = ClassifyProviderError until float_text status header body signals in
      \<lparr>ge_Status = status, ge_Availability = Some (pc_Availability c), ge_ProviderCode = pc_Code c,
       ge_RetryAfter = pc_RetryAfter c, ge_Retryable = pc_Retryable c\<rparr>)"

section \<open>Properties\<close>

lemma normalized_signal:
  "length (normalizeProviderSignalText v) \<le> 64 \<and> list_all signal_char (normalizeProviderSignalText v)"
  by (simp add: normalizeProviderSignalText_def Let_def maxProviderSignalLength_def)

lemma normalized_code:
  "length (normalizeProviderSignal f raw) \<le> 64 \<and> list_all signal_char (normalizeProviderSignal f raw)"
  by (simp add: normalizeProviderSignal_def normalized_signal split: option.split json.split)

lemma first_of_two: "firstSignal [a, b] \<in> {a, b}"
  by (cases "a = []"; cases "b = []") (simp_all add: firstSignal_def)

lemma structured_signals:
  assumes "structuredErrorSignal f body = (code, errType)"
  shows "(length code \<le> 64 \<and> list_all signal_char code) \<and> (length errType \<le> 64 \<and> list_all signal_char errType)"
  using assms normalized_code normalized_signal
  by (auto simp: structuredErrorSignal_def Let_def simp del: list_all_iff split: if_splits option.splits)

definition sound_classification :: "ProviderClassification \<Rightarrow> bool" where
  "sound_classification c \<longleftrightarrow> length (pc_Code c) \<le> 64 \<and> list_all signal_char (pc_Code c) \<and>
     (pc_Retryable c \<longrightarrow> pc_Availability c \<in> {ProviderTransientRateLimit, ProviderUnavailable})"

lemma classification_is_sound: "sound_classification (ClassifyProviderError u f st h body s)"
proof -
  obtain code errType where e: "structuredErrorSignal f body = (code, errType)" by (cases "structuredErrorSignal f body")
  have "length (firstSignal [code, errType]) \<le> 64 \<and> list_all signal_char (firstSignal [code, errType])"
    using structured_signals [OF e] first_of_two [of code errType] by auto
  moreover have step: "sound_classification a \<Longrightarrow> sound_classification b \<Longrightarrow> sound_classification (if x then a else b)" for x a b
    by simp
  ultimately show ?thesis
    by (simp only: ClassifyProviderError_def Let_def e prod.case) (intro step; simp add: sound_classification_def)
qed

lemmas availability_bounds = maxInProcessRetryAfter_def maxRetryAfter_def retryBackoff_def

text \<open>
  A reset hint is read exactly while its product with a second fits 64 bits; a larger one wraps. The
  hint of 18446744074 seconds is read as 0.29 seconds, so that an outage hinted beyond every
  horizon is retried at once, where one hinted at six seconds ends the turn.
\<close>
lemma Itoa_nonempty: "min_int \<le> n \<Longrightarrow> n \<le> max_int \<Longrightarrow> Itoa n \<noteq> []"
  using Atoi_Itoa [of n] by (auto simp: Atoi_def)

lemma reset_hint_in_range:
  assumes "1 \<le> n" "n \<le> 9223372036"
  shows "parseRetryAfter until (Itoa n) = min (n * Second) (24 * Hour)"
proof -
  have "sint (of_int (n * Second) :: 64 word) = n * Second"
    using assms by (subst int_word_sint) simp
  then show ?thesis using assms
    by (simp add: parseRetryAfter_def Let_def trim_digits Atoi_Itoa Itoa_nonempty min_int_def max_int_def boundRetryAfter_def maxRetryAfter_def)
qed

lemma oversized_reset_hint_is_retried:
  "turnRetryDelay until f (Gateway (gatewayStatusError until f 503 (Itoa 18446744074) [] DefaultExhaustionSignals))
     = Some 290448384
   \<and> turnRetryDelay until f (Gateway (gatewayStatusError until f 503 (Itoa 6) [] DefaultExhaustionSignals)) = None"
proof -
  have s: "structuredErrorSignal f [] = ([], [])" by (simp add: structuredErrorSignal_def)
  have "parseRetryAfter until (Itoa 18446744074) = 290448384"
    by (simp add: parseRetryAfter_def Let_def trim_digits Atoi_Itoa Itoa_nonempty min_int_def max_int_def boundRetryAfter_def
        maxRetryAfter_def)
  moreover have "parseRetryAfter until (Itoa 6) = 6 * Second"
    using reset_hint_in_range [of 6] by simp
  ultimately show ?thesis
    by (simp add: turnRetryDelay_def gatewayStatusError_def GatewayError_classification_def ClassifyProviderError_def s
        isContextSignal_def signals_match_def Let_def availability_bounds)
qed

text \<open>C28: A provider's error response is never a reason to spin and never lost between the two policies.
  The session retries it in process only for a rate limit or an outage, waiting more than nothing
  and at most five seconds; a response it does not retry is either not retryable or a deferred
  availability condition, which ends the run recoverably. What is surfaced of the response is a
  token of at most 64 characters drawn from letters, digits, underscore, dot and hyphen.
\<close>
theorem provider_error_is_retried_briefly_or_deferred:
  "let c = ClassifyProviderError until float_text status header body signals;
       e = gatewayStatusError until float_text status header body signals
   in (case turnRetryDelay until float_text (Gateway e) of
         Some d \<Rightarrow> 0 < d \<and> d \<le> 5 * Second
           \<and> pc_Availability c \<in> {ProviderTransientRateLimit, ProviderUnavailable}
       | None \<Rightarrow> pc_Retryable c \<longrightarrow> Deferred c)
      \<and> length (ge_ProviderCode e) \<le> 64 \<and> list_all signal_char (ge_ProviderCode e)"
  using classification_is_sound [of until float_text status header body signals]
  by (auto simp: sound_classification_def turnRetryDelay_def gatewayStatusError_def GatewayError_classification_def
      Deferred_def Let_def availability_bounds simp del: list_all_iff)

theorem provider_error_is_retried_briefly_or_deferred_witness:
  "let c = ClassifyProviderError (\<lambda>_. None) id 429 ''6'' [] DefaultExhaustionSignals;
       e = gatewayStatusError (\<lambda>_. None) id 429 ''6'' [] DefaultExhaustionSignals
   in turnRetryDelay (\<lambda>_. None) id (Gateway e) = None \<and> pc_Retryable c \<and> Deferred c"
proof -
  let ?c = "ClassifyProviderError (\<lambda>_. None) id 429 ''6'' [] DefaultExhaustionSignals"
  let ?e = "gatewayStatusError (\<lambda>_. None) id 429 ''6'' [] DefaultExhaustionSignals"
  have "parseRetryAfter (\<lambda>_. None) (Itoa 6) = 6 * Second" using reset_hint_in_range [of 6] by simp
  moreover have "Itoa 6 = ''6''" by code_simp
  ultimately have p: "parseRetryAfter (\<lambda>_. None) ''6'' = 6 * Second" by simp
  have c: "pc_Retryable ?c" "pc_RetryAfter ?c = 6 * Second"
    by (simp_all add: ClassifyProviderError_def structuredErrorSignal_def isContextSignal_def signals_match_def Let_def p)
  then have "turnRetryDelay (\<lambda>_. None) id (Gateway ?e) = None"
    by (simp add: turnRetryDelay_def gatewayStatusError_def GatewayError_classification_def Let_def availability_bounds)
  with c show ?thesis
    using provider_error_is_retried_briefly_or_deferred [of "\<lambda>_. None" id 429 "''6''" "[]" DefaultExhaustionSignals]
    by (simp add: Let_def)
qed

end
