(* ===== verification/NoChange.thy ===== *)
theory NoChange
  imports Handoff
begin

text \<open>
  The bounds of a grounded no-change close proposal and the one grammar of its paths
  (\<open>api/v1alpha1/coderun_types.go\<close>), which the harness parser and the broker's status writer share.
\<close>

definition MaxNoChangeCriteria :: nat where "MaxNoChangeCriteria = 12"
definition MaxNoChangeCriterionBytes :: nat where "MaxNoChangeCriterionBytes = 300"
definition MaxNoChangeExcerptBytes :: nat where "MaxNoChangeExcerptBytes = 300"
definition MinNoChangeExcerptBytes :: nat where "MinNoChangeExcerptBytes = 24"
definition MaxNoChangeEvidenceBytes :: nat where "MaxNoChangeEvidenceBytes = 2000"
definition MaxNoChangeClosePathBytes :: nat where "MaxNoChangeClosePathBytes = 1024"

lemmas no_change_bounds = MaxNoChangeCriteria_def MaxNoChangeCriterionBytes_def MaxNoChangeExcerptBytes_def
  MinNoChangeExcerptBytes_def MaxNoChangeEvidenceBytes_def MaxNoChangeClosePathBytes_def

text \<open>
  The loop over the runes of a path: a backslash, or a control character of \<open>unicode.IsControl\<close>
  (U+0000 to U+001F and U+007F to U+009F, the last 32 of them encoded in two bytes).
\<close>

function has_forbidden_rune :: "string \<Rightarrow> bool" where
  "has_forbidden_rune s =
     (if s = [] then False
      else if byte (hd s) < 32 \<or> byte (hd s) = 127 \<or> hd s = backslash
        \<or> (rune_width s = 2 \<and> byte (hd s) = 194 \<and> byte (s ! 1) < 160)
      then True
      else has_forbidden_rune (drop (max 1 (rune_width s)) s))"
  by pat_completeness auto
termination
  by (relation "measure length") (auto simp: length_greater_0_conv)

declare has_forbidden_rune.simps [simp del]

definition ValidNoChangeClosePath :: "string \<Rightarrow> bool" where
  "ValidNoChangeClosePath path =
     (if path = [] \<or> MaxNoChangeClosePathBytes < length path then False
      else if path \<noteq> TrimSpace path then False
      else if has_forbidden_rune path then False
      else list_all (\<lambda>segment. \<not> (segment = [] \<or> segment = ''.'' \<or> segment = ''..'')) (Split path (CHR ''/'')))"

lemma rune_bytes: "c \<in> set (take (max 1 (rune_width s)) s) \<Longrightarrow> c = hd s \<or> cont_byte c"
proof -
  assume "c \<in> set (take (max 1 (rune_width s)) s)"
  then obtain i where "i < max 1 (rune_width s)" "i < length s" "c = s ! i" by (auto simp: in_set_conv_nth)
  then show ?thesis using rune_width_cont [of i s] by (cases i) (auto simp: hd_conv_nth)
qed

lemma no_backslash: "\<not> has_forbidden_rune s \<Longrightarrow> backslash \<notin> set s"
proof (induction s rule: has_forbidden_rune.induct)
  case (1 s)
  show ?case
  proof (cases "s = []")
    case False
    let ?w = "max 1 (rune_width s)"
    have later: "\<not> has_forbidden_rune (drop ?w s)" and first: "hd s \<noteq> backslash"
      and go: "\<not> (byte (hd s) < 32 \<or> byte (hd s) = 127 \<or> hd s = backslash
        \<or> (rune_width s = 2 \<and> byte (hd s) = 194 \<and> byte (s ! 1) < 160))"
      using 1(2) False by (subst (asm) has_forbidden_rune.simps, auto split: if_splits)+
    have "backslash \<notin> set (take ?w s)"
      using rune_bytes [of backslash s] first by (auto simp: cont_byte_def)
    moreover have "backslash \<notin> set (drop ?w s)" using 1(1) [OF False go later] .
    ultimately have "backslash \<notin> set (take ?w s @ drop ?w s)" by (simp only: set_append Un_iff) blast
    then show ?thesis by simp
  qed simp
qed

text \<open>A path of the grammar stays below the root it is joined to.\<close>

lemma valid_path_stays_inside:
  assumes "ValidNoChangeClosePath path"
  shows "hd path \<noteq> CHR ''/''" "''..'' \<notin> set (Split path (CHR ''/''))" "backslash \<notin> set path"
proof -
  show "''..'' \<notin> set (Split path (CHR ''/''))"
    using assms by (auto simp: ValidNoChangeClosePath_def list_all_iff split: if_splits)
  show "hd path \<noteq> CHR ''/''"
    using assms by (cases path) (auto simp: ValidNoChangeClosePath_def split: if_splits)
  show "backslash \<notin> set path"
    using assms by (intro no_backslash) (auto simp: ValidNoChangeClosePath_def split: if_splits)
qed

end
