(* ===== verification/Coordinator.thy ===== *)
theory Coordinator
  imports Availability NoChange
begin

text \<open>
  The native coordinator's loop and its endings (\<open>internal/harness/coordinator.go\<close>). A model turn is
  what its stream yields (\<open>turn_input\<close>); what trusted control observes at the tool boundary, at the
  final message and at the ending (the latches, the brief ledger, the status writer's debt, the
  publisher, the work ref) is data of the model. An error is its text. Two texts of the standard
  library are arguments: \<open>json_error\<close>, the message of a failed \<open>json.Unmarshal\<close>, and \<open>quoted\<close>, the
  verb \<open>%q\<close>; they reach nothing but the reason of an undeclared ending.
\<close>

section \<open>One turn\<close>

datatype stream_event = KindDelta string | KindToolRequest | KindFinal | KindError turn_error string

text \<open>What is recorded when a tool call returns, one \<open>boundary\<close> per call: a delegated session's deferred availability, a
  bootstrap blocker, a tripped workspace prerequisite with its class.\<close>

record boundary =
  bd_deferred :: "(turn_error \<times> string) option"
  bd_blocker :: "string option"
  bd_prerequisite :: "(NativeResultKind \<times> string) option"

record turn_input =
  ti_compaction :: "string option"
  ti_events :: "stream_event list"
  ti_boundaries :: "boundary list"

text \<open>The turn result, without the tool results the loop does not read.\<close>

record turnResult =
  tr_text :: string
  tr_final :: bool
  tr_streamErr :: "(turn_error \<times> string) option"
  tr_harnessErr :: "string option"
  tr_blocker :: "string option"
  tr_infraErr :: "string option"

definition no_result :: turnResult where
  "no_result = \<lparr>tr_text = [], tr_final = False, tr_streamErr = None, tr_harnessErr = None, tr_blocker = None,
     tr_infraErr = None\<rparr>"

text \<open>The loop over the events: the text, the number of tool requests and whether a final event came,
  or the error that ended it.\<close>

fun pump_events :: "stream_event list \<Rightarrow> string \<Rightarrow> nat \<Rightarrow> bool \<Rightarrow> (turn_error \<times> string) + string \<times> nat \<times> bool" where
  "pump_events [] text calls final = Inr (text, calls, final)"
| "pump_events (KindDelta t # es) text calls final = pump_events es (text @ t) calls final"
| "pump_events (KindToolRequest # es) text calls final = pump_events es text (Suc calls) final"
| "pump_events (KindFinal # es) text calls final = pump_events es text calls True"
| "pump_events (KindError e t # es) text calls final = Inl (e, t)"

text \<open>The tool calls of the coordinator's own session, each followed by the checks of its boundary.\<close>

fun pump_calls :: "boundary list \<Rightarrow> turnResult" where
  "pump_calls [] = no_result"
| "pump_calls (b # bs) =
     (if bd_deferred b \<noteq> None then no_result\<lparr>tr_streamErr := bd_deferred b\<rparr>
      else if bd_blocker b \<noteq> None then no_result\<lparr>tr_blocker := bd_blocker b\<rparr>
      else (case bd_prerequisite b of
          Some (kind, t) \<Rightarrow>
            if kind = NativeResultInfrastructureFailed then no_result\<lparr>tr_infraErr := Some t\<rparr>
            else no_result\<lparr>tr_blocker := Some t\<rparr>
        | None \<Rightarrow> pump_calls bs))"

abbreviation "ErrStreamTruncated \<equiv> (OtherTurnError, ''harness: provider stream ended without a terminal event'')"

definition pump :: "turn_input \<Rightarrow> turnResult" where
  "pump ti =
     (if ti_compaction ti \<noteq> None then no_result\<lparr>tr_harnessErr := ti_compaction ti\<rparr>
      else (case pump_events (ti_events ti) [] 0 False of
          Inl e \<Rightarrow> no_result\<lparr>tr_streamErr := Some e\<rparr>
        | Inr (text, calls, final) \<Rightarrow>
            if final then no_result\<lparr>tr_text := text, tr_final := True\<rparr>
            else if calls = 0 then no_result\<lparr>tr_streamErr := Some ErrStreamTruncated\<rparr>
            else pump_calls (take calls (ti_boundaries ti))))"

section \<open>The declaration\<close>

record outcome_declaration =
  dc_Outcome :: string
  dc_Evidence :: string
  dc_Question :: string
  dc_Missing :: string
  dc_Close :: "json option"

text \<open>A pointer to a raw message: null clears it.\<close>

definition raw_pointer_field :: "((json option \<Rightarrow> json option) \<Rightarrow> 'a \<Rightarrow> 'a) \<Rightarrow> json \<Rightarrow> 'a \<Rightarrow> 'a option" where
  "raw_pointer_field upd v a = Some (upd (\<lambda>_. if v = JNull then None else Some v) a)"

definition declaration_fields :: "(string \<times> (json \<Rightarrow> outcome_declaration \<Rightarrow> outcome_declaration option)) list" where
  "declaration_fields = [(''outcome'', string_field dc_Outcome_update), (''evidence'', string_field dc_Evidence_update),
     (''question'', string_field dc_Question_update), (''missing'', string_field dc_Missing_update),
     (''close'', raw_pointer_field dc_Close_update)]"

definition zero_declaration :: outcome_declaration where
  "zero_declaration = \<lparr>dc_Outcome = [], dc_Evidence = [], dc_Question = [], dc_Missing = [], dc_Close = None\<rparr>"

definition zero_criterion :: NoChangeCloseCriterion where
  "zero_criterion = \<lparr>nc_Criterion = [], nc_Path = [], nc_Excerpt = []\<rparr>"

definition criterion_fields :: "(string \<times> (json \<Rightarrow> NoChangeCloseCriterion \<Rightarrow> NoChangeCloseCriterion option)) list" where
  "criterion_fields = [(''criterion'', string_field nc_Criterion_update), (''path'', string_field nc_Path_update),
     (''excerpt'', string_field nc_Excerpt_update)]"

definition close_fields :: "(string \<times> (json \<Rightarrow> NoChangeCloseCriterion list \<Rightarrow> NoChangeCloseCriterion list option)) list" where
  "close_fields = [(''criteria'', slice_field (decode_struct criterion_fields) zero_criterion id id)]"

definition parsed_row :: "NoChangeCloseCriterion \<Rightarrow> bool" where
  "parsed_row row \<longleftrightarrow>
     \<not> (TrimSpace (nc_Criterion row) = [] \<or> MaxNoChangeCriterionBytes < length (nc_Criterion row))
     \<and> ValidNoChangeClosePath (nc_Path row)
     \<and> \<not> (RuneCountInString (nc_Excerpt row) < MinNoChangeExcerptBytes
         \<or> MaxNoChangeExcerptBytes < length (nc_Excerpt row))"

definition parseNoChangeClose :: "json \<Rightarrow> string \<Rightarrow> NoChangeClose option" where
  "parseNoChangeClose raw evidence =
     (case decode_struct close_fields raw [] of
        None \<Rightarrow> None
      | Some criteria \<Rightarrow>
          if length criteria < 1 \<or> MaxNoChangeCriteria < length criteria then None
          else if MaxNoChangeEvidenceBytes < length evidence then None
          else if \<not> list_all parsed_row criteria then None
          else Some \<lparr>ncc_Criteria = criteria, ncc_Evidence = evidence, ncc_CoordinatorPodUID = [], ncc_At = zero_time\<rparr>)"

definition parseOutcome ::
  "(string \<Rightarrow> string) \<Rightarrow> (string \<Rightarrow> string) \<Rightarrow> string \<Rightarrow> string + (string \<times> NoChangeClose option)" where
  "parseOutcome json_error quoted text =
     (case (case Unmarshal (TrimSpace text) of
              None \<Rightarrow> None | Some v \<Rightarrow> decode_struct declaration_fields v zero_declaration) of
        None \<Rightarrow> Inl (''final message is not a JSON object: '' @ json_error (TrimSpace text))
      | Some d \<Rightarrow>
          let outcome = TrimSpace (dc_Outcome d) in
          if outcome = OutcomeChanges then
            (if dc_Evidence d \<noteq> [] \<or> dc_Question d \<noteq> [] \<or> dc_Missing d \<noteq> [] \<or> dc_Close d \<noteq> None
             then Inl ''changes declaration carries no extra fields'' else Inr (outcome, None))
          else if outcome = OutcomeNoChangeNeeded then
            (if TrimSpace (dc_Evidence d) = [] then Inl ''no_change_needed requires evidence''
             else (case dc_Close d of
                 None \<Rightarrow> Inr (outcome, None)
               | Some raw \<Rightarrow> Inr (outcome, parseNoChangeClose raw (dc_Evidence d))))
          else if outcome = OutcomeNeedsDecision then
            (if TrimSpace (dc_Question d) = [] then Inl ''needs_decision requires a question'' else Inr (outcome, None))
          else if outcome = OutcomeBlockedExternal then
            (if TrimSpace (dc_Missing d) = [] then Inl ''blocked_external requires the missing dependency''
             else Inr (outcome, None))
          else Inl (''unknown outcome '' @ quoted (dc_Outcome d)))"

section \<open>The endings\<close>

text \<open>The publisher's answer: \<open>ErrNothingToPublish\<close> and \<open>PublicationBlockedError\<close> are told apart from
  every other error.\<close>

datatype publish_answer = Published bool string | NothingToPublish string | PublicationBlocked string | PublishFailed string

record ending_world =
  ew_context :: "string option"
  ew_debt :: "string option"
  ew_publish :: "publish_answer option"
  ew_beyond :: "(string + bool) option"
  ew_capacity :: "WorkspaceSafetyEvidence option"

definition ended :: "NativeResultKind \<Rightarrow> string \<Rightarrow> string \<Rightarrow> string option \<Rightarrow> HarnessResult" where
  "ended kind outcome reason err = \<lparr>hx_Outcome = outcome, hx_Kind = kind, hx_Reason = reason, hx_Err = err,
     hx_WorkspaceSafety = None, hx_NoChange = None\<rparr>"

abbreviation "infrastructure e \<equiv> ended NativeResultInfrastructureFailed [] [] (Some e)"
abbreviation "blocked reason \<equiv> ended NativeResultBlockedExternal OutcomeBlockedExternal reason None"

definition settleStatus :: "ending_world \<Rightarrow> string option" where
  "settleStatus w = map_option (\<lambda>e. ''harness: a completed brief lacks a durable status record: '' @ e) (ew_debt w)"

definition blockedExternalEnding :: "ending_world \<Rightarrow> string \<Rightarrow> HarnessResult" where
  "blockedExternalEnding w blocker = (case settleStatus w of Some e \<Rightarrow> infrastructure e | None \<Rightarrow> blocked blocker)"

definition infrastructureEnding :: "ending_world \<Rightarrow> string \<Rightarrow> HarnessResult" where
  "infrastructureEnding w cause = (case settleStatus w of Some e \<Rightarrow> infrastructure e | None \<Rightarrow> infrastructure cause)"

definition finish ::
  "(string \<Rightarrow> string) \<Rightarrow> ending_world \<Rightarrow> string \<Rightarrow> string \<Rightarrow> NoChangeClose option \<Rightarrow> HarnessResult" where
  "finish quoted w outcome summary noChange =
     (case settleStatus w of
        Some e \<Rightarrow> infrastructure e
      | None \<Rightarrow>
          if outcome = OutcomeChanges then
            (case ew_publish w of
               None \<Rightarrow> ended NativeResultInfrastructureFailed []
                 ''the coordinator declared changes but this build has no publication path''
                 (Some ''harness: publication is not configured'')
             | Some (NothingToPublish e) \<Rightarrow> ended NativeResultWorkloadFailed []
                 (''the coordinator declared changes but no work was integrated or published in this incarnation: '' @ e) None
             | Some (PublicationBlocked e) \<Rightarrow> blocked e
             | Some (PublishFailed e) \<Rightarrow> ended NativeResultInfrastructureFailed outcome []
                 (Some (''harness: publication failed: '' @ e))
             | Some (Published already oid) \<Rightarrow> ended NativeResultPublished outcome
                 (if already then ''publication already confirmed at '' @ oid else ''published through the broker'') None)
          else if outcome = OutcomeNoChangeNeeded \<or> outcome = OutcomeNeedsDecision \<or> outcome = OutcomeBlockedExternal then
            (ended (if outcome = OutcomeBlockedExternal then NativeResultBlockedExternal
               else if outcome = OutcomeNeedsDecision then NativeResultNeedsHuman else NativeResultNoChange)
               outcome summary None)\<lparr>hx_NoChange := noChange\<rparr>
          else ended NativeResultWorkloadFailed [] (''undeclared outcome '' @ quoted outcome) None)"

definition finishSoftStop :: "ending_world \<Rightarrow> HarnessResult" where
  "finishSoftStop w =
     (case ew_context w of
        Some e \<Rightarrow> infrastructure (''harness: model stream failed: '' @ e)
      | None \<Rightarrow> (case settleStatus w of
        Some e \<Rightarrow> infrastructure e
      | None \<Rightarrow> (case ew_beyond w of
        None \<Rightarrow> infrastructure ''harness: soft stop has no work-ref observation configured''
      | Some (Inl e) \<Rightarrow> infrastructure (''harness: soft stop could not observe the work ref: '' @ e)
      | Some (Inr False) \<Rightarrow> ended NativeResultNoChange OutcomeNoChangeNeeded
          ''soft stop: the work ref holds no tip beyond the admission anchor'' None
      | Some (Inr True) \<Rightarrow> (case ew_publish w of
        None \<Rightarrow> ended NativeResultInfrastructureFailed []
          ''soft stop found work beyond the admission anchor but this build has no publication path''
          (Some ''harness: publication is not configured'')
      | Some (PublicationBlocked e) \<Rightarrow> blocked e
      | Some (NothingToPublish e) \<Rightarrow> infrastructure (''harness: soft stop publication failed: '' @ e)
      | Some (PublishFailed e) \<Rightarrow> infrastructure (''harness: soft stop publication failed: '' @ e)
      | Some (Published already oid) \<Rightarrow> ended NativeResultPublished OutcomeChanges
          (if already then ''soft stop: publication already confirmed at '' @ oid
           else ''soft stop: published through the broker'') None))))"

fun availability_name :: "ProviderAvailability \<Rightarrow> string" where
  "availability_name ProviderAvailable = ''available''"
| "availability_name ProviderTransientRateLimit = ''transient-rate-limit''"
| "availability_name ProviderAllowanceExhausted = ''allowance-exhausted''"
| "availability_name ProviderAuthenticationFailed = ''authentication-failed''"
| "availability_name ProviderRequestRejected = ''request-rejected''"
| "availability_name ProviderContextExhausted = ''context-exhausted''"
| "availability_name ProviderUnavailable = ''provider-unavailable''"
| "availability_name ProviderUnknown = ''unknown''"

definition providerAvailabilityReason :: "ProviderClassification \<Rightarrow> string" where
  "providerAvailabilityReason c =
     ''model provider capacity is temporarily unavailable ('' @ availability_name (pc_Availability c) @ '')''
     @ (if pc_Code c = [] then [] else '', provider code '' @ pc_Code c)
     @ ''; the run is recoverable and will resume when capacity returns''"

definition providerClassificationOf ::
  "(string \<Rightarrow> duration option) \<Rightarrow> (string \<Rightarrow> string) \<Rightarrow> turn_error \<Rightarrow> ProviderClassification option" where
  "providerClassificationOf until float_text err =
     (case err of Gateway e \<Rightarrow> Some (GatewayError_classification until float_text e) | _ \<Rightarrow> None)"

definition availabilityEnding ::
  "(string \<Rightarrow> duration option) \<Rightarrow> (string \<Rightarrow> string) \<Rightarrow> turn_error \<Rightarrow> HarnessResult option" where
  "availabilityEnding until float_text err =
     (case providerClassificationOf until float_text err of
        None \<Rightarrow> None
      | Some c \<Rightarrow>
          if \<not> Deferred c then None
          else if pc_Availability c = ProviderAllowanceExhausted
          then Some (ended NativeResultCapacityExhausted OutcomeCapacityExhausted (providerAvailabilityReason c) None)
          else Some (blocked (providerAvailabilityReason c)))"

section \<open>The loop\<close>

definition maxOutcomeClarifications :: nat where "maxOutcomeClarifications = 1"

text \<open>The standard library's functions the loop takes as arguments, and what trusted control sees when a
  final message arrives.\<close>

record host =
  ho_until :: "string \<Rightarrow> duration option"
  ho_float_text :: "string \<Rightarrow> string"
  ho_json_error :: "string \<Rightarrow> string"
  ho_quoted :: "string \<Rightarrow> string"

record final_view =
  fv_prerequisite :: "(NativeResultKind \<times> string) option"
  fv_stopped :: bool
  fv_inFlight :: bool

definition undeclared :: "string \<Rightarrow> HarnessResult" where
  "undeclared parseErr = ended NativeResultWorkloadFailed []
     (''undeclared ending: the coordinator's final message was not a valid outcome declaration: '' @ parseErr) None"

text \<open>The branch of a failed stream.\<close>

definition stream_ending :: "host \<Rightarrow> ending_world \<Rightarrow> turn_error \<times> string \<Rightarrow> HarnessResult" where
  "stream_ending h w err =
     (case availabilityEnding (ho_until h) (ho_float_text h) (fst err) of
        Some result \<Rightarrow>
          if hx_Outcome result = OutcomeCapacityExhausted
          then result\<lparr>hx_WorkspaceSafety := Some (case ew_capacity w of
                 None \<Rightarrow> zero_safety\<lparr>ws_State := ''unknown''\<rparr> | Some observed \<Rightarrow> observed)\<rparr>
          else result
      | None \<Rightarrow> infrastructure (''harness: model stream failed: '' @ snd err))"

text \<open>The body of the loop on one turn: the result it returns, or the clarifications made when it goes on.\<close>

definition turn_step :: "host \<Rightarrow> ending_world \<Rightarrow> nat \<Rightarrow> turn_input \<Rightarrow> final_view \<Rightarrow> HarnessResult + nat" where
  "turn_step h w clarifications ti fv =
     (let turn = pump ti in
      case tr_blocker turn of Some b \<Rightarrow> Inl (blockedExternalEnding w b)
      | None \<Rightarrow> (case tr_infraErr turn of Some e \<Rightarrow> Inl (infrastructureEnding w e)
      | None \<Rightarrow> (case tr_harnessErr turn of Some e \<Rightarrow> Inl (infrastructure (''harness: step-boundary compaction: '' @ e))
      | None \<Rightarrow> (case tr_streamErr turn of Some e \<Rightarrow> Inl (stream_ending h w e)
      | None \<Rightarrow>
          if \<not> tr_final turn then Inr clarifications
          else (case fv_prerequisite fv of
              Some (kind, e) \<Rightarrow>
                Inl (if kind = NativeResultInfrastructureFailed then infrastructureEnding w e else blockedExternalEnding w e)
            | None \<Rightarrow>
                if fv_stopped fv
                then (if fv_inFlight fv then Inr clarifications else Inl (finishSoftStop w))
                else (case parseOutcome (ho_json_error h) (ho_quoted h) (tr_text turn) of
                    Inr (outcome, noChange) \<Rightarrow> Inl (finish (ho_quoted h) w outcome (tr_text turn) noChange)
                  | Inl parseErr \<Rightarrow>
                      if clarifications < maxOutcomeClarifications then Inr (Suc clarifications)
                      else Inl (undeclared parseErr)))))))"

text \<open>The loop over the turns of a run; \<open>None\<close> is a loop that has not ended with the turns given.\<close>

fun run_loop :: "host \<Rightarrow> ending_world \<Rightarrow> nat \<Rightarrow> (turn_input \<times> final_view) list \<Rightarrow> HarnessResult option" where
  "run_loop h w clarifications [] = None"
| "run_loop h w clarifications ((ti, fv) # ts) =
     (case turn_step h w clarifications ti fv of
        Inl result \<Rightarrow> Some result
      | Inr clarifications' \<Rightarrow> run_loop h w clarifications' ts)"

definition Coordinator_Run ::
  "host \<Rightarrow> string option \<Rightarrow> ending_world \<Rightarrow> (turn_input \<times> final_view) list \<Rightarrow> HarnessResult option" where
  "Coordinator_Run h session_err w turns =
     (case session_err of Some e \<Rightarrow> Some (infrastructure e) | None \<Rightarrow> run_loop h w 0 turns)"

section \<open>Properties\<close>

text \<open>The shapes a result can have: its kind, its declared outcome and whether it carries an error.\<close>

inductive coherent :: "HarnessResult \<Rightarrow> bool" where
  failed: "hx_Err r \<noteq> None \<Longrightarrow> hx_Kind r = NativeResultInfrastructureFailed \<Longrightarrow> coherent r"
| workload: "hx_Err r = None \<Longrightarrow> hx_Kind r = NativeResultWorkloadFailed \<Longrightarrow> hx_Outcome r = [] \<Longrightarrow> coherent r"
| declared: "hx_Err r = None \<Longrightarrow>
    (hx_Kind r, hx_Outcome r) \<in> {(NativeResultPublished, OutcomeChanges), (NativeResultNoChange, OutcomeNoChangeNeeded),
      (NativeResultNeedsHuman, OutcomeNeedsDecision), (NativeResultBlockedExternal, OutcomeBlockedExternal),
      (NativeResultCapacityExhausted, OutcomeCapacityExhausted)} \<Longrightarrow> coherent r"

inductive_cases coherentE: "coherent r"

named_theorems endings

lemma coherent_ended [endings]:
  "coherent (infrastructure e)" "coherent (blocked e)"
  "coherent (ended NativeResultInfrastructureFailed outcome reason (Some e))"
  "coherent (ended NativeResultWorkloadFailed [] reason None)"
  "coherent (ended NativeResultPublished OutcomeChanges reason None)"
  "coherent (ended NativeResultNoChange OutcomeNoChangeNeeded reason None)"
  "coherent (ended NativeResultCapacityExhausted OutcomeCapacityExhausted reason None)"
  by (rule coherent.failed coherent.workload coherent.declared; simp add: ended_def)+

lemma coherent_declared [endings]:
  "coherent ((ended NativeResultNoChange OutcomeNoChangeNeeded s None)\<lparr>hx_NoChange := p\<rparr>)"
  "coherent ((ended NativeResultNeedsHuman OutcomeNeedsDecision s None)\<lparr>hx_NoChange := p\<rparr>)"
  "coherent ((ended NativeResultBlockedExternal OutcomeBlockedExternal s None)\<lparr>hx_NoChange := p\<rparr>)"
  by (rule coherent.declared; simp add: ended_def)+

lemma coherent_safety [endings]: "coherent r \<Longrightarrow> coherent (r\<lparr>hx_WorkspaceSafety := e\<rparr>)"
  by (erule coherentE) (auto intro: coherent.intros)

lemma coherent_blockedExternalEnding [endings]: "coherent (blockedExternalEnding w b)"
  by (simp add: blockedExternalEnding_def endings split: option.split)

lemma coherent_infrastructureEnding [endings]: "coherent (infrastructureEnding w b)"
  by (simp add: infrastructureEnding_def endings split: option.split)

lemma coherent_finish [endings]: "coherent (finish q w outcome summary p)"
  by (simp add: finish_def endings split: option.split publish_answer.split)

lemma coherent_finishSoftStop [endings]: "coherent (finishSoftStop w)"
  by (simp add: finishSoftStop_def endings split: option.split publish_answer.split sum.split bool.split)

lemma coherent_availability: "availabilityEnding u f e = Some r \<Longrightarrow> coherent r"
  by (auto simp: availabilityEnding_def endings split: option.splits if_splits)

lemma coherent_stream [endings]: "coherent (stream_ending h w e)"
  using coherent_availability by (auto simp: stream_ending_def endings split: option.split)

lemma coherent_turn_step: "turn_step h w n ti fv = Inl r \<Longrightarrow> coherent r"
proof -
  have "case turn_step h w n ti fv of Inl r \<Rightarrow> coherent r | Inr _ \<Rightarrow> True"
    by (simp add: turn_step_def Let_def endings undeclared_def split: option.split prod.split sum.split)
  then show "turn_step h w n ti fv = Inl r \<Longrightarrow> coherent r" by simp
qed

lemma coherent_run_loop: "run_loop h w n ts = Some r \<Longrightarrow> coherent r"
  by (induction h w n ts rule: run_loop.induct) (auto dest: coherent_turn_step split: sum.splits)

lemma coherent_Run: "Coordinator_Run h e w ts = Some r \<Longrightarrow> coherent r"
  by (auto simp: Coordinator_Run_def endings dest: coherent_run_loop split: option.splits)

lemma exit_failed: "hx_Err r \<noteq> None \<Longrightarrow> tn_ExitCode (terminationFor r) = 1"
  by (auto simp: terminationFor_def Let_def)

lemma exit_declared:
  assumes "hx_Err r = None"
  shows "hx_Outcome r = [] \<Longrightarrow> tn_ExitCode (terminationFor r) = 1"
    "hx_Outcome r = OutcomeChanges \<Longrightarrow> tn_ExitCode (terminationFor r) = 0"
    "hx_Outcome r = OutcomeNoChangeNeeded \<Longrightarrow> tn_ExitCode (terminationFor r) = 3"
    "hx_Outcome r \<in> {OutcomeNeedsDecision, OutcomeBlockedExternal, OutcomeCapacityExhausted} \<Longrightarrow>
       tn_ExitCode (terminationFor r) = 2 \<and> tn_Outcome (terminationFor r) = hx_Outcome r"
  using assms by (auto simp: terminationFor_def Let_def)

lemma phase_failed: "phaseForExit mode 1 outcome = PhaseFailed"
  by (simp add: phaseForExit_def exitDeclaredNoChange_def)

lemma coherent_agree:
  assumes "coherent r"
  shows "phaseForNativeResult mode (hx_Kind r) =
      phaseForExit mode (tn_ExitCode (terminationFor r)) (tn_Outcome (terminationFor r)) \<longleftrightarrow>
    \<not> (mode = ModeRebase \<and> hx_Kind r = NativeResultNoChange)"
  using assms
proof cases
  case failed
  then have "tn_ExitCode (terminationFor r) = 1" using exit_failed by blast
  then show ?thesis using failed by (simp add: phase_failed phaseForNativeResult_def)
next
  case workload
  then have "tn_ExitCode (terminationFor r) = 1" using exit_declared(1) by blast
  then show ?thesis using workload by (simp add: phase_failed phaseForNativeResult_def)
next
  case declared
  then consider "hx_Kind r = NativeResultPublished" "hx_Outcome r = OutcomeChanges"
    | "hx_Kind r = NativeResultNoChange" "hx_Outcome r = OutcomeNoChangeNeeded"
    | "hx_Kind r = NativeResultNeedsHuman" "hx_Outcome r = OutcomeNeedsDecision"
    | "hx_Kind r = NativeResultBlockedExternal" "hx_Outcome r = OutcomeBlockedExternal"
    | "hx_Kind r = NativeResultCapacityExhausted" "hx_Outcome r = OutcomeCapacityExhausted"
    by blast
  then show ?thesis
    using exit_declared [OF declared(1)]
    by cases (simp_all add: phaseForNativeResult_def phaseForExit_def exitDeclaredNoChange_def split: Mode.split)
qed

text \<open>C5: The operator classifies a run twice over, from the durable result kind and from the exit code
  with the declared outcome of the termination payload, and the two agree on every ending the
  coordinator can reach, in every mode, with exactly one exception: a rebase that ends with no
  change is parked for review by its kind and sent to verification by its exit code.
\<close>
theorem endings_are_classified_alike:
  assumes "Coordinator_Run h session_err w turns = Some r"
  shows "phaseForNativeResult mode (hx_Kind r) =
      phaseForExit mode (tn_ExitCode (terminationFor r)) (tn_Outcome (terminationFor r)) \<longleftrightarrow>
    \<not> (mode = ModeRebase \<and> hx_Kind r = NativeResultNoChange)"
  using coherent_agree [OF coherent_Run [OF assms]] .

definition plain_host :: host where
  "plain_host = \<lparr>ho_until = (\<lambda>_. None), ho_float_text = id, ho_json_error = (\<lambda>_. []), ho_quoted = id\<rparr>"

definition calm_world :: ending_world where
  "calm_world = \<lparr>ew_context = None, ew_debt = None, ew_publish = None, ew_beyond = Some (Inr False), ew_capacity = None\<rparr>"

definition stopped_turn :: "turn_input \<times> final_view" where
  "stopped_turn = (\<lparr>ti_compaction = None, ti_events = [KindDelta ''done'', KindFinal], ti_boundaries = []\<rparr>,
     \<lparr>fv_prerequisite = None, fv_stopped = True, fv_inFlight = False\<rparr>)"

lemma stopped_run:
  "Coordinator_Run plain_host None calm_world [stopped_turn] = Some (ended NativeResultNoChange OutcomeNoChangeNeeded
     ''soft stop: the work ref holds no tip beyond the admission anchor'' None)"
  by (simp add: Coordinator_Run_def stopped_turn_def turn_step_def pump_def no_result_def calm_world_def finishSoftStop_def
      settleStatus_def)

theorem endings_are_classified_alike_witness:
  "\<exists>r. Coordinator_Run plain_host None calm_world [stopped_turn] = Some r \<and>
     phaseForNativeResult ModeFixPR (hx_Kind r) =
       phaseForExit ModeFixPR (tn_ExitCode (terminationFor r)) (tn_Outcome (terminationFor r)) \<and>
     phaseForNativeResult ModeRebase (hx_Kind r) \<noteq>
       phaseForExit ModeRebase (tn_ExitCode (terminationFor r)) (tn_Outcome (terminationFor r))"
  using endings_are_classified_alike [OF stopped_run, of ModeFixPR]
    endings_are_classified_alike [OF stopped_run, of ModeRebase] stopped_run by (auto simp: ended_def)

section \<open>The loop ends\<close>

text \<open>A final message the loop must answer: anything but one held back while a stopped run still has
  work in flight.\<close>

definition answered :: "turn_input \<times> final_view \<Rightarrow> bool" where
  "answered t \<longleftrightarrow> (case t of (ti, fv) \<Rightarrow>
     tr_final (pump ti) \<and> \<not> (fv_stopped fv \<and> fv_inFlight fv \<and> fv_prerequisite fv = None))"

lemma step_goes_on:
  assumes "turn_step h w n ti fv = Inr n'"
  shows "(n' = Suc n \<and> n < maxOutcomeClarifications) \<or> (n' = n \<and> \<not> answered (ti, fv))"
proof -
  have "case turn_step h w n ti fv of Inl r \<Rightarrow> True
      | Inr n' \<Rightarrow> (n' = Suc n \<and> n < maxOutcomeClarifications) \<or> (n' = n \<and> \<not> answered (ti, fv))"
    by (simp add: turn_step_def Let_def answered_def split: option.split prod.split sum.split)
  then show ?thesis using assms by simp
qed

lemma loop_ends:
  "maxOutcomeClarifications - n < length (filter answered ts) \<Longrightarrow> \<exists>r. run_loop h w n ts = Some r"
proof (induction ts arbitrary: n)
  case (Cons t ts)
  obtain ti fv where t: "t = (ti, fv)" by (cases t)
  show ?case
  proof (cases "turn_step h w n ti fv")
    case (Inr n')
    from step_goes_on [OF Inr] have "maxOutcomeClarifications - n' < length (filter answered ts)"
      using Cons.prems t by (auto split: if_splits)
    then show ?thesis using Cons.IH [of n'] t Inr by simp
  qed (simp add: t)
qed simp

text \<open>C11: The coordinator never loops on a model that will not declare an outcome. Whatever else the turns
  of a run hold, the second final message that is not held back by work in flight ends it: one
  clarification is all a run gets.
\<close>
theorem second_final_message_ends_the_run:
  assumes "2 \<le> length (filter answered turns)"
  shows "\<exists>r. Coordinator_Run h session_err w turns = Some r"
  using assms loop_ends [of 0 turns h w] by (cases session_err) (simp_all add: Coordinator_Run_def maxOutcomeClarifications_def)

definition mumbling_turn :: "turn_input \<times> final_view" where
  "mumbling_turn = (\<lparr>ti_compaction = None, ti_events = [KindDelta ''done'', KindFinal], ti_boundaries = []\<rparr>,
     \<lparr>fv_prerequisite = None, fv_stopped = False, fv_inFlight = False\<rparr>)"

theorem second_final_message_ends_the_run_witness:
  "2 \<le> length (filter answered [mumbling_turn, mumbling_turn]) \<and>
   (\<exists>r. Coordinator_Run plain_host None calm_world [mumbling_turn, mumbling_turn] = Some r)"
proof -
  have "answered mumbling_turn" by (simp add: answered_def mumbling_turn_def pump_def)
  then have two: "2 \<le> length (filter answered [mumbling_turn, mumbling_turn])" by simp
  show ?thesis using two second_final_message_ends_the_run [OF two] by blast
qed

text \<open>A bare status of 402, without any structured signal, is declared as exhausted capacity.\<close>

lemma bare_status_declares_exhaustion:
  "\<exists>r. availabilityEnding u f (Gateway (gatewayStatusError u f 402 [] [] DefaultExhaustionSignals)) = Some r
     \<and> hx_Outcome r = OutcomeCapacityExhausted"
  by (simp add: availabilityEnding_def providerClassificationOf_def gatewayStatusError_def GatewayError_classification_def
      ClassifyProviderError_def structuredErrorSignal_def isContextSignal_def signals_match_def Deferred_def ended_def Let_def)

end
