(* ===== verification/BrokerStatus.thy ===== *)
theory BrokerStatus
  imports Coordinator StatusPatch
begin

text \<open>
  The broker's status writer (\<open>internal/broker/status.go\<close>), the only path by which a control pod writes
  the status of its run. \<open>retry.RetryOnConflict\<close> repeats the write against a fresh world after a
  conflict; the worlds it meets are a list, one per attempt it grants. The live-world validator is
  an argument, told the moment it is asked at. The writer is a configured one: \<open>NewStatusWriter\<close>
  refuses any other.
\<close>

record OperationAddition =
  oa_OpID :: string
  oa_Operation :: ActiveOperation

record HarnessPatch =
  hp_Checkpoint :: "Checkpoint option"
  hp_Heartbeat :: "Heartbeat option"
  hp_LastCommit :: "string option"
  hp_AddOperation :: "OperationAddition option"
  hp_ClearOperation :: string
  hp_ReconcileOperations :: bool
  hp_ControlRequestAck :: "ControlRequestAck option"
  hp_TerminalResult :: "NativeResult option"
  hp_NoChange :: "NoChangeClose option"
  hp_ModelSurface :: "ModelSurfaceProvenance option"

record StatusIdentity =
  si_RunUID :: string
  si_ControlPod :: string
  si_ControlPodUID :: string
  si_ControlServiceAccount :: string

record ControlPod = Pod +
  cp_ServiceAccountName :: string
  cp_ComponentLabel :: string

datatype write_error = Denied string | StatusUnavailableError string | Conflict string | StatusConflictError string

section \<open>What a record must look like\<close>

definition MaxNativeResultReasonBytes :: nat where "MaxNativeResultReasonBytes = 1024"
definition ModelSurfaceSchemaV1 :: int where "ModelSurfaceSchemaV1 = 1"
definition maxActiveOperations :: nat where "maxActiveOperations = 64"

text \<open>A check returns the error it refuses with.\<close>

definition validTerminalResult :: "NativeResult \<Rightarrow> string option" where
  "validTerminalResult result =
     (if nr_Kind result \<notin> {NativeResultPublished, NativeResultNoChange, NativeResultNeedsHuman, NativeResultBlockedExternal,
         NativeResultCapacityExhausted, NativeResultWorkloadFailed, NativeResultInfrastructureFailed}
      then Some ''terminal result kind is malformed''
      else if nr_At result = zero_time then Some ''terminal result carries no time''
      else if MaxNativeResultReasonBytes < length (nr_Reason result) then Some ''terminal result reason exceeds its bound''
      else None)"

definition sameTerminalResult :: "NativeResult \<Rightarrow> NativeResult \<Rightarrow> bool" where
  "sameTerminalResult a b \<longleftrightarrow> nr_Kind a = nr_Kind b \<and> nr_Reason a = nr_Reason b
     \<and> nr_CoordinatorPodUID a = nr_CoordinatorPodUID b \<and> nr_At a = nr_At b"

definition modelSurfaceDigestPattern :: "string \<Rightarrow> bool" where
  "modelSurfaceDigestPattern s \<longleftrightarrow> HasPrefix s ''sha256:'' \<and> length s = 71
     \<and> list_all (\<lambda>c. is_digit c \<or> (97 \<le> byte c \<and> byte c \<le> 102)) (drop 7 s)"

definition validModelSurface :: "ModelSurfaceProvenance \<Rightarrow> string option" where
  "validModelSurface r =
     (if ms_SchemaVersion r < ModelSurfaceSchemaV1 then Some ''model-surface provenance carries an unknown schema version''
      else if \<not> modelSurfaceDigestPattern (ms_Digest r) then Some ''model-surface provenance digest is malformed''
      else if ms_At r = zero_time then Some ''model-surface provenance carries no time''
      else if ms_CoordinatorPodUID r = [] \<or> 128 < length (ms_CoordinatorPodUID r)
      then Some ''model-surface provenance UID is malformed''
      else None)"

definition sameModelSurface :: "ModelSurfaceProvenance \<Rightarrow> ModelSurfaceProvenance \<Rightarrow> bool" where
  "sameModelSurface a b \<longleftrightarrow> ms_SchemaVersion a = ms_SchemaVersion b \<and> ms_Digest a = ms_Digest b
     \<and> ms_CoordinatorPodUID a = ms_CoordinatorPodUID b \<and> ms_At a = ms_At b"

definition invalid_criterion :: "NoChangeCloseCriterion \<Rightarrow> string option" where
  "invalid_criterion c =
     (if nc_Criterion c = [] \<or> MaxNoChangeCriterionBytes < length (nc_Criterion c)
      then Some ''no-change close criterion text is out of bounds''
      else if \<not> ValidNoChangeClosePath (nc_Path c) then Some ''no-change close criterion path is malformed''
      else if RuneCountInString (nc_Excerpt c) < MinNoChangeExcerptBytes \<or> MaxNoChangeExcerptBytes < length (nc_Excerpt c)
      then Some ''no-change close excerpt is out of bounds''
      else None)"

fun first_error :: "('a \<Rightarrow> string option) \<Rightarrow> 'a list \<Rightarrow> string option" where
  "first_error check [] = None"
| "first_error check (x # xs) = (case check x of Some e \<Rightarrow> Some e | None \<Rightarrow> first_error check xs)"

definition validNoChange :: "NoChangeClose \<Rightarrow> string option" where
  "validNoChange p =
     (if length (ncc_Criteria p) < 1 \<or> MaxNoChangeCriteria < length (ncc_Criteria p)
      then Some ''no-change close criterion count is out of bounds''
      else if MaxNoChangeEvidenceBytes < length (ncc_Evidence p) then Some ''no-change close evidence exceeds its bound''
      else if ncc_At p = zero_time then Some ''no-change close carries no time''
      else if ncc_CoordinatorPodUID p = [] \<or> 128 < length (ncc_CoordinatorPodUID p)
      then Some ''no-change close UID is malformed''
      else first_error invalid_criterion (ncc_Criteria p))"

definition sameNoChange :: "NoChangeClose \<Rightarrow> NoChangeClose \<Rightarrow> bool" where
  "sameNoChange a b =
     (if ncc_CoordinatorPodUID a \<noteq> ncc_CoordinatorPodUID b \<or> ncc_At a \<noteq> ncc_At b \<or> ncc_Evidence a \<noteq> ncc_Evidence b then False
      else if length (ncc_Criteria a) \<noteq> length (ncc_Criteria b) then False
      else list_all2 (=) (ncc_Criteria a) (ncc_Criteria b))"

definition sameOperationEvidence :: "ActiveOperation \<Rightarrow> ActiveOperation \<Rightarrow> bool" where
  "sameOperationEvidence a b \<longleftrightarrow> ao_BriefID a = ao_BriefID b \<and> ao_CoordinatorPodUID a = ao_CoordinatorPodUID b
     \<and> ao_WorkerPodUID a = ao_WorkerPodUID b \<and> ao_DispatchedAt a = ao_DispatchedAt b"

definition validOperationID :: "string \<Rightarrow> bool" where
  "validOperationID i \<longleftrightarrow> \<not> (i = [] \<or> 128 < length i) \<and> list_all signal_char i"

definition validOperationIdentity :: "StatusIdentity \<Rightarrow> OperationAddition \<Rightarrow> string option" where
  "validOperationIdentity identity addition =
     (if \<not> validOperationID (oa_OpID addition) then Some ''operation ID is malformed''
      else if \<not> validOperationID (ao_BriefID (oa_Operation addition)) then Some ''operation brief ID is malformed''
      else if ao_CoordinatorPodUID (oa_Operation addition) \<noteq> si_ControlPodUID identity
      then Some ''operation UID does not match the authenticated control incarnation''
      else if ao_WorkerPodUID (oa_Operation addition) = [] then Some ''operation carries no worker pod UID''
      else None)"

section \<open>Who may write\<close>

text \<open>The owner of a pod: its one controlling reference, which must be a named run of this API.\<close>

fun run_owner :: "OwnerReference list \<Rightarrow> string \<Rightarrow> string \<Rightarrow> (string \<times> string) option" where
  "run_owner [] name uid = (if name \<noteq> [] \<and> uid \<noteq> [] then Some (name, uid) else None)"
| "run_owner (owner # os) name uid =
     (if ow_Controller owner \<noteq> Some True then run_owner os name uid
      else if ow_APIVersion owner \<noteq> ''courier.misospace.dev/v1alpha1'' \<or> ow_Kind owner \<noteq> ''CoderRun'' \<or> ow_Name owner = []
        \<or> ow_UID owner = [] \<or> name \<noteq> [] then None
      else run_owner os (ow_Name owner) (ow_UID owner))"

definition controllerRunOwner :: "('a) Pod_scheme \<Rightarrow> (string \<times> string) option" where
  "controllerRunOwner pod = run_owner (po_Owners pod) [] []"

text \<open>The checks on the identity and the patch alone, before anything is read.\<close>

definition harness_patch_empty :: "HarnessPatch \<Rightarrow> bool" where
  "harness_patch_empty p \<longleftrightarrow> hp_Checkpoint p = None \<and> hp_Heartbeat p = None \<and> hp_LastCommit p = None \<and> hp_AddOperation p = None
     \<and> hp_ClearOperation p = [] \<and> \<not> hp_ReconcileOperations p \<and> hp_ControlRequestAck p = None
     \<and> hp_TerminalResult p = None \<and> hp_NoChange p = None \<and> hp_ModelSurface p = None"

text \<open>A record is well formed and names the authenticated incarnation.\<close>

definition fenced_record :: "('r \<Rightarrow> string option) \<Rightarrow> ('r \<Rightarrow> string) \<Rightarrow> string \<Rightarrow> string \<Rightarrow> 'r option \<Rightarrow> string option" where
  "fenced_record valid uid_of control_uid message r =
     (case r of
        None \<Rightarrow> None
      | Some x \<Rightarrow> (case valid x of Some e \<Rightarrow> Some e | None \<Rightarrow> if uid_of x \<noteq> control_uid then Some message else None))"

definition malformed_ack :: "HarnessPatch \<Rightarrow> bool" where
  "malformed_ack p \<longleftrightarrow> (case hp_ControlRequestAck p of None \<Rightarrow> False | Some a \<Rightarrow> ca_ID a = [] \<or> ca_At a = zero_time)"

definition foreign_heartbeat :: "StatusIdentity \<Rightarrow> HarnessPatch \<Rightarrow> bool" where
  "foreign_heartbeat identity p \<longleftrightarrow>
     (case hp_Heartbeat p of None \<Rightarrow> False | Some hb \<Rightarrow> hb_CoordinatorPodUID hb \<noteq> si_ControlPodUID identity)"

definition precheck :: "StatusIdentity \<Rightarrow> HarnessPatch \<Rightarrow> bool \<Rightarrow> string option" where
  "precheck identity patch validated =
     (if si_RunUID identity = [] \<or> si_ControlPod identity = [] \<or> si_ControlPodUID identity = []
        \<or> si_ControlServiceAccount identity = [] then Some ''authenticated status identity is incomplete''
      else if harness_patch_empty patch then Some ''empty harness status patch''
      else if malformed_ack patch then Some ''control request acknowledgement is malformed''
      else (case fenced_record validTerminalResult nr_CoordinatorPodUID (si_ControlPodUID identity)
              ''terminal result UID does not match the authenticated control incarnation'' (hp_TerminalResult patch) of
          Some e \<Rightarrow> Some e
        | None \<Rightarrow> (case fenced_record validNoChange ncc_CoordinatorPodUID (si_ControlPodUID identity)
              ''no-change close UID does not match the authenticated control incarnation'' (hp_NoChange patch) of
          Some e \<Rightarrow> Some e
        | None \<Rightarrow> (case fenced_record validModelSurface ms_CoordinatorPodUID (si_ControlPodUID identity)
              ''model-surface provenance UID does not match the authenticated control incarnation'' (hp_ModelSurface patch) of
          Some e \<Rightarrow> Some e
        | None \<Rightarrow>
            if hp_LastCommit patch \<noteq> None \<and> \<not> validated then Some ''lastCommit requires live-world validation''
            else if foreign_heartbeat identity patch
            then Some ''heartbeat UID does not match the authenticated control incarnation''
            else (case hp_AddOperation patch of
                None \<Rightarrow> None | Some addition \<Rightarrow> validOperationIdentity identity addition)))))"

text \<open>The named control pod is this run's coordinator, alive, under the authenticated account.\<close>

definition current_pod :: "string \<Rightarrow> StatusIdentity \<Rightarrow> ControlPod \<Rightarrow> bool" where
  "current_pod runName identity pod \<longleftrightarrow>
     po_UID pod = si_ControlPodUID identity \<and> po_DeletionTimestamp pod = None
     \<and> cp_ServiceAccountName pod = si_ControlServiceAccount identity
     \<and> controllerRunOwner pod = Some (runName, si_RunUID identity)
     \<and> po_RunLabel pod = topology_RunLabelValue runName \<and> cp_ComponentLabel pod = ''coordinator''"

definition live_control :: "string \<Rightarrow> StatusIdentity \<Rightarrow> ControlPod \<Rightarrow> bool" where
  "live_control runName identity candidate \<longleftrightarrow>
     po_DeletionTimestamp candidate = None \<and> cp_ServiceAccountName candidate = si_ControlServiceAccount identity
     \<and> controllerRunOwner candidate = Some (runName, si_RunUID identity)"

text \<open>The loop over the pods of the namespace: the number of live control pods, or \<open>None\<close> where one of
  them is another incarnation.\<close>

fun count_current :: "string \<Rightarrow> StatusIdentity \<Rightarrow> ControlPod list \<Rightarrow> nat \<Rightarrow> nat option" where
  "count_current runName identity [] n = Some n"
| "count_current runName identity (c # cs) n =
     (if live_control runName identity c
      then (if po_UID c \<noteq> si_ControlPodUID identity \<or> po_Name c \<noteq> si_ControlPod identity then None
            else count_current runName identity cs (Suc n))
      else count_current runName identity cs n)"

definition fenced_ack :: "StatusIdentity \<Rightarrow> HarnessPatch \<Rightarrow> CoderRun \<Rightarrow> bool" where
  "fenced_ack identity patch run \<longleftrightarrow>
     (case hp_ControlRequestAck patch of
        None \<Rightarrow> True
      | Some ack \<Rightarrow> (case s_ControlRequest (r_status run) of
            None \<Rightarrow> False
          | Some request \<Rightarrow> cr_ID request = ca_ID ack \<and> cr_TargetPodUID request = si_ControlPodUID identity))"

section \<open>Writing the fields\<close>

text \<open>Set once per incarnation: a record of the same incarnation may only be written again as it is.\<close>

definition refuses :: "('r \<Rightarrow> 'r \<Rightarrow> bool) \<Rightarrow> ('r \<Rightarrow> string) \<Rightarrow> 'r option \<Rightarrow> 'r option \<Rightarrow> bool" where
  "refuses same uid_of existing new \<longleftrightarrow>
     (case (existing, new) of
        (Some e, Some n) \<Rightarrow> uid_of e = uid_of n \<and> \<not> same e n
      | _ \<Rightarrow> False)"

definition overwrite :: "'r option \<Rightarrow> 'r option \<Rightarrow> 'r option" where
  "overwrite new existing = (if new \<noteq> None then new else existing)"

definition addOperation ::
  "OperationAddition option \<Rightarrow> (string \<times> ActiveOperation) list \<Rightarrow> string + (string \<times> ActiveOperation) list" where
  "addOperation addition operations =
     (case addition of
        None \<Rightarrow> Inr operations
      | Some a \<Rightarrow> (case map_of operations (oa_OpID a) of
            Some existing \<Rightarrow>
              if \<not> sameOperationEvidence existing (oa_Operation a)
              then Inl (''operation '' @ oa_OpID a @ '' is already recorded with different evidence'')
              else Inr operations
          | None \<Rightarrow>
              if maxActiveOperations \<le> length operations
              then Inl (''active-operation set is full ('' @ Itoa (int maxActiveOperations) @ '' entries)'')
              else Inr (operations @ [(oa_OpID a, oa_Operation a)])))"

definition clearOperation :: "string \<Rightarrow> (string \<times> ActiveOperation) list \<Rightarrow> (string \<times> ActiveOperation) list" where
  "clearOperation op operations = (if op = [] then operations else filter (\<lambda>(k, _). k \<noteq> op) operations)"

definition apply_harness :: "HarnessPatch \<Rightarrow> CoderRunStatus \<Rightarrow> string + CoderRunStatus" where
  "apply_harness patch s =
     (if refuses sameTerminalResult nr_CoordinatorPodUID (s_NativeResult s) (hp_TerminalResult patch)
      then Inl ''a terminal result is already recorded for this control incarnation''
      else if refuses sameNoChange ncc_CoordinatorPodUID (s_NoChange s) (hp_NoChange patch)
      then Inl ''a no-change close is already recorded for this control incarnation''
      else if refuses sameModelSurface ms_CoordinatorPodUID (s_ModelSurface s) (hp_ModelSurface patch)
      then Inl ''a model-surface provenance is already recorded for this control incarnation''
      else (case addOperation (hp_AddOperation patch) (if hp_ReconcileOperations patch then [] else s_ActiveOperations s) of
          Inl e \<Rightarrow> Inl e
        | Inr operations \<Rightarrow> Inr (s\<lparr>
            s_Checkpoint := overwrite (hp_Checkpoint patch) (s_Checkpoint s),
            s_Heartbeat := overwrite (hp_Heartbeat patch) (s_Heartbeat s),
            s_LastCommit := (case hp_LastCommit patch of None \<Rightarrow> s_LastCommit s | Some c \<Rightarrow> c),
            s_ControlRequestAck := overwrite (hp_ControlRequestAck patch) (s_ControlRequestAck s),
            s_NativeResult := overwrite (hp_TerminalResult patch) (s_NativeResult s),
            s_NoChange := overwrite (hp_NoChange patch) (s_NoChange s),
            s_ModelSurface := overwrite (hp_ModelSurface patch) (s_ModelSurface s),
            s_ActiveOperations := clearOperation (hp_ClearOperation patch) operations\<rparr>)))"

section \<open>One attempt and the retries\<close>

datatype 'a read = Found 'a | NotFound string | ReadFailed string
datatype update_answer = Updated | UpdateConflict string | UpdateFailed string

text \<open>The world an attempt meets: the fresh run, the named pod, the pods of the namespace, the moment at
  which the validator is asked, and the server's answer to the update.\<close>

record attempt =
  at_run :: "CoderRun read"
  at_pod :: "ControlPod read"
  at_pods :: "string + ControlPod list"
  at_moment :: nat
  at_update :: update_answer

type_synonym validator = "nat \<Rightarrow> CoderRun \<Rightarrow> ControlPod \<Rightarrow> HarnessPatch \<Rightarrow> write_error option"

fun live_read :: "string \<Rightarrow> 'a read \<Rightarrow> write_error + 'a" where
  "live_read message (Found x) = Inr x"
| "live_read message (NotFound e) = Inl (Denied (message @ '': '' @ e))"
| "live_read message (ReadFailed e) = Inl (StatusUnavailableError (message @ '': '' @ e))"

text \<open>A validator's own backend failure stays transient; any other error of it is wrapped, and a wrapped
  conflict is still a conflict.\<close>

definition validation_error :: "write_error \<Rightarrow> write_error" where
  "validation_error e =
     (case e of
        StatusUnavailableError t \<Rightarrow> StatusUnavailableError t
      | Denied t \<Rightarrow> Denied (''validate live status preconditions: '' @ t)
      | Conflict t \<Rightarrow> Conflict (''validate live status preconditions: '' @ t)
      | StatusConflictError t \<Rightarrow> Conflict (''validate live status preconditions: '' @ t))"

definition validate_and_apply ::
  "StatusIdentity \<Rightarrow> HarnessPatch \<Rightarrow> validator option \<Rightarrow> attempt \<Rightarrow> CoderRun \<Rightarrow> ControlPod \<Rightarrow> write_error + CoderRun" where
  "validate_and_apply identity patch validate a run pod =
     (if \<not> fenced_ack identity patch run
      then Inl (Denied ''control request acknowledgement does not fence to the live request'')
      else (case (case validate of None \<Rightarrow> None | Some f \<Rightarrow> f (at_moment a) run pod patch) of
          Some e \<Rightarrow> Inl (validation_error e)
        | None \<Rightarrow> (case apply_harness patch (r_status run) of
          Inl e \<Rightarrow> Inl (Denied e)
        | Inr s \<Rightarrow> (case at_update a of
          UpdateConflict e \<Rightarrow> Inl (Conflict e)
        | UpdateFailed e \<Rightarrow> Inl (StatusUnavailableError (''update CoderRun status: '' @ e))
        | Updated \<Rightarrow> Inr (run\<lparr>r_status := s\<rparr>)))))"

definition write_attempt ::
  "string \<Rightarrow> StatusIdentity \<Rightarrow> HarnessPatch \<Rightarrow> validator option \<Rightarrow> attempt \<Rightarrow> write_error + CoderRun" where
  "write_attempt runName identity patch validate a =
     (case live_read ''read CoderRun for status'' (at_run a) of
        Inl e \<Rightarrow> Inl e
      | Inr run \<Rightarrow>
          if m_UID (r_meta run) \<noteq> si_RunUID identity \<or> m_DeletionTimestamp (r_meta run) \<noteq> None
          then Inl (Denied ''authenticated CoderRun incarnation is no longer live'')
          else (case live_read ''read current control pod'' (at_pod a) of
              Inl e \<Rightarrow> Inl e
            | Inr pod \<Rightarrow>
                if \<not> current_pod runName identity pod
                then Inl (Denied ''authenticated control pod is stale or is not owned by this CoderRun'')
                else (case at_pods a of
                    Inl e \<Rightarrow> Inl (StatusUnavailableError (''list current control pods: '' @ e))
                  | Inr pods \<Rightarrow> (case count_current runName identity pods 0 of
                        None \<Rightarrow> Inl (Denied ''authenticated control pod is not the current run incarnation'')
                      | Some current \<Rightarrow>
                          if current \<noteq> 1
                          then Inl (Denied (''expected exactly one live control pod for CoderRun, found '' @ Itoa (int current)))
                          else validate_and_apply identity patch validate a run pod))))"

text \<open>\<open>retry.RetryOnConflict\<close>: the next attempt after a conflict, while one is granted.\<close>

fun write_retried :: "('a \<Rightarrow> write_error + 'b) \<Rightarrow> 'a \<Rightarrow> 'a list \<Rightarrow> write_error + 'b" where
  "write_retried f a [] = f a"
| "write_retried f a (a' # as) = (case f a of Inl (Conflict e) \<Rightarrow> write_retried f a' as | r \<Rightarrow> r)"

definition StatusWriter_Write ::
  "string \<Rightarrow> StatusIdentity \<Rightarrow> HarnessPatch \<Rightarrow> validator option \<Rightarrow> attempt \<Rightarrow> attempt list \<Rightarrow> write_error + CoderRun" where
  "StatusWriter_Write runName identity patch validate a as =
     (case precheck identity patch (validate \<noteq> None) of
        Some e \<Rightarrow> Inl (Denied e)
      | None \<Rightarrow> (case write_retried (write_attempt runName identity patch validate) a as of
            Inl (Conflict e) \<Rightarrow> Inl (StatusConflictError e)
          | r \<Rightarrow> r))"

section \<open>What an accepted write is\<close>

lemma first_error_None: "first_error check xs = None \<longleftrightarrow> list_all (\<lambda>x. check x = None) xs"
  by (induction xs) (auto split: option.split)

lemma retry_accepts:
  "write_retried f a as = Inr r \<Longrightarrow> \<exists>att \<in> set (a # as). f att = Inr r"
  by (induction f a as rule: write_retried.induct) (auto split: sum.splits write_error.splits)

lemma Write_accepts:
  assumes "StatusWriter_Write runName identity patch validate a as = Inr run'"
  shows "precheck identity patch (validate \<noteq> None) = None"
    and "\<exists>att \<in> set (a # as). write_attempt runName identity patch validate att = Inr run'"
proof -
  show "precheck identity patch (validate \<noteq> None) = None"
    using assms by (auto simp: StatusWriter_Write_def split: option.splits)
  then have "write_retried (write_attempt runName identity patch validate) a as = Inr run'"
    using assms by (auto simp: StatusWriter_Write_def split: sum.splits write_error.splits)
  then show "\<exists>att \<in> set (a # as). write_attempt runName identity patch validate att = Inr run'"
    by (rule retry_accepts)
qed

lemma live_read_Inr: "live_read m r = Inr x \<longleftrightarrow> r = Found x"
  by (cases r) auto

definition incarnation :: "StatusIdentity \<Rightarrow> ControlPod \<Rightarrow> bool" where
  "incarnation identity p \<longleftrightarrow> po_UID p = si_ControlPodUID identity \<and> po_Name p = si_ControlPod identity"

lemma count_current_filter:
  "count_current runName identity pods n = Some k \<Longrightarrow>
     k = n + length (filter (live_control runName identity) pods) \<and>
     list_all (incarnation identity) (filter (live_control runName identity) pods)"
proof (induction pods arbitrary: n)
  case (Cons p pods)
  show ?case
  proof (cases "live_control runName identity p")
    case True
    then have "incarnation identity p" "count_current runName identity pods (Suc n) = Some k"
      using Cons.prems by (simp_all add: incarnation_def split: if_split_asm)
    then show ?thesis using Cons.IH [of "Suc n"] True by simp
  next
    case False
    then show ?thesis using Cons.IH [of n] Cons.prems by simp
  qed
qed simp

lemma attempt_accepts:
  assumes "write_attempt runName identity patch validate att = Inr run'"
  obtains run pod pods where "at_run att = Found run" "at_pods att = Inr pods"
    "m_UID (r_meta run) = si_RunUID identity" "m_DeletionTimestamp (r_meta run) = None"
    "count_current runName identity pods 0 = Some 1"
    "validate_and_apply identity patch validate att run pod = Inr run'"
proof -
  obtain run where run: "live_read ''read CoderRun for status'' (at_run att) = Inr run"
    using assms by (cases "live_read ''read CoderRun for status'' (at_run att)") (auto simp: write_attempt_def)
  obtain pod where pod: "live_read ''read current control pod'' (at_pod att) = Inr pod"
    using assms run by (cases "live_read ''read current control pod'' (at_pod att)") (auto simp: write_attempt_def split: if_splits)
  obtain pods where pods: "at_pods att = Inr pods"
    using assms run pod by (cases "at_pods att") (auto simp: write_attempt_def split: if_splits)
  obtain k where k: "count_current runName identity pods 0 = Some k"
    using assms run pod pods by (cases "count_current runName identity pods 0") (auto simp: write_attempt_def split: if_splits)
  show thesis
    using assms run pod pods k by (intro that [of run pods pod]) (auto simp: write_attempt_def live_read_Inr split: if_splits)
qed

lemma apply_accepts:
  assumes "validate_and_apply identity patch validate att run pod = Inr run'"
  obtains s where "fenced_ack identity patch run" "apply_harness patch (r_status run) = Inr s" "run' = run\<lparr>r_status := s\<rparr>"
  using assms
  by (auto simp: validate_and_apply_def split: if_splits option.splits sum.splits update_answer.splits)

text \<open>The pieces of an accepted patch.\<close>

lemma apply_harness_Inr:
  assumes "apply_harness patch s = Inr s'"
  obtains operations where
    "addOperation (hp_AddOperation patch) (if hp_ReconcileOperations patch then [] else s_ActiveOperations s) = Inr operations"
    "\<not> refuses sameTerminalResult nr_CoordinatorPodUID (s_NativeResult s) (hp_TerminalResult patch)"
    "s' = s\<lparr>
        s_Checkpoint := overwrite (hp_Checkpoint patch) (s_Checkpoint s),
        s_Heartbeat := overwrite (hp_Heartbeat patch) (s_Heartbeat s),
        s_LastCommit := (case hp_LastCommit patch of None \<Rightarrow> s_LastCommit s | Some c \<Rightarrow> c),
        s_ControlRequestAck := overwrite (hp_ControlRequestAck patch) (s_ControlRequestAck s),
        s_NativeResult := overwrite (hp_TerminalResult patch) (s_NativeResult s),
        s_NoChange := overwrite (hp_NoChange patch) (s_NoChange s),
        s_ModelSurface := overwrite (hp_ModelSurface patch) (s_ModelSurface s),
        s_ActiveOperations := clearOperation (hp_ClearOperation patch) operations\<rparr>"
proof -
  obtain operations where o: "addOperation (hp_AddOperation patch)
      (if hp_ReconcileOperations patch then [] else s_ActiveOperations s) = Inr operations"
    using assms by (cases "addOperation (hp_AddOperation patch) (if hp_ReconcileOperations patch then [] else s_ActiveOperations s)")
      (simp_all add: apply_harness_def split: if_split_asm)
  show thesis
    using assms by (intro that [OF o]) (simp_all only: apply_harness_def o sum.case split: if_split_asm, simp_all)
qed

lemma only_harness_fields:
  assumes "apply_harness patch s = Inr s'"
  shows "with_harness_of s s' = s\<lparr>s_ControlRequestAck := s_ControlRequestAck s'\<rparr>"
  using assms by (elim apply_harness_Inr) (simp add: with_harness_of_def)

lemma ack_is_fenced:
  assumes "apply_harness patch s = Inr s'" and "fenced_ack identity patch run" and "s = r_status run"
    and "s_ControlRequestAck s' \<noteq> s_ControlRequestAck s"
  shows "\<exists>request. s_ControlRequest s = Some request \<and> cr_TargetPodUID request = si_ControlPodUID identity"
  using assms by (elim apply_harness_Inr) (auto simp: fenced_ack_def overwrite_def split: option.splits if_splits)

lemma terminal_result_is_final:
  assumes "apply_harness patch s = Inr s'" and "s_NativeResult s = Some result"
    and "nr_CoordinatorPodUID result = uid"
    and "\<And>new. hp_TerminalResult patch = Some new \<Longrightarrow> nr_CoordinatorPodUID new = uid"
  shows "s_NativeResult s' = Some result"
proof (cases "hp_TerminalResult patch")
  case None
  then show ?thesis using assms(1,2) by (elim apply_harness_Inr) (simp add: overwrite_def)
next
  case (Some new)
  then have "sameTerminalResult result new"
    using assms by (elim apply_harness_Inr) (auto simp: refuses_def)
  then have "result = new" by (simp add: sameTerminalResult_def NativeResult.equality)
  then show ?thesis using assms(1) Some by (elim apply_harness_Inr) (simp add: overwrite_def)
qed

lemma precheck_fences:
  assumes "precheck identity patch v = None"
  shows "fenced_record validTerminalResult nr_CoordinatorPodUID (si_ControlPodUID identity)
      ''terminal result UID does not match the authenticated control incarnation'' (hp_TerminalResult patch) = None"
    "fenced_record validNoChange ncc_CoordinatorPodUID (si_ControlPodUID identity)
      ''no-change close UID does not match the authenticated control incarnation'' (hp_NoChange patch) = None"
    "fenced_record validModelSurface ms_CoordinatorPodUID (si_ControlPodUID identity)
      ''model-surface provenance UID does not match the authenticated control incarnation'' (hp_ModelSurface patch) = None"
    "hp_AddOperation patch = Some addition \<Longrightarrow> validOperationIdentity identity addition = None"
  using assms by (simp_all add: precheck_def split: if_split_asm option.split_asm)

lemma fenced_record_None:
  "fenced_record valid uid_of u m r = None \<Longrightarrow> r = Some x \<Longrightarrow> valid x = None \<and> uid_of x = u"
  by (auto simp: fenced_record_def split: option.splits if_splits)

text \<open>C4: A control pod writes only what is its own. A status write the broker accepts was made against a
  fresh read of the authenticated, living run, at a moment when the caller was the one living control
  pod of that run; it leaves the metadata, the specification and every field of the operator alone,
  except that it may acknowledge a control request addressed to this very incarnation; and it
  never changes the terminal result this incarnation has recorded.
\<close>
theorem accepted_write_is_fenced:
  assumes "StatusWriter_Write runName identity patch validate a as = Inr run'"
  shows "\<exists>att \<in> set (a # as). \<exists>run pods pod.
     at_run att = Found run \<and> at_pods att = Inr pods
     \<and> m_UID (r_meta run) = si_RunUID identity \<and> m_DeletionTimestamp (r_meta run) = None
     \<and> filter (live_control runName identity) pods = [pod] \<and> incarnation identity pod
     \<and> r_meta run' = r_meta run \<and> r_spec run' = r_spec run
     \<and> with_harness_of (r_status run) (r_status run') =
         (r_status run)\<lparr>s_ControlRequestAck := s_ControlRequestAck (r_status run')\<rparr>
     \<and> (s_ControlRequestAck (r_status run') \<noteq> s_ControlRequestAck (r_status run) \<longrightarrow>
          (\<exists>request. s_ControlRequest (r_status run) = Some request
             \<and> cr_TargetPodUID request = si_ControlPodUID identity))
     \<and> (\<forall>result. s_NativeResult (r_status run) = Some result \<longrightarrow>
          nr_CoordinatorPodUID result = si_ControlPodUID identity \<longrightarrow> s_NativeResult (r_status run') = Some result)"
proof -
  note pre = precheck_fences(1) [OF Write_accepts(1) [OF assms]]
  obtain att where att: "att \<in> set (a # as)" and w: "write_attempt runName identity patch validate att = Inr run'"
    using Write_accepts(2) [OF assms] by blast
  from w obtain run pod pods where r: "at_run att = Found run" "at_pods att = Inr pods"
      "m_UID (r_meta run) = si_RunUID identity" "m_DeletionTimestamp (r_meta run) = None"
      "count_current runName identity pods 0 = Some 1"
      and va: "validate_and_apply identity patch validate att run pod = Inr run'"
    by (rule attempt_accepts)
  from va obtain s where ack: "fenced_ack identity patch run" and s: "apply_harness patch (r_status run) = Inr s"
      and run': "run' = run\<lparr>r_status := s\<rparr>"
    by (rule apply_accepts)
  have counted: "length (filter (live_control runName identity) pods) = Suc 0"
      "list_all (incarnation identity) (filter (live_control runName identity) pods)"
    using count_current_filter [OF r(5)] by simp_all
  from counted(1) obtain only where "filter (live_control runName identity) pods = [only]"
    by (auto simp only: length_Suc_conv length_0_conv)
  moreover from this counted(2) have "incarnation identity only" by simp
  moreover have "\<forall>result. s_NativeResult (r_status run) = Some result \<longrightarrow>
      nr_CoordinatorPodUID result = si_ControlPodUID identity \<longrightarrow> s_NativeResult s = Some result"
    using terminal_result_is_final [OF s] fenced_record_None [OF pre] by blast
  ultimately show ?thesis
    using att r only_harness_fields [OF s] ack_is_fenced [OF s ack refl] unfolding run'
    by (intro bexI [OF _ att] exI [of _ run] exI [of _ pods] exI [of _ only]) simp
qed

definition control_pod :: ControlPod where
  "control_pod = \<lparr>po_Name = ''pod'', po_Namespace = ''ns'', po_UID = ''p1'', po_RunLabel = ''run'',
     po_Owners = [\<lparr>ow_APIVersion = ''courier.misospace.dev/v1alpha1'', ow_Kind = ''CoderRun'', ow_Name = ''run'',
       ow_UID = ''uid'', ow_Controller = Some True\<rparr>],
     po_Annotations = [], po_Spec = \<lparr>ps_RestartPolicy = [], ps_HostPID = False, ps_ShareProcessNamespace = None,
       ps_Containers = [], ps_InitContainers = [], ps_AutomountServiceAccountToken = None, ps_NodeName = []\<rparr>,
     po_Phase = PodRunning, po_Reason = [], po_CreationTimestamp = 0, po_DeletionTimestamp = None,
     po_ContainerStatuses = [], po_InitContainerStatuses = [], cp_ServiceAccountName = ''control'',
     cp_ComponentLabel = ''coordinator''\<rparr>"

lemma control_pod_sel [simp]:
  "po_Name control_pod = ''pod''" "po_UID control_pod = ''p1''" "po_RunLabel control_pod = ''run''"
  "po_DeletionTimestamp control_pod = None" "cp_ServiceAccountName control_pod = ''control''"
  "cp_ComponentLabel control_pod = ''coordinator''" "controllerRunOwner control_pod = Some (''run'', ''uid'')"
  by (simp_all add: control_pod_def controllerRunOwner_def)

definition control_identity :: StatusIdentity where
  "control_identity = \<lparr>si_RunUID = ''uid'', si_ControlPod = ''pod'', si_ControlPodUID = ''p1'',
     si_ControlServiceAccount = ''control''\<rparr>"

definition beat :: Heartbeat where "beat = \<lparr>hb_At = 4, hb_Kind = ''agent'', hb_CoordinatorPodUID = ''p1''\<rparr>"

definition beat_patch :: HarnessPatch where
  "beat_patch = \<lparr>hp_Checkpoint = None, hp_Heartbeat = Some beat, hp_LastCommit = None, hp_AddOperation = None,
     hp_ClearOperation = [], hp_ReconcileOperations = False, hp_ControlRequestAck = None, hp_TerminalResult = None,
     hp_NoChange = None, hp_ModelSurface = None\<rparr>"

definition calm_attempt :: "CoderRunStatus \<Rightarrow> attempt" where
  "calm_attempt s = \<lparr>at_run = Found (sample_run s), at_pod = Found control_pod, at_pods = Inr [control_pod],
     at_moment = 0, at_update = Updated\<rparr>"

lemma run_label: "topology_RunLabelValue ''run'' = ''run''"
proof -
  have "TrimSpace ''run'' = ''run''" by (rule TrimSpace_id) (simp_all add: byte_def)
  moreover have "sanitize_runes ''run'' = ''run''"
    by (simp add: sanitize_runes.simps Let_def label_char_def ascii_lower_def byte_def)
  ultimately show ?thesis
    by (simp add: topology_RunLabelValue_def sanitizeLabelValue_def trim_cut_def trim_right_cut_def label_cut_def)
qed

lemma refuses_None [simp]: "\<not> refuses same uid_of existing None"
  by (simp add: refuses_def split: option.split)

lemma beat_accepted:
  "StatusWriter_Write ''run'' control_identity beat_patch None (calm_attempt zero_status) [] =
     Inr (sample_run (zero_status\<lparr>s_Heartbeat := Some beat\<rparr>))"
proof -
  have "precheck control_identity beat_patch False = None"
    by (simp add: precheck_def control_identity_def beat_patch_def harness_patch_empty_def malformed_ack_def fenced_record_def
        foreign_heartbeat_def beat_def)
  moreover have "current_pod ''run'' control_identity control_pod" "live_control ''run'' control_identity control_pod"
    by (simp_all add: current_pod_def live_control_def control_identity_def run_label)
  moreover have "apply_harness beat_patch zero_status = Inr (zero_status\<lparr>s_Heartbeat := Some beat\<rparr>)"
    by (simp add: apply_harness_def beat_patch_def addOperation_def clearOperation_def overwrite_def)
  ultimately show ?thesis
    by (simp add: StatusWriter_Write_def write_attempt_def calm_attempt_def validate_and_apply_def fenced_ack_def
        control_identity_def beat_patch_def sample_run_def)
qed

theorem accepted_write_is_fenced_witness:
  "StatusWriter_Write ''run'' control_identity beat_patch None (calm_attempt zero_status) [] =
     Inr (sample_run (zero_status\<lparr>s_Heartbeat := Some beat\<rparr>)) \<and>
   (\<exists>run pods pod. at_run (calm_attempt zero_status) = Found run \<and> at_pods (calm_attempt zero_status) = Inr pods \<and>
      filter (live_control ''run'' control_identity) pods = [pod] \<and> incarnation control_identity pod)"
  using accepted_write_is_fenced [OF beat_accepted] beat_accepted by auto

section \<open>Two writers of one status\<close>

text \<open>What holds of the fields the harness owns.\<close>

definition operations_wf :: "(string \<times> ActiveOperation) list \<Rightarrow> bool" where
  "operations_wf ops \<longleftrightarrow> length ops \<le> maxActiveOperations \<and> distinct (map fst ops) \<and> list_all (validOperationID \<circ> fst) ops"

definition harness_wf :: "CoderRunStatus \<Rightarrow> bool" where
  "harness_wf s \<longleftrightarrow> operations_wf (s_ActiveOperations s)
     \<and> pred_option (\<lambda>r. validTerminalResult r = None) (s_NativeResult s)
     \<and> pred_option (\<lambda>p. validNoChange p = None) (s_NoChange s)
     \<and> pred_option (\<lambda>m. validModelSurface m = None) (s_ModelSurface s)"

lemma operations_wf_clear: "operations_wf ops \<Longrightarrow> operations_wf (clearOperation op ops)"
proof -
  assume wf: "operations_wf ops"
  have "length (filter (\<lambda>(k, _). k \<noteq> op) ops) \<le> length ops" by simp
  then have "length (filter (\<lambda>(k, _). k \<noteq> op) ops) \<le> maxActiveOperations"
    using wf unfolding operations_wf_def by linarith
  then show ?thesis
    using wf by (auto simp: operations_wf_def clearOperation_def list_all_iff distinct_map_filter)
qed

lemma operations_wf_add:
  assumes "operations_wf ops" and "addOperation addition ops = Inr ops'"
    and "\<And>a. addition = Some a \<Longrightarrow> validOperationID (oa_OpID a)"
  shows "operations_wf ops'"
  using assms
  by (auto simp: operations_wf_def addOperation_def map_of_eq_None_iff split: option.splits if_splits)

lemma overwrite_pred: "pred_option P new \<Longrightarrow> pred_option P old \<Longrightarrow> pred_option P (overwrite new old)"
  by (simp add: overwrite_def)

lemma apply_harness_wf:
  assumes "harness_wf s" and "precheck identity patch v = None" and "apply_harness patch s = Inr s'"
  shows "harness_wf s'"
proof -
  have "pred_option (\<lambda>r. validTerminalResult r = None) (hp_TerminalResult patch)"
    "pred_option (\<lambda>p. validNoChange p = None) (hp_NoChange patch)"
    "pred_option (\<lambda>m. validModelSurface m = None) (hp_ModelSurface patch)"
    using precheck_fences(1-3) [OF assms(2)] by (auto simp: option.pred_set dest: fenced_record_None)
  moreover have "\<And>a. hp_AddOperation patch = Some a \<Longrightarrow> validOperationID (oa_OpID a)"
    using precheck_fences(4) [OF assms(2)] by (fastforce simp: validOperationIdentity_def split: if_splits)
  moreover have "operations_wf (if hp_ReconcileOperations patch then [] else s_ActiveOperations s)"
    using assms(1) by (simp add: harness_wf_def operations_wf_def)
  ultimately show ?thesis
    using assms(1,3) operations_wf_add operations_wf_clear
    by (elim apply_harness_Inr) (simp add: harness_wf_def overwrite_pred)
qed

text \<open>
  What either writer of a status promises the other: the fields of the harness stay typed.
\<close>

locale typed_writer =
  fixes writes :: "CoderRunStatus \<Rightarrow> CoderRunStatus \<Rightarrow> bool"
  assumes keeps: "writes s s' \<Longrightarrow> harness_wf s \<Longrightarrow> harness_wf s'"
begin

lemma history_typed: "writes\<^sup>*\<^sup>* s s' \<Longrightarrow> harness_wf s \<Longrightarrow> harness_wf s'"
  by (induction rule: rtranclp_induct) (auto intro: keeps)

end

locale two_writers = first: typed_writer writes\<^sub>1 + second: typed_writer writes\<^sub>2
  for writes\<^sub>1 writes\<^sub>2

sublocale two_writers \<subseteq> both: typed_writer "\<lambda>s s'. writes\<^sub>1 s s' \<or> writes\<^sub>2 s s'"
  by unfold_locales (auto intro: first.keeps second.keeps)

text \<open>
  The operator sends the patch of any two states of a run, the broker an accepted write. The update of the
  broker carries the resource version of its read, so it lands on the status it was computed from; a
  retried write is the write of the attempt that went through.
\<close>

definition operator_writes :: "CoderRunStatus \<Rightarrow> CoderRunStatus \<Rightarrow> bool" where
  "operator_writes live s' \<longleftrightarrow> (\<exists>before after. s' = apply_patch (operator_patch before after) live)"

definition broker_writes :: "CoderRunStatus \<Rightarrow> CoderRunStatus \<Rightarrow> bool" where
  "broker_writes s s' \<longleftrightarrow> (\<exists>run att runName identity patch validate run'. r_status run = s \<and> at_run att = Found run
     \<and> StatusWriter_Write runName identity patch validate att [] = Inr run' \<and> s' = r_status run')"

lemma operator_keeps_harness_wf: "harness_wf (apply_patch p live) = harness_wf live"
  by (simp add: harness_wf_def apply_patch_def)

lemma Write_wf:
  assumes "harness_wf (r_status run)" "at_run att = Found run"
    and "StatusWriter_Write runName identity patch validate att [] = Inr run'"
  shows "harness_wf (r_status run')"
proof -
  have "write_attempt runName identity patch validate att = Inr run'" using Write_accepts(2) [OF assms(3)] by simp
  then obtain r pod where "at_run att = Found r" and v: "validate_and_apply identity patch validate att r pod = Inr run'"
    by (rule attempt_accepts) blast
  then have "r = run" using assms(2) by simp
  from v obtain s where "apply_harness patch (r_status r) = Inr s" "run' = r\<lparr>r_status := s\<rparr>"
    by (rule apply_accepts) blast
  then show ?thesis using apply_harness_wf [OF _ Write_accepts(1) [OF assms(3)]] assms(1) \<open>r = run\<close> by simp
qed

interpretation shared: two_writers operator_writes broker_writes
  by unfold_locales (auto simp: operator_writes_def broker_writes_def operator_keeps_harness_wf intro: Write_wf)

lemma harness_wf_zero: "harness_wf zero_status"
  by (simp add: harness_wf_def operations_wf_def zero_status_def)

text \<open>C8: Whatever the operator and the broker write, in whatever order, the fields of the harness stay
  typed: at most 64 active operations under distinct, well-formed identifiers, and a terminal result,
  a close proposal and a model surface that each pass the broker's own check.
\<close>
theorem shared_status_is_well_formed:
  assumes "(\<lambda>s s'. operator_writes s s' \<or> broker_writes s s')\<^sup>*\<^sup>* zero_status s"
  shows "harness_wf s"
  using assms harness_wf_zero by (rule shared.both.history_typed)

theorem shared_status_is_well_formed_witness:
  "harness_wf (zero_status\<lparr>s_Heartbeat := Some beat\<rparr>)"
proof (rule shared_status_is_well_formed)
  have "r_status (sample_run zero_status) = zero_status" "at_run (calm_attempt zero_status) = Found (sample_run zero_status)"
    by (simp_all add: calm_attempt_def)
  then have "broker_writes zero_status (zero_status\<lparr>s_Heartbeat := Some beat\<rparr>)"
    using beat_accepted unfolding broker_writes_def by (metis sample_run_sel)
  then show "(\<lambda>s s'. operator_writes s s' \<or> broker_writes s s')\<^sup>*\<^sup>* zero_status (zero_status\<lparr>s_Heartbeat := Some beat\<rparr>)"
    by blast
qed

section \<open>From the model's message to the status\<close>

lemma parsed_row_valid: "parsed_row row \<Longrightarrow> invalid_criterion row = None"
  by (auto simp: parsed_row_def invalid_criterion_def)

lemma parsed_proposal:
  assumes "parseNoChangeClose raw evidence = Some p"
  shows "ncc_Criteria p \<noteq> []" "length (ncc_Criteria p) \<le> MaxNoChangeCriteria"
    "length (ncc_Evidence p) \<le> MaxNoChangeEvidenceBytes" "list_all parsed_row (ncc_Criteria p)"
  using assms by (auto simp: parseNoChangeClose_def split: option.splits if_splits)

text \<open>C22: The harness parser and the broker agree on what a close proposal is. A proposal that survives
  the parsing of the model's final message, stamped with the incarnation and the time, passes the
  broker's check, and each of its paths stays inside the repository.
\<close>
theorem parsed_proposal_is_accepted:
  assumes "parseOutcome json_error quoted text = Inr (outcome, Some p)"
    and "uid \<noteq> []" "length uid \<le> 128" "at \<noteq> zero_time"
  shows "validNoChange (p\<lparr>ncc_CoordinatorPodUID := uid, ncc_At := at\<rparr>) = None \<and> outcome = OutcomeNoChangeNeeded
    \<and> (\<forall>row \<in> set (ncc_Criteria p). hd (nc_Path row) \<noteq> CHR ''/'' \<and> ''..'' \<notin> set (Split (nc_Path row) (CHR ''/''))
        \<and> backslash \<notin> set (nc_Path row))"
proof -
  obtain raw evidence where p: "parseNoChangeClose raw evidence = Some p" and o: "outcome = OutcomeNoChangeNeeded"
    using assms(1) by (auto simp: parseOutcome_def Let_def split: option.splits if_splits)
  have rows: "list_all (\<lambda>row. invalid_criterion row = None) (ncc_Criteria p)"
    using parsed_proposal(4) [OF p] by (auto simp: list_all_iff parsed_row_valid)
  have "validNoChange (p\<lparr>ncc_CoordinatorPodUID := uid, ncc_At := at\<rparr>) = None"
    using parsed_proposal(1-3) [OF p] rows assms(2-4) by (simp add: validNoChange_def first_error_None Suc_le_eq)
  moreover have "\<forall>row \<in> set (ncc_Criteria p). ValidNoChangeClosePath (nc_Path row)"
    using parsed_proposal(4) [OF p] by (auto simp: list_all_iff parsed_row_def)
  ultimately show ?thesis using o valid_path_stays_inside by blast
qed

definition grounded_row :: NoChangeCloseCriterion where
  "grounded_row = \<lparr>nc_Criterion = ''done'', nc_Path = ''a/b'', nc_Excerpt = replicate 24 (CHR ''x'')\<rparr>"

definition grounded_close :: json where
  "grounded_close = JObject [(''criteria'', JArray [JObject [(''criterion'', JString ''done''), (''path'', JString ''a/b''),
     (''excerpt'', JString (replicate 24 (CHR ''x'')))]])]"

definition grounded_message :: json where
  "grounded_message = JObject [(''outcome'', JString OutcomeNoChangeNeeded), (''evidence'', JString ''seen''),
     (''close'', grounded_close)]"

lemma ascii_runes: "list_all (\<lambda>c. byte c < 128) s \<Longrightarrow> to_valid s = s \<and> RuneCountInString s = length s"
proof (induction s)
  case (Cons c s)
  then have "RuneCountInString (c # s) = Suc (RuneCountInString s)"
    by (subst RuneCountInString.simps) (simp add: Let_def)
  then show ?case using Cons by (simp add: to_valid_ascii)
qed (simp add: RuneCountInString.simps)

lemma grounded_row_parsed: "parsed_row grounded_row"
proof -
  have "RuneCountInString (replicate 24 (CHR ''x'')) = 24"
    using ascii_runes [of "replicate 24 (CHR ''x'')"] by (simp add: list_all_iff byte_def)
  moreover have "ValidNoChangeClosePath ''a/b''"
    using TrimSpace_id [of "''a/b''"]
    by (simp add: ValidNoChangeClosePath_def no_change_bounds has_forbidden_rune.simps Let_def byte_def chr_eq_iff)
  moreover have "TrimSpace ''done'' = ''done''" by (rule TrimSpace_id) (simp_all add: byte_def)
  ultimately show ?thesis by (simp add: parsed_row_def grounded_row_def no_change_bounds)
qed

lemma grounded_received: "received grounded_message = grounded_message"
  by (simp add: grounded_message_def grounded_close_def ascii_runes list_all_iff byte_def)

lemma grounded_parsed:
  "parseOutcome json_error quoted (encode grounded_message) = Inr (OutcomeNoChangeNeeded,
     Some \<lparr>ncc_Criteria = [grounded_row], ncc_Evidence = ''seen'', ncc_CoordinatorPodUID = [], ncc_At = zero_time\<rparr>)"
proof -
  have trim: "TrimSpace (encode grounded_message) = encode grounded_message"
    by (rule TrimSpace_id) (simp_all add: grounded_message_def byte_def)
  have read: "Unmarshal (encode grounded_message) = Some grounded_message"
    using Unmarshal_encode [of grounded_message] grounded_received
    by (simp add: grounded_message_def grounded_close_def)
  have declared: "decode_struct declaration_fields grounded_message zero_declaration = Some \<lparr>dc_Outcome = OutcomeNoChangeNeeded,
      dc_Evidence = ''seen'', dc_Question = [], dc_Missing = [], dc_Close = Some grounded_close\<rparr>"
    by (simp add: grounded_message_def decode_struct_def declaration_fields_def field_of_def string_field_def
        raw_pointer_field_def zero_declaration_def grounded_close_def)
  have "decode_struct close_fields grounded_close [] = Some [grounded_row]"
    by (simp add: grounded_close_def decode_struct_def close_fields_def field_of_def slice_field_def criterion_fields_def
        string_field_def zero_criterion_def grounded_row_def)
  then have close: "parseNoChangeClose grounded_close ''seen'' = Some \<lparr>ncc_Criteria = [grounded_row], ncc_Evidence = ''seen'',
      ncc_CoordinatorPodUID = [], ncc_At = zero_time\<rparr>"
    by (simp add: parseNoChangeClose_def grounded_row_parsed no_change_bounds)
  have "TrimSpace OutcomeNoChangeNeeded = OutcomeNoChangeNeeded" "TrimSpace ''seen'' = ''seen''"
    by (rule TrimSpace_id; simp add: byte_def)+
  then show ?thesis by (simp add: parseOutcome_def trim read declared close Let_def)
qed

theorem parsed_proposal_is_accepted_witness:
  "validNoChange \<lparr>ncc_Criteria = [grounded_row], ncc_Evidence = ''seen'', ncc_CoordinatorPodUID = ''p1'', ncc_At = 0\<rparr> = None"
  using parsed_proposal_is_accepted [OF grounded_parsed [of id id], of "''p1''" 0] by (simp add: zero_time_def)

end
