(* ===== verification/Publisher.thy ===== *)
theory Publisher
  imports Coordinator
begin

text \<open>
  The control pod's publication engine (\<open>internal/harness/publisher.go\<close>): it seeds itself from the world
  its broker observes, proposes its integration head, and reconciles with the world when the broker
  refuses. What the integration tree (git) and the broker answer in a round is data of the round;
  a broker call answers per attempt. The log of a publication is the tips it cites: the expected
  and the proposed one of every import and publish call.
\<close>

section \<open>Broker calls\<close>

record BrokerCallError =
  bc_StatusCode :: int
  bc_Category :: string
  bc_Retryable :: bool

datatype call_error = CallError BrokerCallError | LocalError string

record BrokerSnapshot =
  sn_Tip :: string
  sn_BaseTip :: string
  sn_WorkRefExists :: bool
  sn_AtAnchor :: bool

record Publication =
  pu_OID :: string
  pu_AlreadyPublished :: bool

datatype publish_error = ErrNothingToPublish | PublicationBlockedError string | TransientPublicationError string
  | OtherPublishError string

definition publishRetryRounds :: nat where "publishRetryRounds = 3"
definition worldReconcileRounds :: nat where "worldReconcileRounds = 3"

definition isBrokerRetryable :: "call_error \<Rightarrow> bool" where
  "isBrokerRetryable err = (case err of CallError c \<Rightarrow> bc_Retryable c | LocalError _ \<Rightarrow> False)"

text \<open>\<open>sleep n\<close> is the error of a context that ended before attempt \<open>n\<close>.\<close>

fun retried_loop :: "(nat \<Rightarrow> string option) \<Rightarrow> (nat \<Rightarrow> call_error + 'a) \<Rightarrow> nat \<Rightarrow> nat \<Rightarrow> call_error + 'a" where
  "retried_loop sleep call attempt 0 = call attempt"
| "retried_loop sleep call attempt (Suc rounds) =
     (case call attempt of
        Inr x \<Rightarrow> Inr x
      | Inl e \<Rightarrow>
          if \<not> isBrokerRetryable e then Inl e
          else (case sleep (Suc attempt) of
              Some t \<Rightarrow> Inl (LocalError t)
            | None \<Rightarrow> retried_loop sleep call (Suc attempt) rounds))"

definition retried :: "(nat \<Rightarrow> string option) \<Rightarrow> (nat \<Rightarrow> call_error + 'a) \<Rightarrow> call_error + 'a" where
  "retried sleep call = retried_loop sleep call 0 publishRetryRounds"

definition definiteWorkerRejectionStatus :: "int \<Rightarrow> bool" where
  "definiteWorkerRejectionStatus status = (if status = 408 \<or> status = 429 then False else 400 \<le> status \<and> status < 500)"

fun call_error_text :: "call_error \<Rightarrow> string" where
  "call_error_text (CallError c) = ''harness: broker '' @ bc_Category c"
| "call_error_text (LocalError t) = t"

text \<open>No broker call fails with a publication error, so the branch that passes one through is not reached.\<close>

definition classify :: "call_error \<Rightarrow> string \<Rightarrow> publish_error" where
  "classify err what =
     (case err of
        CallError c \<Rightarrow>
          if \<not> bc_Retryable c \<and> definiteWorkerRejectionStatus (bc_StatusCode c)
          then PublicationBlockedError (''the broker denied '' @ what @ '' ('' @ bc_Category c @ '')'')
          else TransientPublicationError (call_error_text err)
      | LocalError _ \<Rightarrow> TransientPublicationError (call_error_text err))"

section \<open>The engine\<close>

record PublicationEngine =
  en_seeded :: bool
  en_seedTip :: string
  en_seedWorkRefExist :: bool
  en_seedAtAnchor :: bool
  en_lastConfirmed :: string

record seed_world =
  sw_sleep :: "nat \<Rightarrow> string option"
  sw_snapshot :: "nat \<Rightarrow> call_error + BrokerSnapshot"
  sw_tree :: "string + string"

definition seed :: "seed_world \<Rightarrow> publish_error + PublicationEngine" where
  "seed w =
     (case retried (sw_sleep w) (sw_snapshot w) of
        Inl e \<Rightarrow> Inl (classify e ''the seed snapshot read'')
      | Inr snap \<Rightarrow> (case sw_tree w of
            Inl e \<Rightarrow> Inl (OtherPublishError e)
          | Inr tip \<Rightarrow>
              if tip \<noteq> sn_Tip snap
              then Inl (OtherPublishError ''harness: seeded tree does not match the observed snapshot tip'')
              else Inr \<lparr>en_seeded = True, en_seedTip = tip, en_seedWorkRefExist = sn_WorkRefExists snap,
                     en_seedAtAnchor = sn_AtAnchor snap, en_lastConfirmed = []\<rparr>))"

definition expectedTip :: "PublicationEngine \<Rightarrow> string" where
  "expectedTip e =
     (if en_lastConfirmed e \<noteq> [] then en_lastConfirmed e
      else if en_seedWorkRefExist e then en_seedTip e
      else [])"

datatype merge_answer = Merged | MergeConflict nat | MergeFailed string

datatype broker_call = ImportCall | PublishCall | SnapshotCall

record round_world =
  rw_bundle :: "string + string"
  rw_import :: "nat \<Rightarrow> call_error + unit"
  rw_publish :: "nat \<Rightarrow> call_error + Publication"
  rw_snapshot :: "nat \<Rightarrow> call_error + BrokerSnapshot"
  rw_sleep :: "broker_call \<Rightarrow> nat \<Rightarrow> string option"
  rw_absorb :: "string + (string \<times> string)"
  rw_ancestor :: "string + bool"
  rw_treeBase :: string
  rw_refresh :: "string + string"
  rw_merge :: merge_answer
  rw_abort :: "string option"

definition foreign_tip :: "string \<Rightarrow> string \<Rightarrow> publish_error" where
  "foreign_tip live expected = PublicationBlockedError
     (''the live work tip advanced beyond this run's publication evidence (live '' @ live @ '', expected '' @ expected
      @ ''); a foreign tip is never adopted'')"

text \<open>The re-sync with an advanced base; the merge is aborted before its failure is reported.\<close>

definition aborted :: "round_world \<Rightarrow> publish_error \<Rightarrow> publish_error" where
  "aborted w failure =
     (case rw_abort w of
        Some e \<Rightarrow> OtherPublishError (''harness: conflicted base re-sync could not be aborted: '' @ e)
      | None \<Rightarrow> failure)"

definition resync_base :: "round_world \<Rightarrow> string \<Rightarrow> publish_error + string" where
  "resync_base w expected =
     (case rw_refresh w of
        Inl e \<Rightarrow> Inl (OtherPublishError e)
      | Inr baseTip \<Rightarrow> (case rw_merge w of
            Merged \<Rightarrow> Inr expected
          | MergeConflict paths \<Rightarrow> Inl (aborted w (PublicationBlockedError
              (''base re-sync merge conflicts in '' @ Itoa (int paths) @ '' path(s); resolving them is human work'')))
          | MergeFailed e \<Rightarrow> Inl (aborted w (OtherPublishError (''harness: base re-sync merge failed: '' @ e)))))"

definition reconcile :: "PublicationEngine \<Rightarrow> round_world \<Rightarrow> string \<Rightarrow> string \<Rightarrow> publish_error + string" where
  "reconcile e w head expected =
     (case retried (rw_sleep w SnapshotCall) (rw_snapshot w) of
        Inl err \<Rightarrow> Inl (classify err ''the world observation'')
      | Inr snap \<Rightarrow> (case rw_absorb w of
            Inl err \<Rightarrow> Inl (OtherPublishError err)
          | Inr (live, baseTip) \<Rightarrow>
              if live \<noteq> sn_Tip snap \<or> baseTip \<noteq> sn_BaseTip snap
              then Inl (OtherPublishError ''harness: the world snapshot does not match the broker's claimed observation'')
              else if live = head then Inr live
              else (case rw_ancestor w of
                  Inl err \<Rightarrow> Inl (OtherPublishError (''harness: world ancestry check failed: '' @ err))
                | Inr behind \<Rightarrow>
                    if sn_BaseTip snap \<noteq> rw_treeBase w then
                      (if sn_WorkRefExists snap \<and> live \<noteq> expected \<and> live \<noteq> en_seedTip e
                       then Inl (foreign_tip live expected) else resync_base w expected)
                    else if behind \<and> (live = en_lastConfirmed e \<or> live = en_seedTip e) then Inr live
                    else Inl (foreign_tip live expected))))"

text \<open>One round of \<open>Publish\<close>: its outcome, or the expected tip of the next round; and the tips cited.\<close>

definition confirm_seed :: "PublicationEngine \<Rightarrow> round_world \<Rightarrow> string \<Rightarrow> string \<Rightarrow>
    (publish_error + Publication) \<times> (string \<times> string) list" where
  "confirm_seed e w head expected =
     (if \<not> en_seedWorkRefExist e \<or> en_seedAtAnchor e then (Inl ErrNothingToPublish, [])
      else (case retried (rw_sleep w ImportCall) (rw_import w) of
          Inl err \<Rightarrow> (Inl (classify err ''the seeded publication confirmation import''), [(expected, head)])
        | Inr _ \<Rightarrow> (case retried (rw_sleep w PublishCall) (rw_publish w) of
              Inl err \<Rightarrow> (Inl (classify err ''the seeded publication confirmation''), [(expected, head), (expected, head)])
            | Inr p \<Rightarrow> (Inr p, [(expected, head), (expected, head)]))))"

definition publish_round :: "PublicationEngine \<Rightarrow> round_world \<Rightarrow> string \<Rightarrow>
    ((publish_error + Publication) + string) \<times> (string \<times> string) list" where
  "publish_round e w expected =
     (case rw_bundle w of
        Inl err \<Rightarrow> (Inl (Inl (OtherPublishError err)), [])
      | Inr head \<Rightarrow>
          if head = en_seedTip e then apfst Inl (confirm_seed e w head expected)
          else
            let again = (case reconcile e w head expected of Inl err \<Rightarrow> Inl (Inl err) | Inr next \<Rightarrow> Inr next) in
            (case retried (rw_sleep w ImportCall) (rw_import w) of
               Inl _ \<Rightarrow> (again, [(expected, head)])
             | Inr _ \<Rightarrow> (case retried (rw_sleep w PublishCall) (rw_publish w) of
                   Inr p \<Rightarrow> (Inl (Inr p), [(expected, head), (expected, head)])
                 | Inl _ \<Rightarrow> (again, [(expected, head), (expected, head)]))))"

fun publish_loop :: "PublicationEngine \<Rightarrow> (nat \<Rightarrow> round_world) \<Rightarrow> nat \<Rightarrow> nat \<Rightarrow> string \<Rightarrow>
    (publish_error + Publication) \<times> (string \<times> string) list" where
  "publish_loop e world n 0 expected = (Inl (PublicationBlockedError
     ''the live work ref did not settle across reconciliation rounds; refusing to race it''), [])"
| "publish_loop e world n (Suc left) expected =
     (case publish_round e (world n) expected of
        (Inl result, cited) \<Rightarrow> (result, cited)
      | (Inr next, cited) \<Rightarrow> apsnd (append cited) (publish_loop e world (Suc n) left next))"

definition seeded_engine :: "PublicationEngine \<Rightarrow> seed_world \<Rightarrow> publish_error + PublicationEngine" where
  "seeded_engine e w = (if en_seeded e then Inr e else seed w)"

definition Publish :: "PublicationEngine \<Rightarrow> seed_world \<Rightarrow> (nat \<Rightarrow> round_world) \<Rightarrow>
    (publish_error + Publication) \<times> PublicationEngine \<times> (string \<times> string) list" where
  "Publish e0 sw world =
     (case seeded_engine e0 sw of
        Inl err \<Rightarrow> (Inl err, e0, [])
      | Inr e \<Rightarrow> (case publish_loop e world 0 (Suc worldReconcileRounds) (expectedTip e) of
            (Inl err, cited) \<Rightarrow> (Inl err, e, cited)
          | (Inr p, cited) \<Rightarrow> (Inr p, e\<lparr>en_lastConfirmed := pu_OID p\<rparr>, cited)))"

section \<open>What the engine vouches for\<close>

lemma reconciled_tip:
  "reconcile e w head expected = Inr tip \<Longrightarrow> tip \<in> {head, expected, en_lastConfirmed e, en_seedTip e}"
  by (auto simp: reconcile_def resync_base_def split: sum.splits prod.splits if_splits merge_answer.splits)

lemma confirm_seed_cites:
  "(x, h) \<in> set (snd (confirm_seed e w head expected)) \<Longrightarrow>
     x = expected \<and> h = head \<and> en_seedWorkRefExist e \<and> \<not> en_seedAtAnchor e"
  "length (snd (confirm_seed e w head expected)) \<le> 2"
  by (auto simp: confirm_seed_def split: sum.splits if_splits)

lemma round_cites:
  assumes "publish_round e w expected = (outcome, cited)"
  shows "length cited \<le> 2"
    and "(x, h) \<in> set cited \<Longrightarrow> x = expected \<and> (h = en_seedTip e \<longrightarrow> en_seedWorkRefExist e \<and> \<not> en_seedAtAnchor e)"
    and "outcome = Inr tip \<Longrightarrow> tip \<in> {expected, en_lastConfirmed e, en_seedTip e} \<union> snd ` set cited"
proof -
  have seedcase: "cited = snd (confirm_seed e w head expected)" "\<exists>r. outcome = Inl r"
    if "rw_bundle w = Inr head" "head = en_seedTip e" for head
    using assms that by (auto simp: publish_round_def apfst_def map_prod_def split: prod.splits)
  have other: "cited \<in> {[(expected, head)], [(expected, head), (expected, head)]}"
    "\<And>tip. outcome = Inr tip \<Longrightarrow> reconcile e w head expected = Inr tip"
    if "rw_bundle w = Inr head" "head \<noteq> en_seedTip e" for head
    using assms that by (auto simp: publish_round_def Let_def split: sum.splits)
  have none: "cited = []" "\<exists>r. outcome = Inl r" if "rw_bundle w = Inl err" for err
    using assms that by (auto simp: publish_round_def)
  show "length cited \<le> 2"
    using seedcase(1) other(1) none(1) confirm_seed_cites(2) by (cases "rw_bundle w") fastforce+
  show "x = expected \<and> (h = en_seedTip e \<longrightarrow> en_seedWorkRefExist e \<and> \<not> en_seedAtAnchor e)" if "(x, h) \<in> set cited"
    using that seedcase(1) other(1) none(1) confirm_seed_cites(1) by (cases "rw_bundle w") fastforce+
  show "tip \<in> {expected, en_lastConfirmed e, en_seedTip e} \<union> snd ` set cited" if "outcome = Inr tip"
  proof (cases "rw_bundle w")
    case (Inr head)
    show ?thesis
    proof (cases "head = en_seedTip e")
      case False
      then show ?thesis using reconciled_tip [OF other(2) [OF Inr False that]] other(1) [OF Inr False] by auto
    qed (use seedcase(2) [OF Inr] that in auto)
  qed (use none(2) that in auto)
qed

definition vouched :: "PublicationEngine \<Rightarrow> string set" where
  "vouched e = {[], en_lastConfirmed e, en_seedTip e}"

lemma loop_length: "length (snd (publish_loop e world n left expected)) \<le> 2 * left"
proof (induction left arbitrary: n expected)
  case (Suc left)
  obtain outcome c where r: "publish_round e (world n) expected = (outcome, c)" by fastforce
  show ?case
  proof (cases outcome)
    case (Inr tip)
    have "length c + length (snd (publish_loop e world (Suc n) left tip)) \<le> 2 + 2 * left"
      using round_cites(1) [OF r] Suc.IH by (rule add_mono)
    then show ?thesis by (simp add: r Inr)
  qed (use round_cites(1) [OF r] r in simp)
qed simp

definition sound_cites :: "PublicationEngine \<Rightarrow> string set \<Rightarrow> (string \<times> string) list \<Rightarrow> bool" where
  "sound_cites e S cited \<longleftrightarrow> (\<forall>(x, h) \<in> set cited. x \<in> vouched e \<union> S \<union> snd ` set cited
     \<and> (h = en_seedTip e \<longrightarrow> en_seedWorkRefExist e \<and> \<not> en_seedAtAnchor e))"

lemma sound_cites_append:
  assumes "sound_cites e S c" and "sound_cites e (S \<union> snd ` set c) c'"
  shows "sound_cites e S (c @ c')"
  unfolding sound_cites_def set_append
proof
  fix q assume "q \<in> set c \<union> set c'"
  then show "case q of (x, h) \<Rightarrow> x \<in> vouched e \<union> S \<union> snd ` (set c \<union> set c')
      \<and> (h = en_seedTip e \<longrightarrow> en_seedWorkRefExist e \<and> \<not> en_seedAtAnchor e)"
    using assms unfolding sound_cites_def by (cases q) (auto simp: image_Un dest!: bspec)
qed

lemma loop_cites: "expected \<in> vouched e \<union> S \<Longrightarrow> sound_cites e S (snd (publish_loop e world n left expected))"
proof (induction left arbitrary: n expected S)
  case (Suc left)
  obtain outcome c where r: "publish_round e (world n) expected = (outcome, c)" by fastforce
  have first: "sound_cites e S c"
    using round_cites(2) [OF r] Suc.prems by (fastforce simp: sound_cites_def)
  show ?case
  proof (cases outcome)
    case (Inl result)
    then show ?thesis using first r by simp
  next
    case (Inr tip)
    have "tip \<in> vouched e \<union> (S \<union> snd ` set c)"
      using round_cites(3) [OF r Inr] Suc.prems by (auto simp: vouched_def)
    from sound_cites_append [OF first Suc.IH [OF this, of "Suc n"]] show ?thesis
      by (simp add: r Inr)
  qed
qed (simp add: sound_cites_def)


definition quiet_round :: round_world where
  "quiet_round = \<lparr>rw_bundle = Inr ''b'', rw_import = (\<lambda>_. Inr ()), rw_publish = (\<lambda>_. Inr \<lparr>pu_OID = ''b'', pu_AlreadyPublished = False\<rparr>),
     rw_snapshot = (\<lambda>_. Inl (LocalError [])), rw_sleep = (\<lambda>_ _. None), rw_absorb = Inl [], rw_ancestor = Inl [], rw_treeBase = [],
     rw_refresh = Inl [], rw_merge = Merged, rw_abort = None\<rparr>"

definition seeded_at_a :: PublicationEngine where
  "seeded_at_a = \<lparr>en_seeded = True, en_seedTip = ''a'', en_seedWorkRefExist = True, en_seedAtAnchor = True, en_lastConfirmed = []\<rparr>"

definition silent_seed :: seed_world where
  "silent_seed = \<lparr>sw_sleep = (\<lambda>_. None), sw_snapshot = (\<lambda>_. Inl (LocalError [])), sw_tree = Inl []\<rparr>"


section \<open>The observations of an ending\<close>

datatype WorkState = WorkStateNone | WorkStateDirty | WorkStateCommitted | WorkStateOther string

record tree_view =
  tv_state :: "string + WorkState"
  tv_head :: "string + string"
  tv_branch :: "string + string"
  tv_sleep :: "nat \<Rightarrow> string option"
  tv_snapshot :: "nat \<Rightarrow> call_error + BrokerSnapshot"

fun publish_error_text :: "publish_error \<Rightarrow> string" where
  "publish_error_text ErrNothingToPublish = ''harness: no work was integrated or published in this incarnation''"
| "publish_error_text (PublicationBlockedError t) = ''harness: publication blocked: '' @ t"
| "publish_error_text (TransientPublicationError t) = ''harness: publication unavailable: '' @ t"
| "publish_error_text (OtherPublishError t) = t"

definition CapacityWorkspaceSafety :: "tree_view \<Rightarrow> string + WorkspaceSafetyEvidence" where
  "CapacityWorkspaceSafety v =
     (case tv_state v of Inl e \<Rightarrow> Inl e
      | Inr state \<Rightarrow> (case tv_head v of Inl e \<Rightarrow> Inl e
      | Inr head \<Rightarrow> (case tv_branch v of Inl e \<Rightarrow> Inl e
      | Inr branch \<Rightarrow>
          let evidence = (\<lambda>s remote. \<lparr>ws_State = s, ws_Branch = branch, ws_Head = head, ws_RemoteHead = remote\<rparr>) in
          if state = WorkStateDirty then Inr (evidence ''dirty'' [])
          else if state \<noteq> WorkStateCommitted \<and> state \<noteq> WorkStateNone then Inr (evidence ''unknown'' [])
          else if branch \<noteq> ''integration'' then Inr (evidence ''unknown'' [])
          else (case retried (tv_sleep v) (tv_snapshot v) of
              Inl err \<Rightarrow> Inl (publish_error_text (classify err ''the capacity workspace proof''))
            | Inr snap \<Rightarrow>
                if state = WorkStateNone then Inr (evidence ''empty'' (sn_Tip snap))
                else if \<not> sn_WorkRefExists snap \<or> sn_Tip snap \<noteq> head then Inr (evidence ''unknown'' [])
                else Inr (evidence ''pushed'' (sn_Tip snap))))))"

definition WorkRefBeyondAnchor :: "tree_view \<Rightarrow> string + bool" where
  "WorkRefBeyondAnchor v =
     (case retried (tv_sleep v) (tv_snapshot v) of
        Inl err \<Rightarrow> Inl (publish_error_text (classify err ''the work-ref observation''))
      | Inr snap \<Rightarrow> Inr (sn_WorkRefExists snap \<and> \<not> sn_AtAnchor snap))"

text \<open>The answer the coordinator's endings see.\<close>

definition engine_answer :: "publish_error + Publication \<Rightarrow> publish_answer" where
  "engine_answer r =
     (case r of
        Inr p \<Rightarrow> Published (pu_AlreadyPublished p) (pu_OID p)
      | Inl ErrNothingToPublish \<Rightarrow> NothingToPublish (publish_error_text ErrNothingToPublish)
      | Inl (PublicationBlockedError t) \<Rightarrow> PublicationBlocked (publish_error_text (PublicationBlockedError t))
      | Inl e \<Rightarrow> PublishFailed (publish_error_text e))"

text \<open>Pushed evidence is the tip the broker observed on the work ref, and a refusal to adopt a foreign tip
  blocks the run rather than failing it.\<close>

lemma pushed_is_observed:
  assumes "CapacityWorkspaceSafety v = Inr evidence" and "ws_State evidence = ''pushed''"
  shows "\<exists>snap. retried (tv_sleep v) (tv_snapshot v) = Inr snap \<and> sn_WorkRefExists snap
    \<and> ws_RemoteHead evidence = sn_Tip snap \<and> ws_Head evidence = ws_RemoteHead evidence \<and> tv_head v = Inr (ws_Head evidence)"
  using assms by (auto simp: CapacityWorkspaceSafety_def Let_def split: sum.splits if_splits)

lemma foreign_tip_blocks_the_run:
  assumes "settleStatus w = None" and "ew_publish w = Some (engine_answer (Inl (foreign_tip live expected)))"
  shows "finish quoted w OutcomeChanges summary p = blocked (publish_error_text (foreign_tip live expected))"
  using assms by (simp add: finish_def engine_answer_def foreign_tip_def)

end
