(* ===== verification/Spec2Isabelle.thy ===== *)
theory Spec2Isabelle
  imports Duties BrokerStatus Publisher
begin

text \<open>
  A verification of Courier, a Kubernetes operator that runs coding coordinators on work items handed out
  by sources. A run (\<open>CoderRun\<close>) is claimed at its source, launched as a pod, observed, graded by the checks
  of its pull request, perhaps repaired, ended, reported, and finally deleted.

  \<^bold>\<open>The parts and how they interact.\<close> The \<^emph>\<open>operator\<close> (\<open>internal/controller\<close>) reconciles one run at a time: it
  reads the cluster, calls the source and writes the run's status by merge patches. The \<^emph>\<open>control pod\<close>
  (\<open>cmd/courier-control\<close>, \<open>internal/harness\<close>) drives the model, publishes through its broker and ends with one
  termination line and an exit code, which the operator reads. The \<^emph>\<open>broker\<close> (\<open>internal/broker\<close>) is the only
  path by which a control pod writes the status. Operator and broker write disjoint fields of one status.

  \<^bold>\<open>Theories.\<close>
  \<^item> Language and library: \<open>Prelude\<close> (state monad programs, ranks), \<open>GoLib\<close> (strings, UTF-8, conversions),
    \<open>GoTime\<close> (RFC 3339), \<open>Sha256\<close>, \<open>Json\<close> (\<open>encoding/json\<close>).
  \<^item> Data and pure parts: \<open>Api\<close> (\<open>api/v1alpha1\<close>), \<open>Mechanical\<close> (\<open>mechanical.go\<close>, \<open>observer.go\<close>), \<open>Admission\<close>
    (\<open>admission.go\<close>, \<open>preflight_backoff.go\<close>, lanes), \<open>StatusPatch\<close> (\<open>patchStatus\<close>, \<open>internal/status\<close>), \<open>Pods\<close>
    (pods, terminations, \<open>diagnostics.go\<close>), \<open>Branch\<close> (\<open>internal/branch\<close>), \<open>Workspace\<close>
    (\<open>legacy_workspace_observation.go\<close>).
  \<^item> The controller as programs over its run, the API server's view and a log of events: \<open>Runtime\<close> (the
    environment, calls, the program calculus), \<open>Capacity\<close>, \<open>Lifecycle\<close>, \<open>CIPark\<close>, \<open>Review\<close>, \<open>Retry\<close>, \<open>Reap\<close>,
    \<open>Liveness\<close> (each after its Go file) and \<open>Reconcile\<close> (\<open>coderun_controller.go\<close>).
  \<^item> The contract: \<open>Machine\<close> (a state machine of a run and the guard of every call), \<open>Invariants\<close> (what the
    machine guarantees), \<open>Refine_Report\<close>, \<open>Refine_Park\<close>, \<open>Refine_Liveness\<close>, \<open>Refine_Reconcile\<close> (every write is a step of it
    and every call permitted), \<open>Journal\<close> (the log of one reconcile), \<open>Requeue\<close> (when it asks to run again) and
    \<open>Duties\<close> (single handlers).
  \<^item> The control pod and its broker: \<open>Handoff\<close> (\<open>terminationFor\<close>, \<open>FitTerminationLine\<close> and the operator's decoder),
    \<open>Availability\<close> (\<open>availability.go\<close>, \<open>turnRetryDelay\<close>), \<open>NoChange\<close> (close proposals), \<open>Coordinator\<close> (\<open>Run\<close>, \<open>pump\<close>,
    \<open>parseOutcome\<close>, the endings), \<open>Publisher\<close> (\<open>publisher.go\<close>) and \<open>BrokerStatus\<close> (\<open>StatusWriter.Write\<close>).

  \<^bold>\<open>Correspondence.\<close> A definition has the name of the Go function it translates; a large function is split at
  its branches into definitions with descriptive names. A Go pointer is an \<open>option\<close>, a struct a \<open>record\<close>, an error
  a value. Everything outside the repository is an argument: the environment of a reconcile answers every read,
  call and clock reading, per tick, with no assumption on the order of successes and failures; condition
  handling of \<open>apimachinery\<close> is a record with its documented behaviour as a named hypothesis where it is used.

  Three interfaces are locales: \<open>status_conditions\<close> (condition handling, interpreted on its reference implementation),
  \<open>machine_invariant\<close> (an invariant every step keeps, interpreted for fences, endings and restarts) and \<open>typed_writer\<close>
  (what the two writers of a status promise each other, interpreted for operator and broker). Constants of the source
  are declared beside the operation that uses them.

  \<^bold>\<open>What is shown.\<close> The controller implements the machine in every environment, and so keeps its invariants over
  every history: fences are settled, budgets and restarts bounded, phases follow the graph, deletions owe nothing.
  Handlers do what they promise (reaper, audit floor, lane gate, liveness, reports). A status patch lands and
  spares the harness; a broker write is fenced and spares the operator; their interleavings keep the
  status typed. Every ending of the coordinator reaches the operator as it was written and is classified alike by
  both of its routes, with one exception; the coordinator ends; its publisher adopts no foreign tip; its parser and
  the broker agree on proposals.

  \<^bold>\<open>Bounds and fuel.\<close> The JSON reader has fuel from the length of the document, proved sufficient
  (\<open>pval_fuel\<close>). Retries on conflict take the attempts the environment grants. The rounds of a publication and of a
  broker call are the constants of the source. All other recursion is structural or has a measure. \<open>run_loop\<close> takes
  the turns a run sees and yields \<open>None\<close> while it has not ended.

  \<^bold>\<open>Not modelled.\<close> Logging, metrics and events; the launchers, topology rendering and preflight probes (they create
  cluster objects; their results are answers of the environment); evidence capture; the HTTP handlers, policy
  engine and token review of the broker; source adapters and their polling runner; git, rebase and forge access
  (they run the git binary or call GitHub); the legacy executor, worker protocol and delegated sessions (processes and
  network streams, seen as observations); skills, bootstrap, connectors and command entry points (configuration and
  wiring). The pattern redactor of \<open>internal/log\<close> is an argument.
\<close>

section \<open>The contract\<close>


text \<open>C3: No repair fence is lost. While the attempt in flight matches the park's account, every write
  of a reconcile keeps that account, and a write that ends a fenced attempt - by finishing, abandoning,
  republishing or ending the run - records the settlement of exactly that fence, under the key of exactly
  that attempt.\<close>

theorem repair_fence_is_settled:
  assumes "EPatch before after r \<in> set (journal E namespace s)" and "park_ok (abs_run before)"
  shows "park_ok (abs_run after) \<and> fence_settled (abs_run before) (abs_run after)"
  using journal_write [OF assms(1)] assms(2) by (auto intro: step_park_ok step_fence)

definition fenced_status :: CoderRunStatus where
  "fenced_status = zero_status\<lparr>s_Phase := PhaseVerifying,
     s_CIPark := Some \<lparr>pk_Head = ''h'', pk_ParkedAt = 0, pk_Attempts = 1, pk_LastOutcome = CIParkOutcomeUnset\<rparr>,
     s_CIRepair := Some \<lparr>rp_Head = ''h'', rp_Attempt = 1, rp_FailedChecks = [], rp_Logs = [],
       rp_FenceToken = ''f'', rp_MaxAttempts = 2\<rparr>\<rparr>"

lemma fenced_status_sel [simp]:
  "s_Phase fenced_status = PhaseVerifying" "s_CIParkDeferral fenced_status = None"
  "s_CISettlement fenced_status = None" "s_CIParkRelease fenced_status = None" "s_FinishedAt fenced_status = None"
  "s_Restarts fenced_status = 0" "s_ControlRequest fenced_status = None" "s_RetryRequest fenced_status = None"
  by (simp_all add: fenced_status_def zero_status_def)

lemma fenced_park_ok: "park_ok (abs_run (sample_run fenced_status))"
  by (simp add: park_ok_def fenced_status_def)

abbreviation "fenced_run \<equiv> sample_run fenced_status"

abbreviation "fenced_log \<equiv> journal (read_only fenced_run) ''ns'' (sample_st fenced_run)"

lemma fenced_write:
  "\<exists>after. EPatch fenced_run after (Some conflict_error) \<in> set fenced_log \<and>
     abs_run after = (abandoned (abs_run fenced_run))
       \<lparr>mc_phase := PhaseNeedsHuman, mc_control := None, mc_finished := Some Second\<rparr>"
  using unobserved_journal [of fenced_status] by auto

theorem repair_fence_is_settled_witness:
  "\<exists>after. EPatch fenced_run after (Some conflict_error) \<in> set fenced_log
     \<and> s_CIRepair (r_status fenced_run) \<noteq> None \<and> s_CIRepair (r_status after) = None
     \<and> fence_settled (abs_run fenced_run) (abs_run after)"
proof -
  obtain after where w: "EPatch fenced_run after (Some conflict_error) \<in> set fenced_log"
    and a: "abs_run after = (abandoned (abs_run fenced_run))
       \<lparr>mc_phase := PhaseNeedsHuman, mc_control := None, mc_finished := Some Second\<rparr>"
    using fenced_write by blast
  have "s_CIRepair (r_status after) = None" using a abs_sel(4) [of after] by simp
  then show ?thesis
    using repair_fence_is_settled [OF w fenced_park_ok] w by (auto simp: fenced_status_def)
qed

text \<open>C7: The phases of a run follow one graph, and an ending is final: a write leaves a terminal phase
  as it is, but for a reviewed pull request that was merged or closed and for an already-done close that
  is handed to a human.\<close>

theorem phases_follow_the_graph:
  assumes "EPatch before after r \<in> set (journal E namespace s)"
    and "p = s_Phase (r_status before)" and "q = s_Phase (r_status after)"
  shows "phase_edge p q \<and>
    (terminalPhase p \<longrightarrow> q = p \<or> p = PhaseAwaitingReview \<and> q \<in> {PhaseDone, PhaseNeedsHuman}
       \<or> p = PhaseAlreadyDone \<and> q = PhaseNeedsHuman)"
proof -
  have "phase_edge p q" using step_phase [OF journal_write [OF assms(1)]] assms(2,3) by simp
  then show ?thesis by (cases p) (auto simp: phase_edge_def)
qed

lemma fenced_after:
  assumes "abs_run after = (abandoned (abs_run fenced_run))
       \<lparr>mc_phase := PhaseNeedsHuman, mc_control := None, mc_finished := Some Second\<rparr>"
  shows "s_Phase (r_status after) = PhaseNeedsHuman" and "s_FinishedAt (r_status after) = Some Second"
    and "s_CIPark (r_status after) = s_CIPark (r_status fenced_run)"
  using abs_sel(2,3,7) [of after] assms by simp_all

theorem phases_follow_the_graph_witness:
  "\<exists>after. EPatch fenced_run after (Some conflict_error) \<in> set fenced_log
     \<and> s_Phase (r_status after) = PhaseNeedsHuman \<and> phase_edge PhaseVerifying PhaseNeedsHuman"
proof -
  obtain after where w: "EPatch fenced_run after (Some conflict_error) \<in> set fenced_log"
    and p: "s_Phase (r_status after) = PhaseNeedsHuman"
    using fenced_write fenced_after by blast
  show ?thesis using phases_follow_the_graph [OF w refl refl] w p by auto
qed

text \<open>C18: The end of a run is recorded once. A terminal run has an end time and no outstanding control
  request; every write keeps that, and no write ever changes a recorded end time.\<close>

theorem ending_is_recorded_once:
  assumes "EPatch before after r \<in> set (journal E namespace s)"
  shows "(end_ok (abs_run before) \<longrightarrow> end_ok (abs_run after)) \<and>
    (\<forall>t. s_FinishedAt (r_status before) = Some t \<longrightarrow> s_FinishedAt (r_status after) = Some t)"
  using endings.kept [OF journal_write [OF assms]] step_finished [OF journal_write [OF assms]] by auto

theorem ending_is_recorded_once_witness:
  "\<exists>after. EPatch fenced_run after (Some conflict_error) \<in> set fenced_log
     \<and> s_FinishedAt (r_status after) = Some Second \<and> end_ok (abs_run after)"
proof -
  obtain after where w: "EPatch fenced_run after (Some conflict_error) \<in> set fenced_log"
    and p: "s_FinishedAt (r_status after) = Some Second"
    using fenced_write fenced_after by blast
  show ?thesis using ending_is_recorded_once [OF w] w p by (auto simp: end_ok_def)
qed

text \<open>C19: Relaunches are bounded. The restart count moves only while a run is running: it is reset by a
  fresh heartbeat, or raised by one together with the relaunch, and never above the configured ceiling.\<close>

theorem relaunches_are_bounded:
  assumes "EPatch before after r \<in> set (journal E namespace s)"
    and "s_Restarts (r_status after) \<noteq> s_Restarts (r_status before)"
  shows "s_Phase (r_status before) = PhaseRunning \<and>
    (s_Restarts (r_status after) = 0 \<or>
     s_Restarts (r_status after) = s_Restarts (r_status before) + 1 \<and>
     s_Restarts (r_status after) \<le> maxRestarts E \<and> s_Phase (r_status after) = PhaseClaimed)"
  using step_restarts [OF journal_write [OF assms(1)]] assms(2) by simp

definition lost_status :: CoderRunStatus where
  "lost_status = zero_status\<lparr>s_Phase := PhaseRunning\<rparr>"

theorem relaunches_are_bounded_witness:
  "\<exists>after. EPatch (sample_run lost_status) after (Some conflict_error)
       \<in> set (journal (read_only (sample_run lost_status)) ''ns'' (sample_st (sample_run lost_status)))
     \<and> s_Restarts (r_status after) = 1 \<and> 1 \<le> maxRestarts (read_only (sample_run lost_status))"
proof -
  obtain after where w: "EPatch (sample_run lost_status) after (Some conflict_error)
       \<in> set (journal (read_only (sample_run lost_status)) ''ns'' (sample_st (sample_run lost_status)))"
    and a: "abs_run after = (abs_run (sample_run lost_status))\<lparr>mc_phase := PhaseClaimed, mc_restarts := 1, mc_control := None\<rparr>"
    using lost_journal [of lost_status] by (auto simp: lost_status_def zero_status_def)
  have "s_Restarts (r_status after) = 1" using a abs_sel(9) [of after] by simp
  then show ?thesis using relaunches_are_bounded [OF w] w by (auto simp: lost_status_def zero_status_def)
qed

text \<open>C14: Repairs stay within the budget. While a park lasts, its count of attempts changes only by a
  write that takes the run from verifying back to claimed, spends exactly one attempt for the parked head
  with no attempt in flight, and stays within the maximum recorded with the attempt.\<close>

theorem repairs_stay_within_budget:
  assumes "EPatch before after r \<in> set (journal E namespace s)"
    and "s_CIPark (r_status before) = Some p" and "s_CIPark (r_status after) = Some q"
    and "pk_Attempts q \<noteq> pk_Attempts p"
  shows "s_Phase (r_status before) = PhaseVerifying \<and> s_Phase (r_status after) = PhaseClaimed \<and>
    s_CIRepair (r_status before) = None \<and> pk_Head q = pk_Head p \<and> pk_Attempts q = pk_Attempts p + 1 \<and>
    (\<exists>a. s_CIRepair (r_status after) = Some a \<and> rp_Attempt a = pk_Attempts q \<and> rp_Attempt a \<le> rp_MaxAttempts a)"
  using step_attempts [OF journal_write [OF assms(1)]] assms(2-4) by auto

theorem repairs_stay_within_budget_witness:
  "\<exists>before after a. EPatch before after (Some conflict_error)
       \<in> set (journal repairing ''ns'' (sample_st (sample_run parked_status)))
     \<and> s_CIRepair (r_status after) = Some a \<and> rp_Attempt a = 1 \<and> rp_Attempt a \<le> rp_MaxAttempts a"
proof -
  obtain before after a where w: "EPatch before after (Some conflict_error)
       \<in> set (journal repairing ''ns'' (sample_st (sample_run parked_status)))"
    and b: "s_CIPark (r_status before) = s_CIPark parked_status"
    and p: "s_CIPark (r_status after) =
      Some \<lparr>pk_Head = ''h'', pk_ParkedAt = 0, pk_Attempts = 1, pk_LastOutcome = CIParkOutcomeUnset\<rparr>"
    and a: "s_CIRepair (r_status after) = Some a" "rp_Attempt a = 1"
    using repair_journal by auto
  have "rp_Attempt a \<le> rp_MaxAttempts a" using repairs_stay_within_budget [OF w _ p] b a by auto
  with w a show ?thesis by blast
qed

text \<open>C10: A run is deleted only when nothing is owed. Apart from giving up a claim the source has
  superseded, a reconcile deletes the record of a run only in a terminal phase of its retention, with no
  settlement and no park release left to deliver, and - where a human may still ask for a retry - with no
  retry outstanding and its lifecycle report settled.\<close>

theorem deletion_owes_nothing:
  assumes "ECall run DeleteRun r \<in> set (journal E namespace s)" and "s_Phase (r_status run) \<noteq> PhaseClaimed"
  shows "s_CISettlement (r_status run) = None \<and> s_CIParkRelease (r_status run) = None \<and>
    (s_Phase (r_status run) = PhaseDone \<or>
     s_Phase (r_status run) \<in> {PhaseAlreadyDone, PhaseFailed, PhaseNeedsHuman} \<and>
       \<not> retryHoldsReap run \<and> lifecycleReportSettled E run)"
  using journal_call [OF assms(1)] assms(2) by (simp add: closed_out_def)

theorem deletion_owes_nothing_witness:
  "ECall done_run DeleteRun None \<in> set (journal hour_later ''ns'' (sample_st done_run))
   \<and> s_Phase (r_status done_run) = PhaseDone \<and> s_CISettlement (r_status done_run) = None"
proof -
  have w: "ECall done_run DeleteRun None \<in> set (journal hour_later ''ns'' (sample_st done_run))"
    by (simp add: delete_journal)
  show ?thesis using deletion_owes_nothing [OF w] w by simp
qed



text \<open>C13: A repair is reserved only for the next attempt. A reconcile asks the source for a repair only
  while the run is verifying with a park and no attempt in flight, for exactly the parked head, under the
  fence and the key of the attempt after the last one the park counts.\<close>

theorem reservation_is_for_the_next_attempt:
  assumes "ECall run (ReserveCIRepair item reservation) r \<in> set (journal E namespace s)"
  shows "s_Phase (r_status run) = PhaseVerifying \<and> s_CIRepair (r_status run) = None \<and>
    (\<exists>p. s_CIPark (r_status run) = Some p \<and> cv_Head reservation = pk_Head p \<and>
       cv_FenceToken reservation = ciparkFenceToken run (pk_Attempts p + 1) \<and>
       cv_IdempotencyKey reservation = ciparkRepairKey run (pk_Attempts p + 1))"
  using journal_call [OF assms] by (auto split: option.splits)

theorem reservation_is_for_the_next_attempt_witness:
  "\<exists>run item reservation. ECall run (ReserveCIRepair item reservation) None
       \<in> set (journal repairing ''ns'' (sample_st (sample_run parked_status)))
     \<and> cv_IdempotencyKey reservation = ciparkRepairKey run 1"
proof -
  obtain run item reservation where w: "ECall run (ReserveCIRepair item reservation) None
       \<in> set (journal repairing ''ns'' (sample_st (sample_run parked_status)))"
    and p: "s_CIPark (r_status run) = s_CIPark parked_status"
    using repair_journal by auto
  show ?thesis using reservation_is_for_the_next_attempt [OF w] w p by auto
qed

text \<open>C20: Work is claimed before it is launched, and only then. A reconcile claims a work item only for
  a run that has not been admitted, launches its coordinator and marks the item in progress only for a
  claimed one, and gives a claim back only while it holds it.\<close>

theorem claim_precedes_launch:
  assumes "ECall run c r \<in> set (journal E namespace s)"
  shows "(c = Claim item \<or> c = ClaimWithReceipt item \<longrightarrow> s_Phase (r_status run) \<in> {PhaseUnset, PhasePending}) \<and>
    (c = Launch \<or> c = PreLaunch item \<or> c = Release item \<longrightarrow> s_Phase (r_status run) = PhaseClaimed) \<and>
    (c = Transition item StateInProgress \<longrightarrow>
       s_Phase (r_status run) = PhaseClaimed \<or> terminalPhase (s_Phase (r_status run)))"
  using journal_call [OF assms] by auto

theorem claim_precedes_launch_witness:
  "ECall (sample_run zero_status) (Claim (sample_item zero_status)) None
     \<in> set (journal (admitting (sample_run zero_status)) ''ns'' (sample_st (sample_run zero_status)))
   \<and> s_Phase zero_status \<in> {PhaseUnset, PhasePending}"
proof -
  have w: "ECall (sample_run zero_status) (Claim (sample_item zero_status)) None
     \<in> set (journal (admitting (sample_run zero_status)) ''ns'' (sample_st (sample_run zero_status)))"
    using admission_journal [of zero_status] by (auto simp: zero_status_def)
  show ?thesis using claim_precedes_launch [OF w, of "sample_item zero_status"] w by simp
qed

text \<open>C15: A retry request is settled once. A write changes the retry record of a run only after the
  run ended, and only so: a first or a new request is recorded as requested or refused, an outstanding one
  is settled under its own identity, and a requeue is never overwritten.\<close>

theorem retry_is_settled_once:
  assumes "EPatch before after r \<in> set (journal E namespace s)"
    and "s_RetryRequest (r_status after) \<noteq> s_RetryRequest (r_status before)"
  shows "terminalPhase (s_Phase (r_status before)) \<and>
    (\<exists>new. s_RetryRequest (r_status after) = Some new \<and>
      (case s_RetryRequest (r_status before) of
         None \<Rightarrow> rr_State new \<in> {RetryRequestStateRequested, RetryRequestStateRefused}
       | Some old \<Rightarrow> rr_State old \<noteq> RetryRequestStateRequeued \<and>
           (if rr_State old = RetryRequestStateRequested
            then rr_ID new = rr_ID old \<and> rr_State new \<noteq> RetryRequestStateRequested
            else rr_ID new \<noteq> rr_ID old)))"
proof -
  obtain new where "s_RetryRequest (r_status after) = Some new" "terminalPhase (s_Phase (r_status before))"
      "retry_next (s_RetryRequest (r_status before)) new"
    using step_retry [OF journal_write [OF assms(1)]] assms(2) by auto
  then show ?thesis
    by (auto simp: retry_next_def split: option.splits RetryRequestState.splits)
qed

theorem retry_is_settled_once_witness:
  "\<exists>after new. EPatch (sample_run retry_status) after (Some conflict_error)
       \<in> set (journal (read_only (sample_run retry_status)) ''ns'' (sample_st (sample_run retry_status)))
     \<and> s_RetryRequest (r_status after) = Some new \<and> rr_ID new = ''again''"
proof -
  obtain after new where w: "EPatch (sample_run retry_status) after (Some conflict_error)
       \<in> set (journal (read_only (sample_run retry_status)) ''ns'' (sample_st (sample_run retry_status)))"
    and n: "s_RetryRequest (r_status after) = Some new" "rr_State new = RetryRequestStateRequeued"
    using retry_journal by auto
  from n have "s_RetryRequest (r_status after) \<noteq> s_RetryRequest (r_status (sample_run retry_status))" by auto
  from retry_is_settled_once [OF w this] n have "rr_ID new = ''again''" by auto
  with w n show ?thesis by blast
qed

text \<open>C16: The source is asked for a requeue only on the record. A reconcile presents a retry to the
  source, and creates a successor run for it, only while the run carries the request as outstanding, and
  it presents that request's identity under the key derived from the run and the request.\<close>

theorem requeue_is_on_the_record:
  assumes "ECall run (RequeueAttempt item request) r \<in> set (journal E namespace s)"
  shows "\<exists>record. s_RetryRequest (r_status run) = Some record \<and> rr_State record = RetryRequestStateRequested \<and>
    aq_Reason request = rr_ID record \<and> aq_IdempotencyKey request = retryIdempotencyKey run (rr_ID record)"
  using journal_call [OF assms] by (auto simp: requested_def split: option.splits)

theorem requeue_is_on_the_record_witness:
  "\<exists>request. ECall (sample_run retry_status) (RequeueAttempt (sample_item retry_status) request) None
       \<in> set (journal (read_only (sample_run retry_status)) ''ns'' (sample_st (sample_run retry_status)))
     \<and> aq_Reason request = ''again''"
proof -
  obtain request where w: "ECall (sample_run retry_status) (RequeueAttempt (sample_item retry_status) request) None
       \<in> set (journal (read_only (sample_run retry_status)) ''ns'' (sample_st (sample_run retry_status)))"
    using retry_journal by auto
  from requeue_is_on_the_record [OF w] have "aq_Reason request = ''again''" by auto
  with w show ?thesis by blast
qed

section \<open>The dispatch\<close>


text \<open>A run handed to a human whose settlement cannot be delivered: the source registry is not wired.\<close>

definition owing_status :: CoderRunStatus where
  "owing_status = zero_status\<lparr>s_Phase := PhaseNeedsHuman,
     s_CISettlement := Some (settlement ''f'' ''k'' CIParkOutcomeUnsupported [])\<rparr>"




section \<open>From the workspace evidence to the recovery\<close>

text \<open>C30: Of the workspace evidence a native coordinator hands over, only an empty workspace is ever recognised
  as safe to recover. The control pod writes the remote head of pushed work under one key and the
  operator reads it under another, so the proof that work was pushed does not survive the handoff.\<close>

theorem pushed_work_is_not_recovered:
  assumes "coordinatorTerminated pod = Some tm" and "tm_Message tm = FitTerminationLine (terminationFor r)"
    and "tm_ExitCode tm = tn_ExitCode (terminationFor r)"
    and "hx_WorkspaceSafety r = Some e" and "ws_State e \<in> {''empty'', ''pushed''}"
  shows "\<exists>m. parseCoordinatorTermination decode_termination (Some pod) = Some m \<and>
    (safeCapacityWorkspace (boundedWorkspaceSafety (te_WorkspaceSafety m)) branch head \<longleftrightarrow> ws_State e = ''empty'')"
proof -
  have "tn_WorkspaceSafety (terminationFor r) = Some e"
    using assms(4) by (simp add: terminationFor_def Let_def split: option.split)
  moreover have "to_valid (ws_State e) = ws_State e"
    using assms(5) by (auto simp: to_valid_ascii byte_def)
  ultimately show ?thesis
    using operator_parses [OF assms(1-3)] assms(5)
    by (auto simp: arrived_def arrived_safety_def fit_termination_keeps boundedWorkspaceSafety_def safeCapacityWorkspace_def Let_def)
qed

definition pushed_result :: HarnessResult where
  "pushed_result = \<lparr>hx_Outcome = OutcomeCapacityExhausted, hx_Kind = NativeResultCapacityExhausted, hx_Reason = ''quota'',
     hx_Err = None, hx_WorkspaceSafety = Some \<lparr>ws_State = ''pushed'', ws_Branch = ''b'', ws_Head = ''h'', ws_RemoteHead = ''h''\<rparr>,
     hx_NoChange = None\<rparr>"

theorem pushed_work_is_not_recovered_witness:
  "\<exists>m. parseCoordinatorTermination decode_termination (Some (ended_pod pushed_result)) = Some m \<and>
     \<not> safeCapacityWorkspace (boundedWorkspaceSafety (te_WorkspaceSafety m)) ''b'' ''h'' \<and>
     safeCapacityWorkspace (boundedWorkspaceSafety (hx_WorkspaceSafety pushed_result)) ''b'' ''h''"
proof -
  obtain tm where "coordinatorTerminated (ended_pod pushed_result) = Some tm"
    "tm_Message tm = FitTerminationLine (terminationFor pushed_result)"
    "tm_ExitCode tm = tn_ExitCode (terminationFor pushed_result)"
    using ended_pod_terminated by blast
  from pushed_work_is_not_recovered [OF this, of "the (hx_WorkspaceSafety pushed_result)" "''b''" "''h''"]
  show ?thesis by (auto simp: pushed_result_def boundedWorkspaceSafety_def safeCapacityWorkspace_def Let_def)
qed

end
